(* ===== verification/Prelude.thy ===== *)
theory Prelude
  imports Main "HOL-Library.Word" "HOL-Library.Monad_Syntax"
begin

text \<open>
  Shared vocabulary of the development: the machine types of the C sources, memory objects
  and the accesses C allows on them, the coder buffer \<open>(buff, offset)\<close> that every message
  function of the GPS stack threads through its calls, and the generic lemmas on lists, words
  and options that the component theories use.

  A value of type \<open>'a option\<close> is the result of a piece of C code: \<open>None\<close> is a memory fault
  (an access outside the object, or the deliberate null write of \<open>CRASH_TO_DEBUG\<close>), after which
  the process has no defined behaviour; \<open>Some x\<close> is normal completion. The do-notation of
  \<open>HOL-Library.Monad_Syntax\<close> sequences such steps.
\<close>

unbundle bit_operations_syntax

named_theorems wire_put \<open>writing a message field by field\<close>
named_theorems wire_get \<open>reading a message field by field\<close>
named_theorems wire_len \<open>length of an encoded field\<close>

section \<open>Machine types\<close>

text \<open>
  \<open>char\<close> is a byte (the ARM targets have unsigned plain \<open>char\<close>), \<open>float\<close> and \<open>double\<close> are carried
  as their IEEE bit patterns: the message code only copies them.
\<close>

type_synonym byte = "8 word"
type_synonym i16 = "16 word"
type_synonym i32 = "32 word"
type_synonym i64 = "64 word"
type_synonym f32 = "32 word"
type_synonym f64 = "64 word"

text \<open>
  A \<open>const char*\<close> argument that is used as a C string: \<open>None\<close> is \<open>NULL\<close>, \<open>Some s\<close> is the text in
  front of the terminating zero byte.
\<close>

type_synonym cstr = "byte list option"

definition no_nul :: "cstr \<Rightarrow> bool" where
  "no_nul s = (case s of None \<Rightarrow> True | Some t \<Rightarrow> 0 \<notin> set t)"

definition cstr_len :: "cstr \<Rightarrow> nat" where
  "cstr_len s = (case s of None \<Rightarrow> 0 | Some t \<Rightarrow> length t)"

lemma no_nul_simps [simp]: "no_nul None" "no_nul (Some t) = (0 \<notin> set t)"
  by (simp_all add: no_nul_def)

lemma cstr_len_simps [simp]: "cstr_len None = 0" "cstr_len (Some t) = length t"
  by (simp_all add: cstr_len_def)

section \<open>Memory objects\<close>

text \<open>
  An array or struct is the list of its bytes. Reading or writing outside it faults.
\<close>

definition load :: "byte list \<Rightarrow> int \<Rightarrow> int \<Rightarrow> byte list option" where
  "load mem off n =
     (if 0 \<le> off \<and> 0 \<le> n \<and> off + n \<le> int (length mem)
      then Some (take (nat n) (drop (nat off) mem)) else None)"

definition store :: "byte list \<Rightarrow> int \<Rightarrow> byte list \<Rightarrow> byte list option" where
  "store mem off bs =
     (if 0 \<le> off \<and> off + int (length bs) \<le> int (length mem)
      then Some (take (nat off) mem @ bs @ drop (nat off + length bs) mem) else None)"

text \<open>
  The text of the C string that starts at a pointer into an object: the pointer is given as the
  bytes from its target to the end of the object, and an object that holds no terminator is
  overrun.
\<close>

definition c_string :: "byte list \<Rightarrow> byte list option" where
  "c_string mem = (if 0 \<in> set mem then Some (takeWhile (\<lambda>c. c \<noteq> 0) mem) else None)"

text \<open>The string behind a pointer that may be \<open>NULL\<close>.\<close>

definition deref_str :: "byte list option \<Rightarrow> cstr option" where
  "deref_str p = (case p of None \<Rightarrow> Some None | Some mem \<Rightarrow> map_option Some (c_string mem))"

lemma store_length: "store mem off bs = Some m \<Longrightarrow> length m = length mem"
  by (auto simp: store_def split: if_splits)

lemma load_store:
  assumes "store mem off bs = Some m"
  shows "load m off (int (length bs)) = Some bs"
  using assms by (auto simp: store_def load_def split: if_splits)

lemma c_string_append [simp]: "0 \<notin> set s \<Longrightarrow> c_string (s @ 0 # rest) = Some s"
  by (auto simp: c_string_def takeWhile_append)

section \<open>The coder buffer\<close>

record cbuf =
  buff :: "byte list"
  offset :: int

text \<open>\<open>char buff[n] = {0}; int offset = 0;\<close>\<close>

definition fresh :: "nat \<Rightarrow> cbuf" where
  "fresh n = \<lparr>buff = replicate n 0, offset = 0\<rparr>"

text \<open>
  The two shapes a coder buffer takes on the wire path: \<open>wr n bs\<close> is an \<open>n\<close>-byte zeroed buffer into
  which exactly the bytes \<open>bs\<close> have been written, \<open>rd pre rest\<close> is a buffer whose first part has
  been consumed and whose next byte is the head of \<open>rest\<close>.
\<close>

definition wr :: "nat \<Rightarrow> byte list \<Rightarrow> cbuf" where
  "wr n bs = \<lparr>buff = bs @ replicate (n - length bs) 0, offset = int (length bs)\<rparr>"

definition rd :: "byte list \<Rightarrow> byte list \<Rightarrow> cbuf" where
  "rd pre rest = \<lparr>buff = pre @ rest, offset = int (length pre)\<rparr>"

lemma fresh_wr: "fresh n = wr n []"
  by (simp add: fresh_def wr_def)

text \<open>A received datagram is read from its first byte.\<close>

definition cursor :: "byte list \<Rightarrow> cbuf" where
  "cursor mem = \<lparr>buff = mem, offset = 0\<rparr>"

lemma cursor_rd: "cursor mem = rd [] mem"
  by (simp add: cursor_def rd_def)

lemma rd_sel [simp]: "buff (rd pre rest) = pre @ rest" "offset (rd pre rest) = int (length pre)"
  by (simp_all add: rd_def)

lemma wr_sel:
  "offset (wr n bs) = int (length bs)"
  "length bs \<le> n \<Longrightarrow> take (length bs) (buff (wr n bs)) = bs"
  "length bs \<le> n \<Longrightarrow> length (buff (wr n bs)) = n"
  by (simp_all add: wr_def)

lemma store_wr:
  assumes "length bs + length xs \<le> n"
  shows "store (buff (wr n bs)) (int (length bs)) xs
           = Some (bs @ xs @ replicate (n - length bs - length xs) 0)"
  using assms by (simp add: store_def wr_def)

lemma store_wr_None:
  assumes "length bs \<le> n" "n < length bs + length xs"
  shows "store (buff (wr n bs)) (int (length bs)) xs = None"
  using assms by (simp add: store_def wr_def)

section \<open>Callback tables\<close>

text \<open>
  A message handler calls through a table of function pointers. A callback works on the state of
  its component; a null entry makes the handler return -1 and leaves the state alone. \<open>with_cb\<close>
  is the shape \<open>if (hdlr->f) { ... } else { ret = -1; }\<close> that every branch of every handler has.
\<close>

type_synonym 's act = "'s \<Rightarrow> 's option"

definition with_cb :: "'f option \<Rightarrow> ('f \<Rightarrow> 's act) \<Rightarrow> 's \<Rightarrow> (int \<times> 's) option" where
  "with_cb cb body s = (case cb of None \<Rightarrow> Some (-1, s) | Some f \<Rightarrow> map_option (Pair 0) (body f s))"

lemma with_cb_simps [simp]:
  "with_cb None body s = Some (-1, s)"
  "with_cb (Some f) body s = map_option (Pair 0) (body f s)"
  by (simp_all add: with_cb_def)

lemma with_cb_cong:
  "cb = cb' \<Longrightarrow> (\<And>f. cb' = Some f \<Longrightarrow> body f s = body' f s) \<Longrightarrow> with_cb cb body s = with_cb cb' body' s"
  by (cases cb') simp_all

text \<open>The handlers that return nothing only log a null entry.\<close>

definition call_cb :: "'f option \<Rightarrow> ('f \<Rightarrow> 's act) \<Rightarrow> 's act" where
  "call_cb cb body s = (case cb of None \<Rightarrow> Some s | Some f \<Rightarrow> body f s)"

lemma call_cb_simps [simp]: "call_cb None body s = Some s" "call_cb (Some f) body s = body f s"
  by (simp_all add: call_cb_def)

lemma call_cb_cong:
  "cb = cb' \<Longrightarrow> (\<And>f. cb' = Some f \<Longrightarrow> body f s = body' f s) \<Longrightarrow> call_cb cb body s = call_cb cb' body' s"
  by (cases cb') simp_all

end
