(* ===== verification/Data_Coder.thy ===== *)
theory Data_Coder
  imports Prelude
begin

text \<open>
  The serialisation layer \<open>data_coder.c\<close> (the file exists three times in the tree, under
  \<open>gps/mtk_mnld/utility/src\<close>, \<open>gps/gps_hal/src\<close> and \<open>wifi2agps/interface\<close>, with identical code): every
  \<open>put_\<close> and \<open>get_\<close> function, the little-endian wire format as a reference encoding, and the locale
  \<open>wire_codec\<close> that states what a message sender and a message handler rely on. The locale is
  interpreted for each of the eight field kinds.
\<close>

section \<open>Reading\<close>

definition get_byte :: "cbuf \<Rightarrow> (byte \<times> cbuf) option" where
  "get_byte b =
     (if 0 \<le> offset b \<and> offset b < int (length (buff b))
      then Some (buff b ! nat (offset b), b\<lparr>offset := offset b + 1\<rparr>) else None)"

definition get_short :: "cbuf \<Rightarrow> (i16 \<times> cbuf) option" where
  "get_short b = do {
     let ret = (0::i16);
     (x, b) \<leftarrow> get_byte b;
     let ret = (ucast ((scast ret :: i32) OR ((ucast x :: i32) AND 0xff)) :: i16);
     (y, b) \<leftarrow> get_byte b;
     let ret = (ucast ((scast ret :: i32) OR push_bit 8 (ucast y :: i32)) :: i16);
     Some (ret, b) }"

definition get_int :: "cbuf \<Rightarrow> (i32 \<times> cbuf) option" where
  "get_int b = do {
     let ret = (0::i32);
     (x, b) \<leftarrow> get_short b;
     let ret = ret OR ((scast x :: i32) AND 0xffff);
     (y, b) \<leftarrow> get_short b;
     let ret = ret OR push_bit 16 (scast y :: i32);
     Some (ret, b) }"

definition get_long :: "cbuf \<Rightarrow> (i64 \<times> cbuf) option" where
  "get_long b = do {
     let ret = (0::i64);
     (x, b) \<leftarrow> get_int b;
     let ret = ret OR ((scast x :: i64) AND 0xffffffff);
     (y, b) \<leftarrow> get_int b;
     let ret = ret OR push_bit 32 (scast y :: i64);
     Some (ret, b) }"

definition get_float :: "cbuf \<Rightarrow> (f32 \<times> cbuf) option" where
  "get_float b = do { (tmp, b) \<leftarrow> get_int b; Some (tmp, b) }"

definition get_double :: "cbuf \<Rightarrow> (f64 \<times> cbuf) option" where
  "get_double b = do { (tmp, b) \<leftarrow> get_long b; Some (tmp, b) }"

text \<open>
  \<open>get_string\<close> returns a pointer into \<open>buff\<close>: the bytes from its target to the end of the buffer. The
  length read from the wire moves the offset unchecked; a pointer formed outside the buffer has
  no readable bytes behind it. (An offset past the \<open>int\<close> range lies outside the buffer whether or
  not it wraps, so the offset is kept as an unbounded integer.)
\<close>

definition ptr_at :: "cbuf \<Rightarrow> byte list" where
  "ptr_at b = (if 0 \<le> offset b then drop (nat (offset b)) (buff b) else [])"

definition get_string :: "cbuf \<Rightarrow> (byte list option \<times> cbuf) option" where
  "get_string b = do {
     (ret, b) \<leftarrow> get_byte b;
     (if ret = 0 then Some (None, b)
      else do {
        (len, b) \<leftarrow> get_int b;
        let p = ptr_at b;
        Some (Some p, b\<lparr>offset := offset b + sint len\<rparr>) }) }"

definition get_string2 :: "cbuf \<Rightarrow> (byte list \<times> cbuf) option" where
  "get_string2 b = do {
     (output, b) \<leftarrow> get_string b;
     (case output of None \<Rightarrow> Some ([0], b) | Some p \<Rightarrow> Some (p, b)) }"

text \<open>\<open>get_binary\<close> copies into the caller's object \<open>output\<close>, which it returns updated.\<close>

definition get_binary :: "byte list \<Rightarrow> cbuf \<Rightarrow> ((i32 \<times> byte list) \<times> cbuf) option" where
  "get_binary output b = do {
     (len, b) \<leftarrow> get_int b;
     (if 0 < sint len
      then do {
        data \<leftarrow> load (buff b) (offset b) (sint len);
        output \<leftarrow> store output 0 data;
        Some ((len, output), b\<lparr>offset := offset b + sint len\<rparr>) }
      else Some ((len, output), b)) }"

section \<open>Writing\<close>

definition put_byte :: "byte \<Rightarrow> cbuf \<Rightarrow> cbuf option" where
  "put_byte input b = do {
     mem \<leftarrow> store (buff b) (offset b) [input];
     Some \<lparr>buff = mem, offset = offset b + 1\<rparr> }"

definition put_short :: "i16 \<Rightarrow> cbuf \<Rightarrow> cbuf option" where
  "put_short input b = do {
     b \<leftarrow> put_byte (ucast ((scast input :: i32) AND 0xff)) b;
     put_byte (ucast (signed_drop_bit 8 (scast input :: i32) AND 0xff)) b }"

definition put_int :: "i32 \<Rightarrow> cbuf \<Rightarrow> cbuf option" where
  "put_int input b = do {
     b \<leftarrow> put_short (ucast (input AND 0xffff)) b;
     put_short (ucast (signed_drop_bit 16 input AND 0xffff)) b }"

definition put_long :: "i64 \<Rightarrow> cbuf \<Rightarrow> cbuf option" where
  "put_long input b = do {
     b \<leftarrow> put_int (ucast (input AND 0xffffffff)) b;
     put_int (ucast (signed_drop_bit 32 input AND 0xffffffff)) b }"

definition put_float :: "f32 \<Rightarrow> cbuf \<Rightarrow> cbuf option" where
  "put_float input b = put_int input b"

definition put_double :: "f64 \<Rightarrow> cbuf \<Rightarrow> cbuf option" where
  "put_double input b = put_long input b"

text \<open>
  \<open>strlen\<close> stops at the first zero byte. A string whose length does not fit \<open>int\<close> never fits a
  message buffer either; it faults here as the oversized \<open>memcpy\<close> does.
\<close>

definition put_string :: "cstr \<Rightarrow> cbuf \<Rightarrow> cbuf option" where
  "put_string input b =
     (case input of
        None \<Rightarrow> put_byte 0 b
      | Some s \<Rightarrow>
          (let text = takeWhile (\<lambda>c. c \<noteq> 0) s; len = length text + 1
           in if 2 ^ 31 \<le> len then None
              else do {
                b \<leftarrow> put_byte 1 b;
                b \<leftarrow> put_int (word_of_nat len) b;
                mem \<leftarrow> store (buff b) (offset b) (text @ [0]);
                Some \<lparr>buff = mem, offset = offset b + int len\<rparr> }))"

definition put_binary :: "byte list \<Rightarrow> i32 \<Rightarrow> cbuf \<Rightarrow> cbuf option" where
  "put_binary input len b = do {
     b \<leftarrow> put_int len b;
     (if 0 < sint len
      then do {
        data \<leftarrow> load input 0 (sint len);
        mem \<leftarrow> store (buff b) (offset b) data;
        Some \<lparr>buff = mem, offset = offset b + sint len\<rparr> }
      else Some b) }"

section \<open>The wire format\<close>

text \<open>Reference encodings: little-endian integers, a presence byte and a length for strings.\<close>

definition enc_byte :: "byte \<Rightarrow> byte list" where
  "enc_byte x = [x]"

definition enc_short :: "i16 \<Rightarrow> byte list" where
  "enc_short w = [ucast w, ucast (drop_bit 8 w)]"

definition enc_int :: "i32 \<Rightarrow> byte list" where
  "enc_int v = [ucast v, ucast (drop_bit 8 v), ucast (drop_bit 16 v), ucast (drop_bit 24 v)]"

definition enc_long :: "i64 \<Rightarrow> byte list" where
  "enc_long v = enc_int (ucast v) @ enc_int (ucast (drop_bit 32 v))"

definition enc_string :: "cstr \<Rightarrow> byte list" where
  "enc_string s = (case s of None \<Rightarrow> [0]
                   | Some t \<Rightarrow> 1 # enc_int (word_of_nat (length t + 1)) @ t @ [0])"

definition enc_binary :: "byte list \<Rightarrow> byte list" where
  "enc_binary bs = enc_int (word_of_nat (length bs)) @ bs"

definition ok_string :: "cstr \<Rightarrow> bool" where
  "ok_string s = (no_nul s \<and> cstr_len s + 1 < 2 ^ 31)"

text \<open>A string field as the handlers use it: the pointer is followed when the callback is called.\<close>

definition get_cstr :: "cbuf \<Rightarrow> (cstr \<times> cbuf) option" where
  "get_cstr b = do { (p, b) \<leftarrow> get_string b; s \<leftarrow> deref_str p; Some (s, b) }"

definition put_block :: "byte list \<Rightarrow> cbuf \<Rightarrow> cbuf option" where
  "put_block bs b = put_binary bs (word_of_nat (length bs)) b"

definition get_block :: "byte list \<Rightarrow> cbuf \<Rightarrow> (byte list \<times> cbuf) option" where
  "get_block output b = do { ((len, output), b) \<leftarrow> get_binary output b; Some (output, b) }"

lemma enc_length [wire_len, simp]:
  "length (enc_byte x) = 1" "length (enc_short w) = 2" "length (enc_int v) = 4"
  "length (enc_long u) = 8" "length (enc_binary bs) = 4 + length bs"
  by (simp_all add: enc_byte_def enc_short_def enc_int_def enc_long_def enc_binary_def)

lemma enc_string_length [wire_len, simp]:
  "length (enc_string None) = 1" "length (enc_string (Some t)) = 6 + length t"
  by (simp_all add: enc_string_def)

lemma enc_string_length_le [wire_len]: "length (enc_string s) \<le> 6 + cstr_len s"
  by (cases s) simp_all

section \<open>The codec contract\<close>

text \<open>
  What a message function needs of a field kind: writing a value into a buffer with room appends
  exactly its encoding, writing into a buffer without room faults, and reading at a position that
  holds an encoding returns the value and moves past it.
\<close>

locale wire_codec =
  fixes put :: "'a \<Rightarrow> cbuf \<Rightarrow> cbuf option"
    and get :: "cbuf \<Rightarrow> ('a \<times> cbuf) option"
    and enc :: "'a \<Rightarrow> byte list"
    and ok :: "'a \<Rightarrow> bool"
  assumes put_wr: "ok v \<Longrightarrow> length bs + length (enc v) \<le> n
                     \<Longrightarrow> put v (wr n bs) = Some (wr n (bs @ enc v))"
    and put_full: "ok v \<Longrightarrow> length bs \<le> n \<Longrightarrow> n < length bs + length (enc v)
                     \<Longrightarrow> put v (wr n bs) = None"
    and get_rd: "ok v \<Longrightarrow> get (rd pre (enc v @ rest)) = Some (v, rd (pre @ enc v) rest)"
begin

lemma put_iff:
  assumes "ok v" "length bs \<le> n"
  shows "put v (wr n bs) = (if length bs + length (enc v) \<le> n then Some (wr n (bs @ enc v)) else None)"
  using assms by (simp add: put_wr put_full)

lemma get_at_end: "ok v \<Longrightarrow> get (rd pre (enc v)) = Some (v, rd (pre @ enc v) [])"
  using get_rd [of v pre "[]"] by simp

lemma put_get:
  assumes "ok v" "length bs + length (enc v) \<le> n"
  shows "put v (wr n bs) = Some (wr n (bs @ enc v))"
    and "get ((wr n (bs @ enc v))\<lparr>offset := int (length bs)\<rparr>) = Some (v, wr n (bs @ enc v))"
proof -
  show "put v (wr n bs) = Some (wr n (bs @ enc v))"
    using assms by (rule put_wr)
  have eq: "(wr n (bs @ enc v))\<lparr>offset := int (length bs)\<rparr>
              = rd bs (enc v @ replicate (n - length bs - length (enc v)) 0)"
    by (simp add: wr_def rd_def)
  have "rd (bs @ enc v) (replicate (n - length bs - length (enc v)) 0) = wr n (bs @ enc v)"
    by (simp add: wr_def rd_def)
  then show "get ((wr n (bs @ enc v))\<lparr>offset := int (length bs)\<rparr>) = Some (v, wr n (bs @ enc v))"
    by (simp only: eq get_rd [OF assms(1)])
qed

lemma enc_prefix_free:
  assumes "ok v" "ok w" "enc v @ r = enc w @ r'"
  shows "v = w \<and> r = r'"
proof -
  have "get (rd [] (enc v @ r)) = get (rd [] (enc w @ r'))"
    using assms(3) by simp
  then have "v = w"
    using get_rd [OF assms(1), of "[]" r] get_rd [OF assms(2), of "[]" r'] by simp
  with assms(3) show ?thesis by simp
qed

end

section \<open>The field kinds meet the contract\<close>

lemma word_masks:
  "(0xff::'a::len word) = mask 8" "(0xffff::'a word) = mask 16" "(0xffffffff::'a word) = mask 32"
  by (simp_all add: mask_eq_exp_minus_1)

lemma put_byte_wr: "length bs + 1 \<le> n \<Longrightarrow> put_byte x (wr n bs) = Some (wr n (bs @ [x]))"
  by (simp add: put_byte_def wr_sel store_wr) (simp add: wr_def)

lemma put_byte_full: "length bs = n \<Longrightarrow> put_byte x (wr n bs) = None"
  using store_wr_None [of bs n "[x]"] by (simp add: put_byte_def wr_sel)

lemma get_byte_rd: "get_byte (rd pre (x # rest)) = Some (x, rd (pre @ [x]) rest)"
  by (simp add: get_byte_def rd_def)

interpretation cod_byte: wire_codec put_byte get_byte enc_byte "\<lambda>_. True"
  by unfold_locales (simp_all add: enc_byte_def put_byte_wr put_byte_full get_byte_rd)

text \<open>Two bytes of a 16-bit value.\<close>

lemma short_bytes:
  "(ucast ((scast w :: i32) AND 0xff) :: byte) = ucast (w :: i16)"
  "(ucast (signed_drop_bit 8 (scast w :: i32) AND 0xff) :: byte) = ucast (drop_bit 8 w)"
  by (rule bit_word_eqI; auto simp: word_masks bit_simps)+

lemma short_of_bytes:
  "(ucast ((scast (ucast ((scast (0::i16) :: i32) OR ((ucast (ucast w :: byte) :: i32) AND 0xff)) :: i16) :: i32)
     OR push_bit 8 (ucast (ucast (drop_bit 8 w) :: byte) :: i32)) :: i16) = w"
  by (rule bit_word_eqI) (auto simp: word_masks bit_simps)

lemma put_short_wr: "length bs + 2 \<le> n \<Longrightarrow> put_short w (wr n bs) = Some (wr n (bs @ enc_short w))"
  by (simp add: put_short_def short_bytes put_byte_wr enc_short_def)

lemma put_short_full:
  assumes "length bs \<le> n" "n < length bs + 2"
  shows "put_short w (wr n bs) = None"
proof (cases "length bs = n")
  case True
  then show ?thesis by (simp add: put_short_def put_byte_full)
next
  case False
  with assms have "length bs + 1 = n" by simp
  then show ?thesis by (simp add: put_short_def put_byte_wr put_byte_full)
qed

lemma get_short_rd: "get_short (rd pre (enc_short w @ rest)) = Some (w, rd (pre @ enc_short w) rest)"
  using short_of_bytes [of w] by (simp add: get_short_def enc_short_def get_byte_rd)

interpretation cod_short: wire_codec put_short get_short enc_short "\<lambda>_. True"
  by unfold_locales (simp_all add: put_short_wr put_short_full get_short_rd)

text \<open>Four bytes of a 32-bit value.\<close>

lemma int_halves:
  "(ucast (v AND 0xffff) :: i16) = ucast (v :: i32)"
  "(ucast (signed_drop_bit 16 v AND 0xffff) :: i16) = ucast (drop_bit 16 v)"
  "(ucast (signed_drop_bit 16 v) :: i16) = ucast (drop_bit 16 v)"
  by (rule bit_word_eqI; auto simp: word_masks bit_simps)+

lemma enc_int_halves: "enc_int v = enc_short (ucast v) @ enc_short (ucast (drop_bit 16 v))"
proof -
  have "(ucast v :: byte) = ucast (ucast v :: i16)"
    and "(ucast (drop_bit 8 v) :: byte) = ucast (drop_bit 8 (ucast v :: i16))"
    and "(ucast (drop_bit 16 v) :: byte) = ucast (ucast (drop_bit 16 v) :: i16)"
    and "(ucast (drop_bit 24 v) :: byte) = ucast (drop_bit 8 (ucast (drop_bit 16 v) :: i16))"
    by (rule bit_word_eqI; auto simp: bit_simps)+
  then show ?thesis by (simp add: enc_int_def enc_short_def)
qed

lemma int_of_halves:
  "(0 OR ((scast (ucast v :: i16) :: i32) AND 0xffff)) OR push_bit 16 (scast (ucast (drop_bit 16 v) :: i16) :: i32)
     = (v :: i32)"
proof (rule bit_word_eqI)
  fix n
  assume "n < LENGTH(32)"
  then show "bit ((0 OR ((scast (ucast v :: i16) :: i32) AND 0xffff))
      OR push_bit 16 (scast (ucast (drop_bit 16 v) :: i16) :: i32)) n = bit v n"
    by (cases "n < 16") (auto simp: word_masks bit_simps)
qed

lemma put_int_wr: "length bs + 4 \<le> n \<Longrightarrow> put_int v (wr n bs) = Some (wr n (bs @ enc_int v))"
  by (simp add: put_int_def int_halves put_short_wr enc_int_halves)

lemma put_int_full:
  assumes "length bs \<le> n" "n < length bs + 4"
  shows "put_int v (wr n bs) = None"
proof (cases "n < length bs + 2")
  case True
  with assms show ?thesis by (simp add: put_int_def put_short_full)
next
  case False
  with assms show ?thesis by (simp add: put_int_def put_short_wr put_short_full)
qed

lemma get_int_rd: "get_int (rd pre (enc_int v @ rest)) = Some (v, rd (pre @ enc_int v) rest)"
  using int_of_halves [of v] by (simp add: get_int_def enc_int_halves get_short_rd)

interpretation cod_int: wire_codec put_int get_int enc_int "\<lambda>_. True"
  by unfold_locales (simp_all add: put_int_wr put_int_full get_int_rd)

interpretation cod_float: wire_codec put_float get_float enc_int "\<lambda>_. True"
  by unfold_locales (simp_all add: put_float_def get_float_def put_int_wr put_int_full get_int_rd)

text \<open>Eight bytes of a 64-bit value.\<close>

lemma long_halves:
  "(ucast (v AND 0xffffffff) :: i32) = ucast (v :: i64)"
  "(ucast (signed_drop_bit 32 v AND 0xffffffff) :: i32) = ucast (drop_bit 32 v)"
  "(ucast (signed_drop_bit 32 v) :: i32) = ucast (drop_bit 32 v)"
  by (rule bit_word_eqI; auto simp: word_masks bit_simps)+

lemma long_of_halves:
  "(0 OR ((scast (ucast v :: i32) :: i64) AND 0xffffffff)) OR push_bit 32 (scast (ucast (drop_bit 32 v) :: i32) :: i64)
     = (v :: i64)"
proof (rule bit_word_eqI)
  fix n
  assume "n < LENGTH(64)"
  then show "bit ((0 OR ((scast (ucast v :: i32) :: i64) AND 0xffffffff))
      OR push_bit 32 (scast (ucast (drop_bit 32 v) :: i32) :: i64)) n = bit v n"
    by (cases "n < 32") (auto simp: word_masks bit_simps)
qed

lemma put_long_wr: "length bs + 8 \<le> n \<Longrightarrow> put_long v (wr n bs) = Some (wr n (bs @ enc_long v))"
  by (simp add: put_long_def long_halves put_int_wr enc_long_def)

lemma put_long_full:
  assumes "length bs \<le> n" "n < length bs + 8"
  shows "put_long v (wr n bs) = None"
proof (cases "n < length bs + 4")
  case True
  with assms show ?thesis by (simp add: put_long_def put_int_full)
next
  case False
  with assms show ?thesis by (simp add: put_long_def put_int_wr put_int_full)
qed

lemma get_long_rd: "get_long (rd pre (enc_long v @ rest)) = Some (v, rd (pre @ enc_long v) rest)"
  using long_of_halves [of v] by (simp add: get_long_def enc_long_def get_int_rd)

interpretation cod_long: wire_codec put_long get_long enc_long "\<lambda>_. True"
  by unfold_locales (simp_all add: put_long_wr put_long_full get_long_rd)

interpretation cod_double: wire_codec put_double get_double enc_long "\<lambda>_. True"
  by unfold_locales (simp_all add: put_double_def get_double_def put_long_wr put_long_full get_long_rd)

text \<open>Strings and byte blocks: an \<open>int\<close> length followed by that many bytes.\<close>

lemma sint_word_of_nat: "n < 2 ^ 31 \<Longrightarrow> sint (word_of_nat n :: i32) = int n"
  by (simp add: signed_of_nat signed_take_bit_int_eq_self)

lemma sint_word_of_nat_Suc: "n + 1 < 2 ^ 31 \<Longrightarrow> sint (1 + word_of_nat n :: i32) = 1 + int n"
  using sint_word_of_nat [of "n + 1"] by simp

lemma takeWhile_no_nul: "0 \<notin> set t \<Longrightarrow> takeWhile (\<lambda>c. c \<noteq> 0) t = (t :: byte list)"
  by (auto simp: takeWhile_eq_all_conv)

lemma put_string_wr:
  assumes ok: "ok_string s" and room: "length bs + length (enc_string s) \<le> n"
  shows "put_string s (wr n bs) = Some (wr n (bs @ enc_string s))"
proof (cases s)
  case None
  with room show ?thesis by (simp add: put_string_def put_byte_wr enc_string_def)
next
  case (Some t)
  let ?h = "bs @ [1] @ enc_int (word_of_nat (length t + 1))"
  from Some ok have t: "0 \<notin> set t" "length t + 1 < 2 ^ 31"
    by (simp_all add: ok_string_def)
  from Some room have len: "length bs + 6 + length t \<le> n" by simp
  have "store (buff (wr n ?h)) (int (length ?h)) (t @ [0])
          = Some (?h @ (t @ [0]) @ replicate (n - length ?h - length (t @ [0])) 0)"
    by (rule store_wr) (use len in simp)
  with Some t len show ?thesis
    by (simp add: put_string_def takeWhile_no_nul put_byte_wr put_int_wr enc_string_def wr_sel)
      (simp add: wr_def)
qed

lemma put_string_full:
  assumes ok: "ok_string s" and fit: "length bs \<le> n" and room: "n < length bs + length (enc_string s)"
  shows "put_string s (wr n bs) = None"
proof (cases s)
  case None
  with fit room show ?thesis by (simp add: put_string_def put_byte_full)
next
  case (Some t)
  from Some ok have t: "0 \<notin> set t" "length t + 1 < 2 ^ 31"
    by (simp_all add: ok_string_def)
  consider "n < length bs + 1" | "length bs + 1 \<le> n" "n < length bs + 5" | "length bs + 5 \<le> n"
    by linarith
  then show ?thesis
  proof cases
    case 1
    with Some fit show ?thesis by (simp add: put_string_def put_byte_full Let_def)
  next
    case 2
    with Some t show ?thesis by (simp add: put_string_def takeWhile_no_nul put_byte_wr put_int_full)
  next
    case 3
    let ?h = "bs @ [1] @ enc_int (word_of_nat (length t + 1))"
    have "store (buff (wr n ?h)) (int (length ?h)) (t @ [0]) = None"
      by (rule store_wr_None) (use 3 room Some in simp_all)
    with 3 Some t show ?thesis
      by (simp add: put_string_def takeWhile_no_nul put_byte_wr put_int_wr wr_sel)
  qed
qed

lemma get_byte_rd_app: "get_byte (rd pre ([x] @ rest)) = Some (x, rd (pre @ [x]) rest)"
  by (simp add: get_byte_rd)

lemma get_string_rd:
  assumes "ok_string s"
  shows "get_string (rd pre (enc_string s @ rest))
    = Some (map_option (\<lambda>t. t @ 0 # rest) s, rd (pre @ enc_string s) rest)"
proof (cases s)
  case None
  then show ?thesis by (simp add: get_string_def enc_string_def get_byte_rd)
next
  case (Some t)
  let ?h = "1 # enc_int (1 + word_of_nat (length t))"
  have "ptr_at (rd (pre @ ?h) (t @ 0 # rest)) = t @ 0 # rest"
    unfolding ptr_at_def rd_sel by (simp del: append_Cons)
  with Some assms show ?thesis
    by (simp add: get_string_def enc_string_def get_byte_rd get_int_rd sint_word_of_nat_Suc ok_string_def)
qed

lemma deref_str_app [simp]:
  "no_nul s \<Longrightarrow> deref_str (map_option (\<lambda>t. t @ 0 # rest) s) = Some s"
  by (cases s) (simp_all add: deref_str_def)

lemma get_cstr_rd:
  "ok_string s \<Longrightarrow> get_cstr (rd pre (enc_string s @ rest)) = Some (s, rd (pre @ enc_string s) rest)"
  by (simp add: get_cstr_def get_string_rd) (simp add: ok_string_def)

interpretation cod_string: wire_codec put_string get_cstr enc_string ok_string
  by unfold_locales (simp_all add: put_string_wr put_string_full get_cstr_rd)

lemma put_block_wr:
  assumes "length xs < 2 ^ 31" "length bs + 4 + length xs \<le> n"
  shows "put_block xs (wr n bs) = Some (wr n (bs @ enc_binary xs))"
proof -
  let ?h = "bs @ enc_int (word_of_nat (length xs))"
  have "store (buff (wr n ?h)) (int (length ?h)) xs
          = Some (?h @ xs @ replicate (n - length ?h - length xs) 0)"
    by (rule store_wr) (use assms in simp)
  with assms show ?thesis
    by (simp add: put_block_def put_binary_def put_int_wr sint_word_of_nat load_def wr_sel enc_binary_def)
      (simp add: wr_def add.assoc)
qed

lemma put_block_full:
  assumes "length xs < 2 ^ 31" "length bs \<le> n" "n < length bs + 4 + length xs"
  shows "put_block xs (wr n bs) = None"
proof (cases "n < length bs + 4")
  case True
  with assms show ?thesis by (simp add: put_block_def put_binary_def put_int_full)
next
  case False
  let ?h = "bs @ enc_int (word_of_nat (length xs))"
  have "store (buff (wr n ?h)) (int (length ?h)) xs = None"
    by (rule store_wr_None) (use assms False in simp_all)
  moreover from assms False have "xs \<noteq> []" by auto
  ultimately show ?thesis using assms False
    by (simp add: put_block_def put_binary_def put_int_wr sint_word_of_nat load_def wr_sel)
qed

lemma put_binary_wr:
  assumes "sint len = int (length xs)" "length bs + 4 + length xs \<le> n"
  shows "put_binary xs len (wr n bs) = Some (wr n (bs @ enc_binary xs))"
proof -
  have "word_of_int (sint len) = len" by simp
  with assms(1) have len: "len = word_of_nat (length xs)" by simp
  have "sint len < 2 ^ 31" using sint_lt [of len] by simp
  with assms(1) have "length xs < 2 ^ 31" by simp
  from put_block_wr [OF this assms(2)] show ?thesis
    by (simp add: put_block_def len)
qed

text \<open>Only the first \<open>len\<close> bytes of the object are read.\<close>

lemma put_binary_prefix:
  assumes "length xs < 2 ^ 31"
  shows "put_binary (xs @ ys) (word_of_nat (length xs)) b = put_binary xs (word_of_nat (length xs)) b"
proof -
  have "load (xs @ ys) 0 (sint (word_of_nat (length xs) :: i32)) = load xs 0 (sint (word_of_nat (length xs) :: i32))"
    using assms by (simp add: sint_word_of_nat load_def)
  then show ?thesis by (simp only: put_binary_def)
qed

text \<open>
  Reading a block of \<open>length xs\<close> bytes into an object overwrites that many bytes of the object and
  leaves its tail; a block longer than the object overruns it.
\<close>

lemma get_binary_rd:
  assumes "length xs < 2 ^ 31" "length xs \<le> length output"
  shows "get_binary output (rd pre (enc_binary xs @ rest))
    = Some ((word_of_nat (length xs), xs @ drop (length xs) output), rd (pre @ enc_binary xs) rest)"
  using assms
  by (simp add: get_binary_def enc_binary_def get_int_rd sint_word_of_nat load_def store_def)

lemma get_binary_overrun:
  assumes "length xs < 2 ^ 31" "length output < length xs"
  shows "get_binary output (rd pre (enc_binary xs @ rest)) = None"
  using assms
  by (auto simp: get_binary_def enc_binary_def get_int_rd sint_word_of_nat load_def store_def)

interpretation cod_block: wire_codec put_block "get_block out" enc_binary
    "\<lambda>xs. length xs < 2 ^ 31 \<and> length xs = length out"
  for out
  by unfold_locales (auto simp: put_block_wr put_block_full get_block_def get_binary_rd)

lemma enc_int_app_inj: "(enc_int v @ r = enc_int w @ r') = (v = w \<and> r = r')"
  using cod_int.enc_prefix_free [where v = v and w = w and r = r and r' = r'] by blast

lemma enc_int_nonempty: "enc_int v \<noteq> []"
  by (simp add: enc_int_def)

lemmas enc_int_inj = enc_int_app_inj enc_int_app_inj [of _ "[]", simplified] enc_int_app_inj [of _ _ _ "[]", simplified]
  enc_int_app_inj [of _ "[]" _ "[]", simplified] enc_int_nonempty

section \<open>Automation for message code\<close>

lemmas put_rules [wire_put] =
  cod_byte.put_wr cod_short.put_wr cod_int.put_wr cod_long.put_wr cod_float.put_wr cod_double.put_wr
  cod_string.put_wr put_block_wr put_binary_wr

lemmas get_rules [wire_get] =
  cod_byte.get_rd cod_short.get_rd cod_int.get_rd cod_long.get_rd cod_float.get_rd cod_double.get_rd
  cod_string.get_rd get_string_rd get_binary_rd

end
