(* ===== verification/Lbs_Utility.thy ===== *)
theory Lbs_Utility
  imports Data_Coder "HOL-Library.Signed_Division"
begin

text \<open>
  \<open>mtk_lbs_utility.c\<close>: the text conversions, the interval timers and the local datagram sockets that
  every part of the GPS stack uses, over an explicit model of what the kernel answers.

  The kernel is the record \<open>os\<close>. \<open>answers\<close> is the kernel's reply to each coming \<open>socket\<close> and
  \<open>sendto\<close> call, in order (\<open>None\<close> is success); when the list is used up every call succeeds.
  \<open>slog\<close> records every completed transmission: destination, payload, and whether the kernel
  took it. \<open>timers\<close> holds the armed timers with their delay in milliseconds.
\<close>

section \<open>The kernel\<close>

datatype errno = EINTR | EAGAIN | EOTHER

record os =
  answers :: "errno option list"
  slog :: "(string \<times> byte list \<times> bool) list"
  timers :: "int \<Rightarrow> int option"

definition sys_answer :: "os \<Rightarrow> errno option \<times> os" where
  "sys_answer k = (case answers k of [] \<Rightarrow> (None, k) | a # as \<Rightarrow> (a, k\<lparr>answers := as\<rparr>))"

definition log_send :: "string \<Rightarrow> byte list \<Rightarrow> bool \<Rightarrow> os \<Rightarrow> os" where
  "log_send path d acc k = k\<lparr>slog := slog k @ [(path, d, acc)]\<rparr>"

text \<open>What was sent where, and what actually arrived.\<close>

definition sends :: "os \<Rightarrow> (string \<times> byte list) list" where
  "sends k = map (\<lambda>(p, d, a). (p, d)) (slog k)"

definition delivered :: "os \<Rightarrow> (string \<times> byte list) list" where
  "delivered k = map (\<lambda>(p, d, a). (p, d)) (filter (\<lambda>(p, d, a). a) (slog k))"

section \<open>Local datagram sockets\<close>

text \<open>
  The retry loop around \<open>sendto\<close>: \<open>EINTR\<close> repeats, \<open>EAGAIN\<close> repeats while the retry budget lasts,
  any other error ends it.
\<close>

fun sendto_loop :: "errno option list \<Rightarrow> nat \<Rightarrow> bool \<times> errno option list" where
  "sendto_loop [] retry = (True, [])"
| "sendto_loop (None # as) retry = (True, as)"
| "sendto_loop (Some EINTR # as) retry = sendto_loop as retry"
| "sendto_loop (Some EAGAIN # as) retry =
     (if 0 < retry then sendto_loop as (retry - 1) else (False, as))"
| "sendto_loop (Some EOTHER # as) retry = (False, as)"

text \<open>\<open>sun_path\<close> of \<open>struct sockaddr_un\<close> has 108 bytes; the abstract name starts at its second byte.\<close>

definition safe_sendto :: "string \<Rightarrow> byte list \<Rightarrow> int \<Rightarrow> os \<Rightarrow> (int \<times> os) option" where
  "safe_sendto path buf len k =
     (let (fd, k) = sys_answer k
      in if fd \<noteq> None then Some (-1, log_send path (take (nat len) buf) False k)
         else if 108 < 1 + length path then None
         else do {
           d \<leftarrow> load buf 0 len;
           let (acc, rest) = sendto_loop (answers k) 10;
           Some (if acc then len else -1, log_send path d acc (k\<lparr>answers := rest\<rparr>)) })"

text \<open>
  \<open>mnld_sendto_flp\<close> copies the path with its terminator into \<open>sun_path\<close> and returns 0 or -1.
\<close>

definition mnld_sendto_flp :: "string \<Rightarrow> byte list \<Rightarrow> int \<Rightarrow> os \<Rightarrow> (int \<times> os) option" where
  "mnld_sendto_flp dest buf len k =
     (let (fd, k) = sys_answer k
      in if fd \<noteq> None then Some (-1, log_send dest (take (nat len) buf) False k)
         else if 108 < length dest + 1 then None
         else do {
           d \<leftarrow> load buf 0 len;
           let (acc, rest) = sendto_loop (answers k) 10;
           Some (if acc then 0 else -1, log_send dest d acc (k\<lparr>answers := rest\<rparr>)) })"

text \<open>
  The kernel's replies to \<open>recvfrom\<close> on the descriptor a handler was called for. A non-blocking
  socket with nothing left answers \<open>EAGAIN\<close> until the budget is gone.
\<close>

datatype rx_ans = Datagram "byte list" | RErr errno

fun recvfrom_loop :: "rx_ans list \<Rightarrow> nat \<Rightarrow> byte list option" where
  "recvfrom_loop [] retry = None"
| "recvfrom_loop (Datagram d # as) retry = Some d"
| "recvfrom_loop (RErr EINTR # as) retry = recvfrom_loop as retry"
| "recvfrom_loop (RErr EAGAIN # as) retry =
     (if 0 < retry then recvfrom_loop as (retry - 1) else None)"
| "recvfrom_loop (RErr EOTHER # as) retry = None"

text \<open>The datagram is cut at the buffer's size, as \<open>recvfrom\<close> cuts it.\<close>

definition safe_recvfrom :: "rx_ans list \<Rightarrow> byte list \<Rightarrow> int \<times> byte list" where
  "safe_recvfrom rx buf =
     (case recvfrom_loop rx 10 of
        None \<Rightarrow> (-1, buf)
      | Some d \<Rightarrow> (let d = take (length buf) d in (int (length d), d @ drop (length d) buf)))"

section \<open>Timers\<close>

text \<open>
  \<open>timer_settime\<close> refuses a negative time, disarms on zero and arms otherwise.
\<close>

definition start_timer :: "int \<Rightarrow> int \<Rightarrow> os \<Rightarrow> int \<times> os" where
  "start_timer timerid milliseconds k =
     (let tv_sec = milliseconds sdiv 1000; tv_nsec = (milliseconds smod 1000) * 1000000
      in if tv_sec < 0 \<or> tv_nsec < 0 then (-1, k)
         else if tv_sec = 0 \<and> tv_nsec = 0 then (0, k\<lparr>timers := (timers k)(timerid := None)\<rparr>)
         else (0, k\<lparr>timers := (timers k)(timerid := Some (tv_sec * 1000 + tv_nsec div 1000000))\<rparr>))"

definition stop_timer :: "int \<Rightarrow> os \<Rightarrow> int \<times> os" where
  "stop_timer timerid k = start_timer timerid 0 k"

text \<open>
  A clock reading in milliseconds, -1 when the clock cannot be read. The daemon is a 32-bit process,
  so \<open>time_t\<close> and \<open>long\<close> have 32 bits: the products wrap, and the wall clock is cut off.
\<close>

definition get_tick :: "(i32 \<times> i32) option \<Rightarrow> i32" where
  "get_tick ts = (case ts of None \<Rightarrow> -1
     | Some (tv_sec, tv_nsec) \<Rightarrow> tv_sec * 1000 + word_of_int (sint tv_nsec sdiv 1000000))"

definition get_time_in_millisecond :: "(i32 \<times> i32) option \<Rightarrow> i32" where
  "get_time_in_millisecond ts = (case ts of None \<Rightarrow> -1
     | Some (tv_sec, tv_nsec) \<Rightarrow> ucast ((scast tv_sec :: i64) * 1000 + word_of_int (sint tv_nsec sdiv 1000000)))"

section \<open>Text conversions\<close>

text \<open>ASCII to UCS-2 with a byte-order mark, written into the caller's array.\<close>

fun usc2_loop :: "byte list \<Rightarrow> int \<Rightarrow> byte list \<Rightarrow> (int \<times> byte list) option" where
  "usc2_loop out len [] = Some (len, out)"
| "usc2_loop out len (c # cs) = do {
     out \<leftarrow> store out len [0];
     out \<leftarrow> store out (len + 1) [c];
     usc2_loop out (len + 2) cs }"

definition asc_str_to_usc2_str :: "byte list \<Rightarrow> cstr \<Rightarrow> (int \<times> byte list) option" where
  "asc_str_to_usc2_str out input =
     (case input of
        None \<Rightarrow> None
      | Some text \<Rightarrow> do {
          out \<leftarrow> store out 0 [0xfe];
          out \<leftarrow> store out 1 [0xff];
          (len, out) \<leftarrow> usc2_loop out 2 text;
          out \<leftarrow> store out len [0];
          out \<leftarrow> store out (len + 1) [0];
          Some (len, out) })"

definition hex_digit :: "i32 \<Rightarrow> byte" where
  "hex_digit tmp = (if 0 \<le> sint tmp \<and> sint tmp \<le> 9 then ucast (tmp + 48) else ucast ((tmp - 10) + 65))"

primrec hex_loop :: "byte list \<Rightarrow> byte list \<Rightarrow> int \<Rightarrow> nat \<Rightarrow> byte list option" where
  "hex_loop out input i 0 = store out (i * 2) [0]"
| "hex_loop out input i (Suc n) = do {
     c \<leftarrow> load input i 1;
     out \<leftarrow> store out (i * 2) [hex_digit (signed_drop_bit 4 (ucast (hd c)) AND 0xf)];
     out \<leftarrow> store out (i * 2 + 1) [hex_digit (ucast (hd c) AND 0xf)];
     hex_loop out input (i + 1) n }"

definition raw_data_to_hex_string :: "byte list \<Rightarrow> byte list \<Rightarrow> int \<Rightarrow> byte list option" where
  "raw_data_to_hex_string out input input_len = hex_loop out input 0 (nat input_len)"

section \<open>Transmission as one step\<close>

text \<open>
  The effect of one complete \<open>safe_sendto\<close> with a given payload: whether the kernel took it, and
  the kernel afterwards.
\<close>

definition post :: "string \<Rightarrow> byte list \<Rightarrow> os \<Rightarrow> bool \<times> os" where
  "post path d k =
     (let (fd, k) = sys_answer k
      in if fd \<noteq> None then (False, log_send path d False k)
         else let (acc, rest) = sendto_loop (answers k) 10
              in (acc, log_send path d acc (k\<lparr>answers := rest\<rparr>)))"

definition transmit :: "string \<Rightarrow> byte list \<Rightarrow> os \<Rightarrow> int \<times> os" where
  "transmit path d k = (if fst (post path d k) then int (length d) else -1, snd (post path d k))"

definition sent :: "string \<Rightarrow> byte list \<Rightarrow> os \<Rightarrow> os" where
  "sent path d k = snd (post path d k)"

lemma safe_sendto_post:
  assumes "length path \<le> 107" "0 \<le> len" "len \<le> int (length buf)"
  shows "safe_sendto path buf len k
    = Some (if fst (post path (take (nat len) buf) k) then len else -1, sent path (take (nat len) buf) k)"
  using assms
  by (auto simp: safe_sendto_def post_def sent_def load_def log_send_def split: prod.splits)

lemma mnld_sendto_flp_post:
  assumes "length path \<le> 107" "0 \<le> len" "len \<le> int (length buf)"
  shows "mnld_sendto_flp path buf len k
    = Some (if fst (post path (take (nat len) buf) k) then 0 else -1, sent path (take (nat len) buf) k)"
  using assms
  by (auto simp: mnld_sendto_flp_def post_def sent_def load_def log_send_def split: prod.splits)

lemma safe_sendto_wr [wire_put]:
  assumes "length path \<le> 107" "length d \<le> n"
  shows "safe_sendto path (buff (wr n d)) (offset (wr n d)) k = Some (transmit path d k)"
  using assms safe_sendto_post [of path "int (length d)" "buff (wr n d)" k]
  by (simp add: wr_sel transmit_def sent_def)

lemma snd_transmit [simp]: "snd (transmit path d k) = sent path d k"
  by (simp add: transmit_def sent_def)

lemma transmit_pair: "transmit path d k = (fst (transmit path d k), sent path d k)"
  by (simp add: transmit_def sent_def)

lemma transmit_alt: "transmit path d k = (if fst (post path d k) then int (length d) else -1, sent path d k)"
  by (simp add: transmit_def sent_def)

lemma transmit_eta [simp]: "(fst (transmit path d k), sent path d k) = transmit path d k"
  by (simp add: transmit_def sent_def)

lemma sent_timers [simp]: "timers (sent path d k) = timers k"
  by (auto simp: sent_def post_def sys_answer_def log_send_def split: list.splits prod.splits)

lemma sends_sent [simp]: "sends (sent path d k) = sends k @ [(path, d)]"
  by (auto simp: sent_def post_def sys_answer_def log_send_def sends_def split: list.splits prod.splits)

lemma delivered_sent:
  "delivered (sent path d k) = delivered k @ (if fst (post path d k) then [(path, d)] else [])"
  by (auto simp: sent_def post_def sys_answer_def log_send_def delivered_def split: list.splits prod.splits)

lemma post_healthy: "answers k = [] \<Longrightarrow> fst (post path d k)"
  by (simp add: post_def sys_answer_def)

lemma answers_healthy: "answers k = [] \<Longrightarrow> answers (sent path d k) = []"
  by (simp add: sent_def post_def sys_answer_def log_send_def)

text \<open>The timer operations leave the traffic alone.\<close>

lemma start_timer_frame [simp]:
  "sends (snd (start_timer t ms k)) = sends k" "answers (snd (start_timer t ms k)) = answers k"
  by (simp_all add: start_timer_def sends_def Let_def)

lemma start_timer_pos:
  assumes "0 < ms"
  shows "start_timer t ms k = (0, k\<lparr>timers := (timers k)(t := Some ms)\<rparr>)"
proof -
  have div: "ms sdiv 1000 = ms div 1000" and mod: "ms smod 1000 = ms mod 1000"
    using assms by (simp_all add: signed_divide_int_def signed_modulo_int_def sgn_if)
  have parts: "ms div 1000 * 1000 + ms mod 1000 = ms" by simp
  have "0 \<le> ms div 1000" "0 \<le> ms mod 1000"
    using assms by (simp_all add: pos_imp_zdiv_nonneg_iff)
  moreover from parts assms have "ms mod 1000 \<noteq> 0" if "ms div 1000 = 0"
    using that by linarith
  ultimately show ?thesis
    using parts unfolding start_timer_def div mod Let_def by fastforce
qed

lemma stop_timer_eq: "stop_timer t k = (0, k\<lparr>timers := (timers k)(t := None)\<rparr>)"
  by (simp add: stop_timer_def start_timer_def signed_divide_int_def signed_modulo_int_def)

section \<open>The retry budget\<close>

text \<open>
  The transmission succeeds exactly when, before the kernel first accepts, there is no hard error
  and no more \<open>EAGAIN\<close> than the budget allows; interruptions do not count.
\<close>

lemma sendto_loop_iff:
  "fst (sendto_loop as retry) \<longleftrightarrow>
     (let pre = takeWhile (\<lambda>a. a \<noteq> None) as
      in Some EOTHER \<notin> set pre \<and> count_list pre (Some EAGAIN) \<le> retry)"
  by (induction as retry rule: sendto_loop.induct) (auto simp: Let_def)

lemma recvfrom_loop_iff:
  "recvfrom_loop as retry =
     (let pre = takeWhile (\<lambda>a. \<forall>d. a \<noteq> Datagram d) as
      in if RErr EOTHER \<notin> set pre \<and> count_list pre (RErr EAGAIN) \<le> retry
         then (case drop (length pre) as of Datagram d # _ \<Rightarrow> Some d | _ \<Rightarrow> None) else None)"
  by (induction as retry rule: recvfrom_loop.induct) (auto simp: Let_def)

text \<open>A datagram that fits the buffer is received whole, followed by the buffer's zeros.\<close>

lemma safe_recvfrom_fit [wire_get]:
  assumes "recvfrom_loop rx 10 = Some d" "length d \<le> n"
  shows "safe_recvfrom rx (replicate n 0) = (int (length d), d @ replicate (n - length d) 0)"
  using assms by (simp add: safe_recvfrom_def)

section \<open>What the text conversions compute\<close>

lemma store_mid:
  "length xs \<le> length rest \<Longrightarrow> store (pre @ rest) (int (length pre)) xs = Some (pre @ xs @ drop (length xs) rest)"
  by (simp add: store_def)

lemma store_mid_None: "length rest < length xs \<Longrightarrow> store (pre @ rest) (int (length pre)) xs = None"
  by (simp add: store_def)

text \<open>Reference texts: big-endian UCS-2 with its mark, and upper-case hexadecimal.\<close>

definition ucs2_text :: "byte list \<Rightarrow> byte list" where
  "ucs2_text t = [0xfe, 0xff] @ concat (map (\<lambda>c. [0, c]) t)"

definition hex_pair :: "byte \<Rightarrow> byte list" where
  "hex_pair c = [hex_digit (word_of_nat (unat c div 16)), hex_digit (word_of_nat (unat c mod 16))]"

definition hex_text :: "byte list \<Rightarrow> byte list" where
  "hex_text bs = concat (map hex_pair bs)"

definition unhex_digit :: "byte \<Rightarrow> nat" where
  "unhex_digit d = (if unat d \<le> 57 then unat d - 48 else unat d - 55)"

fun unhex :: "byte list \<Rightarrow> byte list" where
  "unhex (h # l # rest) = word_of_nat (unhex_digit h * 16 + unhex_digit l) # unhex rest"
| "unhex _ = []"

lemma ucs2_text_length: "length (ucs2_text t) = 2 + 2 * length t"
  by (induction t) (simp_all add: ucs2_text_def)

lemma hex_text_length: "length (hex_text bs) = 2 * length bs"
  by (induction bs) (simp_all add: hex_text_def hex_pair_def)

lemma hex_text_simps [simp]: "hex_text (c # bs) = hex_pair c @ hex_text bs" "hex_text [] = []"
  by (simp_all add: hex_text_def)

lemma low_nibble_mask: "(0xf::'a::len word) = mask 4" by (simp add: mask_eq_exp_minus_1)

lemma hex_nibbles:
  "signed_drop_bit 4 (ucast (c :: byte) :: i32) AND 0xf = word_of_nat (unat c div 16)"
  "(ucast c :: i32) AND 0xf = word_of_nat (unat c mod 16)"
proof -
  have "signed_drop_bit 4 (ucast c :: i32) AND 0xf = ucast (drop_bit 4 c)"
    by (rule bit_word_eqI) (auto simp: bit_simps low_nibble_mask dest: bit_imp_le_length)
  moreover have "drop_bit 4 c = c div 16"
    using drop_bit_eq_div [of 4 c] by simp
  ultimately show "signed_drop_bit 4 (ucast c :: i32) AND 0xf = word_of_nat (unat c div 16)"
    by (simp flip: of_nat_unat [of "c div 16"] add: unat_div_distrib)
  have "(ucast c :: i32) AND 0xf = ucast (take_bit 4 c)"
    by (rule bit_word_eqI) (auto simp: bit_simps low_nibble_mask dest: bit_imp_le_length)
  moreover have "take_bit 4 c = c mod 16"
    using take_bit_eq_mod [of 4 c] by simp
  ultimately show "(ucast c :: i32) AND 0xf = word_of_nat (unat c mod 16)"
    by (simp flip: of_nat_unat [of "c mod 16"] add: unat_mod_distrib)
qed

lemma unhex_hex_digit:
  assumes "n < 16" shows "unhex_digit (hex_digit (word_of_nat n)) = n"
proof -
  from assms have "n \<in> set [0..<16]" by simp
  moreover have "\<forall>n \<in> set [0..<16]. unhex_digit (hex_digit (word_of_nat n)) = n"
    by (simp add: unhex_digit_def hex_digit_def upt_rec)
  ultimately show ?thesis by blast
qed

lemma byte_nibbles: "unat (a :: byte) div 16 < 16" "word_of_nat (unat a div 16 * 16 + unat a mod 16) = a"
proof -
  have "unat a < 256"
    using unsigned_less [of a, where 'a = nat] by simp
  then show "unat a div 16 < 16" by simp
  show "word_of_nat (unat a div 16 * 16 + unat a mod 16) = a"
    unfolding div_mult_mod_eq by simp
qed

lemma unhex_hex_text: "unhex (hex_text bs) = bs"
  by (induction bs)
    (simp_all add: hex_pair_def unhex_hex_digit byte_nibbles del: of_nat_add of_nat_mult)

lemma usc2_loop_eq:
  "usc2_loop (pre @ rest) (int (length pre)) t =
     (if 2 * length t \<le> length rest
      then Some (int (length pre + 2 * length t), pre @ concat (map (\<lambda>c. [0, c]) t) @ drop (2 * length t) rest)
      else None)"
proof (induction t arbitrary: pre rest)
  case Nil
  then show ?case by simp
next
  case (Cons c t)
  show ?case
  proof (cases "2 \<le> length rest")
    case True
    then obtain x y r where rest: "rest = x # y # r"
      by (cases rest; cases "tl rest") auto
    have "store (pre @ x # y # r) (int (length pre)) [0] = Some (pre @ 0 # y # r)"
      using store_mid [of "[0]" "x # y # r" pre] by simp
    moreover have "store (pre @ 0 # y # r) (int (length pre) + 1) [c] = Some (pre @ 0 # c # r)"
      using store_mid [of "[c]" "y # r" "pre @ [0]"] by (simp add: add.commute)
    moreover note Cons.IH [of "pre @ [0, c]" r]
    ultimately show ?thesis
      by (simp add: rest algebra_simps)
  next
    case False
    then consider "rest = []" | x where "rest = [x]"
      by (cases rest; cases "tl rest") auto
    then show ?thesis
    proof cases
      case 1
      then show ?thesis using store_mid_None [of "[]" "[0]" pre] by simp
    next
      case 2
      then show ?thesis
        using store_mid [of "[0]" "[x]" pre] store_mid_None [of "[]" "[c]" "pre @ [0]"] by (simp add: add.commute)
    qed
  qed
qed

lemma asc_str_to_usc2_str_eq:
  "asc_str_to_usc2_str out (Some t) =
     (if 2 * length t + 4 \<le> length out
      then Some (int (2 * length t + 2), ucs2_text t @ [0, 0] @ drop (2 * length t + 4) out)
      else None)"
proof (cases "2 \<le> length out")
  case True
  then obtain x y r where out: "out = x # y # r"
    by (cases out; cases "tl out") auto
  have h: "store out 0 [0xfe] = Some (0xfe # y # r)" "store (0xfe # y # r) 1 [0xff] = Some (0xfe # 0xff # r)"
    using out by (simp_all add: store_def)
  let ?u = "ucs2_text t"
  have loop: "usc2_loop (0xfe # 0xff # r) 2 t
      = (if 2 * length t \<le> length r then Some (int (2 + 2 * length t), ?u @ drop (2 * length t) r) else None)"
    using usc2_loop_eq [of "[0xfe, 0xff]" r t] by (simp add: ucs2_text_def)
  have fin: "store (?u @ s) (int (length ?u)) [0] \<bind> (\<lambda>o1. store o1 (int (length ?u) + 1) [0])
      = (if 2 \<le> length s then Some (?u @ [0, 0] @ drop 2 s) else None)" for s
  proof (cases s)
    case Nil
    then show ?thesis using store_mid_None [of "[]" "[0]" ?u] by simp
  next
    case (Cons z s')
    then show ?thesis
      using store_mid [of "[0]" s ?u] store_mid [of "[0]" s' "?u @ [0]"] store_mid_None [of "[]" "[0]" "?u @ [0]"]
      by (cases s') (simp_all add: add.commute)
  qed
  have len: "length out = length r + 2" "int (length ?u) = int (2 * length t + 2)"
    using out ucs2_text_length [of t] by simp_all
  show ?thesis
  proof (cases "2 * length t \<le> length r")
    case True
    with h loop have "asc_str_to_usc2_str out (Some t)
        = store (?u @ drop (2 * length t) r) (int (length ?u)) [0]
            \<bind> (\<lambda>o1. store o1 (int (length ?u) + 1) [0] \<bind> (\<lambda>o2. Some (int (length ?u), o2)))"
      by (simp add: asc_str_to_usc2_str_def ucs2_text_length)
    also have "\<dots> = (store (?u @ drop (2 * length t) r) (int (length ?u)) [0]
            \<bind> (\<lambda>o1. store o1 (int (length ?u) + 1) [0])) \<bind> (\<lambda>o2. Some (int (length ?u), o2))"
      by (simp only: bind_assoc)
    also note fin
    finally show ?thesis
      using True out by (simp add: ucs2_text_length add.commute drop_Cons') linarith
  next
    case False
    with h loop len(1) show ?thesis by (simp add: asc_str_to_usc2_str_def)
  qed
next
  case False
  then consider "out = []" | x where "out = [x]"
    by (cases out; cases "tl out") auto
  then show ?thesis
    by cases (simp_all add: asc_str_to_usc2_str_def store_def)
qed

lemma hex_loop_eq:
  assumes "length pre = 2 * length ipre"
  shows "hex_loop (pre @ rest) (ipre @ inp @ junk) (int (length ipre)) (length inp) =
     (if 2 * length inp + 1 \<le> length rest
      then Some (pre @ hex_text inp @ [0] @ drop (2 * length inp + 1) rest) else None)"
  using assms
proof (induction inp arbitrary: pre rest ipre)
  case Nil
  then show ?case
    using store_mid [of "[0]" rest pre] store_mid_None [of rest "[0]" pre]
    by (cases rest) (simp_all add: mult.commute)
next
  case (Cons c inp)
  have ld: "load (ipre @ (c # inp) @ junk) (int (length ipre)) 1 = Some [c]"
    by (simp add: load_def)
  from Cons.prems have pos: "int (length ipre) * 2 = int (length pre)" by simp
  show ?case
  proof (cases "2 \<le> length rest")
    case True
    then obtain x y r where rest: "rest = x # y # r"
      by (cases rest; cases "tl rest") auto
    have "store (pre @ x # y # r) (int (length pre)) [d] = Some (pre @ d # y # r)" for d
      using store_mid [of "[d]" "x # y # r" pre] by simp
    moreover have "store (pre @ d # y # r) (int (length pre) + 1) [e] = Some (pre @ d # e # r)" for d e
      using store_mid [of "[e]" "y # r" "pre @ [d]"] by (simp add: add.commute)
    moreover have "hex_loop (pre @ hex_pair c @ r) (ipre @ (c # inp) @ junk) (int (length ipre) + 1) (length inp)
        = (if 2 * length inp + 1 \<le> length r
           then Some (pre @ hex_pair c @ hex_text inp @ [0] @ drop (2 * length inp + 1) r) else None)"
      using Cons.IH [of "pre @ hex_pair c" "ipre @ [c]" r] Cons.prems
      by (simp add: hex_pair_def add.commute)
    ultimately show ?thesis
      using ld by (simp add: pos rest hex_pair_def hex_nibbles)
  next
    case False
    then consider "rest = []" | x where "rest = [x]"
      by (cases rest; cases "tl rest") auto
    then show ?thesis
    proof cases
      case 1
      then show ?thesis using pos ld store_mid_None [of "[]" "[d]" pre for d] by simp
    next
      case 2
      then show ?thesis
        using pos ld store_mid [of "[d]" "[x]" pre for d] store_mid_None [of "[]" "[e]" "pre @ [d]" for e d]
        by (simp add: add.commute)
    qed
  qed
qed

lemma raw_data_to_hex_string_eq:
  "raw_data_to_hex_string out (inp @ junk) (int (length inp)) =
     (if 2 * length inp + 1 \<le> length out
      then Some (hex_text inp @ [0] @ drop (2 * length inp + 1) out) else None)"
  using hex_loop_eq [of "[]" "[]" out inp junk] by (simp add: raw_data_to_hex_string_def)

end
