(* ===== verification/Hal_Mnl_Common.thy ===== *)
theory Hal_Mnl_Common
  imports Lbs_Utility
begin

text \<open>
  \<open>hal_mnl_interface_common.h\<close>, the header the GPS HAL and the daemon \<open>mnld\<close> share: the two command
  enumerations, the socket names and the structs that cross the sockets. Structs are copied as
  blocks of bytes; their sizes depend on the ABI of the process that copies them.
\<close>

section \<open>Commands\<close>

datatype hal2mnl_cmd =
    HAL2MNL_HAL_REBOOT | HAL2MNL_GPS_INIT | HAL2MNL_GPS_START | HAL2MNL_GPS_STOP | HAL2MNL_GPS_CLEANUP
  | HAL2MNL_GPS_INJECT_TIME | HAL2MNL_GPS_INJECT_LOCATION | HAL2MNL_GPS_DELETE_AIDING_DATA
  | HAL2MNL_GPS_SET_POSITION_MODE | HAL2MNL_DATA_CONN_OPEN | HAL2MNL_DATA_CONN_OPEN_WITH_APN_IP_TYPE
  | HAL2MNL_DATA_CONN_CLOSED | HAL2MNL_DATA_CONN_FAILED | HAL2MNL_SET_SERVER | HAL2MNL_SET_REF_LOCATION
  | HAL2MNL_SET_ID | HAL2MNL_NI_MESSAGE | HAL2MNL_NI_RESPOND | HAL2MNL_UPDATE_NETWORK_STATE
  | HAL2MNL_UPDATE_NETWORK_AVAILABILITY | HAL2MNL_GPS_MEASUREMENT | HAL2MNL_GPS_NAVIGATION

primrec hal2mnl_code :: "hal2mnl_cmd \<Rightarrow> i32" where
  "hal2mnl_code HAL2MNL_HAL_REBOOT = 0"
| "hal2mnl_code HAL2MNL_GPS_INIT = 101"
| "hal2mnl_code HAL2MNL_GPS_START = 102"
| "hal2mnl_code HAL2MNL_GPS_STOP = 103"
| "hal2mnl_code HAL2MNL_GPS_CLEANUP = 104"
| "hal2mnl_code HAL2MNL_GPS_INJECT_TIME = 105"
| "hal2mnl_code HAL2MNL_GPS_INJECT_LOCATION = 106"
| "hal2mnl_code HAL2MNL_GPS_DELETE_AIDING_DATA = 107"
| "hal2mnl_code HAL2MNL_GPS_SET_POSITION_MODE = 108"
| "hal2mnl_code HAL2MNL_DATA_CONN_OPEN = 201"
| "hal2mnl_code HAL2MNL_DATA_CONN_OPEN_WITH_APN_IP_TYPE = 202"
| "hal2mnl_code HAL2MNL_DATA_CONN_CLOSED = 203"
| "hal2mnl_code HAL2MNL_DATA_CONN_FAILED = 204"
| "hal2mnl_code HAL2MNL_SET_SERVER = 301"
| "hal2mnl_code HAL2MNL_SET_REF_LOCATION = 302"
| "hal2mnl_code HAL2MNL_SET_ID = 303"
| "hal2mnl_code HAL2MNL_NI_MESSAGE = 401"
| "hal2mnl_code HAL2MNL_NI_RESPOND = 402"
| "hal2mnl_code HAL2MNL_UPDATE_NETWORK_STATE = 501"
| "hal2mnl_code HAL2MNL_UPDATE_NETWORK_AVAILABILITY = 502"
| "hal2mnl_code HAL2MNL_GPS_MEASUREMENT = 601"
| "hal2mnl_code HAL2MNL_GPS_NAVIGATION = 602"

datatype mnl2hal_cmd =
    MNL2HAL_MNLD_REBOOT | MNL2HAL_LOCATION | MNL2HAL_GPS_STATUS | MNL2HAL_GPS_SV | MNL2HAL_NMEA
  | MNL2HAL_GPS_CAPABILITIES | MNL2HAL_GPS_MEASUREMENTS | MNL2HAL_GPS_NAVIGATION
  | MNL2HAL_GNSS_MEASUREMENTS | MNL2HAL_GNSS_NAVIGATION | MNL2HAL_REQUEST_WAKELOCK
  | MNL2HAL_RELEASE_WAKELOCK | MNL2HAL_REQUEST_UTC_TIME | MNL2HAL_REQUEST_DATA_CONN
  | MNL2HAL_RELEASE_DATA_CONN | MNL2HAL_REQUEST_NI_NOTIFY | MNL2HAL_REQUEST_SET_ID
  | MNL2HAL_REQUEST_REF_LOC

primrec mnl2hal_code :: "mnl2hal_cmd \<Rightarrow> i32" where
  "mnl2hal_code MNL2HAL_MNLD_REBOOT = 1"
| "mnl2hal_code MNL2HAL_LOCATION = 101"
| "mnl2hal_code MNL2HAL_GPS_STATUS = 102"
| "mnl2hal_code MNL2HAL_GPS_SV = 103"
| "mnl2hal_code MNL2HAL_NMEA = 104"
| "mnl2hal_code MNL2HAL_GPS_CAPABILITIES = 105"
| "mnl2hal_code MNL2HAL_GPS_MEASUREMENTS = 106"
| "mnl2hal_code MNL2HAL_GPS_NAVIGATION = 107"
| "mnl2hal_code MNL2HAL_GNSS_MEASUREMENTS = 108"
| "mnl2hal_code MNL2HAL_GNSS_NAVIGATION = 109"
| "mnl2hal_code MNL2HAL_REQUEST_WAKELOCK = 201"
| "mnl2hal_code MNL2HAL_RELEASE_WAKELOCK = 202"
| "mnl2hal_code MNL2HAL_REQUEST_UTC_TIME = 301"
| "mnl2hal_code MNL2HAL_REQUEST_DATA_CONN = 302"
| "mnl2hal_code MNL2HAL_RELEASE_DATA_CONN = 303"
| "mnl2hal_code MNL2HAL_REQUEST_NI_NOTIFY = 304"
| "mnl2hal_code MNL2HAL_REQUEST_SET_ID = 305"
| "mnl2hal_code MNL2HAL_REQUEST_REF_LOC = 306"

text \<open>
  The command a \<open>switch\<close> selects for an \<open>int\<close> read from the wire; \<open>None\<close> is the \<open>default\<close> branch.
\<close>

definition hal2mnl_cmds :: "hal2mnl_cmd list" where
  "hal2mnl_cmds =
    [HAL2MNL_HAL_REBOOT, HAL2MNL_GPS_INIT, HAL2MNL_GPS_START, HAL2MNL_GPS_STOP, HAL2MNL_GPS_CLEANUP,
     HAL2MNL_GPS_INJECT_TIME, HAL2MNL_GPS_INJECT_LOCATION, HAL2MNL_GPS_DELETE_AIDING_DATA,
     HAL2MNL_GPS_SET_POSITION_MODE, HAL2MNL_DATA_CONN_OPEN, HAL2MNL_DATA_CONN_OPEN_WITH_APN_IP_TYPE,
     HAL2MNL_DATA_CONN_CLOSED, HAL2MNL_DATA_CONN_FAILED, HAL2MNL_SET_SERVER, HAL2MNL_SET_REF_LOCATION,
     HAL2MNL_SET_ID, HAL2MNL_NI_MESSAGE, HAL2MNL_NI_RESPOND, HAL2MNL_UPDATE_NETWORK_STATE,
     HAL2MNL_UPDATE_NETWORK_AVAILABILITY, HAL2MNL_GPS_MEASUREMENT, HAL2MNL_GPS_NAVIGATION]"

definition hal2mnl_cmd_of :: "i32 \<Rightarrow> hal2mnl_cmd option" where
  "hal2mnl_cmd_of v = find (\<lambda>c. hal2mnl_code c = v) hal2mnl_cmds"

definition mnl2hal_cmds :: "mnl2hal_cmd list" where
  "mnl2hal_cmds =
    [MNL2HAL_MNLD_REBOOT, MNL2HAL_LOCATION, MNL2HAL_GPS_STATUS, MNL2HAL_GPS_SV, MNL2HAL_NMEA,
     MNL2HAL_GPS_CAPABILITIES, MNL2HAL_GPS_MEASUREMENTS, MNL2HAL_GPS_NAVIGATION,
     MNL2HAL_GNSS_MEASUREMENTS, MNL2HAL_GNSS_NAVIGATION, MNL2HAL_REQUEST_WAKELOCK,
     MNL2HAL_RELEASE_WAKELOCK, MNL2HAL_REQUEST_UTC_TIME, MNL2HAL_REQUEST_DATA_CONN,
     MNL2HAL_RELEASE_DATA_CONN, MNL2HAL_REQUEST_NI_NOTIFY, MNL2HAL_REQUEST_SET_ID,
     MNL2HAL_REQUEST_REF_LOC]"

definition mnl2hal_cmd_of :: "i32 \<Rightarrow> mnl2hal_cmd option" where
  "mnl2hal_cmd_of v = find (\<lambda>c. mnl2hal_code c = v) mnl2hal_cmds"

section \<open>Constants and structs\<close>

definition HAL_MNL_BUFF_SIZE :: nat where "HAL_MNL_BUFF_SIZE = 16 * 1024"

definition HAL_MNL_INTERFACE_VERSION :: i32 where "HAL_MNL_INTERFACE_VERSION = 1"

definition MTK_HAL2MNL :: string where "MTK_HAL2MNL = ''mtk_hal2mnl''"

definition MTK_MNL2HAL :: string where "MTK_MNL2HAL = ''mtk_mnl2hal''"

text \<open>
  The daemon is a 32-bit process (its makefile sets \<open>LOCAL_MULTILIB := 32\<close>); the HAL library is
  built for the ABI of the process that loads it.
\<close>

datatype abi = ILP32 | LP64

text \<open>
  \<open>sizeof\<close> of the structs of the interface. Only the two navigation messages differ: they hold a
  \<open>size_t\<close>, and \<open>gnss_nav_msg\<close> a pointer.
\<close>

definition sizeof_gps_location :: nat where "sizeof_gps_location = 56"
definition sizeof_gnss_sv_info :: nat where "sizeof_gnss_sv_info = 4 + 64 * 20"
definition sizeof_gps_data :: nat where "sizeof_gps_data = 7752"
definition sizeof_gnss_data :: nat where "sizeof_gnss_data = 8784"
definition sizeof_sockaddr_storage :: nat where "sizeof_sockaddr_storage = 128"

primrec sizeof_gps_nav_msg :: "abi \<Rightarrow> nat" where
  "sizeof_gps_nav_msg ILP32 = 52"
| "sizeof_gps_nav_msg LP64 = 56"

primrec sizeof_gnss_nav_msg :: "abi \<Rightarrow> nat" where
  "sizeof_gnss_nav_msg ILP32 = 24"
| "sizeof_gnss_nav_msg LP64 = 40"

text \<open>The one struct whose fields the modelled code reads and writes.\<close>

record gps_location =
  loc_flags :: i32
  loc_lat :: f64
  loc_lng :: f64
  loc_alt :: f64
  loc_speed :: f32
  loc_bearing :: f32
  loc_accuracy :: f32
  loc_timestamp :: i64

definition gps_location_bytes :: "gps_location \<Rightarrow> byte list" where
  "gps_location_bytes l =
     enc_int (loc_flags l) @ [0, 0, 0, 0] @ enc_long (loc_lat l) @ enc_long (loc_lng l) @ enc_long (loc_alt l)
     @ enc_int (loc_speed l) @ enc_int (loc_bearing l) @ enc_int (loc_accuracy l) @ [0, 0, 0, 0]
     @ enc_long (loc_timestamp l)"

text \<open>The value of a field of a struct in memory.\<close>

definition field_int :: "byte list \<Rightarrow> nat \<Rightarrow> i32" where
  "field_int mem off = (case get_int (rd (take off mem) (drop off mem)) of Some (v, _) \<Rightarrow> v | None \<Rightarrow> 0)"

definition field_long :: "byte list \<Rightarrow> nat \<Rightarrow> i64" where
  "field_long mem off = (case get_long (rd (take off mem) (drop off mem)) of Some (v, _) \<Rightarrow> v | None \<Rightarrow> 0)"

definition gps_location_of_bytes :: "byte list \<Rightarrow> gps_location" where
  "gps_location_of_bytes mem =
     \<lparr>loc_flags = field_int mem 0, loc_lat = field_long mem 8, loc_lng = field_long mem 16,
      loc_alt = field_long mem 24, loc_speed = field_int mem 32, loc_bearing = field_int mem 36,
      loc_accuracy = field_int mem 40, loc_timestamp = field_long mem 48\<rparr>"

text \<open>
  \<open>junk\<close> is what an uninitialised local struct holds before \<open>get_binary\<close> copies into it.
\<close>

definition uninit :: "(nat \<Rightarrow> byte) \<Rightarrow> nat \<Rightarrow> byte list" where
  "uninit junk n = map junk [0..<n]"

section \<open>Facts about the constants\<close>

lemma uninit_length [simp]: "length (uninit junk n) = n"
  by (simp add: uninit_def)

lemma hal2mnl_cmd_of_code [simp]: "hal2mnl_cmd_of (hal2mnl_code c) = Some c"
  by (cases c) (simp_all add: hal2mnl_cmd_of_def hal2mnl_cmds_def)

lemma mnl2hal_cmd_of_code [simp]: "mnl2hal_cmd_of (mnl2hal_code c) = Some c"
  by (cases c) (simp_all add: mnl2hal_cmd_of_def mnl2hal_cmds_def)

lemma path_len [simp]: "length MTK_HAL2MNL = 11" "length MTK_MNL2HAL = 11"
  by (simp_all add: MTK_HAL2MNL_def MTK_MNL2HAL_def)

lemma path_diff [simp]: "MTK_HAL2MNL \<noteq> MTK_MNL2HAL" "MTK_MNL2HAL \<noteq> MTK_HAL2MNL"
  by (simp_all add: MTK_HAL2MNL_def MTK_MNL2HAL_def)

lemmas sizeof_defs = sizeof_gps_location_def sizeof_gnss_sv_info_def sizeof_gps_data_def
  sizeof_gnss_data_def sizeof_sockaddr_storage_def

lemma field_int_enc:
  "mem = pre @ enc_int v @ rest \<Longrightarrow> length pre = off \<Longrightarrow> field_int mem off = v"
  by (auto simp: field_int_def get_int_rd)

lemma field_long_enc:
  "mem = pre @ enc_long v @ rest \<Longrightarrow> length pre = off \<Longrightarrow> field_long mem off = v"
  by (auto simp: field_long_def get_long_rd)

lemma gps_location_bytes_length [simp]: "length (gps_location_bytes l) = 56"
  by (simp add: gps_location_bytes_def)

lemma gps_location_roundtrip: "gps_location_of_bytes (gps_location_bytes l) = l"
proof -
  let ?z = "[0, 0, 0, 0] :: byte list" and ?m = "gps_location_bytes l"
  note [simp] = gps_location_bytes_def
  have "field_int ?m 0 = loc_flags l"
    by (rule field_int_enc [where pre = "[]"]) simp_all
  moreover have "field_long ?m 8 = loc_lat l"
    by (rule field_long_enc [where pre = "enc_int (loc_flags l) @ ?z"]) simp_all
  moreover have "field_long ?m 16 = loc_lng l"
    by (rule field_long_enc [where pre = "enc_int (loc_flags l) @ ?z @ enc_long (loc_lat l)"]) simp_all
  moreover have "field_long ?m 24 = loc_alt l"
    by (rule field_long_enc [where pre = "enc_int (loc_flags l) @ ?z @ enc_long (loc_lat l) @ enc_long (loc_lng l)"])
      simp_all
  moreover have "field_int ?m 32 = loc_speed l"
    by (rule field_int_enc [where pre = "enc_int (loc_flags l) @ ?z @ enc_long (loc_lat l) @ enc_long (loc_lng l)
          @ enc_long (loc_alt l)"]) simp_all
  moreover have "field_int ?m 36 = loc_bearing l"
    by (rule field_int_enc [where pre = "enc_int (loc_flags l) @ ?z @ enc_long (loc_lat l) @ enc_long (loc_lng l)
          @ enc_long (loc_alt l) @ enc_int (loc_speed l)"]) simp_all
  moreover have "field_int ?m 40 = loc_accuracy l"
    by (rule field_int_enc [where pre = "enc_int (loc_flags l) @ ?z @ enc_long (loc_lat l) @ enc_long (loc_lng l)
          @ enc_long (loc_alt l) @ enc_int (loc_speed l) @ enc_int (loc_bearing l)"]) simp_all
  moreover have "field_long ?m 48 = loc_timestamp l"
    by (rule field_long_enc [where pre = "enc_int (loc_flags l) @ ?z @ enc_long (loc_lat l) @ enc_long (loc_lng l)
          @ enc_long (loc_alt l) @ enc_int (loc_speed l) @ enc_int (loc_bearing l) @ enc_int (loc_accuracy l) @ ?z"
          and rest = "[]"]) simp_all
  ultimately show ?thesis
    by (simp add: gps_location_of_bytes_def del: gps_location_bytes_def)
qed

text \<open>Reading an integer of any four bytes.\<close>

lemma get_int_any:
  "get_int (rd pre (a # b # c # d # rest)) = Some (field_int [a, b, c, d] 0, rd (pre @ [a, b, c, d]) rest)"
  by (simp add: field_int_def get_int_def get_short_def get_byte_rd Let_def)

lemma get_int_take:
  assumes "4 \<le> length mem"
  shows "get_int (rd pre mem) = Some (field_int (take 4 mem) 0, rd (pre @ take 4 mem) (drop 4 mem))"
proof -
  from assms obtain a b c d rest where "mem = a # b # c # d # rest"
    by (auto simp: Suc_le_length_iff numeral_eq_Suc)
  then show ?thesis by (simp add: get_int_any)
qed

lemma field_int_take: "4 \<le> length mem \<Longrightarrow> field_int mem 0 = field_int (take 4 mem) 0"
  using get_int_take [of mem "[]"] by (simp add: field_int_def)

end
