(* ===== verification/Mnl2Hal_Interface.thy ===== *)
theory Mnl2Hal_Interface
  imports Hal_Mnl_Common
begin

text \<open>
  \<open>mnl2hal_interface.c\<close>, the daemon's end of the HAL sockets: one function per message the daemon
  sends to the HAL, and \<open>hal2mnl_hdlr\<close>, which receives one message of the HAL and calls the
  daemon's callback for it. A struct argument is the byte block of the object that is passed.
\<close>

section \<open>Messages to the HAL\<close>

definition mnl2hal_mnld_reboot :: "os \<Rightarrow> (int \<times> os) option" where
  "mnl2hal_mnld_reboot k = do {
     b \<leftarrow> put_int HAL_MNL_INTERFACE_VERSION (fresh HAL_MNL_BUFF_SIZE);
     b \<leftarrow> put_int (mnl2hal_code MNL2HAL_MNLD_REBOOT) b;
     safe_sendto MTK_MNL2HAL (buff b) (offset b) k }"

definition mnl2hal_location :: "byte list \<Rightarrow> os \<Rightarrow> (int \<times> os) option" where
  "mnl2hal_location location k = do {
     b \<leftarrow> put_int HAL_MNL_INTERFACE_VERSION (fresh HAL_MNL_BUFF_SIZE);
     b \<leftarrow> put_int (mnl2hal_code MNL2HAL_LOCATION) b;
     b \<leftarrow> put_binary location (word_of_nat sizeof_gps_location) b;
     safe_sendto MTK_MNL2HAL (buff b) (offset b) k }"

definition mnl2hal_gps_status :: "i32 \<Rightarrow> os \<Rightarrow> (int \<times> os) option" where
  "mnl2hal_gps_status status k = do {
     b \<leftarrow> put_int HAL_MNL_INTERFACE_VERSION (fresh HAL_MNL_BUFF_SIZE);
     b \<leftarrow> put_int (mnl2hal_code MNL2HAL_GPS_STATUS) b;
     b \<leftarrow> put_binary (enc_int status) 4 b;
     safe_sendto MTK_MNL2HAL (buff b) (offset b) k }"

definition mnl2hal_gps_sv :: "byte list \<Rightarrow> os \<Rightarrow> (int \<times> os) option" where
  "mnl2hal_gps_sv sv k = do {
     b \<leftarrow> put_int HAL_MNL_INTERFACE_VERSION (fresh HAL_MNL_BUFF_SIZE);
     b \<leftarrow> put_int (mnl2hal_code MNL2HAL_GPS_SV) b;
     b \<leftarrow> put_binary sv (word_of_nat sizeof_gnss_sv_info) b;
     safe_sendto MTK_MNL2HAL (buff b) (offset b) k }"

definition mnl2hal_nmea :: "i64 \<Rightarrow> cstr \<Rightarrow> i32 \<Rightarrow> os \<Rightarrow> (int \<times> os) option" where
  "mnl2hal_nmea timestamp nmea len k = do {
     b \<leftarrow> put_int HAL_MNL_INTERFACE_VERSION (fresh HAL_MNL_BUFF_SIZE);
     b \<leftarrow> put_int (mnl2hal_code MNL2HAL_NMEA) b;
     b \<leftarrow> put_long timestamp b;
     b \<leftarrow> put_string nmea b;
     b \<leftarrow> put_int len b;
     safe_sendto MTK_MNL2HAL (buff b) (offset b) k }"

definition mnl2hal_gps_capabilities :: "i32 \<Rightarrow> os \<Rightarrow> (int \<times> os) option" where
  "mnl2hal_gps_capabilities capabilities k = do {
     b \<leftarrow> put_int HAL_MNL_INTERFACE_VERSION (fresh HAL_MNL_BUFF_SIZE);
     b \<leftarrow> put_int (mnl2hal_code MNL2HAL_GPS_CAPABILITIES) b;
     b \<leftarrow> put_binary (enc_int capabilities) 4 b;
     safe_sendto MTK_MNL2HAL (buff b) (offset b) k }"

definition mnl2hal_gps_measurements :: "byte list \<Rightarrow> os \<Rightarrow> (int \<times> os) option" where
  "mnl2hal_gps_measurements data k = do {
     b \<leftarrow> put_int HAL_MNL_INTERFACE_VERSION (fresh HAL_MNL_BUFF_SIZE);
     b \<leftarrow> put_int (mnl2hal_code MNL2HAL_GPS_MEASUREMENTS) b;
     b \<leftarrow> put_binary data (word_of_nat sizeof_gps_data) b;
     safe_sendto MTK_MNL2HAL (buff b) (offset b) k }"

definition mnl2hal_gps_navigation :: "byte list \<Rightarrow> os \<Rightarrow> (int \<times> os) option" where
  "mnl2hal_gps_navigation msg k = do {
     b \<leftarrow> put_int HAL_MNL_INTERFACE_VERSION (fresh HAL_MNL_BUFF_SIZE);
     b \<leftarrow> put_int (mnl2hal_code MNL2HAL_GPS_NAVIGATION) b;
     b \<leftarrow> put_binary msg (word_of_nat (sizeof_gps_nav_msg ILP32)) b;
     safe_sendto MTK_MNL2HAL (buff b) (offset b) k }"

definition mnl2hal_gnss_measurements :: "byte list \<Rightarrow> os \<Rightarrow> (int \<times> os) option" where
  "mnl2hal_gnss_measurements data k = do {
     b \<leftarrow> put_int HAL_MNL_INTERFACE_VERSION (fresh HAL_MNL_BUFF_SIZE);
     b \<leftarrow> put_int (mnl2hal_code MNL2HAL_GNSS_MEASUREMENTS) b;
     b \<leftarrow> put_binary data (word_of_nat sizeof_gnss_data) b;
     safe_sendto MTK_MNL2HAL (buff b) (offset b) k }"

definition mnl2hal_gnss_navigation :: "byte list \<Rightarrow> os \<Rightarrow> (int \<times> os) option" where
  "mnl2hal_gnss_navigation msg k = do {
     b \<leftarrow> put_int HAL_MNL_INTERFACE_VERSION (fresh HAL_MNL_BUFF_SIZE);
     b \<leftarrow> put_int (mnl2hal_code MNL2HAL_GNSS_NAVIGATION) b;
     b \<leftarrow> put_binary msg (word_of_nat (sizeof_gnss_nav_msg ILP32)) b;
     safe_sendto MTK_MNL2HAL (buff b) (offset b) k }"

definition mnl2hal_request_wakelock :: "os \<Rightarrow> (int \<times> os) option" where
  "mnl2hal_request_wakelock k = do {
     b \<leftarrow> put_int HAL_MNL_INTERFACE_VERSION (fresh HAL_MNL_BUFF_SIZE);
     b \<leftarrow> put_int (mnl2hal_code MNL2HAL_REQUEST_WAKELOCK) b;
     safe_sendto MTK_MNL2HAL (buff b) (offset b) k }"

definition mnl2hal_release_wakelock :: "os \<Rightarrow> (int \<times> os) option" where
  "mnl2hal_release_wakelock k = do {
     b \<leftarrow> put_int HAL_MNL_INTERFACE_VERSION (fresh HAL_MNL_BUFF_SIZE);
     b \<leftarrow> put_int (mnl2hal_code MNL2HAL_RELEASE_WAKELOCK) b;
     safe_sendto MTK_MNL2HAL (buff b) (offset b) k }"

definition mnl2hal_request_utc_time :: "os \<Rightarrow> (int \<times> os) option" where
  "mnl2hal_request_utc_time k = do {
     b \<leftarrow> put_int HAL_MNL_INTERFACE_VERSION (fresh HAL_MNL_BUFF_SIZE);
     b \<leftarrow> put_int (mnl2hal_code MNL2HAL_REQUEST_UTC_TIME) b;
     safe_sendto MTK_MNL2HAL (buff b) (offset b) k }"

definition mnl2hal_request_data_conn :: "byte list \<Rightarrow> os \<Rightarrow> (int \<times> os) option" where
  "mnl2hal_request_data_conn addr k = do {
     b \<leftarrow> put_int HAL_MNL_INTERFACE_VERSION (fresh HAL_MNL_BUFF_SIZE);
     b \<leftarrow> put_int (mnl2hal_code MNL2HAL_REQUEST_DATA_CONN) b;
     b \<leftarrow> put_binary addr (word_of_nat sizeof_sockaddr_storage) b;
     safe_sendto MTK_MNL2HAL (buff b) (offset b) k }"

definition mnl2hal_release_data_conn :: "os \<Rightarrow> (int \<times> os) option" where
  "mnl2hal_release_data_conn k = do {
     b \<leftarrow> put_int HAL_MNL_INTERFACE_VERSION (fresh HAL_MNL_BUFF_SIZE);
     b \<leftarrow> put_int (mnl2hal_code MNL2HAL_RELEASE_DATA_CONN) b;
     safe_sendto MTK_MNL2HAL (buff b) (offset b) k }"

definition mnl2hal_request_ni_notify :: "i32 \<Rightarrow> i32 \<Rightarrow> cstr \<Rightarrow> cstr \<Rightarrow> i32 \<Rightarrow> i32 \<Rightarrow> os \<Rightarrow> (int \<times> os) option" where
  "mnl2hal_request_ni_notify session_id type requestor_id client_name requestor_id_encoding client_name_encoding k = do {
     b \<leftarrow> put_int HAL_MNL_INTERFACE_VERSION (fresh HAL_MNL_BUFF_SIZE);
     b \<leftarrow> put_int (mnl2hal_code MNL2HAL_REQUEST_NI_NOTIFY) b;
     b \<leftarrow> put_int session_id b;
     b \<leftarrow> put_int type b;
     b \<leftarrow> put_string requestor_id b;
     b \<leftarrow> put_string client_name b;
     b \<leftarrow> put_int requestor_id_encoding b;
     b \<leftarrow> put_int client_name_encoding b;
     safe_sendto MTK_MNL2HAL (buff b) (offset b) k }"

definition mnl2hal_request_set_id :: "i32 \<Rightarrow> os \<Rightarrow> (int \<times> os) option" where
  "mnl2hal_request_set_id flags k = do {
     b \<leftarrow> put_int HAL_MNL_INTERFACE_VERSION (fresh HAL_MNL_BUFF_SIZE);
     b \<leftarrow> put_int (mnl2hal_code MNL2HAL_REQUEST_SET_ID) b;
     b \<leftarrow> put_int flags b;
     safe_sendto MTK_MNL2HAL (buff b) (offset b) k }"

definition mnl2hal_request_ref_loc :: "i32 \<Rightarrow> os \<Rightarrow> (int \<times> os) option" where
  "mnl2hal_request_ref_loc flags k = do {
     b \<leftarrow> put_int HAL_MNL_INTERFACE_VERSION (fresh HAL_MNL_BUFF_SIZE);
     b \<leftarrow> put_int (mnl2hal_code MNL2HAL_REQUEST_REF_LOC) b;
     b \<leftarrow> put_int flags b;
     safe_sendto MTK_MNL2HAL (buff b) (offset b) k }"

section \<open>Messages from the HAL\<close>

record 's hal2mnl_interface =
  h2m_hal_reboot :: "'s act option"
  h2m_gps_init :: "'s act option"
  h2m_gps_start :: "'s act option"
  h2m_gps_stop :: "'s act option"
  h2m_gps_cleanup :: "'s act option"
  h2m_gps_inject_time :: "(i64 \<Rightarrow> i64 \<Rightarrow> i32 \<Rightarrow> 's act) option"
  h2m_gps_inject_location :: "(f64 \<Rightarrow> f64 \<Rightarrow> f32 \<Rightarrow> 's act) option"
  h2m_gps_delete_aiding_data :: "(i32 \<Rightarrow> 's act) option"
  h2m_gps_set_position_mode :: "(i32 \<Rightarrow> i32 \<Rightarrow> i32 \<Rightarrow> i32 \<Rightarrow> i32 \<Rightarrow> 's act) option"
  h2m_data_conn_open :: "(cstr \<Rightarrow> 's act) option"
  h2m_data_conn_open_with_apn_ip_type :: "(cstr \<Rightarrow> i32 \<Rightarrow> 's act) option"
  h2m_data_conn_closed :: "'s act option"
  h2m_data_conn_failed :: "'s act option"
  h2m_set_server :: "(i32 \<Rightarrow> cstr \<Rightarrow> i32 \<Rightarrow> 's act) option"
  h2m_set_ref_location :: "(i32 \<Rightarrow> i32 \<Rightarrow> i32 \<Rightarrow> i32 \<Rightarrow> i32 \<Rightarrow> 's act) option"
  h2m_set_id :: "(i32 \<Rightarrow> cstr \<Rightarrow> 's act) option"
  h2m_ni_message :: "(byte list \<Rightarrow> i32 \<Rightarrow> 's act) option"
  h2m_ni_respond :: "(i32 \<Rightarrow> i32 \<Rightarrow> 's act) option"
  h2m_update_network_state :: "(i32 \<Rightarrow> i32 \<Rightarrow> i32 \<Rightarrow> cstr \<Rightarrow> 's act) option"
  h2m_update_network_availability :: "(i32 \<Rightarrow> cstr \<Rightarrow> 's act) option"
  h2m_set_gps_measurement :: "(bool \<Rightarrow> 's act) option"
  h2m_set_gps_navigation :: "(bool \<Rightarrow> 's act) option"

text \<open>
  \<open>rx\<close> is what the kernel answers to \<open>recvfrom\<close> during this call. String arguments are pointers
  into the local buffer, which the callback follows while the buffer is still live.
\<close>

definition hal2mnl_hdlr :: "rx_ans list \<Rightarrow> 's hal2mnl_interface \<Rightarrow> 's \<Rightarrow> (int \<times> 's) option" where
  "hal2mnl_hdlr rx hdlr s =
    (let (read_len, mem) = safe_recvfrom rx (replicate HAL_MNL_BUFF_SIZE 0)
     in if read_len \<le> 0 then Some (-1, s)
     else do {
       (ver, b) \<leftarrow> get_int (cursor mem);
       (cmd, b) \<leftarrow> get_int b;
       (case hal2mnl_cmd_of cmd of
          Some HAL2MNL_HAL_REBOOT \<Rightarrow> with_cb (h2m_hal_reboot hdlr) (\<lambda>f s. f s) s
        | Some HAL2MNL_GPS_INIT \<Rightarrow> with_cb (h2m_gps_init hdlr) (\<lambda>f s. f s) s
        | Some HAL2MNL_GPS_START \<Rightarrow> with_cb (h2m_gps_start hdlr) (\<lambda>f s. f s) s
        | Some HAL2MNL_GPS_STOP \<Rightarrow> with_cb (h2m_gps_stop hdlr) (\<lambda>f s. f s) s
        | Some HAL2MNL_GPS_CLEANUP \<Rightarrow> with_cb (h2m_gps_cleanup hdlr) (\<lambda>f s. f s) s
        | Some HAL2MNL_GPS_INJECT_TIME \<Rightarrow> with_cb (h2m_gps_inject_time hdlr) (\<lambda>f s. do {
            (time, b) \<leftarrow> get_long b;
            (time_reference, b) \<leftarrow> get_long b;
            (uncertainty, b) \<leftarrow> get_int b;
            f time time_reference uncertainty s }) s
        | Some HAL2MNL_GPS_INJECT_LOCATION \<Rightarrow> with_cb (h2m_gps_inject_location hdlr) (\<lambda>f s. do {
            (lat, b) \<leftarrow> get_double b;
            (lng, b) \<leftarrow> get_double b;
            (acc, b) \<leftarrow> get_float b;
            f lat lng acc s }) s
        | Some HAL2MNL_GPS_DELETE_AIDING_DATA \<Rightarrow> with_cb (h2m_gps_delete_aiding_data hdlr) (\<lambda>f s. do {
            (flags, b) \<leftarrow> get_int b;
            f flags s }) s
        | Some HAL2MNL_GPS_SET_POSITION_MODE \<Rightarrow> with_cb (h2m_gps_set_position_mode hdlr) (\<lambda>f s. do {
            (mode, b) \<leftarrow> get_int b;
            (recurrence, b) \<leftarrow> get_int b;
            (min_interval, b) \<leftarrow> get_int b;
            (preferred_acc, b) \<leftarrow> get_int b;
            (preferred_time, b) \<leftarrow> get_int b;
            f mode recurrence min_interval preferred_acc preferred_time s }) s
        | Some HAL2MNL_DATA_CONN_OPEN \<Rightarrow> with_cb (h2m_data_conn_open hdlr) (\<lambda>f s. do {
            (apn, b) \<leftarrow> get_cstr b;
            f apn s }) s
        | Some HAL2MNL_DATA_CONN_OPEN_WITH_APN_IP_TYPE \<Rightarrow>
            with_cb (h2m_data_conn_open_with_apn_ip_type hdlr) (\<lambda>f s. do {
            (apn, b) \<leftarrow> get_cstr b;
            (ip_type, b) \<leftarrow> get_int b;
            f apn ip_type s }) s
        | Some HAL2MNL_DATA_CONN_CLOSED \<Rightarrow> with_cb (h2m_data_conn_closed hdlr) (\<lambda>f s. f s) s
        | Some HAL2MNL_DATA_CONN_FAILED \<Rightarrow> with_cb (h2m_data_conn_failed hdlr) (\<lambda>f s. f s) s
        | Some HAL2MNL_SET_SERVER \<Rightarrow> with_cb (h2m_set_server hdlr) (\<lambda>f s. do {
            (type, b) \<leftarrow> get_int b;
            (hostname, b) \<leftarrow> get_cstr b;
            (port, b) \<leftarrow> get_int b;
            f type hostname port s }) s
        | Some HAL2MNL_SET_REF_LOCATION \<Rightarrow> with_cb (h2m_set_ref_location hdlr) (\<lambda>f s. do {
            (type, b) \<leftarrow> get_int b;
            (mcc, b) \<leftarrow> get_int b;
            (mnc, b) \<leftarrow> get_int b;
            (lac, b) \<leftarrow> get_int b;
            (cid, b) \<leftarrow> get_int b;
            f type mcc mnc lac cid s }) s
        | Some HAL2MNL_SET_ID \<Rightarrow> with_cb (h2m_set_id hdlr) (\<lambda>f s. do {
            (type, b) \<leftarrow> get_int b;
            (setid, b) \<leftarrow> get_cstr b;
            f type setid s }) s
        | Some HAL2MNL_NI_MESSAGE \<Rightarrow> with_cb (h2m_ni_message hdlr) (\<lambda>f s. do {
            ((len, msg), b) \<leftarrow> get_binary (replicate 1024 0) b;
            f msg len s }) s
        | Some HAL2MNL_NI_RESPOND \<Rightarrow> with_cb (h2m_ni_respond hdlr) (\<lambda>f s. do {
            (notif_id, b) \<leftarrow> get_int b;
            (user_response, b) \<leftarrow> get_int b;
            f notif_id user_response s }) s
        | Some HAL2MNL_UPDATE_NETWORK_STATE \<Rightarrow> with_cb (h2m_update_network_state hdlr) (\<lambda>f s. do {
            (connected, b) \<leftarrow> get_int b;
            (type, b) \<leftarrow> get_int b;
            (roaming, b) \<leftarrow> get_int b;
            (extra_info, b) \<leftarrow> get_cstr b;
            f connected type roaming extra_info s }) s
        | Some HAL2MNL_UPDATE_NETWORK_AVAILABILITY \<Rightarrow>
            with_cb (h2m_update_network_availability hdlr) (\<lambda>f s. do {
            (available, b) \<leftarrow> get_int b;
            (apn, b) \<leftarrow> get_cstr b;
            f available apn s }) s
        | Some HAL2MNL_GPS_MEASUREMENT \<Rightarrow> with_cb (h2m_set_gps_measurement hdlr) (\<lambda>f s. do {
            (enabled, b) \<leftarrow> get_int b;
            f (enabled \<noteq> 0) s }) s
        | Some HAL2MNL_GPS_NAVIGATION \<Rightarrow> with_cb (h2m_set_gps_navigation hdlr) (\<lambda>f s. do {
            (enabled, b) \<leftarrow> get_int b;
            f (enabled \<noteq> 0) s }) s
        | None \<Rightarrow> Some (-1, s)) })"

section \<open>The messages of the daemon as values\<close>

text \<open>
  One value per message, its bytes on the wire, and when the message can be written at all:
  struct arguments have the daemon's size for them, and the strings fit the buffer.
\<close>

datatype mnl2hal_msg =
    M_mnld_reboot | M_location "byte list" | M_gps_status i32 | M_gps_sv "byte list" | M_nmea i64 cstr i32
  | M_gps_capabilities i32 | M_gps_measurements "byte list" | M_gps_navigation "byte list"
  | M_gnss_measurements "byte list" | M_gnss_navigation "byte list" | M_request_wakelock | M_release_wakelock
  | M_request_utc_time | M_request_data_conn "byte list" | M_release_data_conn
  | M_request_ni_notify i32 i32 cstr cstr i32 i32 | M_request_set_id i32 | M_request_ref_loc i32

definition m2h_head :: "mnl2hal_cmd \<Rightarrow> byte list" where
  "m2h_head c = enc_int HAL_MNL_INTERFACE_VERSION @ enc_int (mnl2hal_code c)"

primrec m2h_wire :: "mnl2hal_msg \<Rightarrow> byte list" where
  "m2h_wire M_mnld_reboot = m2h_head MNL2HAL_MNLD_REBOOT"
| "m2h_wire (M_location l) = m2h_head MNL2HAL_LOCATION @ enc_binary l"
| "m2h_wire (M_gps_status v) = m2h_head MNL2HAL_GPS_STATUS @ enc_binary (enc_int v)"
| "m2h_wire (M_gps_sv d) = m2h_head MNL2HAL_GPS_SV @ enc_binary d"
| "m2h_wire (M_nmea t s n) = m2h_head MNL2HAL_NMEA @ enc_long t @ enc_string s @ enc_int n"
| "m2h_wire (M_gps_capabilities v) = m2h_head MNL2HAL_GPS_CAPABILITIES @ enc_binary (enc_int v)"
| "m2h_wire (M_gps_measurements d) = m2h_head MNL2HAL_GPS_MEASUREMENTS @ enc_binary d"
| "m2h_wire (M_gps_navigation d) = m2h_head MNL2HAL_GPS_NAVIGATION @ enc_binary d"
| "m2h_wire (M_gnss_measurements d) = m2h_head MNL2HAL_GNSS_MEASUREMENTS @ enc_binary d"
| "m2h_wire (M_gnss_navigation d) = m2h_head MNL2HAL_GNSS_NAVIGATION @ enc_binary d"
| "m2h_wire M_request_wakelock = m2h_head MNL2HAL_REQUEST_WAKELOCK"
| "m2h_wire M_release_wakelock = m2h_head MNL2HAL_RELEASE_WAKELOCK"
| "m2h_wire M_request_utc_time = m2h_head MNL2HAL_REQUEST_UTC_TIME"
| "m2h_wire (M_request_data_conn a) = m2h_head MNL2HAL_REQUEST_DATA_CONN @ enc_binary a"
| "m2h_wire M_release_data_conn = m2h_head MNL2HAL_RELEASE_DATA_CONN"
| "m2h_wire (M_request_ni_notify i t r c re ce) = m2h_head MNL2HAL_REQUEST_NI_NOTIFY
     @ enc_int i @ enc_int t @ enc_string r @ enc_string c @ enc_int re @ enc_int ce"
| "m2h_wire (M_request_set_id v) = m2h_head MNL2HAL_REQUEST_SET_ID @ enc_int v"
| "m2h_wire (M_request_ref_loc v) = m2h_head MNL2HAL_REQUEST_REF_LOC @ enc_int v"

fun m2h_wf :: "mnl2hal_msg \<Rightarrow> bool" where
  "m2h_wf (M_location l) = (length l = sizeof_gps_location)"
| "m2h_wf (M_gps_sv d) = (length d = sizeof_gnss_sv_info)"
| "m2h_wf (M_nmea t s n) = ok_string s"
| "m2h_wf (M_gps_measurements d) = (length d = sizeof_gps_data)"
| "m2h_wf (M_gps_navigation d) = (length d = sizeof_gps_nav_msg ILP32)"
| "m2h_wf (M_gnss_measurements d) = (length d = sizeof_gnss_data)"
| "m2h_wf (M_gnss_navigation d) = (length d = sizeof_gnss_nav_msg ILP32)"
| "m2h_wf (M_request_data_conn a) = (length a = sizeof_sockaddr_storage)"
| "m2h_wf (M_request_ni_notify i t r c re ce) = (ok_string r \<and> ok_string c)"
| "m2h_wf _ = True"

definition m2h_fits :: "mnl2hal_msg \<Rightarrow> bool" where
  "m2h_fits m = (m2h_wf m \<and> length (m2h_wire m) \<le> HAL_MNL_BUFF_SIZE)"

text \<open>The function of the daemon that sends a message.\<close>

primrec mnl2hal_send :: "mnl2hal_msg \<Rightarrow> os \<Rightarrow> (int \<times> os) option" where
  "mnl2hal_send M_mnld_reboot k = mnl2hal_mnld_reboot k"
| "mnl2hal_send (M_location l) k = mnl2hal_location l k"
| "mnl2hal_send (M_gps_status v) k = mnl2hal_gps_status v k"
| "mnl2hal_send (M_gps_sv d) k = mnl2hal_gps_sv d k"
| "mnl2hal_send (M_nmea t s n) k = mnl2hal_nmea t s n k"
| "mnl2hal_send (M_gps_capabilities v) k = mnl2hal_gps_capabilities v k"
| "mnl2hal_send (M_gps_measurements d) k = mnl2hal_gps_measurements d k"
| "mnl2hal_send (M_gps_navigation d) k = mnl2hal_gps_navigation d k"
| "mnl2hal_send (M_gnss_measurements d) k = mnl2hal_gnss_measurements d k"
| "mnl2hal_send (M_gnss_navigation d) k = mnl2hal_gnss_navigation d k"
| "mnl2hal_send M_request_wakelock k = mnl2hal_request_wakelock k"
| "mnl2hal_send M_release_wakelock k = mnl2hal_release_wakelock k"
| "mnl2hal_send M_request_utc_time k = mnl2hal_request_utc_time k"
| "mnl2hal_send (M_request_data_conn a) k = mnl2hal_request_data_conn a k"
| "mnl2hal_send M_release_data_conn k = mnl2hal_release_data_conn k"
| "mnl2hal_send (M_request_ni_notify i t r c re ce) k = mnl2hal_request_ni_notify i t r c re ce k"
| "mnl2hal_send (M_request_set_id v) k = mnl2hal_request_set_id v k"
| "mnl2hal_send (M_request_ref_loc v) k = mnl2hal_request_ref_loc v k"

section \<open>The daemon's messages are written in the wire format\<close>

lemmas mnl2hal_defs =
  mnl2hal_mnld_reboot_def mnl2hal_location_def mnl2hal_gps_status_def mnl2hal_gps_sv_def mnl2hal_nmea_def
  mnl2hal_gps_capabilities_def mnl2hal_gps_measurements_def mnl2hal_gps_navigation_def
  mnl2hal_gnss_measurements_def mnl2hal_gnss_navigation_def mnl2hal_request_wakelock_def
  mnl2hal_release_wakelock_def mnl2hal_request_utc_time_def mnl2hal_request_data_conn_def
  mnl2hal_release_data_conn_def mnl2hal_request_ni_notify_def mnl2hal_request_set_id_def
  mnl2hal_request_ref_loc_def

lemma mnl2hal_send_transmit:
  assumes "m2h_fits m"
  shows "mnl2hal_send m k = Some (transmit MTK_MNL2HAL (m2h_wire m) k)"
  using assms
  by (cases m)
    (simp_all add: m2h_fits_def mnl2hal_defs m2h_head_def fresh_wr wire_put sizeof_defs HAL_MNL_BUFF_SIZE_def
      del: mnl2hal_code.simps)

end
