(* ===== verification/Float32.thy ===== *)
theory Float32
  imports Prelude "HOL-Library.Log_Nat"
begin

text \<open>
  Single-precision arithmetic on exact rationals, for the two \<open>float\<close> counters of
  \<open>hal2mnl_interface.c\<close> and the one \<open>float\<close>-to-\<open>int\<close> conversion of the daemon. \<open>f32_round\<close> rounds to
  24 significant bits, ties to even; it is used on values that are zero or at least one, where
  no subnormal occurs, and below \<open>2^31\<close>, where nothing overflows.
\<close>

definition round_even :: "rat \<Rightarrow> int" where
  "round_even q =
     (let f = \<lfloor>q\<rfloor>; d = q - of_int f
      in if d < 1 / 2 then f else if 1 / 2 < d then f + 1 else if even f then f else f + 1)"

definition f32_round :: "rat \<Rightarrow> rat" where
  "f32_round q =
     (let e = bitlen \<lfloor>q\<rfloor>
      in if e \<le> 24 then of_int (round_even (q * 2 ^ nat (24 - e))) / 2 ^ nat (24 - e)
         else of_int (round_even (q / 2 ^ nat (e - 24))) * 2 ^ nat (e - 24))"

lemma round_even_int [simp]: "round_even (of_int n) = n"
  by (simp add: round_even_def)

text \<open>Integers up to 24 bits are exact.\<close>

lemma f32_round_int:
  assumes "0 \<le> n" "n < 2 ^ 24"
  shows "f32_round (of_int n) = of_int n"
proof -
  have e: "bitlen n \<le> 24"
    using assms bitlen_le_iff_power [of n 24] by simp
  have "(of_int n * 2 ^ k :: rat) = of_int (n * 2 ^ k)" for k :: nat
    by simp
  then have "round_even (of_int n * 2 ^ k) = n * 2 ^ k" for k :: nat
    by (simp only: round_even_int)
  with e show ?thesis
    by (simp add: f32_round_def)
qed

text \<open>
  \<open>(int)x\<close> of a \<open>float\<close> given by its bit pattern: the fraction is dropped. Outside the range of \<open>int\<close>
  C leaves the result open; the conversion instruction of the ARM targets saturates and gives zero
  for a NaN.
\<close>

definition f32_to_int :: "f32 \<Rightarrow> i32" where
  "f32_to_int x =
     (let neg = bit x 31;
          ex = uint ((drop_bit 23 x) AND 0xff);
          man = uint (x AND 0x7fffff);
          sig = (if ex = 0 then man else man + 2 ^ 23);
          sh = (if ex = 0 then -149 else ex - 150);
          mag = (if sh \<ge> 0 then sig * 2 ^ nat sh else sig div 2 ^ nat (- sh));
          v = (if neg then - mag else mag)
      in if ex = 255 \<and> man \<noteq> 0 then 0
         else word_of_int (max (- (2 ^ 31)) (min (2 ^ 31 - 1) v)))"

end
