(* ===== verification/Hal2Mnl_Interface.thy ===== *)
theory Hal2Mnl_Interface
  imports Hal_Mnl_Common Float32
begin

text \<open>
  \<open>hal2mnl_interface.c\<close>, the HAL's end of the sockets: one function per message the HAL sends to the
  daemon, and \<open>mnl2hal_hdlr\<close>, which receives one message of the daemon and calls the HAL's callback.
  The file keeps two \<open>float\<close> counters that thin out location reports; they are the record
  \<open>hal_statics\<close>.
\<close>

record hal_statics =
  loc_count :: rat
  report_time_interval :: rat

definition hal_statics_init :: hal_statics where
  "hal_statics_init = \<lparr>loc_count = 0, report_time_interval = 0\<rparr>"

section \<open>Messages to the daemon\<close>

definition hal2mnl_hal_reboot :: "os \<Rightarrow> (int \<times> os) option" where
  "hal2mnl_hal_reboot k = do {
     b \<leftarrow> put_int HAL_MNL_INTERFACE_VERSION (fresh HAL_MNL_BUFF_SIZE);
     b \<leftarrow> put_int (hal2mnl_code HAL2MNL_HAL_REBOOT) b;
     safe_sendto MTK_HAL2MNL (buff b) (offset b) k }"

definition hal2mnl_gps_init :: "os \<Rightarrow> (int \<times> os) option" where
  "hal2mnl_gps_init k = do {
     b \<leftarrow> put_int HAL_MNL_INTERFACE_VERSION (fresh HAL_MNL_BUFF_SIZE);
     b \<leftarrow> put_int (hal2mnl_code HAL2MNL_GPS_INIT) b;
     safe_sendto MTK_HAL2MNL (buff b) (offset b) k }"

definition hal2mnl_gps_start :: "os \<Rightarrow> (int \<times> os) option" where
  "hal2mnl_gps_start k = do {
     b \<leftarrow> put_int HAL_MNL_INTERFACE_VERSION (fresh HAL_MNL_BUFF_SIZE);
     b \<leftarrow> put_int (hal2mnl_code HAL2MNL_GPS_START) b;
     safe_sendto MTK_HAL2MNL (buff b) (offset b) k }"

definition hal2mnl_gps_stop :: "os \<Rightarrow> (int \<times> os) option" where
  "hal2mnl_gps_stop k = do {
     b \<leftarrow> put_int HAL_MNL_INTERFACE_VERSION (fresh HAL_MNL_BUFF_SIZE);
     b \<leftarrow> put_int (hal2mnl_code HAL2MNL_GPS_STOP) b;
     safe_sendto MTK_HAL2MNL (buff b) (offset b) k }"

definition hal2mnl_gps_cleanup :: "os \<Rightarrow> (int \<times> os) option" where
  "hal2mnl_gps_cleanup k = do {
     b \<leftarrow> put_int HAL_MNL_INTERFACE_VERSION (fresh HAL_MNL_BUFF_SIZE);
     b \<leftarrow> put_int (hal2mnl_code HAL2MNL_GPS_CLEANUP) b;
     safe_sendto MTK_HAL2MNL (buff b) (offset b) k }"

definition hal2mnl_gps_inject_time :: "i64 \<Rightarrow> i64 \<Rightarrow> i32 \<Rightarrow> os \<Rightarrow> (int \<times> os) option" where
  "hal2mnl_gps_inject_time time time_reference uncertainty k = do {
     b \<leftarrow> put_int HAL_MNL_INTERFACE_VERSION (fresh HAL_MNL_BUFF_SIZE);
     b \<leftarrow> put_int (hal2mnl_code HAL2MNL_GPS_INJECT_TIME) b;
     b \<leftarrow> put_long time b;
     b \<leftarrow> put_long time_reference b;
     b \<leftarrow> put_int uncertainty b;
     safe_sendto MTK_HAL2MNL (buff b) (offset b) k }"

definition hal2mnl_gps_inject_location :: "f64 \<Rightarrow> f64 \<Rightarrow> f32 \<Rightarrow> os \<Rightarrow> (int \<times> os) option" where
  "hal2mnl_gps_inject_location lat lng acc k = do {
     b \<leftarrow> put_int HAL_MNL_INTERFACE_VERSION (fresh HAL_MNL_BUFF_SIZE);
     b \<leftarrow> put_int (hal2mnl_code HAL2MNL_GPS_INJECT_LOCATION) b;
     b \<leftarrow> put_double lat b;
     b \<leftarrow> put_double lng b;
     b \<leftarrow> put_float acc b;
     safe_sendto MTK_HAL2MNL (buff b) (offset b) k }"

definition hal2mnl_gps_delete_aiding_data :: "i32 \<Rightarrow> os \<Rightarrow> (int \<times> os) option" where
  "hal2mnl_gps_delete_aiding_data flags k = do {
     b \<leftarrow> put_int HAL_MNL_INTERFACE_VERSION (fresh HAL_MNL_BUFF_SIZE);
     b \<leftarrow> put_int (hal2mnl_code HAL2MNL_GPS_DELETE_AIDING_DATA) b;
     b \<leftarrow> put_int flags b;
     safe_sendto MTK_HAL2MNL (buff b) (offset b) k }"

definition hal2mnl_gps_set_position_mode ::
  "i32 \<Rightarrow> i32 \<Rightarrow> i32 \<Rightarrow> i32 \<Rightarrow> i32 \<Rightarrow> hal_statics \<Rightarrow> os \<Rightarrow> (int \<times> hal_statics \<times> os) option" where
  "hal2mnl_gps_set_position_mode mode recurrence min_interval preferred_acc preferred_time st k = do {
     b \<leftarrow> put_int HAL_MNL_INTERFACE_VERSION (fresh HAL_MNL_BUFF_SIZE);
     b \<leftarrow> put_int (hal2mnl_code HAL2MNL_GPS_SET_POSITION_MODE) b;
     b \<leftarrow> put_int mode b;
     b \<leftarrow> put_int recurrence b;
     b \<leftarrow> put_int min_interval b;
     b \<leftarrow> put_int preferred_acc b;
     b \<leftarrow> put_int preferred_time b;
     let st = (if sint min_interval \<le> 1000 then st\<lparr>report_time_interval := 1\<rparr>
               else st\<lparr>report_time_interval := f32_round (f32_round (of_int (sint min_interval)) / 1000)\<rparr>);
     (r, k) \<leftarrow> safe_sendto MTK_HAL2MNL (buff b) (offset b) k;
     Some (r, st, k) }"

definition hal2mnl_data_conn_open :: "cstr \<Rightarrow> os \<Rightarrow> (int \<times> os) option" where
  "hal2mnl_data_conn_open apn k = do {
     b \<leftarrow> put_int HAL_MNL_INTERFACE_VERSION (fresh HAL_MNL_BUFF_SIZE);
     b \<leftarrow> put_int (hal2mnl_code HAL2MNL_DATA_CONN_OPEN) b;
     b \<leftarrow> put_string apn b;
     safe_sendto MTK_HAL2MNL (buff b) (offset b) k }"

definition hal2mnl_data_conn_open_with_apn_ip_type :: "cstr \<Rightarrow> i32 \<Rightarrow> os \<Rightarrow> (int \<times> os) option" where
  "hal2mnl_data_conn_open_with_apn_ip_type apn ip_type k = do {
     b \<leftarrow> put_int HAL_MNL_INTERFACE_VERSION (fresh HAL_MNL_BUFF_SIZE);
     b \<leftarrow> put_int (hal2mnl_code HAL2MNL_DATA_CONN_OPEN_WITH_APN_IP_TYPE) b;
     b \<leftarrow> put_string apn b;
     b \<leftarrow> put_int ip_type b;
     safe_sendto MTK_HAL2MNL (buff b) (offset b) k }"

definition hal2mnl_data_conn_closed :: "os \<Rightarrow> (int \<times> os) option" where
  "hal2mnl_data_conn_closed k = do {
     b \<leftarrow> put_int HAL_MNL_INTERFACE_VERSION (fresh HAL_MNL_BUFF_SIZE);
     b \<leftarrow> put_int (hal2mnl_code HAL2MNL_DATA_CONN_CLOSED) b;
     safe_sendto MTK_HAL2MNL (buff b) (offset b) k }"

definition hal2mnl_data_conn_failed :: "os \<Rightarrow> (int \<times> os) option" where
  "hal2mnl_data_conn_failed k = do {
     b \<leftarrow> put_int HAL_MNL_INTERFACE_VERSION (fresh HAL_MNL_BUFF_SIZE);
     b \<leftarrow> put_int (hal2mnl_code HAL2MNL_DATA_CONN_FAILED) b;
     safe_sendto MTK_HAL2MNL (buff b) (offset b) k }"

definition hal2mnl_set_server :: "i32 \<Rightarrow> cstr \<Rightarrow> i32 \<Rightarrow> os \<Rightarrow> (int \<times> os) option" where
  "hal2mnl_set_server type hostname port k = do {
     b \<leftarrow> put_int HAL_MNL_INTERFACE_VERSION (fresh HAL_MNL_BUFF_SIZE);
     b \<leftarrow> put_int (hal2mnl_code HAL2MNL_SET_SERVER) b;
     b \<leftarrow> put_int type b;
     b \<leftarrow> put_string hostname b;
     b \<leftarrow> put_int port b;
     safe_sendto MTK_HAL2MNL (buff b) (offset b) k }"

definition hal2mnl_set_ref_location :: "i32 \<Rightarrow> i32 \<Rightarrow> i32 \<Rightarrow> i32 \<Rightarrow> i32 \<Rightarrow> os \<Rightarrow> (int \<times> os) option" where
  "hal2mnl_set_ref_location type mcc mnc lac cid k = do {
     b \<leftarrow> put_int HAL_MNL_INTERFACE_VERSION (fresh HAL_MNL_BUFF_SIZE);
     b \<leftarrow> put_int (hal2mnl_code HAL2MNL_SET_REF_LOCATION) b;
     b \<leftarrow> put_int type b;
     b \<leftarrow> put_int mcc b;
     b \<leftarrow> put_int mnc b;
     b \<leftarrow> put_int lac b;
     b \<leftarrow> put_int cid b;
     safe_sendto MTK_HAL2MNL (buff b) (offset b) k }"

definition hal2mnl_set_id :: "i32 \<Rightarrow> cstr \<Rightarrow> os \<Rightarrow> (int \<times> os) option" where
  "hal2mnl_set_id type setid k = do {
     b \<leftarrow> put_int HAL_MNL_INTERFACE_VERSION (fresh HAL_MNL_BUFF_SIZE);
     b \<leftarrow> put_int (hal2mnl_code HAL2MNL_SET_ID) b;
     b \<leftarrow> put_int type b;
     b \<leftarrow> put_string setid b;
     safe_sendto MTK_HAL2MNL (buff b) (offset b) k }"

definition hal2mnl_ni_message :: "byte list \<Rightarrow> i32 \<Rightarrow> os \<Rightarrow> (int \<times> os) option" where
  "hal2mnl_ni_message msg len k = do {
     b \<leftarrow> put_int HAL_MNL_INTERFACE_VERSION (fresh HAL_MNL_BUFF_SIZE);
     b \<leftarrow> put_int (hal2mnl_code HAL2MNL_NI_MESSAGE) b;
     b \<leftarrow> put_binary msg len b;
     safe_sendto MTK_HAL2MNL (buff b) (offset b) k }"

definition hal2mnl_ni_respond :: "i32 \<Rightarrow> i32 \<Rightarrow> os \<Rightarrow> (int \<times> os) option" where
  "hal2mnl_ni_respond notif_id user_response k = do {
     b \<leftarrow> put_int HAL_MNL_INTERFACE_VERSION (fresh HAL_MNL_BUFF_SIZE);
     b \<leftarrow> put_int (hal2mnl_code HAL2MNL_NI_RESPOND) b;
     b \<leftarrow> put_int notif_id b;
     b \<leftarrow> put_int user_response b;
     safe_sendto MTK_HAL2MNL (buff b) (offset b) k }"

definition hal2mnl_update_network_state :: "i32 \<Rightarrow> i32 \<Rightarrow> i32 \<Rightarrow> cstr \<Rightarrow> os \<Rightarrow> (int \<times> os) option" where
  "hal2mnl_update_network_state is_connected type roaming extra_info k = do {
     b \<leftarrow> put_int HAL_MNL_INTERFACE_VERSION (fresh HAL_MNL_BUFF_SIZE);
     b \<leftarrow> put_int (hal2mnl_code HAL2MNL_UPDATE_NETWORK_STATE) b;
     b \<leftarrow> put_int is_connected b;
     b \<leftarrow> put_int type b;
     b \<leftarrow> put_int roaming b;
     b \<leftarrow> put_string extra_info b;
     safe_sendto MTK_HAL2MNL (buff b) (offset b) k }"

definition hal2mnl_update_network_availability :: "i32 \<Rightarrow> cstr \<Rightarrow> os \<Rightarrow> (int \<times> os) option" where
  "hal2mnl_update_network_availability available apn k = do {
     b \<leftarrow> put_int HAL_MNL_INTERFACE_VERSION (fresh HAL_MNL_BUFF_SIZE);
     b \<leftarrow> put_int (hal2mnl_code HAL2MNL_UPDATE_NETWORK_AVAILABILITY) b;
     b \<leftarrow> put_int available b;
     b \<leftarrow> put_string apn b;
     safe_sendto MTK_HAL2MNL (buff b) (offset b) k }"

definition hal2mnl_set_gps_measurement :: "bool \<Rightarrow> os \<Rightarrow> (int \<times> os) option" where
  "hal2mnl_set_gps_measurement enabled k = do {
     b \<leftarrow> put_int HAL_MNL_INTERFACE_VERSION (fresh HAL_MNL_BUFF_SIZE);
     b \<leftarrow> put_int (hal2mnl_code HAL2MNL_GPS_MEASUREMENT) b;
     b \<leftarrow> put_int (of_bool enabled) b;
     safe_sendto MTK_HAL2MNL (buff b) (offset b) k }"

definition hal2mnl_set_gps_navigation :: "bool \<Rightarrow> os \<Rightarrow> (int \<times> os) option" where
  "hal2mnl_set_gps_navigation enabled k = do {
     b \<leftarrow> put_int HAL_MNL_INTERFACE_VERSION (fresh HAL_MNL_BUFF_SIZE);
     b \<leftarrow> put_int (hal2mnl_code HAL2MNL_GPS_NAVIGATION) b;
     b \<leftarrow> put_int (of_bool enabled) b;
     safe_sendto MTK_HAL2MNL (buff b) (offset b) k }"

section \<open>Messages from the daemon\<close>

record 's mnl2hal_interface =
  m2h_mnld_reboot :: "'s act option"
  m2h_location :: "(byte list \<Rightarrow> 's act) option"
  m2h_gps_status :: "(i32 \<Rightarrow> 's act) option"
  m2h_gps_sv :: "(byte list \<Rightarrow> 's act) option"
  m2h_nmea :: "(i64 \<Rightarrow> cstr \<Rightarrow> i32 \<Rightarrow> 's act) option"
  m2h_gps_capabilities :: "(i32 \<Rightarrow> 's act) option"
  m2h_gps_measurements :: "(byte list \<Rightarrow> 's act) option"
  m2h_gps_navigation :: "(byte list \<Rightarrow> 's act) option"
  m2h_gnss_measurements :: "(byte list \<Rightarrow> 's act) option"
  m2h_gnss_navigation :: "(byte list \<Rightarrow> 's act) option"
  m2h_request_wakelock :: "'s act option"
  m2h_release_wakelock :: "'s act option"
  m2h_request_utc_time :: "'s act option"
  m2h_request_data_conn :: "(byte list \<Rightarrow> 's act) option"
  m2h_release_data_conn :: "'s act option"
  m2h_request_ni_notify :: "(i32 \<Rightarrow> i32 \<Rightarrow> cstr \<Rightarrow> cstr \<Rightarrow> i32 \<Rightarrow> i32 \<Rightarrow> 's act) option"
  m2h_request_set_id :: "(i32 \<Rightarrow> 's act) option"
  m2h_request_ref_loc :: "(i32 \<Rightarrow> 's act) option"

text \<open>The counters of the file stay as they are in every branch but one.\<close>

definition keep :: "'t \<Rightarrow> (int \<times> 's) option \<Rightarrow> (int \<times> 't \<times> 's) option" where
  "keep st r = map_option (\<lambda>(ret, s). (ret, st, s)) r"

definition mnl2hal_hdlr :: "abi \<Rightarrow> (nat \<Rightarrow> byte) \<Rightarrow> rx_ans list \<Rightarrow> 's mnl2hal_interface \<Rightarrow> hal_statics \<Rightarrow> 's
    \<Rightarrow> (int \<times> hal_statics \<times> 's) option" where
  "mnl2hal_hdlr abi junk rx hdlr st s =
    (let (read_len, mem) = safe_recvfrom rx (replicate HAL_MNL_BUFF_SIZE 0)
     in if read_len \<le> 0 then Some (-1, st, s)
     else do {
       (ver, b) \<leftarrow> get_int (cursor mem);
       (cmd, b) \<leftarrow> get_int b;
       (case mnl2hal_cmd_of cmd of
          Some MNL2HAL_MNLD_REBOOT \<Rightarrow> keep st (with_cb (m2h_mnld_reboot hdlr) (\<lambda>f s. f s) s)
        | Some MNL2HAL_LOCATION \<Rightarrow>
            (let st = st\<lparr>loc_count := f32_round (loc_count st + 1)\<rparr>
             in if report_time_interval st > loc_count st then Some (0, st, s)
             else keep (st\<lparr>loc_count := 0\<rparr>) (with_cb (m2h_location hdlr) (\<lambda>f s. do {
               ((len, location), b) \<leftarrow> get_binary (uninit junk sizeof_gps_location) b;
               f location s }) s))
        | Some MNL2HAL_GPS_STATUS \<Rightarrow> keep st (with_cb (m2h_gps_status hdlr) (\<lambda>f s. do {
            ((len, status), b) \<leftarrow> get_binary (uninit junk 4) b;
            f (field_int status 0) s }) s)
        | Some MNL2HAL_GPS_SV \<Rightarrow> keep st (with_cb (m2h_gps_sv hdlr) (\<lambda>f s. do {
            ((len, sv), b) \<leftarrow> get_binary (uninit junk sizeof_gnss_sv_info) b;
            f sv s }) s)
        | Some MNL2HAL_NMEA \<Rightarrow> keep st (with_cb (m2h_nmea hdlr) (\<lambda>f s. do {
            (timestamp, b) \<leftarrow> get_long b;
            (nmea, b) \<leftarrow> get_cstr b;
            (len, b) \<leftarrow> get_int b;
            f timestamp nmea len s }) s)
        | Some MNL2HAL_GPS_CAPABILITIES \<Rightarrow> keep st (with_cb (m2h_gps_capabilities hdlr) (\<lambda>f s. do {
            ((len, capabilities), b) \<leftarrow> get_binary (uninit junk 4) b;
            f (field_int capabilities 0) s }) s)
        | Some MNL2HAL_GPS_MEASUREMENTS \<Rightarrow> keep st (with_cb (m2h_gps_measurements hdlr) (\<lambda>f s. do {
            ((len, data), b) \<leftarrow> get_binary (uninit junk sizeof_gps_data) b;
            f data s }) s)
        | Some MNL2HAL_GPS_NAVIGATION \<Rightarrow> keep st (with_cb (m2h_gps_navigation hdlr) (\<lambda>f s. do {
            ((len, msg), b) \<leftarrow> get_binary (uninit junk (sizeof_gps_nav_msg abi)) b;
            f msg s }) s)
        | Some MNL2HAL_GNSS_MEASUREMENTS \<Rightarrow> keep st (with_cb (m2h_gnss_measurements hdlr) (\<lambda>f s. do {
            ((len, data), b) \<leftarrow> get_binary (uninit junk sizeof_gnss_data) b;
            f data s }) s)
        | Some MNL2HAL_GNSS_NAVIGATION \<Rightarrow> keep st (with_cb (m2h_gnss_navigation hdlr) (\<lambda>f s. do {
            ((len, msg), b) \<leftarrow> get_binary (uninit junk (sizeof_gnss_nav_msg abi)) b;
            f msg s }) s)
        | Some MNL2HAL_REQUEST_WAKELOCK \<Rightarrow> keep st (with_cb (m2h_request_wakelock hdlr) (\<lambda>f s. f s) s)
        | Some MNL2HAL_RELEASE_WAKELOCK \<Rightarrow> keep st (with_cb (m2h_release_wakelock hdlr) (\<lambda>f s. f s) s)
        | Some MNL2HAL_REQUEST_UTC_TIME \<Rightarrow> keep st (with_cb (m2h_request_utc_time hdlr) (\<lambda>f s. f s) s)
        | Some MNL2HAL_REQUEST_DATA_CONN \<Rightarrow> keep st (with_cb (m2h_request_data_conn hdlr) (\<lambda>f s. do {
            ((len, addr), b) \<leftarrow> get_binary (uninit junk sizeof_sockaddr_storage) b;
            f addr s }) s)
        | Some MNL2HAL_RELEASE_DATA_CONN \<Rightarrow> keep st (with_cb (m2h_release_data_conn hdlr) (\<lambda>f s. f s) s)
        | Some MNL2HAL_REQUEST_NI_NOTIFY \<Rightarrow> keep st (with_cb (m2h_request_ni_notify hdlr) (\<lambda>f s. do {
            (session_id, b) \<leftarrow> get_int b;
            (type, b) \<leftarrow> get_int b;
            (requestor_id, b) \<leftarrow> get_cstr b;
            (client_name, b) \<leftarrow> get_cstr b;
            (requestor_id_encoding, b) \<leftarrow> get_int b;
            (client_name_encoding, b) \<leftarrow> get_int b;
            f session_id type requestor_id client_name requestor_id_encoding client_name_encoding s }) s)
        | Some MNL2HAL_REQUEST_SET_ID \<Rightarrow> keep st (with_cb (m2h_request_set_id hdlr) (\<lambda>f s. do {
            (flags, b) \<leftarrow> get_int b;
            f flags s }) s)
        | Some MNL2HAL_REQUEST_REF_LOC \<Rightarrow> keep st (with_cb (m2h_request_ref_loc hdlr) (\<lambda>f s. do {
            (flags, b) \<leftarrow> get_int b;
            f flags s }) s)
        | None \<Rightarrow> Some (-1, st, s)) })"

section \<open>The messages of the HAL as values\<close>

datatype hal2mnl_msg =
    H_hal_reboot | H_gps_init | H_gps_start | H_gps_stop | H_gps_cleanup | H_gps_inject_time i64 i64 i32
  | H_gps_inject_location f64 f64 f32 | H_gps_delete_aiding_data i32
  | H_gps_set_position_mode i32 i32 i32 i32 i32 | H_data_conn_open cstr
  | H_data_conn_open_with_apn_ip_type cstr i32 | H_data_conn_closed | H_data_conn_failed
  | H_set_server i32 cstr i32 | H_set_ref_location i32 i32 i32 i32 i32 | H_set_id i32 cstr
  | H_ni_message "byte list" | H_ni_respond i32 i32 | H_update_network_state i32 i32 i32 cstr
  | H_update_network_availability i32 cstr | H_set_gps_measurement bool | H_set_gps_navigation bool

definition h2m_head :: "hal2mnl_cmd \<Rightarrow> byte list" where
  "h2m_head c = enc_int HAL_MNL_INTERFACE_VERSION @ enc_int (hal2mnl_code c)"

primrec h2m_wire :: "hal2mnl_msg \<Rightarrow> byte list" where
  "h2m_wire H_hal_reboot = h2m_head HAL2MNL_HAL_REBOOT"
| "h2m_wire H_gps_init = h2m_head HAL2MNL_GPS_INIT"
| "h2m_wire H_gps_start = h2m_head HAL2MNL_GPS_START"
| "h2m_wire H_gps_stop = h2m_head HAL2MNL_GPS_STOP"
| "h2m_wire H_gps_cleanup = h2m_head HAL2MNL_GPS_CLEANUP"
| "h2m_wire (H_gps_inject_time t r u) = h2m_head HAL2MNL_GPS_INJECT_TIME @ enc_long t @ enc_long r @ enc_int u"
| "h2m_wire (H_gps_inject_location la lo a) =
     h2m_head HAL2MNL_GPS_INJECT_LOCATION @ enc_long la @ enc_long lo @ enc_int a"
| "h2m_wire (H_gps_delete_aiding_data f) = h2m_head HAL2MNL_GPS_DELETE_AIDING_DATA @ enc_int f"
| "h2m_wire (H_gps_set_position_mode m r i a t) = h2m_head HAL2MNL_GPS_SET_POSITION_MODE
     @ enc_int m @ enc_int r @ enc_int i @ enc_int a @ enc_int t"
| "h2m_wire (H_data_conn_open apn) = h2m_head HAL2MNL_DATA_CONN_OPEN @ enc_string apn"
| "h2m_wire (H_data_conn_open_with_apn_ip_type apn t) =
     h2m_head HAL2MNL_DATA_CONN_OPEN_WITH_APN_IP_TYPE @ enc_string apn @ enc_int t"
| "h2m_wire H_data_conn_closed = h2m_head HAL2MNL_DATA_CONN_CLOSED"
| "h2m_wire H_data_conn_failed = h2m_head HAL2MNL_DATA_CONN_FAILED"
| "h2m_wire (H_set_server t h p) = h2m_head HAL2MNL_SET_SERVER @ enc_int t @ enc_string h @ enc_int p"
| "h2m_wire (H_set_ref_location t mcc mnc lac cid) = h2m_head HAL2MNL_SET_REF_LOCATION
     @ enc_int t @ enc_int mcc @ enc_int mnc @ enc_int lac @ enc_int cid"
| "h2m_wire (H_set_id t i) = h2m_head HAL2MNL_SET_ID @ enc_int t @ enc_string i"
| "h2m_wire (H_ni_message d) = h2m_head HAL2MNL_NI_MESSAGE @ enc_binary d"
| "h2m_wire (H_ni_respond i r) = h2m_head HAL2MNL_NI_RESPOND @ enc_int i @ enc_int r"
| "h2m_wire (H_update_network_state c t r e) =
     h2m_head HAL2MNL_UPDATE_NETWORK_STATE @ enc_int c @ enc_int t @ enc_int r @ enc_string e"
| "h2m_wire (H_update_network_availability a apn) =
     h2m_head HAL2MNL_UPDATE_NETWORK_AVAILABILITY @ enc_int a @ enc_string apn"
| "h2m_wire (H_set_gps_measurement e) = h2m_head HAL2MNL_GPS_MEASUREMENT @ enc_int (of_bool e)"
| "h2m_wire (H_set_gps_navigation e) = h2m_head HAL2MNL_GPS_NAVIGATION @ enc_int (of_bool e)"

fun h2m_wf :: "hal2mnl_msg \<Rightarrow> bool" where
  "h2m_wf (H_data_conn_open apn) = ok_string apn"
| "h2m_wf (H_data_conn_open_with_apn_ip_type apn t) = ok_string apn"
| "h2m_wf (H_set_server t h p) = ok_string h"
| "h2m_wf (H_set_id t i) = ok_string i"
| "h2m_wf (H_ni_message d) = (length d < 2 ^ 31)"
| "h2m_wf (H_update_network_state c t r e) = ok_string e"
| "h2m_wf (H_update_network_availability a apn) = ok_string apn"
| "h2m_wf _ = True"

definition h2m_fits :: "hal2mnl_msg \<Rightarrow> bool" where
  "h2m_fits m = (h2m_wf m \<and> length (h2m_wire m) \<le> HAL_MNL_BUFF_SIZE)"

text \<open>The function of the HAL that sends a message.\<close>

primrec hal2mnl_send :: "hal2mnl_msg \<Rightarrow> hal_statics \<Rightarrow> os \<Rightarrow> (int \<times> os) option" where
  "hal2mnl_send H_hal_reboot st k = hal2mnl_hal_reboot k"
| "hal2mnl_send H_gps_init st k = hal2mnl_gps_init k"
| "hal2mnl_send H_gps_start st k = hal2mnl_gps_start k"
| "hal2mnl_send H_gps_stop st k = hal2mnl_gps_stop k"
| "hal2mnl_send H_gps_cleanup st k = hal2mnl_gps_cleanup k"
| "hal2mnl_send (H_gps_inject_time t r u) st k = hal2mnl_gps_inject_time t r u k"
| "hal2mnl_send (H_gps_inject_location la lo a) st k = hal2mnl_gps_inject_location la lo a k"
| "hal2mnl_send (H_gps_delete_aiding_data f) st k = hal2mnl_gps_delete_aiding_data f k"
| "hal2mnl_send (H_gps_set_position_mode m r i a t) st k =
     map_option (\<lambda>(ret, st, k). (ret, k)) (hal2mnl_gps_set_position_mode m r i a t st k)"
| "hal2mnl_send (H_data_conn_open apn) st k = hal2mnl_data_conn_open apn k"
| "hal2mnl_send (H_data_conn_open_with_apn_ip_type apn t) st k = hal2mnl_data_conn_open_with_apn_ip_type apn t k"
| "hal2mnl_send H_data_conn_closed st k = hal2mnl_data_conn_closed k"
| "hal2mnl_send H_data_conn_failed st k = hal2mnl_data_conn_failed k"
| "hal2mnl_send (H_set_server t h p) st k = hal2mnl_set_server t h p k"
| "hal2mnl_send (H_set_ref_location t mcc mnc lac cid) st k = hal2mnl_set_ref_location t mcc mnc lac cid k"
| "hal2mnl_send (H_set_id t i) st k = hal2mnl_set_id t i k"
| "hal2mnl_send (H_ni_message d) st k = hal2mnl_ni_message d (word_of_nat (length d)) k"
| "hal2mnl_send (H_ni_respond i r) st k = hal2mnl_ni_respond i r k"
| "hal2mnl_send (H_update_network_state c t r e) st k = hal2mnl_update_network_state c t r e k"
| "hal2mnl_send (H_update_network_availability a apn) st k = hal2mnl_update_network_availability a apn k"
| "hal2mnl_send (H_set_gps_measurement e) st k = hal2mnl_set_gps_measurement e k"
| "hal2mnl_send (H_set_gps_navigation e) st k = hal2mnl_set_gps_navigation e k"

section \<open>The HAL's messages are written in the wire format\<close>

lemmas hal2mnl_defs =
  hal2mnl_hal_reboot_def hal2mnl_gps_init_def hal2mnl_gps_start_def hal2mnl_gps_stop_def
  hal2mnl_gps_cleanup_def hal2mnl_gps_inject_time_def hal2mnl_gps_inject_location_def
  hal2mnl_gps_delete_aiding_data_def hal2mnl_gps_set_position_mode_def hal2mnl_data_conn_open_def
  hal2mnl_data_conn_open_with_apn_ip_type_def hal2mnl_data_conn_closed_def hal2mnl_data_conn_failed_def
  hal2mnl_set_server_def hal2mnl_set_ref_location_def hal2mnl_set_id_def hal2mnl_ni_message_def
  hal2mnl_ni_respond_def hal2mnl_update_network_state_def hal2mnl_update_network_availability_def
  hal2mnl_set_gps_measurement_def hal2mnl_set_gps_navigation_def

lemma hal2mnl_send_transmit:
  assumes "h2m_fits m"
  shows "hal2mnl_send m st k = Some (transmit MTK_HAL2MNL (h2m_wire m) k)"
  using assms
  by (cases m)
    (simp_all add: h2m_fits_def hal2mnl_defs h2m_head_def fresh_wr wire_put sint_word_of_nat
      HAL_MNL_BUFF_SIZE_def Let_def split_beta del: hal2mnl_code.simps)

end
