(* ===== verification/Channel.thy ===== *)
theory Channel
  imports Lbs_Utility
begin

text \<open>
  What a pair of generated message endpoints promises: the sender writes exactly the wire form of
  a message, and the handler, given that datagram, does what the message asks for. The locale
  \<open>channel\<close> states the two laws; what follows from them for whole sessions over a socket that
  may lose messages is proved once, and holds for every interface of the stack that is shown to
  be a channel.
\<close>

section \<open>Sessions\<close>

text \<open>The datagrams that have arrived at a socket, oldest first.\<close>

definition inbox :: "string \<Rightarrow> os \<Rightarrow> byte list list" where
  "inbox path k = map snd (filter (\<lambda>(p, d). p = path) (delivered k))"

text \<open>Sending several messages, with the value each call returned.\<close>

primrec send_all :: "('m \<Rightarrow> os \<Rightarrow> (int \<times> os) option) \<Rightarrow> 'm list \<Rightarrow> os \<Rightarrow> (int list \<times> os) option" where
  "send_all send [] k = Some ([], k)"
| "send_all send (m # ms) k = do {
     (r, k) \<leftarrow> send m k;
     (rs, k) \<leftarrow> send_all send ms k;
     Some (r # rs, k) }"

text \<open>Processing several inputs one after the other.\<close>

primrec run_all :: "('x \<Rightarrow> 's \<Rightarrow> (int \<times> 's) option) \<Rightarrow> 'x list \<Rightarrow> 's \<Rightarrow> 's option" where
  "run_all step [] s = Some s"
| "run_all step (x # xs) s = do { (r, s) \<leftarrow> step x s; run_all step xs s }"

text \<open>The messages whose call did not report a failure.\<close>

definition accepted :: "'m list \<Rightarrow> int list \<Rightarrow> 'm list" where
  "accepted ms rs = map fst (filter (\<lambda>(m, r). r \<noteq> -1) (zip ms rs))"

lemma accepted_simps [simp]:
  "accepted [] rs = []"
  "accepted (m # ms) (r # rs) = (if r = -1 then accepted ms rs else m # accepted ms rs)"
  by (simp_all add: accepted_def)

lemma accepted_all: "length rs = length ms \<Longrightarrow> -1 \<notin> set rs \<Longrightarrow> accepted ms rs = ms"
  by (induction rs ms rule: list_induct2) auto

lemma accepted_subset: "set (accepted ms rs) \<subseteq> set ms"
  by (auto simp: accepted_def dest: set_zip_leftD)

lemma inbox_sent [simp]:
  "inbox path (sent path d k) = inbox path k @ (if fst (post path d k) then [d] else [])"
  by (auto simp: inbox_def delivered_sent)

lemma inbox_sent_other [simp]: "path \<noteq> path' \<Longrightarrow> inbox path (sent path' d k) = inbox path k"
  by (simp add: inbox_def delivered_sent)

lemma inbox_set_timers [simp]: "inbox path (k\<lparr>timers := t\<rparr>) = inbox path k"
  by (simp add: inbox_def delivered_def)

section \<open>The channel contract\<close>

locale channel =
  fixes path :: string
    and wire :: "'m \<Rightarrow> byte list"
    and fits :: "'m \<Rightarrow> bool"
    and safe :: "'m \<Rightarrow> bool"
    and done_val :: "'m \<Rightarrow> int"
    and send :: "'m \<Rightarrow> os \<Rightarrow> (int \<times> os) option"
    and handle :: "rx_ans list \<Rightarrow> 's \<Rightarrow> (int \<times> 's) option"
    and dispatch :: "'m \<Rightarrow> 's \<Rightarrow> (int \<times> 's) option"
  assumes send_ok: "fits m \<Longrightarrow>
        send m k = Some (if fst (post path (wire m) k) then done_val m else -1, sent path (wire m) k)"
    and done_val_ok: "done_val m \<noteq> -1"
    and recv_ok: "fits m \<Longrightarrow> safe m \<Longrightarrow> recvfrom_loop rx 10 = Some (wire m) \<Longrightarrow> handle rx s = dispatch m s"
begin

lemma send_all_ok:
  assumes "list_all fits ms"
  shows "\<exists>rs k'. send_all send ms k = Some (rs, k') \<and> length rs = length ms
      \<and> inbox path k' = inbox path k @ map wire (accepted ms rs)"
  using assms
proof (induction ms arbitrary: k)
  case Nil
  then show ?case by simp
next
  case (Cons m ms)
  let ?r = "if fst (post path (wire m) k) then done_val m else -1" and ?k = "sent path (wire m) k"
  from Cons obtain rs k' where "send_all send ms ?k = Some (rs, k')" "length rs = length ms"
    "inbox path k' = inbox path ?k @ map wire (accepted ms rs)"
    by force
  moreover from Cons.prems have "send m k = Some (?r, ?k)"
    by (simp add: send_ok)
  ultimately show ?case by (intro exI [of _ "?r # rs"] exI [of _ k']) (simp add: done_val_ok)
qed

lemma send_all_healthy:
  assumes "list_all fits ms" "answers k = []"
  shows "\<exists>rs k'. send_all send ms k = Some (rs, k') \<and> rs = map done_val ms"
  using assms
proof (induction ms arbitrary: k)
  case Nil
  then show ?case by simp
next
  case (Cons m ms)
  let ?k = "sent path (wire m) k"
  from Cons.prems have "send m k = Some (done_val m, ?k)"
    by (simp add: send_ok post_healthy)
  with Cons answers_healthy [of k path "wire m"] show ?case by force
qed

lemma recv_one: "fits m \<Longrightarrow> safe m \<Longrightarrow> handle [Datagram (wire m)] s = dispatch m s"
  by (rule recv_ok) simp_all

lemma run_all_ok:
  assumes "list_all fits ms" "list_all safe ms"
  shows "run_all handle (map (\<lambda>m. [Datagram (wire m)]) ms) s = run_all dispatch ms s"
  using assms
  by (induction ms arbitrary: s) (simp_all add: recv_one)

text \<open>
  A session: what the receiver does with everything that arrived is what the accepted messages
  ask for, in the order in which they were sent.
\<close>

lemma session:
  assumes "list_all fits ms" "list_all safe ms" "inbox path k = []"
  shows "\<exists>rs k'. send_all send ms k = Some (rs, k') \<and> length rs = length ms
      \<and> run_all handle (map (\<lambda>d. [Datagram d]) (inbox path k')) s = run_all dispatch (accepted ms rs) s"
proof -
  from send_all_ok [OF assms(1), of k] obtain rs k' where
    s: "send_all send ms k = Some (rs, k')" "length rs = length ms"
      "inbox path k' = inbox path k @ map wire (accepted ms rs)"
    by blast
  have "list_all fits (accepted ms rs)" "list_all safe (accepted ms rs)"
    using assms(1,2) accepted_subset [of ms rs] by (auto simp: list_all_iff)
  from run_all_ok [OF this, of s] s assms(3) show ?thesis
    by (simp add: comp_def)
qed

text \<open>With a kernel that takes everything no message is missing.\<close>

lemma session_healthy:
  assumes "list_all fits ms" "list_all safe ms" "inbox path k = []" "answers k = []"
  shows "\<exists>rs k'. send_all send ms k = Some (rs, k')
      \<and> run_all handle (map (\<lambda>d. [Datagram d]) (inbox path k')) s = run_all dispatch ms s"
proof -
  from session [OF assms(1-3), of s] obtain rs k' where
    s: "send_all send ms k = Some (rs, k')" "length rs = length ms"
      "run_all handle (map (\<lambda>d. [Datagram d]) (inbox path k')) s = run_all dispatch (accepted ms rs) s"
    by blast
  from send_all_healthy [OF assms(1,4)] s(1) done_val_ok have "-1 \<notin> set rs" by force
  with s(2) have "accepted ms rs = ms" by (rule accepted_all)
  with s show ?thesis by auto
qed

end

end
