(* ===== verification/Hal_Channel.thy ===== *)
theory Hal_Channel
  imports Mnl2Hal_Interface Hal2Mnl_Interface Channel
begin

text \<open>
  The two directions of the HAL sockets as channels: what each message asks of the callback table
  of the receiver, and the proof that \<open>hal2mnl_hdlr\<close> and \<open>mnl2hal_hdlr\<close> do it for every datagram the
  other side writes.
\<close>

section \<open>HAL to daemon\<close>

primrec h2m_dispatch :: "'s hal2mnl_interface \<Rightarrow> hal2mnl_msg \<Rightarrow> 's \<Rightarrow> (int \<times> 's) option" where
  "h2m_dispatch h H_hal_reboot = with_cb (h2m_hal_reboot h) id"
| "h2m_dispatch h H_gps_init = with_cb (h2m_gps_init h) id"
| "h2m_dispatch h H_gps_start = with_cb (h2m_gps_start h) id"
| "h2m_dispatch h H_gps_stop = with_cb (h2m_gps_stop h) id"
| "h2m_dispatch h H_gps_cleanup = with_cb (h2m_gps_cleanup h) id"
| "h2m_dispatch h (H_gps_inject_time t r u) = with_cb (h2m_gps_inject_time h) (\<lambda>f. f t r u)"
| "h2m_dispatch h (H_gps_inject_location la lo a) = with_cb (h2m_gps_inject_location h) (\<lambda>f. f la lo a)"
| "h2m_dispatch h (H_gps_delete_aiding_data fl) = with_cb (h2m_gps_delete_aiding_data h) (\<lambda>f. f fl)"
| "h2m_dispatch h (H_gps_set_position_mode m r i a t) = with_cb (h2m_gps_set_position_mode h) (\<lambda>f. f m r i a t)"
| "h2m_dispatch h (H_data_conn_open apn) = with_cb (h2m_data_conn_open h) (\<lambda>f. f apn)"
| "h2m_dispatch h (H_data_conn_open_with_apn_ip_type apn t) =
     with_cb (h2m_data_conn_open_with_apn_ip_type h) (\<lambda>f. f apn t)"
| "h2m_dispatch h H_data_conn_closed = with_cb (h2m_data_conn_closed h) id"
| "h2m_dispatch h H_data_conn_failed = with_cb (h2m_data_conn_failed h) id"
| "h2m_dispatch h (H_set_server t n p) = with_cb (h2m_set_server h) (\<lambda>f. f t n p)"
| "h2m_dispatch h (H_set_ref_location t mcc mnc lac cid) = with_cb (h2m_set_ref_location h) (\<lambda>f. f t mcc mnc lac cid)"
| "h2m_dispatch h (H_set_id t i) = with_cb (h2m_set_id h) (\<lambda>f. f t i)"
| "h2m_dispatch h (H_ni_message d) =
     with_cb (h2m_ni_message h) (\<lambda>f. f (d @ replicate (1024 - length d) 0) (word_of_nat (length d)))"
| "h2m_dispatch h (H_ni_respond i r) = with_cb (h2m_ni_respond h) (\<lambda>f. f i r)"
| "h2m_dispatch h (H_update_network_state c t r e) = with_cb (h2m_update_network_state h) (\<lambda>f. f c t r e)"
| "h2m_dispatch h (H_update_network_availability a apn) = with_cb (h2m_update_network_availability h) (\<lambda>f. f a apn)"
| "h2m_dispatch h (H_set_gps_measurement e) = with_cb (h2m_set_gps_measurement h) (\<lambda>f. f e)"
| "h2m_dispatch h (H_set_gps_navigation e) = with_cb (h2m_set_gps_navigation h) (\<lambda>f. f e)"

text \<open>
  The receiver copies a network-initiated message into a local array of 1024 bytes.
\<close>

fun h2m_safe :: "hal2mnl_msg \<Rightarrow> bool" where
  "h2m_safe (H_ni_message d) = (length d \<le> 1024)"
| "h2m_safe _ = True"

section \<open>Daemon to HAL\<close>

definition rate_limit :: "hal_statics \<Rightarrow> (int \<times> 's) option \<Rightarrow> 's \<Rightarrow> (int \<times> hal_statics \<times> 's) option" where
  "rate_limit st report s =
     (let c = f32_round (loc_count st + 1)
      in if c < report_time_interval st then Some (0, st\<lparr>loc_count := c\<rparr>, s)
         else keep (st\<lparr>loc_count := 0\<rparr>) report)"

text \<open>A block that is shorter than the receiver's struct leaves the end of the struct undefined.\<close>

definition padded :: "(nat \<Rightarrow> byte) \<Rightarrow> nat \<Rightarrow> byte list \<Rightarrow> byte list" where
  "padded junk n d = d @ drop (length d) (uninit junk n)"

primrec m2h_dispatch :: "abi \<Rightarrow> (nat \<Rightarrow> byte) \<Rightarrow> 's mnl2hal_interface \<Rightarrow> mnl2hal_msg \<Rightarrow> hal_statics \<times> 's
    \<Rightarrow> (int \<times> hal_statics \<times> 's) option" where
  "m2h_dispatch abi junk h M_mnld_reboot = (\<lambda>(st, s). keep st (with_cb (m2h_mnld_reboot h) id s))"
| "m2h_dispatch abi junk h (M_location l) = (\<lambda>(st, s). rate_limit st (with_cb (m2h_location h) (\<lambda>f. f l) s) s)"
| "m2h_dispatch abi junk h (M_gps_status v) = (\<lambda>(st, s). keep st (with_cb (m2h_gps_status h) (\<lambda>f. f v) s))"
| "m2h_dispatch abi junk h (M_gps_sv d) = (\<lambda>(st, s). keep st (with_cb (m2h_gps_sv h) (\<lambda>f. f d) s))"
| "m2h_dispatch abi junk h (M_nmea t n l) = (\<lambda>(st, s). keep st (with_cb (m2h_nmea h) (\<lambda>f. f t n l) s))"
| "m2h_dispatch abi junk h (M_gps_capabilities v) = (\<lambda>(st, s). keep st (with_cb (m2h_gps_capabilities h) (\<lambda>f. f v) s))"
| "m2h_dispatch abi junk h (M_gps_measurements d) = (\<lambda>(st, s). keep st (with_cb (m2h_gps_measurements h) (\<lambda>f. f d) s))"
| "m2h_dispatch abi junk h (M_gps_navigation d) =
     (\<lambda>(st, s). keep st (with_cb (m2h_gps_navigation h) (\<lambda>f. f (padded junk (sizeof_gps_nav_msg abi) d)) s))"
| "m2h_dispatch abi junk h (M_gnss_measurements d) = (\<lambda>(st, s). keep st (with_cb (m2h_gnss_measurements h) (\<lambda>f. f d) s))"
| "m2h_dispatch abi junk h (M_gnss_navigation d) =
     (\<lambda>(st, s). keep st (with_cb (m2h_gnss_navigation h) (\<lambda>f. f (padded junk (sizeof_gnss_nav_msg abi) d)) s))"
| "m2h_dispatch abi junk h M_request_wakelock = (\<lambda>(st, s). keep st (with_cb (m2h_request_wakelock h) id s))"
| "m2h_dispatch abi junk h M_release_wakelock = (\<lambda>(st, s). keep st (with_cb (m2h_release_wakelock h) id s))"
| "m2h_dispatch abi junk h M_request_utc_time = (\<lambda>(st, s). keep st (with_cb (m2h_request_utc_time h) id s))"
| "m2h_dispatch abi junk h (M_request_data_conn a) = (\<lambda>(st, s). keep st (with_cb (m2h_request_data_conn h) (\<lambda>f. f a) s))"
| "m2h_dispatch abi junk h M_release_data_conn = (\<lambda>(st, s). keep st (with_cb (m2h_release_data_conn h) id s))"
| "m2h_dispatch abi junk h (M_request_ni_notify i t r c re ce) =
     (\<lambda>(st, s). keep st (with_cb (m2h_request_ni_notify h) (\<lambda>f. f i t r c re ce) s))"
| "m2h_dispatch abi junk h (M_request_set_id v) = (\<lambda>(st, s). keep st (with_cb (m2h_request_set_id h) (\<lambda>f. f v) s))"
| "m2h_dispatch abi junk h (M_request_ref_loc v) = (\<lambda>(st, s). keep st (with_cb (m2h_request_ref_loc h) (\<lambda>f. f v) s))"

section \<open>The handlers implement the dispatch\<close>

lemma of_bool_word_neq0 [simp]: "((of_bool e :: i32) \<noteq> 0) = e"
  by (cases e) simp_all

lemma h2m_head_length [simp]: "length (h2m_head c) = 8"
  by (simp add: h2m_head_def)

lemma m2h_head_length [simp]: "length (m2h_head c) = 8"
  by (simp add: m2h_head_def)

lemma h2m_wire_nonempty [simp]: "h2m_wire m \<noteq> []"
  by (cases m) (simp_all add: h2m_head_def enc_int_def)

lemma m2h_wire_nonempty [simp]: "m2h_wire m \<noteq> []"
  by (cases m) (simp_all add: m2h_head_def enc_int_def)

lemma hal2mnl_hdlr_refines:
  assumes "h2m_fits m" "h2m_safe m" "recvfrom_loop rx 10 = Some (h2m_wire m)"
  shows "hal2mnl_hdlr rx hdlr s = h2m_dispatch hdlr m s"
proof -
  let ?pad = "replicate (HAL_MNL_BUFF_SIZE - length (h2m_wire m)) 0"
  have rx: "safe_recvfrom rx (replicate HAL_MNL_BUFF_SIZE 0) = (int (length (h2m_wire m)), h2m_wire m @ ?pad)"
    using assms by (simp add: wire_get h2m_fits_def)
  have pos: "\<not> int (length (h2m_wire m)) \<le> 0" by simp
  show ?thesis
    using assms(1,2) unfolding hal2mnl_hdlr_def rx Let_def prod.case if_not_P [OF pos] cursor_rd
    by (cases m)
      (auto simp: h2m_fits_def h2m_head_def wire_get intro!: with_cb_cong simp del: hal2mnl_code.simps replicate.simps)
qed

lemma field_int_0 [simp]: "field_int (enc_int v) 0 = v"
  by (rule field_int_enc [of _ "[]" _ "[]"]) simp_all

lemma mnl2hal_hdlr_refines:
  assumes "m2h_fits m" "recvfrom_loop rx 10 = Some (m2h_wire m)"
  shows "mnl2hal_hdlr abi junk rx hdlr st s = m2h_dispatch abi junk hdlr m (st, s)"
proof -
  let ?pad = "replicate (HAL_MNL_BUFF_SIZE - length (m2h_wire m)) 0"
  have rx: "safe_recvfrom rx (replicate HAL_MNL_BUFF_SIZE 0) = (int (length (m2h_wire m)), m2h_wire m @ ?pad)"
    using assms by (simp add: wire_get m2h_fits_def)
  have pos: "\<not> int (length (m2h_wire m)) \<le> 0" by simp
  have nav: "sizeof_gps_nav_msg ILP32 \<le> sizeof_gps_nav_msg abi" "sizeof_gnss_nav_msg ILP32 \<le> sizeof_gnss_nav_msg abi"
    by (cases abi; simp)+
  show ?thesis
    using assms(1) nav unfolding mnl2hal_hdlr_def rx Let_def prod.case if_not_P [OF pos] cursor_rd
    by (cases m)
      (auto simp: m2h_fits_def m2h_head_def wire_get sizeof_defs padded_def rate_limit_def Let_def
        intro!: arg_cong [where f = "keep _"] with_cb_cong simp del: mnl2hal_code.simps replicate.simps)
qed

text \<open>Both directions are channels.\<close>

interpretation h2m: channel MTK_HAL2MNL h2m_wire h2m_fits h2m_safe "\<lambda>m. int (length (h2m_wire m))"
    "\<lambda>m. hal2mnl_send m st"
    "\<lambda>rx. hal2mnl_hdlr rx hdlr" "h2m_dispatch hdlr" for st hdlr
  by unfold_locales (simp_all add: hal2mnl_send_transmit transmit_alt hal2mnl_hdlr_refines)

interpretation m2h: channel MTK_MNL2HAL m2h_wire m2h_fits "\<lambda>_. True" "\<lambda>m. int (length (m2h_wire m))"
    mnl2hal_send
    "\<lambda>rx (st, s). mnl2hal_hdlr abi junk rx hdlr st s" "m2h_dispatch abi junk hdlr" for abi junk hdlr
  by unfold_locales (auto simp: mnl2hal_send_transmit transmit_alt mnl2hal_hdlr_refines)

section \<open>A message that overruns the receiver\<close>

lemma hal2mnl_hdlr_ni_overrun:
  assumes "h2m_fits (H_ni_message d)" "1024 < length d" "recvfrom_loop rx 10 = Some (h2m_wire (H_ni_message d))"
    and "h2m_ni_message hdlr = Some f"
  shows "hal2mnl_hdlr rx hdlr s = None"
proof -
  have rx: "safe_recvfrom rx (replicate HAL_MNL_BUFF_SIZE 0)
      = (int (length (h2m_wire (H_ni_message d))),
         h2m_wire (H_ni_message d) @ replicate (HAL_MNL_BUFF_SIZE - length (h2m_wire (H_ni_message d))) 0)"
    using assms by (simp add: wire_get h2m_fits_def del: h2m_wire.simps)
  show ?thesis
    using assms(1,2,4) unfolding hal2mnl_hdlr_def rx cursor_rd
    by (simp add: h2m_fits_def h2m_head_def wire_get get_binary_overrun del: hal2mnl_code.simps replicate.simps)
qed

end
