(* ===== verification/C_Struct.thy ===== *)
theory C_Struct
  imports Hal_Mnl_Common
begin

text \<open>
  Layout of C structs on the two ARM data models: members are placed in order, each at the next multiple of its
  alignment, and the size is a multiple of the largest alignment. The structs of
  \<open>hal_mnl_interface_common.h\<close> are written down as their members, and the sizes and offsets are computed.
\<close>

section \<open>Types and layout\<close>

datatype ctype = I8 | I16 | I32 | I64 | F32 | F64 | Size_t | Pointer | Array nat ctype | Struct "(string \<times> ctype) list"

type_synonym members = "(string \<times> ctype) list"

primrec word_size :: "abi \<Rightarrow> nat" where
  "word_size ILP32 = 4"
| "word_size LP64 = 8"

definition round_up :: "nat \<Rightarrow> nat \<Rightarrow> nat" where "round_up n k = (n + k - 1) div k * k"

primrec align_of :: "abi \<Rightarrow> ctype \<Rightarrow> nat" where
  "align_of a I8 = 1" | "align_of a I16 = 2" | "align_of a I32 = 4" | "align_of a I64 = 8"
| "align_of a F32 = 4" | "align_of a F64 = 8" | "align_of a Size_t = word_size a" | "align_of a Pointer = word_size a"
| "align_of a (Array n t) = align_of a t"
| "align_of a (Struct ms) = foldr max (map snd (map (map_prod id (align_of a)) ms)) 1"

text \<open>The first free byte behind members of given size and alignment.\<close>

fun end_of :: "(nat \<times> nat) list \<Rightarrow> nat \<Rightarrow> nat" where
  "end_of [] off = off"
| "end_of ((n, k) # ms) off = end_of ms (round_up off k + n)"

primrec size_of :: "abi \<Rightarrow> ctype \<Rightarrow> nat" where
  "size_of a I8 = 1" | "size_of a I16 = 2" | "size_of a I32 = 4" | "size_of a I64 = 8"
| "size_of a F32 = 4" | "size_of a F64 = 8" | "size_of a Size_t = word_size a" | "size_of a Pointer = word_size a"
| "size_of a (Array n t) = n * size_of a t"
| "size_of a (Struct ms) =
     round_up (end_of (zip (map snd (map (map_prod id (size_of a)) ms)) (map (align_of a \<circ> snd) ms)) 0) (align_of a (Struct ms))"

text \<open>Offset and size of every member.\<close>

fun layout_from :: "abi \<Rightarrow> members \<Rightarrow> nat \<Rightarrow> (string \<times> nat \<times> nat) list" where
  "layout_from a [] off = []"
| "layout_from a ((f, t) # ms) off =
     (let o' = round_up off (align_of a t) in (f, o', size_of a t) # layout_from a ms (o' + size_of a t))"

definition layout :: "abi \<Rightarrow> members \<Rightarrow> (string \<times> nat \<times> nat) list" where "layout a ms = layout_from a ms 0"

text \<open>The bytes of a member, and the number a little-endian unsigned member holds.\<close>

definition member :: "abi \<Rightarrow> members \<Rightarrow> byte list \<Rightarrow> string \<Rightarrow> byte list" where
  "member a ms mem f = (case map_of (layout a ms) f of None \<Rightarrow> [] | Some (off, n) \<Rightarrow> take n (drop off mem))"

primrec le_val :: "byte list \<Rightarrow> nat" where
  "le_val [] = 0"
| "le_val (b # bs) = unat b + 256 * le_val bs"

text \<open>The elements of an array of structs.\<close>

definition elements :: "nat \<Rightarrow> nat \<Rightarrow> byte list \<Rightarrow> byte list list" where
  "elements n k mem = map (\<lambda>i. take k (drop (i * k) mem)) [0..<n]"

section \<open>The structs of the HAL interface\<close>

definition gps_location_m :: members where
  "gps_location_m = [(''flags'', I32), (''lat'', F64), (''lng'', F64), (''alt'', F64), (''speed'', F32), (''bearing'', F32),
     (''accuracy'', F32), (''timestamp'', I64)]"

definition gnss_sv_m :: members where
  "gnss_sv_m = [(''svid'', I16), (''constellation'', I8), (''c_n0_dbhz'', F32), (''elevation'', F32), (''azimuth'', F32), (''flags'', I8)]"

definition gnss_sv_info_m :: members where
  "gnss_sv_info_m = [(''num_svs'', I32), (''sv_list'', Array 64 (Struct gnss_sv_m))]"

definition gps_clock_m :: members where
  "gps_clock_m = [(''flags'', I16), (''leap_second'', I16), (''type'', I8), (''time_ns'', I64), (''time_uncertainty_ns'', F64),
     (''full_bias_ns'', I64), (''bias_ns'', F64), (''bias_uncertainty_ns'', F64), (''drift_nsps'', F64), (''drift_uncertainty_nsps'', F64)]"

definition gnss_clock_m :: members where
  "gnss_clock_m = [(''flags'', I16), (''leap_second'', I16), (''time_ns'', I64), (''time_uncertainty_ns'', F64),
     (''full_bias_ns'', I64), (''bias_ns'', F64), (''bias_uncertainty_ns'', F64), (''drift_nsps'', F64), (''drift_uncertainty_nsps'', F64),
     (''hw_clock_discontinuity_count'', I32)]"

definition gps_measurement_m :: members where
  "gps_measurement_m = [(''flags'', I32), (''prn'', I8), (''time_offset_ns'', F64), (''state'', I16), (''received_gps_tow_ns'', I64),
     (''received_gps_tow_uncertainty_ns'', I64), (''c_n0_dbhz'', F64), (''pseudorange_rate_mps'', F64),
     (''pseudorange_rate_uncertainty_mps'', F64), (''accumulated_delta_range_state'', I16), (''accumulated_delta_range_m'', F64),
     (''accumulated_delta_range_uncertainty_m'', F64), (''pseudorange_m'', F64), (''pseudorange_uncertainty_m'', F64),
     (''code_phase_chips'', F64), (''code_phase_uncertainty_chips'', F64), (''carrier_frequency_hz'', F32), (''carrier_cycles'', I64),
     (''carrier_phase'', F64), (''carrier_phase_uncertainty'', F64), (''loss_of_lock'', I8), (''bit_number'', I32),
     (''time_from_last_bit_ms'', I16), (''doppler_shift_hz'', F64), (''doppler_shift_uncertainty_hz'', F64),
     (''multipath_indicator'', I8), (''snr_db'', F64), (''elevation_deg'', F64), (''elevation_uncertainty_deg'', F64),
     (''azimuth_deg'', F64), (''azimuth_uncertainty_deg'', F64), (''used_in_fix'', I8)]"

definition gnss_measurement_m :: members where
  "gnss_measurement_m = [(''flags'', I32), (''svid'', I16), (''constellation'', I8), (''time_offset_ns'', F64), (''state'', I32),
     (''received_sv_time_in_ns'', I64), (''received_sv_time_uncertainty_in_ns'', I64), (''c_n0_dbhz'', F64),
     (''pseudorange_rate_mps'', F64), (''pseudorange_rate_uncertainty_mps'', F64), (''accumulated_delta_range_state'', I16),
     (''accumulated_delta_range_m'', F64), (''accumulated_delta_range_uncertainty_m'', F64), (''carrier_frequency_hz'', F32),
     (''carrier_cycles'', I64), (''carrier_phase'', F64), (''carrier_phase_uncertainty'', F64), (''multipath_indicator'', I8), (''snr_db'', F64)]"

definition gps_data_m :: members where
  "gps_data_m = [(''measurement_count'', Size_t), (''measurements'', Array 32 (Struct gps_measurement_m)), (''clock'', Struct gps_clock_m)]"

definition gnss_data_m :: members where
  "gnss_data_m = [(''measurement_count'', Size_t), (''measurements'', Array 64 (Struct gnss_measurement_m)), (''clock'', Struct gnss_clock_m)]"

definition gps_nav_msg_m :: members where
  "gps_nav_msg_m = [(''prn'', I8), (''type'', I8), (''status'', I16), (''message_id'', I16), (''submessage_id'', I16),
     (''data_length'', Size_t), (''data'', Array 40 I8)]"

definition gnss_nav_msg_m :: members where
  "gnss_nav_msg_m = [(''size'', Size_t), (''svid'', I16), (''type'', I16), (''status'', I16), (''message_id'', I16),
     (''submessage_id'', I16), (''data_length'', Size_t), (''data'', Pointer)]"

lemmas struct_defs = gps_location_m_def gnss_sv_m_def gnss_sv_info_m_def gps_clock_m_def gnss_clock_m_def gps_measurement_m_def
  gnss_measurement_m_def gps_data_m_def gnss_data_m_def gps_nav_msg_m_def gnss_nav_msg_m_def

section \<open>Facts\<close>

text \<open>The sizes the message code uses are those of the structs, on both data models.\<close>

lemmas layout_simps = struct_defs round_up_def sizeof_defs layout_def

lemma element_sizes [simp]:
  "size_of a (Struct gnss_sv_m) = 20" "align_of a (Struct gnss_sv_m) = 4"
  "size_of a (Struct gps_clock_m) = 64" "align_of a (Struct gps_clock_m) = 8"
  "size_of a (Struct gnss_clock_m) = 72" "align_of a (Struct gnss_clock_m) = 8"
  "size_of a (Struct gps_measurement_m) = 240" "align_of a (Struct gps_measurement_m) = 8"
  "size_of a (Struct gnss_measurement_m) = 136" "align_of a (Struct gnss_measurement_m) = 8"
  by (simp_all add: layout_simps)

text \<open>From here on a struct is measured only where its members are named.\<close>

declare size_of.simps(10) [simp del] align_of.simps(10) [simp del]

lemmas struct_size = size_of.simps(10) align_of.simps(10)

lemma measure_simps:
  "size_of a (Struct ((f, t) # ms)) = round_up (end_of ((size_of a t, align_of a t) # map (\<lambda>m. (size_of a (snd m), align_of a (snd m))) ms) 0)
     (align_of a (Struct ((f, t) # ms)))"
  "align_of a (Struct ((f, t) # ms)) = max (align_of a t) (align_of a (Struct ms))" "align_of a (Struct []) = 1"
  by (simp_all add: struct_size zip_map_map comp_def zip_same_conv_map)

lemma struct_sizes:
  "size_of a (Struct gps_location_m) = sizeof_gps_location \<and> size_of a (Struct gnss_sv_info_m) = sizeof_gnss_sv_info
   \<and> size_of a (Struct gps_data_m) = sizeof_gps_data \<and> size_of a (Struct gnss_data_m) = sizeof_gnss_data
   \<and> size_of a (Struct gps_nav_msg_m) = sizeof_gps_nav_msg a \<and> size_of a (Struct gnss_nav_msg_m) = sizeof_gnss_nav_msg a"
  unfolding gps_location_m_def gnss_sv_info_m_def gps_data_m_def gnss_data_m_def gps_nav_msg_m_def gnss_nav_msg_m_def sizeof_defs
  by (cases a) (simp_all add: measure_simps round_up_def)

text \<open>A type without \<open>size_t\<close> and pointers is laid out alike on both data models.\<close>

primrec portable :: "ctype \<Rightarrow> bool" where
  "portable I8 = True" | "portable I16 = True" | "portable I32 = True" | "portable I64 = True"
| "portable F32 = True" | "portable F64 = True" | "portable Size_t = False" | "portable Pointer = False"
| "portable (Array n t) = portable t"
| "portable (Struct ms) = list_all snd (map (map_prod id portable) ms)"

lemma portable_size: "portable t \<Longrightarrow> size_of a t = size_of b t \<and> align_of a t = align_of b t"
proof (induction t)
  case (Struct ms)
  then have *: "size_of a (snd m) = size_of b (snd m)" "align_of a (snd m) = align_of b (snd m)" if "m \<in> set ms" for m
    using that by (auto simp: list_all_iff snds.simps)
  have "align_of a (Struct ms) = align_of b (Struct ms)"
    using * by (simp add: struct_size comp_def cong: map_cong)
  moreover have "map snd (map (map_prod id (size_of a)) ms) = map snd (map (map_prod id (size_of b)) ms)"
    "map (align_of a \<circ> snd) ms = map (align_of b \<circ> snd) ms" using * by simp_all
  ultimately show ?case by (simp only: struct_size(1))
qed simp_all

lemma portable_layout_from: "list_all (portable \<circ> snd) ms \<Longrightarrow> layout_from a ms off = layout_from b ms off"
proof (induction a ms off rule: layout_from.induct)
  case (2 a f t ms off)
  then show ?case using portable_size [of t a b] by (simp add: Let_def)
qed simp

lemma portable_layout: "list_all (portable \<circ> snd) ms \<Longrightarrow> layout a ms = layout b ms"
  by (simp add: layout_def portable_layout_from)

section \<open>The satellite record\<close>

record gnss_sv =
  svid :: i16
  constellation :: byte
  c_n0_dbhz :: f32
  elevation :: f32
  azimuth :: f32
  sv_flags :: byte

definition gnss_sv_zero :: gnss_sv where
  "gnss_sv_zero = \<lparr>svid = 0, constellation = 0, c_n0_dbhz = 0, elevation = 0, azimuth = 0, sv_flags = 0\<rparr>"

definition gnss_sv_bytes :: "gnss_sv \<Rightarrow> byte list" where
  "gnss_sv_bytes v = enc_short (svid v) @ [constellation v, 0] @ enc_int (c_n0_dbhz v) @ enc_int (elevation v)
     @ enc_int (azimuth v) @ [sv_flags v, 0, 0, 0]"

lemma sv_bytes_length [simp]: "length (gnss_sv_bytes v) = 20"
  by (simp add: gnss_sv_bytes_def)

definition field_short :: "byte list \<Rightarrow> nat \<Rightarrow> i16" where
  "field_short mem off = (case get_short (rd (take off mem) (drop off mem)) of Some (v, _) \<Rightarrow> v | None \<Rightarrow> 0)"

definition gnss_sv_of_bytes :: "byte list \<Rightarrow> gnss_sv" where
  "gnss_sv_of_bytes mem =
     \<lparr>svid = field_short mem 0, constellation = mem ! 2, c_n0_dbhz = field_int mem 4, elevation = field_int mem 8,
      azimuth = field_int mem 12, sv_flags = mem ! 16\<rparr>"

lemma gnss_sv_roundtrip: "gnss_sv_of_bytes (gnss_sv_bytes v) = v"
proof -
  let ?m = "gnss_sv_bytes v"
  let ?h = "enc_short (svid v) @ [constellation v, 0]"
  have "field_short ?m 0 = svid v" by (simp add: field_short_def gnss_sv_bytes_def get_short_rd)
  moreover have "field_int ?m 4 = c_n0_dbhz v"
    by (rule field_int_enc [where pre = ?h]) (simp_all add: gnss_sv_bytes_def)
  moreover have "field_int ?m 8 = elevation v"
    by (rule field_int_enc [where pre = "?h @ enc_int (c_n0_dbhz v)"]) (simp_all add: gnss_sv_bytes_def)
  moreover have "field_int ?m 12 = azimuth v"
    by (rule field_int_enc [where pre = "?h @ enc_int (c_n0_dbhz v) @ enc_int (elevation v)"]) (simp_all add: gnss_sv_bytes_def)
  moreover have "?m ! 2 = constellation v" "?m ! 16 = sv_flags v"
    by (simp_all add: gnss_sv_bytes_def nth_append)
  ultimately show ?thesis by (simp add: gnss_sv_of_bytes_def)
qed

end
