(* ===== verification/Gps_Hal.thy ===== *)
theory Gps_Hal
  imports Hal_Channel C_Struct
begin

text \<open>
  The GPS HAL module that the Android framework loads: \<open>gpshal.c\<close> (context and start-up), \<open>gpshal_worker.c\<close>
  (messages of the daemon, turned into framework callbacks), \<open>gpsinf.c\<close> and \<open>agpsinf.c\<close> (the interfaces the
  framework calls, turned into messages to the daemon).

  \<open>hal\<close> is the state of the module: the context \<open>g_gpshal_ctx\<close>, the counters of \<open>hal2mnl_interface.c\<close>, the kernel
  as the module sees it, and the log \<open>fw\<close> of the calls into the framework. The framework's header
  \<open>hardware/gps.h\<close> is not part of the sources: the constants and array sizes the module takes from it are the
  record \<open>gps_h\<close>. A pointer to a callback structure is \<open>None\<close> when it is \<open>NULL\<close>, and otherwise the \<open>size\<close> member of
  the structure; a call through \<open>NULL\<close> faults. The mutex of the context is never taken.
\<close>

section \<open>State\<close>

datatype gpshal_state =
    GPSHAL_STATE_UNKNOWN | GPSHAL_STATE_RESOURCE | GPSHAL_STATE_CLEANUP | GPSHAL_STATE_INIT | GPSHAL_STATE_STOP
  | GPSHAL_STATE_START

text \<open>The order of the states is that of the enumeration.\<close>

primrec gpshal_code :: "gpshal_state \<Rightarrow> nat" where
  "gpshal_code GPSHAL_STATE_UNKNOWN = 0" | "gpshal_code GPSHAL_STATE_RESOURCE = 1" | "gpshal_code GPSHAL_STATE_CLEANUP = 2"
| "gpshal_code GPSHAL_STATE_INIT = 3" | "gpshal_code GPSHAL_STATE_STOP = 4" | "gpshal_code GPSHAL_STATE_START = 5"

instantiation gpshal_state :: linorder
begin

definition less_eq_gpshal_state :: "gpshal_state \<Rightarrow> gpshal_state \<Rightarrow> bool" where
  "less_eq_gpshal_state a b = (gpshal_code a \<le> gpshal_code b)"

definition less_gpshal_state :: "gpshal_state \<Rightarrow> gpshal_state \<Rightarrow> bool" where
  "less_gpshal_state a b = (gpshal_code a < gpshal_code b)"

instance
proof
  fix a b :: gpshal_state
  show "a \<le> b \<Longrightarrow> b \<le> a \<Longrightarrow> a = b" by (cases a; cases b) (simp_all add: less_eq_gpshal_state_def)
qed (auto simp: less_eq_gpshal_state_def less_gpshal_state_def)

end

type_synonym cbs = "nat option"

record gpshal_context_t =
  fd_mnl2hal :: int
  fd_worker_epoll :: int
  thd_worker :: bool
  gps_state_intent :: gpshal_state
  gps_state :: gpshal_state
  gps_cbs :: cbs
  agps_cbs :: cbs
  gpsni_cbs :: cbs
  agpsril_cbs :: cbs
  meas_cbs :: cbs
  navimsg_cbs :: cbs

definition g_gpshal_ctx :: gpshal_context_t where
  "g_gpshal_ctx =
     \<lparr>fd_mnl2hal = -1, fd_worker_epoll = -1, thd_worker = False, gps_state_intent = GPSHAL_STATE_UNKNOWN,
      gps_state = GPSHAL_STATE_UNKNOWN, gps_cbs = None, agps_cbs = None, gpsni_cbs = None, agpsril_cbs = None,
      meas_cbs = None, navimsg_cbs = None\<rparr>"

text \<open>What the framework is told. A struct that is copied member by member is the list of the copied members.\<close>

type_synonym fields = "(string \<times> byte list) list"

datatype ni_flag = GPS_NI_NEED_NOTIFY | GPS_NI_NEED_VERIFY | GPS_NI_PRIVACY_OVERRIDE

record GpsNiNotification =
  notification_id :: i32
  notify_flags :: "ni_flag list"
  ni_timeout :: i32
  requestor_id_text :: "byte list"
  client_text :: "byte list"
  requestor_id_encoding :: i32
  text_encoding :: i32

datatype fw_call =
    Set_capabilities_cb i32 | Set_system_info_cb i32 | Create_thread_cb | Location_cb gps_location | Status_cb i32
  | Gnss_sv_status_cb "gnss_sv list" | Nmea_cb i64 cstr i32 | Measurement_callback nat "fields list" fields
  | Navigation_message_callback fields "byte list" | Gnss_measurement_callback nat "fields list" fields
  | Gnss_navigation_message_callback fields | Acquire_wakelock_cb | Release_wakelock_cb | Request_utc_time_cb
  | Agps_request_data_conn "byte list" | Agps_release_data_conn | Notify_cb GpsNiNotification | Request_setid i32 | Request_refloc i32

record hal =
  ctx :: gpshal_context_t
  hst :: hal_statics
  hker :: os
  fw :: "fw_call list"

text \<open>From the framework's header, and what the system answers during start-up.\<close>

record gps_h =
  sizeof_GpsCallbacks :: nat
  requestor_id_len :: nat
  ni_text_len :: nat
  gnss_sv_list_len :: nat
  gps_measurements_len :: nat
  gnss_measurements_len :: nat
  ref_loc_gsm :: i32
  ref_loc_umts :: i32
  interface_names :: "string list"

record hal_env =
  gh :: gps_h
  hal_abi :: abi
  hal_junk :: "nat \<Rightarrow> byte"
  bind_fd :: int
  epoll_fd :: int
  epoll_add_ok :: bool
  thread_ok :: bool

definition tell :: "(gpshal_context_t \<Rightarrow> cbs) \<Rightarrow> fw_call \<Rightarrow> hal act" where
  "tell tab c s = (case tab (ctx s) of None \<Rightarrow> None | Some _ \<Rightarrow> Some (s\<lparr>fw := fw s @ [c]\<rparr>))"

definition hsend :: "(os \<Rightarrow> (int \<times> os) option) \<Rightarrow> hal \<Rightarrow> (int \<times> hal) option" where
  "hsend f s = do { (ret, k) \<leftarrow> f (hker s); Some (ret, s\<lparr>hker := k\<rparr>) }"

section \<open>Context\<close>

definition gpshal_set_gps_state :: "gpshal_state \<Rightarrow> hal \<Rightarrow> hal" where
  "gpshal_set_gps_state st s = s\<lparr>ctx := (ctx s)\<lparr>gps_state := st\<rparr>\<rparr>"

definition gpshal_set_gps_state_intent :: "gpshal_state \<Rightarrow> hal \<Rightarrow> hal" where
  "gpshal_set_gps_state_intent st s = s\<lparr>ctx := (ctx s)\<lparr>gps_state_intent := st\<rparr>\<rparr>"

definition gpshal_resource_init :: "hal_env \<Rightarrow> cbs \<Rightarrow> hal act" where
  "gpshal_resource_init e src s =
     (let s = s\<lparr>ctx := (ctx s)\<lparr>gps_cbs := src\<rparr>\<rparr>
      in if gps_state_intent (ctx s) \<noteq> GPSHAL_STATE_UNKNOWN then Some s
         else do {
           s \<leftarrow> tell gps_cbs (Set_capabilities_cb (0x1 OR 0x40)) s;
           s \<leftarrow> tell gps_cbs (Set_system_info_cb 2016) s;
           let s = s\<lparr>ctx := (ctx s)\<lparr>fd_mnl2hal := bind_fd e\<rparr>\<rparr>;
           (if fd_mnl2hal (ctx s) = -1 then Some s
            else do {
              let s = s\<lparr>ctx := (ctx s)\<lparr>fd_worker_epoll := epoll_fd e\<rparr>\<rparr>;
              (if fd_worker_epoll (ctx s) = -1 then Some s
               else if \<not> epoll_add_ok e then Some s
               else do {
                 s \<leftarrow> tell gps_cbs Create_thread_cb s;
                 let s = s\<lparr>ctx := (ctx s)\<lparr>thd_worker := thread_ok e\<rparr>\<rparr>;
                 Some (if thd_worker (ctx s) then gpshal_set_gps_state GPSHAL_STATE_RESOURCE s else s) }) }) })"

definition gpshal_gpscbs_save :: "hal_env \<Rightarrow> cbs \<Rightarrow> hal \<Rightarrow> (int \<times> hal) option" where
  "gpshal_gpscbs_save e src s =
     (case src of
        None \<Rightarrow> None
      | Some n \<Rightarrow>
          if sizeof_GpsCallbacks (gh e) = n then map_option (Pair 0) (gpshal_resource_init e src s) else Some (-1, s))"

text \<open>The four messages that move the engine: the state follows when the message was handed over.\<close>

definition to_mnl :: "(os \<Rightarrow> (int \<times> os) option) \<Rightarrow> gpshal_state \<Rightarrow> hal act" where
  "to_mnl f st s =
     (if GPSHAL_STATE_RESOURCE \<le> gps_state (ctx s)
      then do { (ret, s) \<leftarrow> hsend f s; Some (if 0 < ret then gpshal_set_gps_state st s else s) }
      else Some s)"

definition gpshal2mnl_gps_init :: "hal act" where "gpshal2mnl_gps_init = to_mnl hal2mnl_gps_init GPSHAL_STATE_INIT"
definition gpshal2mnl_gps_start :: "hal act" where "gpshal2mnl_gps_start = to_mnl hal2mnl_gps_start GPSHAL_STATE_START"
definition gpshal2mnl_gps_stop :: "hal act" where "gpshal2mnl_gps_stop = to_mnl hal2mnl_gps_stop GPSHAL_STATE_STOP"
definition gpshal2mnl_gps_cleanup :: "hal act" where "gpshal2mnl_gps_cleanup = to_mnl hal2mnl_gps_cleanup GPSHAL_STATE_CLEANUP"

section \<open>Messages of the daemon\<close>

definition update_mnld_reboot :: "hal act" where
  "update_mnld_reboot s =
     (case gps_state_intent (ctx s) of
        GPSHAL_STATE_INIT \<Rightarrow> gpshal2mnl_gps_init s
      | GPSHAL_STATE_STOP \<Rightarrow> gpshal2mnl_gps_init s
      | GPSHAL_STATE_START \<Rightarrow> do { s \<leftarrow> gpshal2mnl_gps_init s; gpshal2mnl_gps_start s }
      | _ \<Rightarrow> Some s)"

definition update_location :: "byte list \<Rightarrow> hal act" where
  "update_location location s =
     (if gps_state_intent (ctx s) = GPSHAL_STATE_START then tell gps_cbs (Location_cb (gps_location_of_bytes location)) s
      else Some s)"

definition update_gps_status :: "i32 \<Rightarrow> hal act" where "update_gps_status status = tell gps_cbs (Status_cb status)"

text \<open>\<open>dump_gnss_sv_info\<close> and the copy read as many satellites as the message announces.\<close>

definition update_gps_sv :: "hal_env \<Rightarrow> byte list \<Rightarrow> hal act" where
  "update_gps_sv e sv s =
     (let num_svs = nat (sint (field_int sv 0))
      in if length sv < 4 + num_svs * 20 \<or> gnss_sv_list_len (gh e) < num_svs then None
         else tell gps_cbs (Gnss_sv_status_cb (map gnss_sv_of_bytes (elements num_svs 20 (drop 4 sv)))) s)"

definition update_nmea :: "i64 \<Rightarrow> cstr \<Rightarrow> i32 \<Rightarrow> hal act" where
  "update_nmea timestamp nmea len = tell gps_cbs (Nmea_cb timestamp nmea len)"

definition update_gps_capabilities :: "i32 \<Rightarrow> hal act" where
  "update_gps_capabilities c = tell gps_cbs (Set_capabilities_cb c)"

text \<open>\<open>fieldp_copy\<close> for each of the named members.\<close>

definition copy_fields :: "abi \<Rightarrow> members \<Rightarrow> string list \<Rightarrow> byte list \<Rightarrow> fields" where
  "copy_fields a ms names mem = map (\<lambda>f. (f, member a ms mem f)) names"

definition gps_measurement_copied :: "string list" where
  "gps_measurement_copied = [''flags'', ''prn'', ''time_offset_ns'', ''state'', ''received_gps_tow_ns'',
     ''received_gps_tow_uncertainty_ns'', ''c_n0_dbhz'', ''pseudorange_rate_mps'', ''pseudorange_rate_uncertainty_mps'',
     ''accumulated_delta_range_state'', ''accumulated_delta_range_m'', ''accumulated_delta_range_uncertainty_m'',
     ''pseudorange_m'', ''pseudorange_uncertainty_m'', ''code_phase_chips'', ''code_phase_uncertainty_chips'',
     ''carrier_frequency_hz'', ''carrier_cycles'', ''carrier_phase'', ''carrier_phase_uncertainty'', ''loss_of_lock'',
     ''bit_number'', ''time_from_last_bit_ms'', ''doppler_shift_hz'', ''doppler_shift_uncertainty_hz'', ''multipath_indicator'',
     ''snr_db'', ''elevation_deg'', ''elevation_uncertainty_deg'', ''azimuth_deg'', ''azimuth_uncertainty_deg'', ''used_in_fix'']"

definition gps_clock_copied :: "string list" where
  "gps_clock_copied = [''flags'', ''leap_second'', ''type'', ''time_ns'', ''time_uncertainty_ns'', ''full_bias_ns'', ''bias_ns'',
     ''bias_uncertainty_ns'', ''drift_nsps'', ''drift_uncertainty_nsps'']"

text \<open>\<open>dump_gps_data\<close> reads as many measurements as the message announces; the copy runs over all of the array.\<close>

definition update_gps_measurements :: "hal_env \<Rightarrow> byte list \<Rightarrow> hal act" where
  "update_gps_measurements e data s =
     (let a = hal_abi e; count = le_val (member a gps_data_m data ''measurement_count'');
          ms = elements 32 240 (member a gps_data_m data ''measurements'')
      in if 32 < count \<or> gps_measurements_len (gh e) < 32 then None
         else tell meas_cbs (Measurement_callback count (map (copy_fields a gps_measurement_m gps_measurement_copied) ms)
                (copy_fields a gps_clock_m gps_clock_copied (member a gps_data_m data ''clock''))) s)"

definition update_gps_navigation :: "hal_env \<Rightarrow> byte list \<Rightarrow> hal act" where
  "update_gps_navigation e msg = tell navimsg_cbs (Navigation_message_callback
     (copy_fields (hal_abi e) gps_nav_msg_m [''prn'', ''type'', ''status'', ''message_id'', ''submessage_id'', ''data_length''] msg)
     (member (hal_abi e) gps_nav_msg_m msg ''data''))"

definition gnss_measurement_copied :: "string list" where
  "gnss_measurement_copied = [''flags'', ''svid'', ''constellation'', ''time_offset_ns'', ''state'', ''received_sv_time_in_ns'',
     ''received_sv_time_uncertainty_in_ns'', ''c_n0_dbhz'', ''pseudorange_rate_mps'', ''pseudorange_rate_uncertainty_mps'',
     ''accumulated_delta_range_state'', ''accumulated_delta_range_m'', ''accumulated_delta_range_uncertainty_m'',
     ''carrier_frequency_hz'', ''carrier_cycles'', ''carrier_phase'', ''carrier_phase_uncertainty'', ''multipath_indicator'', ''snr_db'']"

definition gnss_clock_copied :: "string list" where
  "gnss_clock_copied = [''flags'', ''leap_second'', ''time_ns'', ''time_uncertainty_ns'', ''full_bias_ns'', ''bias_ns'',
     ''bias_uncertainty_ns'', ''drift_nsps'', ''drift_uncertainty_nsps'', ''hw_clock_discontinuity_count'']"

definition update_gnss_measurements :: "hal_env \<Rightarrow> byte list \<Rightarrow> hal act" where
  "update_gnss_measurements e data s =
     (let a = hal_abi e; count = le_val (member a gnss_data_m data ''measurement_count'');
          ms = elements 64 136 (member a gnss_data_m data ''measurements'')
      in if 64 < count \<or> gnss_measurements_len (gh e) < 64 then None
         else tell meas_cbs (Gnss_measurement_callback count (map (copy_fields a gnss_measurement_m gnss_measurement_copied) ms)
                (copy_fields a gnss_clock_m gnss_clock_copied (member a gnss_data_m data ''clock''))) s)"

text \<open>The pointer to the data is passed on as it came from the daemon's address space.\<close>

definition update_gnss_navigation :: "hal_env \<Rightarrow> byte list \<Rightarrow> hal act" where
  "update_gnss_navigation e msg = tell navimsg_cbs (Gnss_navigation_message_callback
     (copy_fields (hal_abi e) gnss_nav_msg_m
        [''svid'', ''type'', ''status'', ''message_id'', ''submessage_id'', ''data_length'', ''data''] msg))"

definition request_wakelock :: "hal act" where "request_wakelock = tell gps_cbs Acquire_wakelock_cb"
definition release_wakelock :: "hal act" where "release_wakelock = tell gps_cbs Release_wakelock_cb"
definition request_utc_time :: "hal act" where "request_utc_time = tell gps_cbs Request_utc_time_cb"
definition request_data_conn :: "byte list \<Rightarrow> hal act" where "request_data_conn addr = tell agps_cbs (Agps_request_data_conn addr)"
definition release_data_conn :: "hal act" where "release_data_conn = tell agps_cbs Agps_release_data_conn"

definition ni_notify_flags :: "i32 \<Rightarrow> ni_flag list" where
  "ni_notify_flags type =
     (if type = 1 then [GPS_NI_NEED_NOTIFY] else if type = 2 \<or> type = 3 then [GPS_NI_NEED_NOTIFY, GPS_NI_NEED_VERIFY]
      else if type = 4 then [GPS_NI_PRIVACY_OVERRIDE] else [])"

definition request_ni_notify :: "hal_env \<Rightarrow> i32 \<Rightarrow> i32 \<Rightarrow> cstr \<Rightarrow> cstr \<Rightarrow> i32 \<Rightarrow> i32 \<Rightarrow> hal act" where
  "request_ni_notify e session_id type requestor_id client_name requestor_enc client_enc s =
     (case (requestor_id, client_name) of
        (Some r, Some c) \<Rightarrow>
          if requestor_id_len (gh e) < length r + 1 \<or> ni_text_len (gh e) < length c + 1 then None
          else tell gpsni_cbs (Notify_cb
            \<lparr>notification_id = session_id, notify_flags = ni_notify_flags type, ni_timeout = 8, requestor_id_text = r, client_text = c,
             requestor_id_encoding = requestor_enc, text_encoding = client_enc\<rparr>) s
      | _ \<Rightarrow> None)"

definition request_set_id :: "i32 \<Rightarrow> hal act" where "request_set_id flags = tell agpsril_cbs (Request_setid flags)"
definition request_ref_loc :: "i32 \<Rightarrow> hal act" where "request_ref_loc flags = tell agpsril_cbs (Request_refloc flags)"

definition gpshal_mnl2hal_interface :: "hal_env \<Rightarrow> hal mnl2hal_interface" where
  "gpshal_mnl2hal_interface e =
     \<lparr>m2h_mnld_reboot = Some update_mnld_reboot, m2h_location = Some update_location, m2h_gps_status = Some update_gps_status,
      m2h_gps_sv = Some (update_gps_sv e), m2h_nmea = Some update_nmea, m2h_gps_capabilities = Some update_gps_capabilities,
      m2h_gps_measurements = Some (update_gps_measurements e), m2h_gps_navigation = Some (update_gps_navigation e),
      m2h_gnss_measurements = Some (update_gnss_measurements e), m2h_gnss_navigation = Some (update_gnss_navigation e),
      m2h_request_wakelock = Some request_wakelock, m2h_release_wakelock = Some release_wakelock,
      m2h_request_utc_time = Some request_utc_time, m2h_request_data_conn = Some request_data_conn,
      m2h_release_data_conn = Some release_data_conn, m2h_request_ni_notify = Some (request_ni_notify e),
      m2h_request_set_id = Some request_set_id, m2h_request_ref_loc = Some request_ref_loc\<rparr>"

section \<open>The worker thread\<close>

text \<open>What \<open>epoll_wait\<close> returns: an error, or ready descriptors, with what the receive on each will give.\<close>

datatype epoll_ans = Wait_error errno | Ready "(int \<times> bool \<times> rx_ans list) list"

fun worker_events :: "hal_env \<Rightarrow> (int \<times> bool \<times> rx_ans list) list \<Rightarrow> hal act" where
  "worker_events e [] s = Some s"
| "worker_events e ((fd, epollin, rx) # evs) s = do {
     s \<leftarrow> (if fd = fd_mnl2hal (ctx s) \<and> epollin then do {
             (ret, st, s) \<leftarrow> mnl2hal_hdlr (hal_abi e) (hal_junk e) rx (gpshal_mnl2hal_interface e) (hst s) s;
             Some (s\<lparr>hst := st\<rparr>) }
           else Some s);
     worker_events e evs s }"

fun gpshal_worker_thread :: "hal_env \<Rightarrow> epoll_ans list \<Rightarrow> hal act" where
  "gpshal_worker_thread e [] s = Some s"
| "gpshal_worker_thread e (Wait_error EINTR # as) s = gpshal_worker_thread e as s"
| "gpshal_worker_thread e (Wait_error err # as) s = Some s"
| "gpshal_worker_thread e (Ready evs # as) s = do { s \<leftarrow> worker_events e evs s; gpshal_worker_thread e as s }"

section \<open>The interfaces of the framework\<close>

text \<open>Functions of the framework's interfaces that only send a message drop its result.\<close>

definition forward :: "(os \<Rightarrow> (int \<times> os) option) \<Rightarrow> hal act" where
  "forward f s = map_option snd (hsend f s)"

definition measinf_init :: "cbs \<Rightarrow> hal \<Rightarrow> (bool \<times> hal) option" where
  "measinf_init callbacks s = do {
     let s = s\<lparr>ctx := (ctx s)\<lparr>meas_cbs := callbacks\<rparr>\<rparr>;
     (ret, s) \<leftarrow> hsend (hal2mnl_set_gps_measurement True) s;
     Some (0 < ret, s) }"

definition measinf_close :: "hal act" where "measinf_close = forward (hal2mnl_set_gps_measurement False)"

definition navimsginf_init :: "cbs \<Rightarrow> hal \<Rightarrow> (bool \<times> hal) option" where
  "navimsginf_init callbacks s = do {
     let s = s\<lparr>ctx := (ctx s)\<lparr>navimsg_cbs := callbacks\<rparr>\<rparr>;
     (ret, s) \<leftarrow> hsend (hal2mnl_set_gps_navigation True) s;
     Some (0 < ret, s) }"

definition navimsginf_close :: "hal act" where "navimsginf_close = forward (hal2mnl_set_gps_navigation False)"

datatype extension = Mtk_agps_inf | Mtk_gps_ni_inf | Mtk_agps_ril_inf | Mtk_gps_meas_inf | Mtk_navi_msg_inf

definition gpsinf_get_extension :: "hal_env \<Rightarrow> string \<Rightarrow> extension option" where
  "gpsinf_get_extension e name =
     map_of (zip (interface_names (gh e)) [Mtk_agps_inf, Mtk_gps_ni_inf, Mtk_agps_ril_inf, Mtk_gps_meas_inf, Mtk_navi_msg_inf]) name"

definition gpsinf_init :: "hal_env \<Rightarrow> cbs \<Rightarrow> hal \<Rightarrow> (int \<times> hal) option" where
  "gpsinf_init e callbacks s = do {
     (ret, s) \<leftarrow> gpshal_gpscbs_save e callbacks s;
     (if ret \<noteq> 0 then Some (-1, s)
      else map_option (Pair 0) (gpshal2mnl_gps_init (gpshal_set_gps_state_intent GPSHAL_STATE_INIT s))) }"

definition gpsinf_start :: "hal act" where
  "gpsinf_start s = gpshal2mnl_gps_start (gpshal_set_gps_state_intent GPSHAL_STATE_START s)"

definition gpsinf_stop :: "hal act" where
  "gpsinf_stop s = gpshal2mnl_gps_stop (gpshal_set_gps_state_intent GPSHAL_STATE_STOP s)"

definition gpsinf_cleanup :: "hal act" where
  "gpsinf_cleanup s = gpshal2mnl_gps_cleanup (gpshal_set_gps_state_intent GPSHAL_STATE_CLEANUP s)"

definition gpsinf_inject_time :: "i64 \<Rightarrow> i64 \<Rightarrow> i32 \<Rightarrow> hal act" where
  "gpsinf_inject_time time reference uncertainty = forward (hal2mnl_gps_inject_time time reference uncertainty)"

definition gpsinf_inject_location :: "f64 \<Rightarrow> f64 \<Rightarrow> f32 \<Rightarrow> hal act" where
  "gpsinf_inject_location lat lng acc = forward (hal2mnl_gps_inject_location lat lng acc)"

definition gpsinf_delete_aiding_data :: "i32 \<Rightarrow> hal act" where
  "gpsinf_delete_aiding_data flags = forward (hal2mnl_gps_delete_aiding_data flags)"

definition gpsinf_set_position_mode :: "i32 \<Rightarrow> i32 \<Rightarrow> i32 \<Rightarrow> i32 \<Rightarrow> i32 \<Rightarrow> hal act" where
  "gpsinf_set_position_mode mode recurrence min_interval accuracy time s = do {
     (ret, st, k) \<leftarrow> hal2mnl_gps_set_position_mode mode recurrence min_interval accuracy time (hst s) (hker s);
     Some (s\<lparr>hst := st, hker := k\<rparr>) }"

text \<open>\<open>gps_device__get_gps_interface\<close>, with the parameter checks compiled out as in a release build.\<close>

definition gps_device_get_gps_interface :: "hal act" where
  "gps_device_get_gps_interface = forward hal2mnl_hal_reboot"

definition agpsinf_init :: "cbs \<Rightarrow> hal \<Rightarrow> hal" where "agpsinf_init c s = s\<lparr>ctx := (ctx s)\<lparr>agps_cbs := c\<rparr>\<rparr>"

definition agpsinf_set_server :: "i32 \<Rightarrow> cstr \<Rightarrow> i32 \<Rightarrow> hal act" where
  "agpsinf_set_server type hostname port = forward (hal2mnl_set_server type hostname port)"

definition agpsinf_data_conn_open_with_apn_ip_type :: "cstr \<Rightarrow> i32 \<Rightarrow> hal act" where
  "agpsinf_data_conn_open_with_apn_ip_type apn t = forward (hal2mnl_data_conn_open_with_apn_ip_type apn t)"

definition gpsni_init :: "cbs \<Rightarrow> hal \<Rightarrow> hal" where "gpsni_init c s = s\<lparr>ctx := (ctx s)\<lparr>gpsni_cbs := c\<rparr>\<rparr>"

definition gpsni_respond :: "i32 \<Rightarrow> i32 \<Rightarrow> hal act" where
  "gpsni_respond notif_id response = forward (hal2mnl_ni_respond notif_id response)"

definition agps_ril_init :: "cbs \<Rightarrow> hal \<Rightarrow> hal" where "agps_ril_init c s = s\<lparr>ctx := (ctx s)\<lparr>agpsril_cbs := c\<rparr>\<rparr>"

definition agps_ril_set_ref_location :: "hal_env \<Rightarrow> i32 \<Rightarrow> i32 \<Rightarrow> i32 \<Rightarrow> i32 \<Rightarrow> i32 \<Rightarrow> hal act" where
  "agps_ril_set_ref_location e type mcc mnc lac cid s =
     (if type = ref_loc_gsm (gh e) \<or> type = ref_loc_umts (gh e) then forward (hal2mnl_set_ref_location type mcc mnc lac cid) s
      else Some s)"

definition agps_ril_set_set_id :: "i32 \<Rightarrow> cstr \<Rightarrow> hal act" where
  "agps_ril_set_set_id type setid = forward (hal2mnl_set_id type setid)"

definition agps_ril_ni_message :: "byte list \<Rightarrow> i32 \<Rightarrow> hal act" where
  "agps_ril_ni_message msg len = forward (hal2mnl_ni_message msg len)"

definition agps_ril_update_network_state :: "i32 \<Rightarrow> i32 \<Rightarrow> i32 \<Rightarrow> cstr \<Rightarrow> hal act" where
  "agps_ril_update_network_state is_connected type roaming extra = forward (hal2mnl_update_network_state is_connected type roaming extra)"

definition agps_ril_update_network_availability :: "i32 \<Rightarrow> cstr \<Rightarrow> hal act" where
  "agps_ril_update_network_availability available apn = forward (hal2mnl_update_network_availability available apn)"

end
