(* ===== verification/Location_Rate.thy ===== *)
theory Location_Rate
  imports Hal_Channel
begin

text \<open>
  The HAL forwards only some of the locations the daemon reports: the static \<open>float\<close> counter in
  \<open>mnl2hal_hdlr\<close> and the interval set by \<open>hal2mnl_gps_set_position_mode\<close> (both in \<open>hal2mnl_interface.c\<close>)
  keep one location in \<open>k\<close>. Here are the specification of that and the interval the call sets.
\<close>

section \<open>The location rate limiter of the HAL\<close>

fun thin :: "nat \<Rightarrow> nat \<Rightarrow> 'a list \<Rightarrow> 'a list" where
  "thin k c [] = []"
| "thin k c (x # xs) = (if Suc c < k then thin k (Suc c) xs else x # thin k 0 xs)"

text \<open>Every \<open>k\<close>-th element.\<close>

definition every :: "nat \<Rightarrow> 'a list \<Rightarrow> 'a list" where
  "every k xs = map (\<lambda>i. xs ! (k * i + (k - 1))) [0..<length xs div k]"

lemma thin_skip: "c + length xs < k \<Longrightarrow> thin k c xs = []"
  by (induction k c xs rule: thin.induct) auto

lemma thin_block: "c < k \<Longrightarrow> k \<le> c + length xs \<Longrightarrow> thin k c xs = xs ! (k - 1 - c) # thin k 0 (drop (k - c) xs)"
proof (induction xs arbitrary: c)
  case Nil
  then show ?case by simp
next
  case (Cons x xs)
  show ?case
  proof (cases "Suc c < k")
    case True
    with Cons.IH [of "Suc c"] Cons.prems show ?thesis
      by (simp add: nth_Cons' Suc_diff_Suc [symmetric])
  next
    case False
    with Cons.prems have "k = Suc c" by simp
    then show ?thesis by simp
  qed
qed

lemma thin_every: "0 < k \<Longrightarrow> thin k 0 xs = every k xs"
proof (induction "length xs" arbitrary: xs rule: less_induct)
  case less
  show ?case
  proof (cases "length xs < k")
    case True
    then show ?thesis by (simp add: thin_skip every_def)
  next
    case False
    let ?ys = "drop k xs"
    from False less have IH: "thin k 0 ?ys = every k ?ys" by simp
    have len: "length xs div k = Suc (length ?ys div k)"
      using False less.prems by (simp add: le_div_geq)
    have "every k xs = xs ! (k - 1) # every k ?ys"
      unfolding every_def len map_upt_Suc by (use False in \<open>simp add: add.assoc\<close>)
    with IH thin_block [of 0 k xs] False less.prems show ?thesis by simp
  qed
qed

text \<open>The interval the position mode call sets: whole seconds are exact.\<close>

lemma set_interval:
  assumes "1 \<le> k" "k \<le> 16000" "hal2mnl_gps_set_position_mode mode r (word_of_nat (1000 * k)) a t st ker = Some (ret, st', ker')"
  shows "report_time_interval st' = rat_of_nat k \<and> loc_count st' = loc_count st"
proof -
  have "sint (word_of_nat (1000 * k) :: i32) = 1000 * int k"
    using sint_word_of_nat [of "1000 * k"] assms(2) by simp
  moreover have "f32_round (of_int (1000 * int k)) = of_int (1000 * int k)" "f32_round (of_int (int k)) = of_int (int k)"
    by (rule f32_round_int; use assms in simp)+
  moreover have "(of_int (1000 * int k) :: rat) / 1000 = of_int (int k)" by simp
  ultimately have i: "sint (word_of_nat (1000 * k) :: i32) = 1000 * int k"
    "f32_round (f32_round (of_int (1000 * int k)) / 1000) = rat_of_nat k" by simp_all
  then show ?thesis
    using assms(1,3) unfolding hal2mnl_gps_set_position_mode_def i
    by (auto simp: Let_def split: bind_splits if_splits)
qed

end
