(* ===== verification/Hal_Worker.thy ===== *)
theory Hal_Worker
  imports Gps_Hal Location_Rate
begin

text \<open>
  What the worker thread of the HAL does with a message of the daemon: which framework call it makes, when it
  faults, what of its state it keeps, and which of a stream of locations reach the framework.
\<close>

section \<open>One message\<close>

definition from_mnl :: "hal_env \<Rightarrow> mnl2hal_msg \<Rightarrow> hal act" where
  "from_mnl e m s = do {
     (ret, st, s) \<leftarrow> m2h_dispatch (hal_abi e) (hal_junk e) (gpshal_mnl2hal_interface e) m (hst s, s);
     Some (s\<lparr>hst := st\<rparr>) }"

definition arrives :: "hal \<Rightarrow> byte list \<Rightarrow> epoll_ans" where
  "arrives s d = Ready [(fd_mnl2hal (ctx s), True, [Datagram d])]"

lemma worker_arrives:
  assumes "m2h_fits m"
  shows "gpshal_worker_thread e (arrives s (m2h_wire m) # as) s = do { s \<leftarrow> from_mnl e m s; gpshal_worker_thread e as s }"
proof -
  have "recvfrom_loop [Datagram (m2h_wire m)] 10 = Some (m2h_wire m)" by (simp add: numeral_eq_Suc)
  then show ?thesis
    by (simp add: mnl2hal_hdlr_refines [OF assms] arrives_def from_mnl_def Option.bind_assoc split_beta del: m2h_dispatch.simps)
qed

text \<open>
  The framework call a message leads to, with the table of callbacks it goes through; a reboot notice leads to none, and
  a location to none or one.
\<close>

fun fw_call_of :: "hal_env \<Rightarrow> mnl2hal_msg \<Rightarrow> ((gpshal_context_t \<Rightarrow> cbs) \<times> fw_call) option" where
  "fw_call_of e (M_gps_status v) = Some (gps_cbs, Status_cb v)"
| "fw_call_of e (M_gps_sv d) =
     Some (gps_cbs, Gnss_sv_status_cb (map gnss_sv_of_bytes (elements (nat (sint (field_int d 0))) 20 (drop 4 d))))"
| "fw_call_of e (M_nmea t n l) = Some (gps_cbs, Nmea_cb t n l)"
| "fw_call_of e (M_gps_capabilities v) = Some (gps_cbs, Set_capabilities_cb v)"
| "fw_call_of e (M_gps_measurements d) =
     Some (meas_cbs, Measurement_callback (le_val (member (hal_abi e) gps_data_m d ''measurement_count''))
       (map (copy_fields (hal_abi e) gps_measurement_m gps_measurement_copied)
         (elements 32 240 (member (hal_abi e) gps_data_m d ''measurements'')))
       (copy_fields (hal_abi e) gps_clock_m gps_clock_copied (member (hal_abi e) gps_data_m d ''clock'')))"
| "fw_call_of e (M_gnss_measurements d) =
     Some (meas_cbs, Gnss_measurement_callback (le_val (member (hal_abi e) gnss_data_m d ''measurement_count''))
       (map (copy_fields (hal_abi e) gnss_measurement_m gnss_measurement_copied)
         (elements 64 136 (member (hal_abi e) gnss_data_m d ''measurements'')))
       (copy_fields (hal_abi e) gnss_clock_m gnss_clock_copied (member (hal_abi e) gnss_data_m d ''clock'')))"
| "fw_call_of e M_request_wakelock = Some (gps_cbs, Acquire_wakelock_cb)"
| "fw_call_of e M_release_wakelock = Some (gps_cbs, Release_wakelock_cb)"
| "fw_call_of e M_request_utc_time = Some (gps_cbs, Request_utc_time_cb)"
| "fw_call_of e (M_request_data_conn a) = Some (agps_cbs, Agps_request_data_conn a)"
| "fw_call_of e M_release_data_conn = Some (agps_cbs, Agps_release_data_conn)"
| "fw_call_of e (M_request_set_id v) = Some (agpsril_cbs, Request_setid v)"
| "fw_call_of e (M_request_ref_loc v) = Some (agpsril_cbs, Request_refloc v)"
| "fw_call_of e (M_gps_navigation d) =
     Some (navimsg_cbs, Navigation_message_callback
       (copy_fields (hal_abi e) gps_nav_msg_m [''prn'', ''type'', ''status'', ''message_id'', ''submessage_id'', ''data_length'']
         (padded (hal_junk e) (sizeof_gps_nav_msg (hal_abi e)) d))
       (member (hal_abi e) gps_nav_msg_m (padded (hal_junk e) (sizeof_gps_nav_msg (hal_abi e)) d) ''data''))"
| "fw_call_of e (M_gnss_navigation d) =
     Some (navimsg_cbs, Gnss_navigation_message_callback
       (copy_fields (hal_abi e) gnss_nav_msg_m
         [''svid'', ''type'', ''status'', ''message_id'', ''submessage_id'', ''data_length'', ''data'']
         (padded (hal_junk e) (sizeof_gnss_nav_msg (hal_abi e)) d)))"
| "fw_call_of e (M_request_ni_notify i t r c re ce) =
     Some (gpsni_cbs, Notify_cb
       \<lparr>notification_id = i, notify_flags = ni_notify_flags t, ni_timeout = 8, requestor_id_text = the r, client_text = the c,
        requestor_id_encoding = re, text_encoding = ce\<rparr>)"
| "fw_call_of e M_mnld_reboot = None"
| "fw_call_of e (M_location d) = None"

text \<open>
  What the message has to respect: the counts stay inside the arrays of both sides, and the texts of a notification are
  there and fit the arrays of the framework.\<close>

fun in_bounds :: "hal_env \<Rightarrow> mnl2hal_msg \<Rightarrow> bool" where
  "in_bounds e (M_gps_sv d) =
     (4 + nat (sint (field_int d 0)) * 20 \<le> length d \<and> nat (sint (field_int d 0)) \<le> gnss_sv_list_len (gh e))"
| "in_bounds e (M_gps_measurements d) =
     (le_val (member (hal_abi e) gps_data_m d ''measurement_count'') \<le> 32 \<and> 32 \<le> gps_measurements_len (gh e))"
| "in_bounds e (M_gnss_measurements d) =
     (le_val (member (hal_abi e) gnss_data_m d ''measurement_count'') \<le> 64 \<and> 64 \<le> gnss_measurements_len (gh e))"
| "in_bounds e (M_request_ni_notify i t r c re ce) =
     (r \<noteq> None \<and> c \<noteq> None \<and> length (the r) < requestor_id_len (gh e) \<and> length (the c) < ni_text_len (gh e))"
| "in_bounds e m = True"

lemmas hal_worker_defs = gpshal_mnl2hal_interface_def update_gps_status_def update_gps_sv_def update_nmea_def
  update_gps_capabilities_def update_gps_measurements_def update_gnss_measurements_def request_wakelock_def
  release_wakelock_def request_utc_time_def request_data_conn_def release_data_conn_def request_set_id_def request_ref_loc_def
  update_gps_navigation_def update_gnss_navigation_def request_ni_notify_def

lemma from_mnl_exact:
  assumes "fw_call_of e m = Some (tab, c)"
  shows "from_mnl e m s =
    (if in_bounds e m \<and> tab (ctx s) \<noteq> None then Some (s\<lparr>fw := fw s @ [c]\<rparr>) else None)"
  using assms
  by (cases m) (auto simp: from_mnl_def hal_worker_defs tell_def keep_def Let_def split: option.splits)

section \<open>The notice of a reboot\<close>

lemma hal2mnl_fixed:
  "hal2mnl_gps_init k = Some (transmit MTK_HAL2MNL (h2m_wire H_gps_init) k)"
  "hal2mnl_gps_start k = Some (transmit MTK_HAL2MNL (h2m_wire H_gps_start) k)"
  "hal2mnl_gps_stop k = Some (transmit MTK_HAL2MNL (h2m_wire H_gps_stop) k)"
  "hal2mnl_gps_cleanup k = Some (transmit MTK_HAL2MNL (h2m_wire H_gps_cleanup) k)"
  using hal2mnl_send_transmit [of H_gps_init undefined k] hal2mnl_send_transmit [of H_gps_start undefined k]
    hal2mnl_send_transmit [of H_gps_stop undefined k] hal2mnl_send_transmit [of H_gps_cleanup undefined k]
  by (simp_all add: h2m_fits_def HAL_MNL_BUFF_SIZE_def h2m_head_def)

lemma to_mnl_total:
  assumes "f (hker s) = Some r"
  shows "\<exists>s' st. to_mnl f g s = Some s' \<and> ctx s' = (ctx s)\<lparr>gps_state := st\<rparr> \<and> fw s' = fw s \<and> hst s' = hst s"
proof (cases "GPSHAL_STATE_RESOURCE \<le> gps_state (ctx s)")
  case True
  with assms show ?thesis
    by (cases r) (auto simp: to_mnl_def hsend_def gpshal_set_gps_state_def intro: exI [of _ g] exI [of _ "gps_state (ctx s)"])
next
  case False
  then show ?thesis by (auto simp: to_mnl_def intro: exI [of _ "gps_state (ctx s)"])
qed

lemma reboot_total:
  "\<exists>s' st. update_mnld_reboot s = Some s' \<and> ctx s' = (ctx s)\<lparr>gps_state := st\<rparr> \<and> fw s' = fw s \<and> hst s' = hst s"
proof -
  have i: "\<exists>s' st. gpshal2mnl_gps_init s = Some s' \<and> ctx s' = (ctx s)\<lparr>gps_state := st\<rparr> \<and> fw s' = fw s \<and> hst s' = hst s"
    unfolding gpshal2mnl_gps_init_def by (rule to_mnl_total) (rule hal2mnl_fixed)
  then obtain s1 st where s1: "gpshal2mnl_gps_init s = Some s1" "ctx s1 = (ctx s)\<lparr>gps_state := st\<rparr>" "fw s1 = fw s" "hst s1 = hst s"
    by blast
  have "\<exists>s' st. gpshal2mnl_gps_start s1 = Some s' \<and> ctx s' = (ctx s1)\<lparr>gps_state := st\<rparr> \<and> fw s' = fw s1 \<and> hst s' = hst s1"
    unfolding gpshal2mnl_gps_start_def by (rule to_mnl_total) (rule hal2mnl_fixed)
  with i s1 show ?thesis
    by (auto simp: update_mnld_reboot_def intro: exI [of _ "gps_state (ctx s)"] split: gpshal_state.split)
qed

section \<open>A stream of messages\<close>

definition registered :: "gpshal_context_t \<Rightarrow> bool" where
  "registered c = list_all (\<lambda>tab. tab c \<noteq> None) [gps_cbs, agps_cbs, gpsni_cbs, agpsril_cbs, meas_cbs, navimsg_cbs]"

fun is_location :: "fw_call \<Rightarrow> bool" where
  "is_location (Location_cb l) = True" | "is_location c = False"

lemma registered_state [simp]: "registered (c\<lparr>gps_state := st\<rparr>) = registered c"
  by (simp add: registered_def)

lemma fw_call_registered: "fw_call_of e m = Some (tab, c) \<Longrightarrow> registered x \<Longrightarrow> tab x \<noteq> None \<and> \<not> is_location c"
  by (cases m) (auto simp: registered_def)

lemma location_exact:
  assumes "gps_cbs (ctx s) \<noteq> None"
  shows "from_mnl e (M_location d) s =
    Some (let c = f32_round (loc_count (hst s) + 1)
          in if c < report_time_interval (hst s) then s\<lparr>hst := (hst s)\<lparr>loc_count := c\<rparr>\<rparr>
             else s\<lparr>hst := (hst s)\<lparr>loc_count := 0\<rparr>,
                    fw := fw s @ (if gps_state_intent (ctx s) = GPSHAL_STATE_START then [Location_cb (gps_location_of_bytes d)] else [])\<rparr>)"
proof (cases s)
  case (fields c st k l)
  then show ?thesis
    using assms by (auto simp: from_mnl_def gpshal_mnl2hal_interface_def rate_limit_def keep_def update_location_def tell_def Let_def)
qed

lemma from_mnl_step:
  assumes "registered (ctx s)"
  shows "if in_bounds e m
     then \<exists>s' st. from_mnl e m s = Some s' \<and> ctx s' = (ctx s)\<lparr>gps_state := st\<rparr> \<and>
       [c\<leftarrow>fw s'. \<not> is_location c] = [c\<leftarrow>fw s. \<not> is_location c] @ map snd (List.map_filter (fw_call_of e) [m])
     else from_mnl e m s = None"
proof (cases "fw_call_of e m")
  case None
  have gps: "gps_cbs (ctx s) \<noteq> None" using assms by (auto simp: registered_def)
  from None consider (reboot) "m = M_mnld_reboot" | (loc) d where "m = M_location d" by (cases m) auto
  then show ?thesis
  proof cases
    case reboot
    with reboot_total [of s] show ?thesis
      by (auto simp: from_mnl_def gpshal_mnl2hal_interface_def keep_def List.map_filter_def)
  next
    case loc
    with location_exact [OF gps, of e d] show ?thesis
      by (auto simp: Let_def List.map_filter_def intro: exI [of _ "gps_state (ctx s)"])
  qed
next
  case (Some t)
  obtain tab c where "t = (tab, c)" by (cases t)
  with Some from_mnl_exact [of e m tab c s] fw_call_registered [of e m tab c "ctx s"] assms show ?thesis
    by (auto simp: List.map_filter_def intro: exI [of _ "gps_state (ctx s)"])
qed

lemma arrives_state [simp]: "ctx s' = (ctx s)\<lparr>gps_state := st\<rparr> \<Longrightarrow> arrives s' = arrives s"
  by (rule ext) (simp add: arrives_def)

lemma worker_stream:
  assumes "registered (ctx s)" "list_all m2h_fits ms"
  shows "if list_all (in_bounds e) ms
     then \<exists>s' st. gpshal_worker_thread e (map (\<lambda>m. arrives s (m2h_wire m)) ms) s = Some s' \<and> ctx s' = (ctx s)\<lparr>gps_state := st\<rparr> \<and>
       [c\<leftarrow>fw s'. \<not> is_location c] = [c\<leftarrow>fw s. \<not> is_location c] @ map snd (List.map_filter (fw_call_of e) ms)
     else gpshal_worker_thread e (map (\<lambda>m. arrives s (m2h_wire m)) ms) s = None"
  using assms
proof (induction ms arbitrary: s)
  case Nil
  then show ?case by (auto simp: List.map_filter_def intro: exI [of _ "gps_state (ctx s)"])
next
  case (Cons m ms)
  show ?case
  proof (cases "in_bounds e m")
    case True
    with from_mnl_step [OF Cons.prems(1), of e m] obtain s1 st where s1: "from_mnl e m s = Some s1" "ctx s1 = (ctx s)\<lparr>gps_state := st\<rparr>"
      "[c\<leftarrow>fw s1. \<not> is_location c] = [c\<leftarrow>fw s. \<not> is_location c] @ map snd (List.map_filter (fw_call_of e) [m])"
      by auto
    with Cons.IH [of s1] Cons.prems True show ?thesis
      by (auto simp: worker_arrives List.map_filter_def split: if_splits)
  next
    case False
    with from_mnl_step [OF Cons.prems(1), of e m] Cons.prems(2) show ?thesis by (simp add: worker_arrives)
  qed
qed

section \<open>Locations\<close>

lemma rate_step:
  assumes "report_time_interval (hst s) = rat_of_nat k" "loc_count (hst s) = rat_of_nat c" "c < k" "k < 2 ^ 24"
    and "gps_cbs (ctx s) \<noteq> None" "gps_state_intent (ctx s) = GPSHAL_STATE_START"
  shows "from_mnl e (M_location d) s
    = Some (if Suc c < k then s\<lparr>hst := (hst s)\<lparr>loc_count := rat_of_nat (Suc c)\<rparr>\<rparr>
            else s\<lparr>hst := (hst s)\<lparr>loc_count := 0\<rparr>, fw := fw s @ [Location_cb (gps_location_of_bytes d)]\<rparr>)"
proof -
  have "f32_round (rat_of_nat (Suc c)) = rat_of_nat (Suc c)"
    using f32_round_int [of "int (Suc c)"] assms(3,4) by simp
  then have "f32_round (loc_count (hst s) + 1) = rat_of_nat (Suc c)" using assms(2) by (simp add: add.commute)
  with assms show ?thesis by (simp add: location_exact Let_def del: of_nat_Suc)
qed

lemma location_fits: "length d = sizeof_gps_location \<Longrightarrow> m2h_fits (M_location d)"
  by (simp add: m2h_fits_def m2h_head_def HAL_MNL_BUFF_SIZE_def sizeof_defs)

lemma rate_run:
  assumes "report_time_interval (hst s) = rat_of_nat k" "loc_count (hst s) = rat_of_nat c" "c < k" "k < 2 ^ 24"
    and "gps_cbs (ctx s) \<noteq> None" "gps_state_intent (ctx s) = GPSHAL_STATE_START"
    and "list_all (\<lambda>l. length l = sizeof_gps_location) ls"
  shows "\<exists>st. gpshal_worker_thread e (map (\<lambda>d. arrives s (m2h_wire (M_location d))) ls) s
    = Some (s\<lparr>hst := st, fw := fw s @ map (\<lambda>d. Location_cb (gps_location_of_bytes d)) (thin k c ls)\<rparr>)"
  using assms
proof (induction ls arbitrary: s c)
  case Nil
  then show ?case by (intro exI [of _ "hst s"]) simp
next
  case (Cons d ls)
  note step = rate_step [OF Cons.prems(1-6), of e d] worker_arrives [OF location_fits, of d e s]
  show ?case
  proof (cases "Suc c < k")
    case True
    let ?s = "s\<lparr>hst := (hst s)\<lparr>loc_count := rat_of_nat (Suc c)\<rparr>\<rparr>"
    have "arrives ?s = arrives s" by (rule ext) (simp add: arrives_def)
    with True Cons.IH [of ?s "Suc c"] Cons.prems step show ?thesis
      by (simp del: m2h_wire.simps of_nat_Suc)
  next
    case False
    let ?s = "s\<lparr>hst := (hst s)\<lparr>loc_count := 0\<rparr>, fw := fw s @ [Location_cb (gps_location_of_bytes d)]\<rparr>"
    have "arrives ?s = arrives s" by (rule ext) (simp add: arrives_def)
    with False Cons.IH [of ?s 0] Cons.prems step show ?thesis
      by (simp del: m2h_wire.simps of_nat_Suc)
  qed
qed

lemma set_mode_interval:
  assumes "1 \<le> k" "k \<le> 16000" "gpsinf_set_position_mode mode r (word_of_nat (1000 * k)) a t s = Some s'"
  shows "report_time_interval (hst s') = rat_of_nat k \<and> loc_count (hst s') = loc_count (hst s) \<and> ctx s' = ctx s \<and> fw s' = fw s"
  using assms set_interval [OF assms(1,2)]
  by (auto simp: gpsinf_set_position_mode_def split: bind_splits)

end
