(* ===== verification/Agps_Common.thy ===== *)
theory Agps_Common
  imports Channel Hal_Mnl_Common
begin

text \<open>
  \<open>mnl_agps_interface.h\<close>, shared by the daemon and the assisted-GPS daemon, and the socket functions
  that \<open>mnl2agps_interface.c\<close> and \<open>agps2mnl_interface.c\<close> each define for themselves.
\<close>

datatype mnl_agps_type =
    MNL_AGPS_TYPE_MNL_REBOOT | MNL_AGPS_TYPE_AGPS_OPEN_GPS_DONE | MNL_AGPS_TYPE_AGPS_CLOSE_GPS_DONE
  | MNL_AGPS_TYPE_AGPS_RESET_GPS_DONE | MNL_AGPS_TYPE_GPS_INIT | MNL_AGPS_TYPE_GPS_CLEANUP
  | MNL_AGPS_TYPE_DELETE_AIDING_DATA | MNL_AGPS_TYPE_GPS_OPEN | MNL_AGPS_TYPE_GPS_CLOSE
  | MNL_AGPS_TYPE_DATA_CONN_OPEN | MNL_AGPS_TYPE_DATA_CONN_FAILED | MNL_AGPS_TYPE_DATA_CONN_CLOSED
  | MNL_AGPS_TYPE_NI_MESSAGE | MNL_AGPS_TYPE_NI_RESPOND | MNL_AGPS_TYPE_SET_REF_LOC
  | MNL_AGPS_TYPE_SET_SET_ID | MNL_AGPS_TYPE_SET_SERVER | MNL_AGPS_TYPE_UPDATE_NETWORK_STATE
  | MNL_AGPS_TYPE_UPDATE_NETWORK_AVAILABILITY | MNL_AGPS_TYPE_DATA_CONN_OPEN_IP_TYPE
  | MNL_AGPS_TYPE_INSTALL_CERTIFICATES | MNL_AGPS_TYPE_REVOKE_CERTIFICATES | MNL_AGPS_TYPE_MNL2AGPS_PMTK
  | MNL_AGPS_TYPE_RAW_DBG | MNL_AGPS_TYPE_REAIDING | MNL_AGPS_TYPE_LOCATION_SYNC | MNL_AGPS_TYPE_SETTINGS_ACK
  | MNL_AGPS_TYPE_AGPS_REBOOT | MNL_AGPS_TYPE_AGPS_OPEN_GPS_REQ | MNL_AGPS_TYPE_AGPS_CLOSE_GPS_REQ
  | MNL_AGPS_TYPE_AGPS_RESET_GPS_REQ | MNL_AGPS_TYPE_AGPS_SESSION_DONE | MNL_AGPS_TYPE_NI_NOTIFY
  | MNL_AGPS_TYPE_DATA_CONN_REQ | MNL_AGPS_TYPE_DATA_CONN_RELEASE | MNL_AGPS_TYPE_SET_ID_REQ
  | MNL_AGPS_TYPE_REF_LOC_REQ | MNL_AGPS_TYPE_AGPS_LOC | MNL_AGPS_TYPE_NI_NOTIFY_2
  | MNL_AGPS_TYPE_DATA_CONN_REQ2 | MNL_AGPS_TYPE_AGPS2MNL_PMTK | MNL_AGPS_TYPE_GPEVT
  | MNL_AGPS_TYPE_SETTINGS_SYNC

primrec mnl_agps_code :: "mnl_agps_type \<Rightarrow> i32" where
  "mnl_agps_code MNL_AGPS_TYPE_MNL_REBOOT = 100"
| "mnl_agps_code MNL_AGPS_TYPE_AGPS_OPEN_GPS_DONE = 110"
| "mnl_agps_code MNL_AGPS_TYPE_AGPS_CLOSE_GPS_DONE = 111"
| "mnl_agps_code MNL_AGPS_TYPE_AGPS_RESET_GPS_DONE = 112"
| "mnl_agps_code MNL_AGPS_TYPE_GPS_INIT = 120"
| "mnl_agps_code MNL_AGPS_TYPE_GPS_CLEANUP = 121"
| "mnl_agps_code MNL_AGPS_TYPE_DELETE_AIDING_DATA = 122"
| "mnl_agps_code MNL_AGPS_TYPE_GPS_OPEN = 123"
| "mnl_agps_code MNL_AGPS_TYPE_GPS_CLOSE = 124"
| "mnl_agps_code MNL_AGPS_TYPE_DATA_CONN_OPEN = 125"
| "mnl_agps_code MNL_AGPS_TYPE_DATA_CONN_FAILED = 126"
| "mnl_agps_code MNL_AGPS_TYPE_DATA_CONN_CLOSED = 127"
| "mnl_agps_code MNL_AGPS_TYPE_NI_MESSAGE = 128"
| "mnl_agps_code MNL_AGPS_TYPE_NI_RESPOND = 129"
| "mnl_agps_code MNL_AGPS_TYPE_SET_REF_LOC = 130"
| "mnl_agps_code MNL_AGPS_TYPE_SET_SET_ID = 131"
| "mnl_agps_code MNL_AGPS_TYPE_SET_SERVER = 132"
| "mnl_agps_code MNL_AGPS_TYPE_UPDATE_NETWORK_STATE = 133"
| "mnl_agps_code MNL_AGPS_TYPE_UPDATE_NETWORK_AVAILABILITY = 134"
| "mnl_agps_code MNL_AGPS_TYPE_DATA_CONN_OPEN_IP_TYPE = 135"
| "mnl_agps_code MNL_AGPS_TYPE_INSTALL_CERTIFICATES = 136"
| "mnl_agps_code MNL_AGPS_TYPE_REVOKE_CERTIFICATES = 137"
| "mnl_agps_code MNL_AGPS_TYPE_MNL2AGPS_PMTK = 150"
| "mnl_agps_code MNL_AGPS_TYPE_RAW_DBG = 151"
| "mnl_agps_code MNL_AGPS_TYPE_REAIDING = 152"
| "mnl_agps_code MNL_AGPS_TYPE_LOCATION_SYNC = 153"
| "mnl_agps_code MNL_AGPS_TYPE_SETTINGS_ACK = 154"
| "mnl_agps_code MNL_AGPS_TYPE_AGPS_REBOOT = 200"
| "mnl_agps_code MNL_AGPS_TYPE_AGPS_OPEN_GPS_REQ = 210"
| "mnl_agps_code MNL_AGPS_TYPE_AGPS_CLOSE_GPS_REQ = 211"
| "mnl_agps_code MNL_AGPS_TYPE_AGPS_RESET_GPS_REQ = 212"
| "mnl_agps_code MNL_AGPS_TYPE_AGPS_SESSION_DONE = 220"
| "mnl_agps_code MNL_AGPS_TYPE_NI_NOTIFY = 230"
| "mnl_agps_code MNL_AGPS_TYPE_DATA_CONN_REQ = 231"
| "mnl_agps_code MNL_AGPS_TYPE_DATA_CONN_RELEASE = 232"
| "mnl_agps_code MNL_AGPS_TYPE_SET_ID_REQ = 233"
| "mnl_agps_code MNL_AGPS_TYPE_REF_LOC_REQ = 234"
| "mnl_agps_code MNL_AGPS_TYPE_AGPS_LOC = 235"
| "mnl_agps_code MNL_AGPS_TYPE_NI_NOTIFY_2 = 236"
| "mnl_agps_code MNL_AGPS_TYPE_DATA_CONN_REQ2 = 237"
| "mnl_agps_code MNL_AGPS_TYPE_AGPS2MNL_PMTK = 250"
| "mnl_agps_code MNL_AGPS_TYPE_GPEVT = 251"
| "mnl_agps_code MNL_AGPS_TYPE_SETTINGS_SYNC = 252"

definition mnl_agps_types :: "mnl_agps_type list" where
  "mnl_agps_types =
    [MNL_AGPS_TYPE_MNL_REBOOT, MNL_AGPS_TYPE_AGPS_OPEN_GPS_DONE, MNL_AGPS_TYPE_AGPS_CLOSE_GPS_DONE,
     MNL_AGPS_TYPE_AGPS_RESET_GPS_DONE, MNL_AGPS_TYPE_GPS_INIT, MNL_AGPS_TYPE_GPS_CLEANUP,
     MNL_AGPS_TYPE_DELETE_AIDING_DATA, MNL_AGPS_TYPE_GPS_OPEN, MNL_AGPS_TYPE_GPS_CLOSE,
     MNL_AGPS_TYPE_DATA_CONN_OPEN, MNL_AGPS_TYPE_DATA_CONN_FAILED, MNL_AGPS_TYPE_DATA_CONN_CLOSED,
     MNL_AGPS_TYPE_NI_MESSAGE, MNL_AGPS_TYPE_NI_RESPOND, MNL_AGPS_TYPE_SET_REF_LOC,
     MNL_AGPS_TYPE_SET_SET_ID, MNL_AGPS_TYPE_SET_SERVER, MNL_AGPS_TYPE_UPDATE_NETWORK_STATE,
     MNL_AGPS_TYPE_UPDATE_NETWORK_AVAILABILITY, MNL_AGPS_TYPE_DATA_CONN_OPEN_IP_TYPE,
     MNL_AGPS_TYPE_INSTALL_CERTIFICATES, MNL_AGPS_TYPE_REVOKE_CERTIFICATES, MNL_AGPS_TYPE_MNL2AGPS_PMTK,
     MNL_AGPS_TYPE_RAW_DBG, MNL_AGPS_TYPE_REAIDING, MNL_AGPS_TYPE_LOCATION_SYNC, MNL_AGPS_TYPE_SETTINGS_ACK,
     MNL_AGPS_TYPE_AGPS_REBOOT, MNL_AGPS_TYPE_AGPS_OPEN_GPS_REQ, MNL_AGPS_TYPE_AGPS_CLOSE_GPS_REQ,
     MNL_AGPS_TYPE_AGPS_RESET_GPS_REQ, MNL_AGPS_TYPE_AGPS_SESSION_DONE, MNL_AGPS_TYPE_NI_NOTIFY,
     MNL_AGPS_TYPE_DATA_CONN_REQ, MNL_AGPS_TYPE_DATA_CONN_RELEASE, MNL_AGPS_TYPE_SET_ID_REQ,
     MNL_AGPS_TYPE_REF_LOC_REQ, MNL_AGPS_TYPE_AGPS_LOC, MNL_AGPS_TYPE_NI_NOTIFY_2,
     MNL_AGPS_TYPE_DATA_CONN_REQ2, MNL_AGPS_TYPE_AGPS2MNL_PMTK, MNL_AGPS_TYPE_GPEVT,
     MNL_AGPS_TYPE_SETTINGS_SYNC]"

definition mnl_agps_type_of :: "i32 \<Rightarrow> mnl_agps_type option" where
  "mnl_agps_type_of v = find (\<lambda>c. mnl_agps_code c = v) mnl_agps_types"

definition MNL_AGPS_MAX_BUFF_SIZE :: nat where "MNL_AGPS_MAX_BUFF_SIZE = 8 * 1024"
definition MNL_AGPS_INTERFACE_VERSION :: i32 where "MNL_AGPS_INTERFACE_VERSION = 1"
definition AGPS_TO_MNL :: string where "AGPS_TO_MNL = ''/data/agps_supl/agps_to_mnl''"
definition MNL_TO_AGPS :: string where "MNL_TO_AGPS = ''/data/agps_supl/mnl_to_agps''"

text \<open>
  The structs of the interface. \<open>mnl_agps_agps_location\<close> crosses as a block of 72 bytes; the two
  settings structs are written and read field by field.
\<close>

record mnl_agps_agps_location =
  al_latitude :: f64
  al_longitude :: f64
  al_altitude_used :: byte
  al_altitude :: f64
  al_speed_used :: byte
  al_speed :: f32
  al_bearing_used :: byte
  al_bearing :: f32
  al_accuracy_used :: byte
  al_accuracy :: f32
  al_timestamp_used :: byte
  al_timestamp :: i64

definition sizeof_mnl_agps_agps_location :: nat where "sizeof_mnl_agps_agps_location = 72"

definition agps_location_of_bytes :: "byte list \<Rightarrow> mnl_agps_agps_location" where
  "agps_location_of_bytes mem =
     \<lparr>al_latitude = field_long mem 0, al_longitude = field_long mem 8,
      al_altitude_used = mem ! 16, al_altitude = field_long mem 24,
      al_speed_used = mem ! 32, al_speed = field_int mem 36,
      al_bearing_used = mem ! 40, al_bearing = field_int mem 44,
      al_accuracy_used = mem ! 48, al_accuracy = field_int mem 52,
      al_timestamp_used = mem ! 56, al_timestamp = field_long mem 64\<rparr>"

record mnl_agps_agps_settings =
  sib8_16_enable :: byte
  gps_satellite_enable :: byte
  glonass_satellite_enable :: byte
  beidou_satellite_enable :: byte
  galileo_satellite_enable :: byte
  a_glonass_satellite_enable :: byte

record mnl_agps_gnss_settings =
  gps_satellite_support :: byte
  glonass_satellite_support :: byte
  beidou_satellite_support :: byte
  galileo_satellite_support :: byte

text \<open>
  The private \<open>safe_sendto\<close> of the two files takes the result of \<open>socket\<close> unchecked (an error makes
  every \<open>sendto\<close> fail with \<open>EBADF\<close>) and copies the path with its terminator into \<open>sun_path\<close>.
\<close>

definition un_sendto :: "errno option \<Rightarrow> string \<Rightarrow> byte list \<Rightarrow> int \<Rightarrow> os \<Rightarrow> (int \<times> os) option" where
  "un_sendto sockfd dest buf len k =
     (if 108 < length dest + 1 then None
      else if sockfd \<noteq> None then Some (-1, log_send dest (take (nat len) buf) False k)
      else do {
        d \<leftarrow> load buf 0 len;
        let (acc, rest) = sendto_loop (answers k) 10;
        Some (if acc then len else -1, log_send dest d acc (k\<lparr>answers := rest\<rparr>)) })"

definition send2agps :: "byte list \<Rightarrow> int \<Rightarrow> os \<Rightarrow> (int \<times> os) option" where
  "send2agps buf len k = (let (sockfd, k) = sys_answer k in do {
     (r, k) \<leftarrow> un_sendto sockfd MNL_TO_AGPS buf len k;
     Some (if r < 0 then -1 else 0, k) })"

text \<open>\<open>g_agps2mnl_path\<close> is \<open>AGPS_TO_MNL\<close> unless a debug build redirects it.\<close>

definition send2mnl :: "string \<Rightarrow> byte list \<Rightarrow> int \<Rightarrow> os \<Rightarrow> (int \<times> os) option" where
  "send2mnl g_agps2mnl_path buf len k = (let (sockfd, k) = sys_answer k in do {
     (r, k) \<leftarrow> un_sendto sockfd g_agps2mnl_path buf len k;
     Some (if r < 0 then -1 else 0, k) })"

section \<open>Facts\<close>

lemma mnl_agps_type_of_code [simp]: "mnl_agps_type_of (mnl_agps_code c) = Some c"
  by (cases c) (simp_all add: mnl_agps_type_of_def mnl_agps_types_def)

lemma agps_path_len [simp]: "length AGPS_TO_MNL = 27" "length MNL_TO_AGPS = 27"
  by (simp_all add: AGPS_TO_MNL_def MNL_TO_AGPS_def)

lemma agps_path_diff [simp]:
  "AGPS_TO_MNL \<noteq> MNL_TO_AGPS" "MNL_TO_AGPS \<noteq> AGPS_TO_MNL"
  "MTK_MNL2HAL \<noteq> MNL_TO_AGPS" "MNL_TO_AGPS \<noteq> MTK_MNL2HAL"
  by (simp_all add: AGPS_TO_MNL_def MNL_TO_AGPS_def MTK_MNL2HAL_def)

text \<open>Either function is one transmission that reports 0 or -1.\<close>

definition transmit0 :: "string \<Rightarrow> byte list \<Rightarrow> os \<Rightarrow> int \<times> os" where
  "transmit0 path d k = (if fst (post path d k) then 0 else -1, sent path d k)"

lemma snd_transmit0 [simp]: "snd (transmit0 path d k) = sent path d k"
  by (simp add: transmit0_def)

lemma send2mnl_wr [wire_put]:
  assumes "length path \<le> 107" "length d \<le> n"
  shows "send2mnl path (buff (wr n d)) (offset (wr n d)) k = Some (transmit0 path d k)"
  using assms
  by (auto simp: send2mnl_def un_sendto_def transmit0_def post_def sent_def wr_sel load_def log_send_def
      split: prod.splits)

lemma send2agps_wr [wire_put]:
  assumes "length d \<le> n"
  shows "send2agps (buff (wr n d)) (offset (wr n d)) k = Some (transmit0 MNL_TO_AGPS d k)"
  using send2mnl_wr [of MNL_TO_AGPS d n k] assms
  by (simp add: send2mnl_def send2agps_def)

end
