(* ===== verification/Mnl2Agps_Interface.thy ===== *)
theory Mnl2Agps_Interface
  imports Agps_Common
begin

text \<open>
  \<open>mnl2agps_interface.c\<close>, the daemon's end of the assisted-GPS sockets: one function per message to
  the assisted-GPS daemon, and \<open>agps2mnl_hdlr\<close>, which receives one of its messages. Unlike the HAL
  handlers, this one decodes the arguments before it looks at the callback.
\<close>

section \<open>Messages to the assisted-GPS daemon\<close>

definition mnl2agps_mnl_reboot :: "os \<Rightarrow> (int \<times> os) option" where
  "mnl2agps_mnl_reboot k = do {
     b \<leftarrow> put_int MNL_AGPS_INTERFACE_VERSION (fresh MNL_AGPS_MAX_BUFF_SIZE);
     b \<leftarrow> put_int (mnl_agps_code MNL_AGPS_TYPE_MNL_REBOOT) b;
     send2agps (buff b) (offset b) k }"

definition mnl2agps_open_gps_done :: "os \<Rightarrow> (int \<times> os) option" where
  "mnl2agps_open_gps_done k = do {
     b \<leftarrow> put_int MNL_AGPS_INTERFACE_VERSION (fresh MNL_AGPS_MAX_BUFF_SIZE);
     b \<leftarrow> put_int (mnl_agps_code MNL_AGPS_TYPE_AGPS_OPEN_GPS_DONE) b;
     send2agps (buff b) (offset b) k }"

definition mnl2agps_close_gps_done :: "os \<Rightarrow> (int \<times> os) option" where
  "mnl2agps_close_gps_done k = do {
     b \<leftarrow> put_int MNL_AGPS_INTERFACE_VERSION (fresh MNL_AGPS_MAX_BUFF_SIZE);
     b \<leftarrow> put_int (mnl_agps_code MNL_AGPS_TYPE_AGPS_CLOSE_GPS_DONE) b;
     send2agps (buff b) (offset b) k }"

definition mnl2agps_reset_gps_done :: "os \<Rightarrow> (int \<times> os) option" where
  "mnl2agps_reset_gps_done k = do {
     b \<leftarrow> put_int MNL_AGPS_INTERFACE_VERSION (fresh MNL_AGPS_MAX_BUFF_SIZE);
     b \<leftarrow> put_int (mnl_agps_code MNL_AGPS_TYPE_AGPS_RESET_GPS_DONE) b;
     send2agps (buff b) (offset b) k }"

definition mnl2agps_gps_init :: "os \<Rightarrow> (int \<times> os) option" where
  "mnl2agps_gps_init k = do {
     b \<leftarrow> put_int MNL_AGPS_INTERFACE_VERSION (fresh MNL_AGPS_MAX_BUFF_SIZE);
     b \<leftarrow> put_int (mnl_agps_code MNL_AGPS_TYPE_GPS_INIT) b;
     send2agps (buff b) (offset b) k }"

definition mnl2agps_gps_cleanup :: "os \<Rightarrow> (int \<times> os) option" where
  "mnl2agps_gps_cleanup k = do {
     b \<leftarrow> put_int MNL_AGPS_INTERFACE_VERSION (fresh MNL_AGPS_MAX_BUFF_SIZE);
     b \<leftarrow> put_int (mnl_agps_code MNL_AGPS_TYPE_GPS_CLEANUP) b;
     send2agps (buff b) (offset b) k }"

definition mnl2agps_set_server :: "i32 \<Rightarrow> cstr \<Rightarrow> i32 \<Rightarrow> os \<Rightarrow> (int \<times> os) option" where
  "mnl2agps_set_server type hostname port k = do {
     b \<leftarrow> put_int MNL_AGPS_INTERFACE_VERSION (fresh MNL_AGPS_MAX_BUFF_SIZE);
     b \<leftarrow> put_int (mnl_agps_code MNL_AGPS_TYPE_SET_SERVER) b;
     b \<leftarrow> put_int type b;
     b \<leftarrow> put_string hostname b;
     b \<leftarrow> put_int port b;
     send2agps (buff b) (offset b) k }"

definition mnl2agps_delete_aiding_data :: "i32 \<Rightarrow> os \<Rightarrow> (int \<times> os) option" where
  "mnl2agps_delete_aiding_data flags k = do {
     b \<leftarrow> put_int MNL_AGPS_INTERFACE_VERSION (fresh MNL_AGPS_MAX_BUFF_SIZE);
     b \<leftarrow> put_int (mnl_agps_code MNL_AGPS_TYPE_DELETE_AIDING_DATA) b;
     b \<leftarrow> put_int flags b;
     send2agps (buff b) (offset b) k }"

definition mnl2agps_gps_open :: "i32 \<Rightarrow> os \<Rightarrow> (int \<times> os) option" where
  "mnl2agps_gps_open assist_req k = do {
     b \<leftarrow> put_int MNL_AGPS_INTERFACE_VERSION (fresh MNL_AGPS_MAX_BUFF_SIZE);
     b \<leftarrow> put_int (mnl_agps_code MNL_AGPS_TYPE_GPS_OPEN) b;
     b \<leftarrow> put_int assist_req b;
     send2agps (buff b) (offset b) k }"

definition mnl2agps_gps_close :: "os \<Rightarrow> (int \<times> os) option" where
  "mnl2agps_gps_close k = do {
     b \<leftarrow> put_int MNL_AGPS_INTERFACE_VERSION (fresh MNL_AGPS_MAX_BUFF_SIZE);
     b \<leftarrow> put_int (mnl_agps_code MNL_AGPS_TYPE_GPS_CLOSE) b;
     send2agps (buff b) (offset b) k }"

definition mnl2agps_data_conn_open :: "cstr \<Rightarrow> os \<Rightarrow> (int \<times> os) option" where
  "mnl2agps_data_conn_open apn k = do {
     b \<leftarrow> put_int MNL_AGPS_INTERFACE_VERSION (fresh MNL_AGPS_MAX_BUFF_SIZE);
     b \<leftarrow> put_int (mnl_agps_code MNL_AGPS_TYPE_DATA_CONN_OPEN) b;
     b \<leftarrow> put_string apn b;
     send2agps (buff b) (offset b) k }"

definition mnl2agps_data_conn_open_ip_type :: "cstr \<Rightarrow> i32 \<Rightarrow> os \<Rightarrow> (int \<times> os) option" where
  "mnl2agps_data_conn_open_ip_type apn ip_type k = do {
     b \<leftarrow> put_int MNL_AGPS_INTERFACE_VERSION (fresh MNL_AGPS_MAX_BUFF_SIZE);
     b \<leftarrow> put_int (mnl_agps_code MNL_AGPS_TYPE_DATA_CONN_OPEN_IP_TYPE) b;
     b \<leftarrow> put_string apn b;
     b \<leftarrow> put_int ip_type b;
     send2agps (buff b) (offset b) k }"

definition mnl2agps_install_certificates :: "i32 \<Rightarrow> i32 \<Rightarrow> byte list \<Rightarrow> i32 \<Rightarrow> os \<Rightarrow> (int \<times> os) option" where
  "mnl2agps_install_certificates index total_num data len k = do {
     b \<leftarrow> put_int MNL_AGPS_INTERFACE_VERSION (fresh MNL_AGPS_MAX_BUFF_SIZE);
     b \<leftarrow> put_int (mnl_agps_code MNL_AGPS_TYPE_INSTALL_CERTIFICATES) b;
     b \<leftarrow> put_int index b;
     b \<leftarrow> put_int total_num b;
     b \<leftarrow> put_binary data len b;
     send2agps (buff b) (offset b) k }"

definition mnl2agps_revoke_certificates :: "byte list \<Rightarrow> i32 \<Rightarrow> os \<Rightarrow> (int \<times> os) option" where
  "mnl2agps_revoke_certificates data len k = do {
     b \<leftarrow> put_int MNL_AGPS_INTERFACE_VERSION (fresh MNL_AGPS_MAX_BUFF_SIZE);
     b \<leftarrow> put_int (mnl_agps_code MNL_AGPS_TYPE_REVOKE_CERTIFICATES) b;
     b \<leftarrow> put_binary data len b;
     send2agps (buff b) (offset b) k }"

definition mnl2agps_data_conn_failed :: "os \<Rightarrow> (int \<times> os) option" where
  "mnl2agps_data_conn_failed k = do {
     b \<leftarrow> put_int MNL_AGPS_INTERFACE_VERSION (fresh MNL_AGPS_MAX_BUFF_SIZE);
     b \<leftarrow> put_int (mnl_agps_code MNL_AGPS_TYPE_DATA_CONN_FAILED) b;
     send2agps (buff b) (offset b) k }"

definition mnl2agps_data_conn_closed :: "os \<Rightarrow> (int \<times> os) option" where
  "mnl2agps_data_conn_closed k = do {
     b \<leftarrow> put_int MNL_AGPS_INTERFACE_VERSION (fresh MNL_AGPS_MAX_BUFF_SIZE);
     b \<leftarrow> put_int (mnl_agps_code MNL_AGPS_TYPE_DATA_CONN_CLOSED) b;
     send2agps (buff b) (offset b) k }"

definition mnl2agps_ni_message :: "byte list \<Rightarrow> i32 \<Rightarrow> os \<Rightarrow> (int \<times> os) option" where
  "mnl2agps_ni_message msg len k = do {
     b \<leftarrow> put_int MNL_AGPS_INTERFACE_VERSION (fresh MNL_AGPS_MAX_BUFF_SIZE);
     b \<leftarrow> put_int (mnl_agps_code MNL_AGPS_TYPE_NI_MESSAGE) b;
     b \<leftarrow> put_binary msg len b;
     send2agps (buff b) (offset b) k }"

definition mnl2agps_ni_respond :: "i32 \<Rightarrow> i32 \<Rightarrow> os \<Rightarrow> (int \<times> os) option" where
  "mnl2agps_ni_respond session_id user_response k = do {
     b \<leftarrow> put_int MNL_AGPS_INTERFACE_VERSION (fresh MNL_AGPS_MAX_BUFF_SIZE);
     b \<leftarrow> put_int (mnl_agps_code MNL_AGPS_TYPE_NI_RESPOND) b;
     b \<leftarrow> put_int session_id b;
     b \<leftarrow> put_int user_response b;
     send2agps (buff b) (offset b) k }"

definition mnl2agps_set_ref_loc :: "i32 \<Rightarrow> i32 \<Rightarrow> i32 \<Rightarrow> i32 \<Rightarrow> i32 \<Rightarrow> os \<Rightarrow> (int \<times> os) option" where
  "mnl2agps_set_ref_loc type mcc mnc lac cid k = do {
     b \<leftarrow> put_int MNL_AGPS_INTERFACE_VERSION (fresh MNL_AGPS_MAX_BUFF_SIZE);
     b \<leftarrow> put_int (mnl_agps_code MNL_AGPS_TYPE_SET_REF_LOC) b;
     b \<leftarrow> put_int type b;
     b \<leftarrow> put_int mcc b;
     b \<leftarrow> put_int mnc b;
     b \<leftarrow> put_int lac b;
     b \<leftarrow> put_int cid b;
     send2agps (buff b) (offset b) k }"

definition mnl2agps_set_set_id :: "i32 \<Rightarrow> cstr \<Rightarrow> os \<Rightarrow> (int \<times> os) option" where
  "mnl2agps_set_set_id type setid k = do {
     b \<leftarrow> put_int MNL_AGPS_INTERFACE_VERSION (fresh MNL_AGPS_MAX_BUFF_SIZE);
     b \<leftarrow> put_int (mnl_agps_code MNL_AGPS_TYPE_SET_SET_ID) b;
     b \<leftarrow> put_int type b;
     b \<leftarrow> put_string setid b;
     send2agps (buff b) (offset b) k }"

definition mnl2agps_update_network_state :: "i32 \<Rightarrow> i32 \<Rightarrow> i32 \<Rightarrow> cstr \<Rightarrow> os \<Rightarrow> (int \<times> os) option" where
  "mnl2agps_update_network_state is_connected type roaming extra_info k = do {
     b \<leftarrow> put_int MNL_AGPS_INTERFACE_VERSION (fresh MNL_AGPS_MAX_BUFF_SIZE);
     b \<leftarrow> put_int (mnl_agps_code MNL_AGPS_TYPE_UPDATE_NETWORK_STATE) b;
     b \<leftarrow> put_int is_connected b;
     b \<leftarrow> put_int type b;
     b \<leftarrow> put_int roaming b;
     b \<leftarrow> put_string extra_info b;
     send2agps (buff b) (offset b) k }"

definition mnl2agps_update_network_availability :: "i32 \<Rightarrow> cstr \<Rightarrow> os \<Rightarrow> (int \<times> os) option" where
  "mnl2agps_update_network_availability avaiable apn k = do {
     b \<leftarrow> put_int MNL_AGPS_INTERFACE_VERSION (fresh MNL_AGPS_MAX_BUFF_SIZE);
     b \<leftarrow> put_int (mnl_agps_code MNL_AGPS_TYPE_UPDATE_NETWORK_AVAILABILITY) b;
     b \<leftarrow> put_int avaiable b;
     b \<leftarrow> put_string apn b;
     send2agps (buff b) (offset b) k }"

definition mnl2agps_pmtk :: "cstr \<Rightarrow> os \<Rightarrow> (int \<times> os) option" where
  "mnl2agps_pmtk pmtk k = do {
     b \<leftarrow> put_int MNL_AGPS_INTERFACE_VERSION (fresh MNL_AGPS_MAX_BUFF_SIZE);
     b \<leftarrow> put_int (mnl_agps_code MNL_AGPS_TYPE_MNL2AGPS_PMTK) b;
     b \<leftarrow> put_string pmtk b;
     send2agps (buff b) (offset b) k }"

definition mnl2agps_raw_dbg :: "i32 \<Rightarrow> os \<Rightarrow> (int \<times> os) option" where
  "mnl2agps_raw_dbg enabled k = do {
     b \<leftarrow> put_int MNL_AGPS_INTERFACE_VERSION (fresh MNL_AGPS_MAX_BUFF_SIZE);
     b \<leftarrow> put_int (mnl_agps_code MNL_AGPS_TYPE_RAW_DBG) b;
     b \<leftarrow> put_int enabled b;
     send2agps (buff b) (offset b) k }"

definition mnl2agps_reaiding_req :: "os \<Rightarrow> (int \<times> os) option" where
  "mnl2agps_reaiding_req k = do {
     b \<leftarrow> put_int MNL_AGPS_INTERFACE_VERSION (fresh MNL_AGPS_MAX_BUFF_SIZE);
     b \<leftarrow> put_int (mnl_agps_code MNL_AGPS_TYPE_REAIDING) b;
     send2agps (buff b) (offset b) k }"

definition mnl2agps_location_sync :: "f64 \<Rightarrow> f64 \<Rightarrow> i32 \<Rightarrow> os \<Rightarrow> (int \<times> os) option" where
  "mnl2agps_location_sync lat lng acc k = do {
     b \<leftarrow> put_int MNL_AGPS_INTERFACE_VERSION (fresh MNL_AGPS_MAX_BUFF_SIZE);
     b \<leftarrow> put_int (mnl_agps_code MNL_AGPS_TYPE_LOCATION_SYNC) b;
     b \<leftarrow> put_double lat b;
     b \<leftarrow> put_double lng b;
     b \<leftarrow> put_int acc b;
     send2agps (buff b) (offset b) k }"

definition mnl2agps_agps_settings_ack :: "mnl_agps_gnss_settings \<Rightarrow> os \<Rightarrow> (int \<times> os) option" where
  "mnl2agps_agps_settings_ack settings k = do {
     b \<leftarrow> put_int MNL_AGPS_INTERFACE_VERSION (fresh MNL_AGPS_MAX_BUFF_SIZE);
     b \<leftarrow> put_int (mnl_agps_code MNL_AGPS_TYPE_SETTINGS_ACK) b;
     b \<leftarrow> put_int (ucast (gps_satellite_support settings)) b;
     b \<leftarrow> put_int (ucast (glonass_satellite_support settings)) b;
     b \<leftarrow> put_int (ucast (beidou_satellite_support settings)) b;
     b \<leftarrow> put_int (ucast (galileo_satellite_support settings)) b;
     send2agps (buff b) (offset b) k }"

section \<open>Messages from the assisted-GPS daemon\<close>

record 's agps2mnl_interface =
  a2m_agps_reboot :: "'s act option"
  a2m_agps_open_gps_req :: "(i32 \<Rightarrow> 's act) option"
  a2m_agps_close_gps_req :: "'s act option"
  a2m_agps_reset_gps_req :: "(i32 \<Rightarrow> 's act) option"
  a2m_agps_session_done :: "'s act option"
  a2m_ni_notify :: "(i32 \<Rightarrow> i32 \<Rightarrow> cstr \<Rightarrow> cstr \<Rightarrow> 's act) option"
  a2m_ni_notify2 :: "(i32 \<Rightarrow> i32 \<Rightarrow> cstr \<Rightarrow> cstr \<Rightarrow> i32 \<Rightarrow> i32 \<Rightarrow> 's act) option"
  a2m_data_conn_req :: "(i32 \<Rightarrow> i32 \<Rightarrow> 's act) option"
  a2m_data_conn_req2 :: "(byte list \<Rightarrow> i32 \<Rightarrow> 's act) option"
  a2m_data_conn_release :: "'s act option"
  a2m_set_id_req :: "(i32 \<Rightarrow> 's act) option"
  a2m_ref_loc_req :: "(i32 \<Rightarrow> 's act) option"
  a2m_rcv_pmtk :: "(cstr \<Rightarrow> 's act) option"
  a2m_gpevt :: "(i32 \<Rightarrow> 's act) option"
  a2m_agps_location :: "(byte list \<Rightarrow> 's act) option"
  a2m_agps_settings_sync :: "(mnl_agps_agps_settings \<Rightarrow> 's act) option"

text \<open>A value of the wire that is outside the enumeration, or that belongs to the other direction, is logged.\<close>

definition agps2mnl_hdlr :: "(nat \<Rightarrow> byte) \<Rightarrow> rx_ans list \<Rightarrow> 's agps2mnl_interface \<Rightarrow> 's act" where
  "agps2mnl_hdlr junk rx mnl_interface s =
    (let (ret, mem) = safe_recvfrom rx (replicate MNL_AGPS_MAX_BUFF_SIZE 0)
     in if ret \<le> 0 then Some s
     else do {
       (version, b) \<leftarrow> get_int (cursor mem);
       (type, b) \<leftarrow> get_int b;
       (case mnl_agps_type_of type of
          Some MNL_AGPS_TYPE_AGPS_REBOOT \<Rightarrow> call_cb (a2m_agps_reboot mnl_interface) (\<lambda>f s. f s) s
        | Some MNL_AGPS_TYPE_AGPS_OPEN_GPS_REQ \<Rightarrow> do {
            (show_gps_icon, b) \<leftarrow> get_int b;
            call_cb (a2m_agps_open_gps_req mnl_interface) (\<lambda>f. f show_gps_icon) s }
        | Some MNL_AGPS_TYPE_AGPS_CLOSE_GPS_REQ \<Rightarrow> call_cb (a2m_agps_close_gps_req mnl_interface) (\<lambda>f s. f s) s
        | Some MNL_AGPS_TYPE_AGPS_RESET_GPS_REQ \<Rightarrow> do {
            (flags, b) \<leftarrow> get_int b;
            call_cb (a2m_agps_reset_gps_req mnl_interface) (\<lambda>f. f flags) s }
        | Some MNL_AGPS_TYPE_AGPS_SESSION_DONE \<Rightarrow> call_cb (a2m_agps_session_done mnl_interface) (\<lambda>f s. f s) s
        | Some MNL_AGPS_TYPE_NI_NOTIFY \<Rightarrow> do {
            (session_id, b) \<leftarrow> get_int b;
            (type, b) \<leftarrow> get_int b;
            (requestor_id, b) \<leftarrow> get_string b;
            (client_name, b) \<leftarrow> get_string b;
            call_cb (a2m_ni_notify mnl_interface) (\<lambda>f s. do { requestor_id \<leftarrow> deref_str requestor_id; client_name \<leftarrow> deref_str client_name; f session_id type requestor_id client_name s }) s }
        | Some MNL_AGPS_TYPE_NI_NOTIFY_2 \<Rightarrow> do {
            (session_id, b) \<leftarrow> get_int b;
            (type, b) \<leftarrow> get_int b;
            (requestor_id, b) \<leftarrow> get_string b;
            (client_name, b) \<leftarrow> get_string b;
            (requestor_id_encoding, b) \<leftarrow> get_int b;
            (client_name_encoding, b) \<leftarrow> get_int b;
            call_cb (a2m_ni_notify2 mnl_interface) (\<lambda>f s. do { requestor_id \<leftarrow> deref_str requestor_id; client_name \<leftarrow> deref_str client_name; f session_id type requestor_id client_name requestor_id_encoding client_name_encoding s }) s }
        | Some MNL_AGPS_TYPE_DATA_CONN_REQ \<Rightarrow> do {
            (ipaddr, b) \<leftarrow> get_int b;
            (is_emergency, b) \<leftarrow> get_int b;
            call_cb (a2m_data_conn_req mnl_interface) (\<lambda>f. f ipaddr is_emergency) s }
        | Some MNL_AGPS_TYPE_DATA_CONN_REQ2 \<Rightarrow> do {
            ((len, addr), b) \<leftarrow> get_binary (uninit junk sizeof_sockaddr_storage) b;
            (is_emergency, b) \<leftarrow> get_int b;
            call_cb (a2m_data_conn_req2 mnl_interface) (\<lambda>f. f addr is_emergency) s }
        | Some MNL_AGPS_TYPE_DATA_CONN_RELEASE \<Rightarrow> call_cb (a2m_data_conn_release mnl_interface) (\<lambda>f s. f s) s
        | Some MNL_AGPS_TYPE_SET_ID_REQ \<Rightarrow> do {
            (flags, b) \<leftarrow> get_int b;
            call_cb (a2m_set_id_req mnl_interface) (\<lambda>f. f flags) s }
        | Some MNL_AGPS_TYPE_REF_LOC_REQ \<Rightarrow> do {
            (flags, b) \<leftarrow> get_int b;
            call_cb (a2m_ref_loc_req mnl_interface) (\<lambda>f. f flags) s }
        | Some MNL_AGPS_TYPE_AGPS2MNL_PMTK \<Rightarrow> do {
            (pmtk, b) \<leftarrow> get_string b;
            call_cb (a2m_rcv_pmtk mnl_interface) (\<lambda>f s. do { pmtk \<leftarrow> deref_str pmtk; f pmtk s }) s }
        | Some MNL_AGPS_TYPE_GPEVT \<Rightarrow> do {
            (type, b) \<leftarrow> get_int b;
            call_cb (a2m_gpevt mnl_interface) (\<lambda>f. f type) s }
        | Some MNL_AGPS_TYPE_AGPS_LOC \<Rightarrow> do {
            ((len, location), b) \<leftarrow> get_binary (uninit junk sizeof_mnl_agps_agps_location) b;
            call_cb (a2m_agps_location mnl_interface) (\<lambda>f. f location) s }
        | Some MNL_AGPS_TYPE_SETTINGS_SYNC \<Rightarrow> do {
            (sib, b) \<leftarrow> get_int b;
            (gps, b) \<leftarrow> get_int b;
            (glonass, b) \<leftarrow> get_int b;
            (beidou, b) \<leftarrow> get_int b;
            (galileo, b) \<leftarrow> get_int b;
            (a_glonass, b) \<leftarrow> get_int b;
            call_cb (a2m_agps_settings_sync mnl_interface) (\<lambda>f. f
              \<lparr>sib8_16_enable = ucast sib, gps_satellite_enable = ucast gps,
               glonass_satellite_enable = ucast glonass, beidou_satellite_enable = ucast beidou,
               galileo_satellite_enable = ucast galileo, a_glonass_satellite_enable = ucast a_glonass\<rparr>) s }
        | _ \<Rightarrow> Some s) })"

section \<open>The daemon's messages as values\<close>

datatype mnl2agps_msg =
    G_mnl_reboot
  | G_open_gps_done
  | G_close_gps_done
  | G_reset_gps_done
  | G_gps_init
  | G_gps_cleanup
  | G_set_server i32 cstr i32
  | G_delete_aiding_data i32
  | G_gps_open i32
  | G_gps_close
  | G_data_conn_open cstr
  | G_data_conn_open_ip_type cstr i32
  | G_install_certificates i32 i32 "byte list"
  | G_revoke_certificates "byte list"
  | G_data_conn_failed
  | G_data_conn_closed
  | G_ni_message "byte list"
  | G_ni_respond i32 i32
  | G_set_ref_loc i32 i32 i32 i32 i32
  | G_set_set_id i32 cstr
  | G_update_network_state i32 i32 i32 cstr
  | G_update_network_availability i32 cstr
  | G_pmtk cstr
  | G_raw_dbg i32
  | G_reaiding_req
  | G_location_sync f64 f64 i32
  | G_agps_settings_ack mnl_agps_gnss_settings

definition agps_head :: "mnl_agps_type \<Rightarrow> byte list" where
  "agps_head c = enc_int MNL_AGPS_INTERFACE_VERSION @ enc_int (mnl_agps_code c)"

primrec m2a_wire :: "mnl2agps_msg \<Rightarrow> byte list" where
  "m2a_wire G_mnl_reboot = agps_head MNL_AGPS_TYPE_MNL_REBOOT"
| "m2a_wire G_open_gps_done = agps_head MNL_AGPS_TYPE_AGPS_OPEN_GPS_DONE"
| "m2a_wire G_close_gps_done = agps_head MNL_AGPS_TYPE_AGPS_CLOSE_GPS_DONE"
| "m2a_wire G_reset_gps_done = agps_head MNL_AGPS_TYPE_AGPS_RESET_GPS_DONE"
| "m2a_wire G_gps_init = agps_head MNL_AGPS_TYPE_GPS_INIT"
| "m2a_wire G_gps_cleanup = agps_head MNL_AGPS_TYPE_GPS_CLEANUP"
| "m2a_wire (G_set_server type hostname port) = agps_head MNL_AGPS_TYPE_SET_SERVER @ enc_int type @ enc_string hostname @ enc_int port"
| "m2a_wire (G_delete_aiding_data flags) = agps_head MNL_AGPS_TYPE_DELETE_AIDING_DATA @ enc_int flags"
| "m2a_wire (G_gps_open assist_req) = agps_head MNL_AGPS_TYPE_GPS_OPEN @ enc_int assist_req"
| "m2a_wire G_gps_close = agps_head MNL_AGPS_TYPE_GPS_CLOSE"
| "m2a_wire (G_data_conn_open apn) = agps_head MNL_AGPS_TYPE_DATA_CONN_OPEN @ enc_string apn"
| "m2a_wire (G_data_conn_open_ip_type apn ip_type) = agps_head MNL_AGPS_TYPE_DATA_CONN_OPEN_IP_TYPE @ enc_string apn @ enc_int ip_type"
| "m2a_wire (G_install_certificates index total_num data) = agps_head MNL_AGPS_TYPE_INSTALL_CERTIFICATES @ enc_int index @ enc_int total_num @ enc_binary data"
| "m2a_wire (G_revoke_certificates data) = agps_head MNL_AGPS_TYPE_REVOKE_CERTIFICATES @ enc_binary data"
| "m2a_wire G_data_conn_failed = agps_head MNL_AGPS_TYPE_DATA_CONN_FAILED"
| "m2a_wire G_data_conn_closed = agps_head MNL_AGPS_TYPE_DATA_CONN_CLOSED"
| "m2a_wire (G_ni_message msg) = agps_head MNL_AGPS_TYPE_NI_MESSAGE @ enc_binary msg"
| "m2a_wire (G_ni_respond session_id user_response) = agps_head MNL_AGPS_TYPE_NI_RESPOND @ enc_int session_id @ enc_int user_response"
| "m2a_wire (G_set_ref_loc type mcc mnc lac cid) = agps_head MNL_AGPS_TYPE_SET_REF_LOC @ enc_int type @ enc_int mcc @ enc_int mnc @ enc_int lac @ enc_int cid"
| "m2a_wire (G_set_set_id type setid) = agps_head MNL_AGPS_TYPE_SET_SET_ID @ enc_int type @ enc_string setid"
| "m2a_wire (G_update_network_state is_connected type roaming extra_info) = agps_head MNL_AGPS_TYPE_UPDATE_NETWORK_STATE @ enc_int is_connected @ enc_int type @ enc_int roaming @ enc_string extra_info"
| "m2a_wire (G_update_network_availability avaiable apn) = agps_head MNL_AGPS_TYPE_UPDATE_NETWORK_AVAILABILITY @ enc_int avaiable @ enc_string apn"
| "m2a_wire (G_pmtk pmtk) = agps_head MNL_AGPS_TYPE_MNL2AGPS_PMTK @ enc_string pmtk"
| "m2a_wire (G_raw_dbg enabled) = agps_head MNL_AGPS_TYPE_RAW_DBG @ enc_int enabled"
| "m2a_wire G_reaiding_req = agps_head MNL_AGPS_TYPE_REAIDING"
| "m2a_wire (G_location_sync lat lng acc) = agps_head MNL_AGPS_TYPE_LOCATION_SYNC @ enc_long lat @ enc_long lng @ enc_int acc"
| "m2a_wire (G_agps_settings_ack settings) = agps_head MNL_AGPS_TYPE_SETTINGS_ACK @ enc_int (ucast (gps_satellite_support settings)) @ enc_int (ucast (glonass_satellite_support settings)) @ enc_int (ucast (beidou_satellite_support settings)) @ enc_int (ucast (galileo_satellite_support settings))"

fun m2a_wf :: "mnl2agps_msg \<Rightarrow> bool" where
  "m2a_wf (G_set_server type hostname port) = (ok_string hostname)"
| "m2a_wf (G_data_conn_open apn) = (ok_string apn)"
| "m2a_wf (G_data_conn_open_ip_type apn ip_type) = (ok_string apn)"
| "m2a_wf (G_install_certificates index total_num data) = (length data < 2 ^ 31)"
| "m2a_wf (G_revoke_certificates data) = (length data < 2 ^ 31)"
| "m2a_wf (G_ni_message msg) = (length msg < 2 ^ 31)"
| "m2a_wf (G_set_set_id type setid) = (ok_string setid)"
| "m2a_wf (G_update_network_state is_connected type roaming extra_info) = (ok_string extra_info)"
| "m2a_wf (G_update_network_availability avaiable apn) = (ok_string apn)"
| "m2a_wf (G_pmtk pmtk) = (ok_string pmtk)"
| "m2a_wf _ = True"

definition m2a_fits :: "mnl2agps_msg \<Rightarrow> bool" where
  "m2a_fits m = (m2a_wf m \<and> length (m2a_wire m) \<le> MNL_AGPS_MAX_BUFF_SIZE)"

primrec mnl2agps_send :: "mnl2agps_msg \<Rightarrow> os \<Rightarrow> (int \<times> os) option" where
  "mnl2agps_send G_mnl_reboot k = mnl2agps_mnl_reboot k"
| "mnl2agps_send G_open_gps_done k = mnl2agps_open_gps_done k"
| "mnl2agps_send G_close_gps_done k = mnl2agps_close_gps_done k"
| "mnl2agps_send G_reset_gps_done k = mnl2agps_reset_gps_done k"
| "mnl2agps_send G_gps_init k = mnl2agps_gps_init k"
| "mnl2agps_send G_gps_cleanup k = mnl2agps_gps_cleanup k"
| "mnl2agps_send (G_set_server type hostname port) k = mnl2agps_set_server type hostname port k"
| "mnl2agps_send (G_delete_aiding_data flags) k = mnl2agps_delete_aiding_data flags k"
| "mnl2agps_send (G_gps_open assist_req) k = mnl2agps_gps_open assist_req k"
| "mnl2agps_send G_gps_close k = mnl2agps_gps_close k"
| "mnl2agps_send (G_data_conn_open apn) k = mnl2agps_data_conn_open apn k"
| "mnl2agps_send (G_data_conn_open_ip_type apn ip_type) k = mnl2agps_data_conn_open_ip_type apn ip_type k"
| "mnl2agps_send (G_install_certificates index total_num data) k = mnl2agps_install_certificates index total_num data (word_of_nat (length data)) k"
| "mnl2agps_send (G_revoke_certificates data) k = mnl2agps_revoke_certificates data (word_of_nat (length data)) k"
| "mnl2agps_send G_data_conn_failed k = mnl2agps_data_conn_failed k"
| "mnl2agps_send G_data_conn_closed k = mnl2agps_data_conn_closed k"
| "mnl2agps_send (G_ni_message msg) k = mnl2agps_ni_message msg (word_of_nat (length msg)) k"
| "mnl2agps_send (G_ni_respond session_id user_response) k = mnl2agps_ni_respond session_id user_response k"
| "mnl2agps_send (G_set_ref_loc type mcc mnc lac cid) k = mnl2agps_set_ref_loc type mcc mnc lac cid k"
| "mnl2agps_send (G_set_set_id type setid) k = mnl2agps_set_set_id type setid k"
| "mnl2agps_send (G_update_network_state is_connected type roaming extra_info) k = mnl2agps_update_network_state is_connected type roaming extra_info k"
| "mnl2agps_send (G_update_network_availability avaiable apn) k = mnl2agps_update_network_availability avaiable apn k"
| "mnl2agps_send (G_pmtk pmtk) k = mnl2agps_pmtk pmtk k"
| "mnl2agps_send (G_raw_dbg enabled) k = mnl2agps_raw_dbg enabled k"
| "mnl2agps_send G_reaiding_req k = mnl2agps_reaiding_req k"
| "mnl2agps_send (G_location_sync lat lng acc) k = mnl2agps_location_sync lat lng acc k"
| "mnl2agps_send (G_agps_settings_ack settings) k = mnl2agps_agps_settings_ack settings k"

lemmas mnl2agps_defs =
  mnl2agps_mnl_reboot_def mnl2agps_open_gps_done_def mnl2agps_close_gps_done_def mnl2agps_reset_gps_done_def mnl2agps_gps_init_def mnl2agps_gps_cleanup_def mnl2agps_set_server_def mnl2agps_delete_aiding_data_def mnl2agps_gps_open_def mnl2agps_gps_close_def mnl2agps_data_conn_open_def mnl2agps_data_conn_open_ip_type_def mnl2agps_install_certificates_def mnl2agps_revoke_certificates_def mnl2agps_data_conn_failed_def mnl2agps_data_conn_closed_def mnl2agps_ni_message_def mnl2agps_ni_respond_def mnl2agps_set_ref_loc_def mnl2agps_set_set_id_def mnl2agps_update_network_state_def mnl2agps_update_network_availability_def mnl2agps_pmtk_def mnl2agps_raw_dbg_def mnl2agps_reaiding_req_def mnl2agps_location_sync_def mnl2agps_agps_settings_ack_def

lemma mnl2agps_send_transmit:
  assumes "m2a_fits m"
  shows "mnl2agps_send m k = Some (transmit0 MNL_TO_AGPS (m2a_wire m) k)"
  using assms
  by (cases m)
    (simp_all add: m2a_fits_def mnl2agps_defs agps_head_def fresh_wr wire_put sint_word_of_nat
      MNL_AGPS_MAX_BUFF_SIZE_def del: mnl_agps_code.simps)

end
