(* ===== verification/Flp_Interface.thy ===== *)
theory Flp_Interface
  imports Hal_Mnl_Common Channel
begin

text \<open>
  \<open>mnl_flp_interface.c\<close> and \<open>mnl_flp_test_interface.c\<close>: the sockets between the daemon and the fused
  location process. A message is the struct \<open>MTK_FLP_OFFLOAD_MSG_T\<close>: a type, a length and 600 payload
  bytes.
\<close>

definition FLP_MNL_BUFF_SIZE :: nat where "FLP_MNL_BUFF_SIZE = 1024"
definition FLP_MNL_INTERFACE_VERSION :: i32 where "FLP_MNL_INTERFACE_VERSION = 1"
definition OFFLOAD_PAYLOAD_LEN :: nat where "OFFLOAD_PAYLOAD_LEN = 600"
definition sizeof_MTK_FLP_OFFLOAD_MSG_T :: nat where "sizeof_MTK_FLP_OFFLOAD_MSG_T = 8 + OFFLOAD_PAYLOAD_LEN"
definition MTK_FLP2MNL :: string where "MTK_FLP2MNL = ''/data/gps_mnl/flp2mnld''"
definition MTK_MNL2FLP :: string where "MTK_MNL2FLP = ''/data/gps_mnl/mnld2flp''"

datatype flp2mnl_cmd =
    FLPMNL_GPS_START | FLPMNL_GPS_STOP | FLPMNL_GPS_LPBK | FLPMNL_DATA_SEND | FLPMNL_DATA_RECV
  | FLPMNL_CMD_NETWORK_STATUS | FLPMNL_REBOOT_DONE | FLPMNL_GPS_OPEN_DONE | FLPMNL_GPS_STOP_DONE
  | FLPMNL_GPS_REPORT_LOC

primrec flp2mnl_code :: "flp2mnl_cmd \<Rightarrow> i32" where
  "flp2mnl_code FLPMNL_GPS_START = 0"
| "flp2mnl_code FLPMNL_GPS_STOP = 1"
| "flp2mnl_code FLPMNL_GPS_LPBK = 2"
| "flp2mnl_code FLPMNL_DATA_SEND = 3"
| "flp2mnl_code FLPMNL_DATA_RECV = 4"
| "flp2mnl_code FLPMNL_CMD_NETWORK_STATUS = 5"
| "flp2mnl_code FLPMNL_REBOOT_DONE = 6"
| "flp2mnl_code FLPMNL_GPS_OPEN_DONE = 7"
| "flp2mnl_code FLPMNL_GPS_STOP_DONE = 8"
| "flp2mnl_code FLPMNL_GPS_REPORT_LOC = 9"

definition flp2mnl_cmd_of :: "i32 \<Rightarrow> flp2mnl_cmd option" where
  "flp2mnl_cmd_of v = find (\<lambda>c. flp2mnl_code c = v)
    [FLPMNL_GPS_START, FLPMNL_GPS_STOP, FLPMNL_GPS_LPBK, FLPMNL_DATA_SEND, FLPMNL_DATA_RECV,
     FLPMNL_CMD_NETWORK_STATUS, FLPMNL_REBOOT_DONE, FLPMNL_GPS_OPEN_DONE, FLPMNL_GPS_STOP_DONE,
     FLPMNL_GPS_REPORT_LOC]"

section \<open>Messages to the fused location process\<close>

definition mnl2flp_mnld_reboot :: "os \<Rightarrow> (int \<times> os) option" where
  "mnl2flp_mnld_reboot k = do {
     buff \<leftarrow> store (replicate FLP_MNL_BUFF_SIZE 0) 0 (enc_int (flp2mnl_code FLPMNL_REBOOT_DONE));
     buff \<leftarrow> store buff 4 (enc_int 4);
     buff \<leftarrow> store buff 8 (enc_int FLP_MNL_INTERFACE_VERSION);
     mnld_sendto_flp MTK_MNL2FLP buff (int sizeof_MTK_FLP_OFFLOAD_MSG_T) k }"

definition mnl2flp_gps_open_done :: "os \<Rightarrow> (int \<times> os) option" where
  "mnl2flp_gps_open_done k = do {
     buff \<leftarrow> store (replicate FLP_MNL_BUFF_SIZE 0) 0 (enc_int (flp2mnl_code FLPMNL_GPS_OPEN_DONE));
     buff \<leftarrow> store buff 4 (enc_int 0);
     mnld_sendto_flp MTK_MNL2FLP buff (int sizeof_MTK_FLP_OFFLOAD_MSG_T) k }"

definition mnl2flp_gps_close_done :: "os \<Rightarrow> (int \<times> os) option" where
  "mnl2flp_gps_close_done k = do {
     buff \<leftarrow> store (replicate FLP_MNL_BUFF_SIZE 0) 0 (enc_int (flp2mnl_code FLPMNL_GPS_STOP_DONE));
     buff \<leftarrow> store buff 4 (enc_int 0);
     mnld_sendto_flp MTK_MNL2FLP buff (int sizeof_MTK_FLP_OFFLOAD_MSG_T) k }"

definition mnl2flp_data_send :: "byte list \<Rightarrow> int \<Rightarrow> os \<Rightarrow> (int \<times> os) option" where
  "mnl2flp_data_send buf len k = mnld_sendto_flp MTK_MNL2FLP buf len k"

text \<open>
  Data coming up from the offload engine. In the loop-back test it is gathered in a static array of
  1024 bytes and sent down again in portions of \<open>ofl_lpbk_tst_size\<close>; otherwise it is wrapped into a
  message. \<open>down\<close> is the call \<open>mtk_gps_ofl_send_flp_data\<close> into libmnl. The result is \<open>MTK_GPS_SUCCESS\<close>
  or \<open>MTK_GPS_ERROR\<close>.
\<close>

record ofl_statics =
  ofl_lpbk_tst_start :: int
  ofl_lpbk_tst_size :: int
  tmp_buf :: "byte list"
  tmp_buf_w :: int

definition ofl_statics_init :: ofl_statics where
  "ofl_statics_init = \<lparr>ofl_lpbk_tst_start = 0, ofl_lpbk_tst_size = 300, tmp_buf = replicate 1024 0, tmp_buf_w = 0\<rparr>"

definition MTK_GPS_SUCCESS :: int where "MTK_GPS_SUCCESS = 0"
definition MTK_GPS_ERROR :: int where "MTK_GPS_ERROR = -1"

definition mtk_gps_ofl_sys_submit_flp_data ::
  "byte list option \<Rightarrow> nat \<Rightarrow> ofl_statics \<Rightarrow> byte list list \<Rightarrow> os
    \<Rightarrow> (int \<times> ofl_statics \<times> byte list list \<times> os) option" where
  "mtk_gps_ofl_sys_submit_flp_data buf len st down k =
     (if ofl_lpbk_tst_start st = 1
      then do {
        p \<leftarrow> buf;
        d \<leftarrow> load p 0 (int len);
        t \<leftarrow> store (tmp_buf st) (tmp_buf_w st) d;
        let st = st\<lparr>tmp_buf := t, tmp_buf_w := tmp_buf_w st + int len\<rparr>;
        (if ofl_lpbk_tst_size st \<le> tmp_buf_w st
         then do {
           out \<leftarrow> load (tmp_buf st) 0 (ofl_lpbk_tst_size st);
           Some (MTK_GPS_SUCCESS, st\<lparr>tmp_buf_w := 0\<rparr>, down @ [out], k) }
         else Some (MTK_GPS_SUCCESS, st, down, k)) }
      else if buf \<noteq> None \<and> len \<noteq> 0 \<and> len < 1023
      then do {
        p \<leftarrow> buf;
        buff \<leftarrow> store (replicate 1024 0) 0 (enc_int (flp2mnl_code FLPMNL_DATA_RECV));
        buff \<leftarrow> store buff 4 (enc_int (word_of_nat len));
        buff \<leftarrow> (if len < OFFLOAD_PAYLOAD_LEN then do { d \<leftarrow> load p 0 (int len); store buff 8 d } else Some buff);
        (r, k) \<leftarrow> mnl2flp_data_send buff 1024 k;
        Some (if r = -1 then MTK_GPS_ERROR else MTK_GPS_SUCCESS, st, down, k) }
      else Some (MTK_GPS_SUCCESS, st, down, k))"

section \<open>Messages from the fused location process\<close>

record 's flp2mnl_interface =
  f2m_flp_reboot :: "'s act option"
  f2m_gps_start :: "'s act option"
  f2m_gps_stop :: "'s act option"
  f2m_flp_lpbk :: "(byte list \<Rightarrow> nat \<Rightarrow> 's act) option"
  f2m_flp_data :: "(byte list \<Rightarrow> 's act) option"

text \<open>
  \<open>set_offload\<close> writes the configuration flag \<open>OFFLOAD_enabled\<close> that \<open>mnl_offload_set_enabled\<close> and
  \<open>mnl_offload_clear_enabled\<close> of \<open>gps_controller.c\<close> own.
\<close>

definition flp2mnl_hdlr ::
  "(bool \<Rightarrow> 's \<Rightarrow> 's) \<Rightarrow> rx_ans list \<Rightarrow> 's flp2mnl_interface \<Rightarrow> 's \<Rightarrow> (int \<times> 's) option" where
  "flp2mnl_hdlr set_offload rx hdlr s =
    (let (read_len, buff) = safe_recvfrom rx (replicate FLP_MNL_BUFF_SIZE 0)
     in if read_len \<le> 0 then Some (-1, s)
     else (case flp2mnl_cmd_of (field_int buff 0) of
          Some FLPMNL_REBOOT_DONE \<Rightarrow> with_cb (f2m_flp_reboot hdlr) (\<lambda>f s. f s) s
        | Some FLPMNL_GPS_START \<Rightarrow>
            (let flp_mnl_mode = field_int buff 8; s = set_offload (flp_mnl_mode = 1) s
             in with_cb (f2m_gps_start hdlr) (\<lambda>f s. f s) s)
        | Some FLPMNL_GPS_STOP \<Rightarrow>
            (let flp_mnl_mode = field_int buff 8; s = set_offload (flp_mnl_mode = 1) s
             in with_cb (f2m_gps_stop hdlr) (\<lambda>f s. f s) s)
        | Some FLPMNL_GPS_LPBK \<Rightarrow> with_cb (f2m_flp_lpbk hdlr) (\<lambda>f. f buff FLP_MNL_BUFF_SIZE) s
        | Some FLPMNL_DATA_SEND \<Rightarrow> with_cb (f2m_flp_data hdlr) (\<lambda>f. f buff) s
        | _ \<Rightarrow> Some (-1, s)))"

section \<open>The offload test socket\<close>

record 's flp_test2mnl_interface =
  ft_gps_start :: "'s act option"
  ft_gps_stop :: "'s act option"
  ft_lpbk_start :: "'s act option"
  ft_lpbk_stop :: "'s act option"

text \<open>The result of the receive is not looked at; a failed receive leaves the first byte zero.\<close>

definition flp_test2mnl_hdlr :: "rx_ans list \<Rightarrow> 's flp_test2mnl_interface \<Rightarrow> 's \<Rightarrow> (int \<times> 's) option" where
  "flp_test2mnl_hdlr rx hdlr s =
    (let (ret, buff) = safe_recvfrom rx (replicate 1024 0); c = hd buff
     in do {
       s \<leftarrow> (if c = 49 then call_cb (ft_gps_start hdlr) (\<lambda>f s. f s) s
             else if c = 50 then call_cb (ft_gps_stop hdlr) (\<lambda>f s. f s) s
             else if c = 51 then call_cb (ft_lpbk_start hdlr) (\<lambda>f s. f s) s
             else if c = 52 then call_cb (ft_lpbk_stop hdlr) (\<lambda>f s. f s) s
             else Some s);
       Some (MTK_GPS_SUCCESS, s) })"

section \<open>What the functions do\<close>

lemma flp2mnl_cmd_of_code [simp]: "flp2mnl_cmd_of (flp2mnl_code c) = Some c"
  by (cases c) (simp_all add: flp2mnl_cmd_of_def)

lemma flp_path_len [simp]: "length MTK_MNL2FLP = 22"
  by (simp add: MTK_MNL2FLP_def)

text \<open>An offload message: header, payload, zeros.\<close>

definition flp_msg :: "nat \<Rightarrow> flp2mnl_cmd \<Rightarrow> i32 \<Rightarrow> byte list \<Rightarrow> byte list" where
  "flp_msg n c len payload = enc_int (flp2mnl_code c) @ enc_int len @ payload @ replicate (n - 8 - length payload) 0"

lemma flp_msg_length: "8 + length payload \<le> n \<Longrightarrow> length (flp_msg n c len payload) = n"
  by (simp add: flp_msg_def)

lemma flp_msg_fields:
  "field_int (flp_msg n c len payload) 0 = flp2mnl_code c"
  "field_int (flp_msg n c len payload) 4 = len"
  by (rule field_int_enc [where pre = "[]"]; simp add: flp_msg_def)
    (rule field_int_enc [where pre = "enc_int (flp2mnl_code c)"]; simp add: flp_msg_def)

lemma store_head: "length xs \<le> n \<Longrightarrow> store (replicate n 0) 0 xs = Some (xs @ replicate (n - length xs) 0)"
  by (simp add: store_def)

lemma store_at: "length pre = nat off \<Longrightarrow> 0 \<le> off \<Longrightarrow> length xs \<le> n
    \<Longrightarrow> store (pre @ replicate n 0) off xs = Some (pre @ xs @ replicate (n - length xs) 0)"
  by (simp add: store_def)

definition flp_posted :: "byte list \<Rightarrow> os \<Rightarrow> int \<times> os" where
  "flp_posted d k = (if fst (post MTK_MNL2FLP d k) then 0 else -1, sent MTK_MNL2FLP d k)"

lemma snd_flp_posted [simp]: "snd (flp_posted d k) = sent MTK_MNL2FLP d k"
  by (simp add: flp_posted_def)

lemma mnl2flp_ack_eq:
  "mnl2flp_gps_open_done k = Some (flp_posted (flp_msg 608 FLPMNL_GPS_OPEN_DONE 0 []) k)"
  "mnl2flp_gps_close_done k = Some (flp_posted (flp_msg 608 FLPMNL_GPS_STOP_DONE 0 []) k)"
  by (simp_all add: mnl2flp_gps_open_done_def mnl2flp_gps_close_done_def FLP_MNL_BUFF_SIZE_def store_head store_at
      sizeof_MTK_FLP_OFFLOAD_MSG_T_def OFFLOAD_PAYLOAD_LEN_def mnld_sendto_flp_post flp_posted_def flp_msg_def
      del: flp2mnl_code.simps)

lemma mnl2flp_mnld_reboot_eq:
  "mnl2flp_mnld_reboot k
     = Some (flp_posted (flp_msg 608 FLPMNL_REBOOT_DONE 4 (enc_int FLP_MNL_INTERFACE_VERSION)) k)"
proof -
  let ?h = "enc_int (flp2mnl_code FLPMNL_REBOOT_DONE) @ enc_int 4"
  have "store (?h @ replicate 1016 0) 8 (enc_int FLP_MNL_INTERFACE_VERSION)
          = Some (?h @ enc_int FLP_MNL_INTERFACE_VERSION @ replicate 1012 0)"
    by (subst store_at) simp_all
  then show ?thesis
    by (simp add: mnl2flp_mnld_reboot_def FLP_MNL_BUFF_SIZE_def store_head store_at sizeof_MTK_FLP_OFFLOAD_MSG_T_def
        OFFLOAD_PAYLOAD_LEN_def mnld_sendto_flp_post flp_posted_def flp_msg_def del: flp2mnl_code.simps)
qed

end
