(* ===== verification/Mnld_Internal.thy ===== *)
theory Mnld_Internal
  imports Hal_Mnl_Common Channel
begin

text \<open>
  The sockets inside the daemon: requests of the main thread to the GPS control thread
  (\<open>gps_controller.c\<close>) and to the EPO downloader (\<open>epo.c\<close>), and the events both send back to the main
  thread (\<open>mnld.c\<close>, section ALL to MAIN).
\<close>

definition MNLD_MAIN_SOCKET :: string where "MNLD_MAIN_SOCKET = ''mnld_main_socket''"
definition MNLD_GPS_CONTROL_SOCKET :: string where "MNLD_GPS_CONTROL_SOCKET = ''mnld_gps_control_socket''"
definition MNLD_EPO_DOWNLOAD_SOCKET :: string where "MNLD_EPO_DOWNLOAD_SOCKET = ''mnld_epo_download_socket''"

definition MNLD_INTERNAL_BUFF_SIZE :: nat where "MNLD_INTERNAL_BUFF_SIZE = 8 * 1024"

datatype main2gps_event =
  MAIN2GPS_EVENT_START | MAIN2GPS_EVENT_STOP | MAIN2GPS_DELETE_AIDING_DATA | GPS2GPS_NMEA_DATA_TIMEOUT

primrec main2gps_code :: "main2gps_event \<Rightarrow> i32" where
  "main2gps_code MAIN2GPS_EVENT_START = 0"
| "main2gps_code MAIN2GPS_EVENT_STOP = 1"
| "main2gps_code MAIN2GPS_DELETE_AIDING_DATA = 2"
| "main2gps_code GPS2GPS_NMEA_DATA_TIMEOUT = 3"

definition main2gps_event_of :: "i32 \<Rightarrow> main2gps_event option" where
  "main2gps_event_of v = find (\<lambda>c. main2gps_code c = v)
    [MAIN2GPS_EVENT_START, MAIN2GPS_EVENT_STOP, MAIN2GPS_DELETE_AIDING_DATA, GPS2GPS_NMEA_DATA_TIMEOUT]"

datatype main_internal_event =
    GPS2MAIN_EVENT_START_DONE | GPS2MAIN_EVENT_STOP_DONE | GPS2MAIN_EVENT_RESET_DONE
  | GPS2MAIN_EVENT_NMEA_TIMEOUT | GPS2MAIN_EVENT_UPDATE_LOCATION | EPO2MAIN_EVENT_EPO_DONE
  | QEPO2MAIN_EVENT_QEPO_DONE

primrec main_event_code :: "main_internal_event \<Rightarrow> i32" where
  "main_event_code GPS2MAIN_EVENT_START_DONE = 0"
| "main_event_code GPS2MAIN_EVENT_STOP_DONE = 1"
| "main_event_code GPS2MAIN_EVENT_RESET_DONE = 2"
| "main_event_code GPS2MAIN_EVENT_NMEA_TIMEOUT = 3"
| "main_event_code GPS2MAIN_EVENT_UPDATE_LOCATION = 4"
| "main_event_code EPO2MAIN_EVENT_EPO_DONE = 5"
| "main_event_code QEPO2MAIN_EVENT_QEPO_DONE = 6"

definition main_event_of :: "i32 \<Rightarrow> main_internal_event option" where
  "main_event_of v = find (\<lambda>c. main_event_code c = v)
    [GPS2MAIN_EVENT_START_DONE, GPS2MAIN_EVENT_STOP_DONE, GPS2MAIN_EVENT_RESET_DONE,
     GPS2MAIN_EVENT_NMEA_TIMEOUT, GPS2MAIN_EVENT_UPDATE_LOCATION, EPO2MAIN_EVENT_EPO_DONE,
     QEPO2MAIN_EVENT_QEPO_DONE]"

section \<open>Main thread to GPS control\<close>

definition gps_control_gps_start :: "i32 \<Rightarrow> os \<Rightarrow> (int \<times> os) option" where
  "gps_control_gps_start delete_aiding_data_flags k = do {
     b \<leftarrow> put_int (main2gps_code MAIN2GPS_EVENT_START) (fresh MNLD_INTERNAL_BUFF_SIZE);
     b \<leftarrow> put_int delete_aiding_data_flags b;
     safe_sendto MNLD_GPS_CONTROL_SOCKET (buff b) (offset b) k }"

definition gps_control_gps_stop :: "os \<Rightarrow> (int \<times> os) option" where
  "gps_control_gps_stop k = do {
     b \<leftarrow> put_int (main2gps_code MAIN2GPS_EVENT_STOP) (fresh MNLD_INTERNAL_BUFF_SIZE);
     safe_sendto MNLD_GPS_CONTROL_SOCKET (buff b) (offset b) k }"

definition gps_control_gps_reset :: "i32 \<Rightarrow> os \<Rightarrow> (int \<times> os) option" where
  "gps_control_gps_reset delete_aiding_data_flags k = do {
     b \<leftarrow> put_int (main2gps_code MAIN2GPS_DELETE_AIDING_DATA) (fresh MNLD_INTERNAL_BUFF_SIZE);
     b \<leftarrow> put_int delete_aiding_data_flags b;
     safe_sendto MNLD_GPS_CONTROL_SOCKET (buff b) (offset b) k }"

text \<open>The request to the EPO downloader carries the one command \<open>MAIN2EPO_EVENT_START\<close> (0).\<close>

definition epo_downloader_start :: "os \<Rightarrow> (int \<times> os) option" where
  "epo_downloader_start k = do {
     b \<leftarrow> put_int 0 (fresh MNLD_INTERNAL_BUFF_SIZE);
     safe_sendto MNLD_EPO_DOWNLOAD_SOCKET (buff b) (offset b) k }"

section \<open>Events to the main thread\<close>

definition mnld_gps_start_done :: "bool \<Rightarrow> os \<Rightarrow> (int \<times> os) option" where
  "mnld_gps_start_done is_assist_req k = do {
     b \<leftarrow> put_int (main_event_code GPS2MAIN_EVENT_START_DONE) (fresh MNLD_INTERNAL_BUFF_SIZE);
     b \<leftarrow> put_int (of_bool is_assist_req) b;
     safe_sendto MNLD_MAIN_SOCKET (buff b) (offset b) k }"

definition mnld_gps_start_nmea_timeout :: "os \<Rightarrow> (int \<times> os) option" where
  "mnld_gps_start_nmea_timeout k = do {
     b \<leftarrow> put_int (main_event_code GPS2MAIN_EVENT_NMEA_TIMEOUT) (fresh MNLD_INTERNAL_BUFF_SIZE);
     safe_sendto MNLD_MAIN_SOCKET (buff b) (offset b) k }"

definition mnld_gps_stop_done :: "os \<Rightarrow> (int \<times> os) option" where
  "mnld_gps_stop_done k = do {
     b \<leftarrow> put_int (main_event_code GPS2MAIN_EVENT_STOP_DONE) (fresh MNLD_INTERNAL_BUFF_SIZE);
     safe_sendto MNLD_MAIN_SOCKET (buff b) (offset b) k }"

definition mnld_gps_reset_done :: "os \<Rightarrow> (int \<times> os) option" where
  "mnld_gps_reset_done k = do {
     b \<leftarrow> put_int (main_event_code GPS2MAIN_EVENT_RESET_DONE) (fresh MNLD_INTERNAL_BUFF_SIZE);
     safe_sendto MNLD_MAIN_SOCKET (buff b) (offset b) k }"

definition mnld_gps_update_location :: "byte list \<Rightarrow> os \<Rightarrow> (int \<times> os) option" where
  "mnld_gps_update_location location k = do {
     b \<leftarrow> put_int (main_event_code GPS2MAIN_EVENT_UPDATE_LOCATION) (fresh MNLD_INTERNAL_BUFF_SIZE);
     b \<leftarrow> put_binary location (word_of_nat sizeof_gps_location) b;
     safe_sendto MNLD_MAIN_SOCKET (buff b) (offset b) k }"

definition mnld_epo_download_done :: "i32 \<Rightarrow> os \<Rightarrow> (int \<times> os) option" where
  "mnld_epo_download_done result k = do {
     b \<leftarrow> put_int (main_event_code EPO2MAIN_EVENT_EPO_DONE) (fresh MNLD_INTERNAL_BUFF_SIZE);
     b \<leftarrow> put_int result b;
     safe_sendto MNLD_MAIN_SOCKET (buff b) (offset b) k }"

definition mnld_qepo_download_done :: "i32 \<Rightarrow> os \<Rightarrow> (int \<times> os) option" where
  "mnld_qepo_download_done result k = do {
     b \<leftarrow> put_int (main_event_code QEPO2MAIN_EVENT_QEPO_DONE) (fresh MNLD_INTERNAL_BUFF_SIZE);
     b \<leftarrow> put_int result b;
     safe_sendto MNLD_MAIN_SOCKET (buff b) (offset b) k }"

section \<open>Requests and events as values\<close>

datatype ctl_msg = C_start i32 | C_stop | C_reset i32

primrec ctl_wire :: "ctl_msg \<Rightarrow> byte list" where
  "ctl_wire (C_start f) = enc_int (main2gps_code MAIN2GPS_EVENT_START) @ enc_int f"
| "ctl_wire C_stop = enc_int (main2gps_code MAIN2GPS_EVENT_STOP)"
| "ctl_wire (C_reset f) = enc_int (main2gps_code MAIN2GPS_DELETE_AIDING_DATA) @ enc_int f"

primrec ctl_send :: "ctl_msg \<Rightarrow> os \<Rightarrow> (int \<times> os) option" where
  "ctl_send (C_start f) k = gps_control_gps_start f k"
| "ctl_send C_stop k = gps_control_gps_stop k"
| "ctl_send (C_reset f) k = gps_control_gps_reset f k"

datatype main_msg =
    E_start_done bool | E_stop_done | E_reset_done | E_nmea_timeout | E_update_location "byte list"
  | E_epo_done i32 | E_qepo_done i32

primrec main_wire :: "main_msg \<Rightarrow> byte list" where
  "main_wire (E_start_done a) = enc_int (main_event_code GPS2MAIN_EVENT_START_DONE) @ enc_int (of_bool a)"
| "main_wire E_stop_done = enc_int (main_event_code GPS2MAIN_EVENT_STOP_DONE)"
| "main_wire E_reset_done = enc_int (main_event_code GPS2MAIN_EVENT_RESET_DONE)"
| "main_wire E_nmea_timeout = enc_int (main_event_code GPS2MAIN_EVENT_NMEA_TIMEOUT)"
| "main_wire (E_update_location l) = enc_int (main_event_code GPS2MAIN_EVENT_UPDATE_LOCATION) @ enc_binary l"
| "main_wire (E_epo_done r) = enc_int (main_event_code EPO2MAIN_EVENT_EPO_DONE) @ enc_int r"
| "main_wire (E_qepo_done r) = enc_int (main_event_code QEPO2MAIN_EVENT_QEPO_DONE) @ enc_int r"

primrec main_send :: "main_msg \<Rightarrow> os \<Rightarrow> (int \<times> os) option" where
  "main_send (E_start_done a) k = mnld_gps_start_done a k"
| "main_send E_stop_done k = mnld_gps_stop_done k"
| "main_send E_reset_done k = mnld_gps_reset_done k"
| "main_send E_nmea_timeout k = mnld_gps_start_nmea_timeout k"
| "main_send (E_update_location l) k = mnld_gps_update_location l k"
| "main_send (E_epo_done r) k = mnld_epo_download_done r k"
| "main_send (E_qepo_done r) k = mnld_qepo_download_done r k"

fun main_fits :: "main_msg \<Rightarrow> bool" where
  "main_fits (E_update_location l) = (length l = sizeof_gps_location)"
| "main_fits _ = True"

definition epo_wire :: "byte list" where "epo_wire = enc_int 0"

section \<open>What is sent\<close>

lemma main2gps_event_of_code [simp]: "main2gps_event_of (main2gps_code c) = Some c"
  by (cases c) (simp_all add: main2gps_event_of_def)

lemma main_event_of_code [simp]: "main_event_of (main_event_code c) = Some c"
  by (cases c) (simp_all add: main_event_of_def)

lemma internal_path_len [simp]:
  "length MNLD_MAIN_SOCKET = 16" "length MNLD_GPS_CONTROL_SOCKET = 23" "length MNLD_EPO_DOWNLOAD_SOCKET = 24"
  by (simp_all add: MNLD_MAIN_SOCKET_def MNLD_GPS_CONTROL_SOCKET_def MNLD_EPO_DOWNLOAD_SOCKET_def)

lemma internal_path_diff [simp]:
  "MNLD_MAIN_SOCKET \<noteq> MNLD_GPS_CONTROL_SOCKET" "MNLD_GPS_CONTROL_SOCKET \<noteq> MNLD_MAIN_SOCKET"
  "MNLD_MAIN_SOCKET \<noteq> MNLD_EPO_DOWNLOAD_SOCKET" "MNLD_GPS_CONTROL_SOCKET \<noteq> MNLD_EPO_DOWNLOAD_SOCKET"
  "MNLD_MAIN_SOCKET \<noteq> MTK_MNL2HAL" "MNLD_GPS_CONTROL_SOCKET \<noteq> MTK_MNL2HAL"
  by (simp_all add: MNLD_MAIN_SOCKET_def MNLD_GPS_CONTROL_SOCKET_def MNLD_EPO_DOWNLOAD_SOCKET_def MTK_MNL2HAL_def)

lemmas internal_sends = gps_control_gps_start_def gps_control_gps_stop_def gps_control_gps_reset_def
  epo_downloader_start_def mnld_gps_start_done_def mnld_gps_start_nmea_timeout_def mnld_gps_stop_done_def
  mnld_gps_reset_done_def mnld_gps_update_location_def mnld_epo_download_done_def mnld_qepo_download_done_def

lemma ctl_send_transmit: "ctl_send m k = Some (transmit MNLD_GPS_CONTROL_SOCKET (ctl_wire m) k)"
  by (cases m)
    (simp_all add: internal_sends fresh_wr wire_put MNLD_INTERNAL_BUFF_SIZE_def del: main2gps_code.simps)

lemma main_send_transmit:
  "main_fits m \<Longrightarrow> main_send m k = Some (transmit MNLD_MAIN_SOCKET (main_wire m) k)"
  by (cases m)
    (simp_all add: internal_sends fresh_wr wire_put MNLD_INTERNAL_BUFF_SIZE_def sizeof_defs del: main_event_code.simps)

lemma epo_start_transmit: "epo_downloader_start k = Some (transmit MNLD_EPO_DOWNLOAD_SOCKET epo_wire k)"
  by (simp add: epo_downloader_start_def fresh_wr wire_put MNLD_INTERNAL_BUFF_SIZE_def epo_wire_def)

lemma ctl_wire_inj: "(ctl_wire m = ctl_wire m') = (m = m')"
  by (cases m; cases m') (simp_all add: enc_int_inj)

lemma main_wire_stop: "(main_wire m = main_wire E_stop_done) = (m = E_stop_done)"
  by (cases m) (simp_all add: enc_int_inj)

end
