(* ===== verification/Mnld.thy ===== *)
theory Mnld
  imports Mnl2Hal_Interface Mnl2Agps_Interface Flp_Interface Mnld_Internal Float32 "HOL-Library.Sublist"
begin

text \<open>
  \<open>mnld.c\<close>, the main thread of the daemon: its context, the four-state machine that decides when the
  GPS engine runs, the callbacks behind every interface, and the handling of internal events.

  The record \<open>mnld\<close> is the state of the process: \<open>gps\<close>, \<open>epo\<close> and \<open>fds\<close> are the three parts of
  \<open>g_mnld_ctx\<close>, the next five fields are the file's other globals, \<open>ofl\<close> and \<open>offload_enabled\<close> are globals of
  \<open>mnl_flp_interface.c\<close> and \<open>gps_controller.c\<close> that the main thread writes, \<open>kern\<close> is the kernel, and \<open>ext\<close>
  records the calls into parts that are not modelled (libmnl, the EPO files, the operator log).
  What such parts and the configuration answer is the record \<open>mnld_env\<close>, one per handler call.
\<close>

section \<open>Context\<close>

datatype mnld_gps_state =
  MNLD_GPS_STATE_IDLE | MNLD_GPS_STATE_STARTING | MNLD_GPS_STATE_STARTED | MNLD_GPS_STATE_STOPPING

datatype mnld_gps_event =
  GPS_EVENT_START | GPS_EVENT_STOP | GPS_EVENT_RESET | GPS_EVENT_START_DONE | GPS_EVENT_STOP_DONE

record mnld_gps_client =
  gps_used :: bool
  need_open_ack :: bool
  need_close_ack :: bool
  need_reset_ack :: bool

text \<open>\<open>mnld_gps_clients\<close> has one \<open>mnld_gps_client\<close> for each of six users: a function of the user.\<close>

datatype gps_client = HAL | AGPS | FLP | FLP_TEST | AT_CMD_TEST | FACTORY

record mnld_gps_status =
  clients :: "gps_client \<Rightarrow> mnld_gps_client"
  gps_state :: mnld_gps_state
  is_gps_init :: bool
  is_gps_meas_enabled :: bool
  is_gps_navi_enabled :: bool
  delete_aiding_flag :: i32
  timer_start :: int
  timer_stop :: int
  timer_reset :: int
  timer_nmea_monitor :: int
  gps_start_time :: i32
  gps_stop_time :: i32
  gps_ttff :: i32
  wait_first_location :: bool

record mnl_epo_status =
  is_network_connected :: bool
  is_wifi_connected :: bool
  is_epo_downloading :: bool

record mnld_fds =
  fd_hal :: int
  fd_agps :: int
  fd_flp :: int
  fd_flp_test :: int
  fd_at_cmd :: int
  fd_int :: int
  fd_mtklogger :: int
  fd_mtklogger_client :: int

text \<open>Calls that leave the modelled part.\<close>

datatype ext_call =
    Op01_log_gps_start | Op01_log_gps_stop | Op01_log_gps_location f64 f64 i32
  | Gps_driver_state_init | Inject_ntp_time i64 i64 i32
  | Inject_nlp_location "i32 \<times> i32" f64 f64 f32 i32 bool
  | Epo_read_cust_config | Agps_session_done | Rcv_pmtk cstr
  | Set_param_constellation byte | Set_param_sib8_16 byte
  | Ofl_send_flp_data "byte list" | Mnl_set_status | Epo_update_file | Qepo_update_file i32

record mnld =
  gps :: mnld_gps_status
  epo :: mnl_epo_status
  fds :: mnld_fds
  sv_type_agps_set :: byte
  g_sib8_16_enable :: byte
  g_settings_from_agps :: mnl_agps_agps_settings
  g_settings_to_agps :: mnl_agps_gnss_settings
  offload_enabled :: bool
  ofl :: ofl_statics
  kern :: os
  ext :: "ext_call list"

record mnld_env =
  start_time_out :: int
  nmea_data_time_out :: int
  cmcc_log_enabled :: bool
  clock_now :: "(i32 \<times> i32) option"
  epo_file_invalid :: bool
  epo_download_enabled :: bool
  epo_wifi_trigger :: bool
  chip_id :: string
  stack_byte :: byte

definition MNLD_MAIN_HANDLER_TIMEOUT :: int where "MNLD_MAIN_HANDLER_TIMEOUT = 10 * 1000"
definition MNLD_GPS_STOP_TIMEOUT :: int where "MNLD_GPS_STOP_TIMEOUT = 10 * 1000"
definition MNLD_GPS_RESET_TIMEOUT :: int where "MNLD_GPS_RESET_TIMEOUT = 10 * 1000"

definition GPS_STATUS_SESSION_BEGIN :: i32 where "GPS_STATUS_SESSION_BEGIN = 1"
definition GPS_STATUS_SESSION_END :: i32 where "GPS_STATUS_SESSION_END = 2"
definition GPS_STATUS_SESSION_ENGINE_ON :: i32 where "GPS_STATUS_SESSION_ENGINE_ON = 3"
definition GPS_STATUS_SESSION_ENGINE_OFF :: i32 where "GPS_STATUS_SESSION_ENGINE_OFF = 4"

definition GPS_USER_APP :: i32 where "GPS_USER_APP = 0x1"
definition GPS_USER_AGPS :: i32 where "GPS_USER_AGPS = 0x2"
definition GPS_USER_META :: i32 where "GPS_USER_META = 0x4"
definition GPS_USER_FLP :: i32 where "GPS_USER_FLP = 0x10"
definition GPS_USER_OFL_TEST :: i32 where "GPS_USER_OFL_TEST = 0x20"
definition GPS_USER_AT_CMD :: i32 where "GPS_USER_AT_CMD = 0x40"

text \<open>A call whose result is ignored, a timer operation, and a call that leaves the model.\<close>

definition ksend :: "(os \<Rightarrow> (int \<times> os) option) \<Rightarrow> mnld act" where
  "ksend f s = do { (r, k) \<leftarrow> f (kern s); Some (s\<lparr>kern := k\<rparr>) }"

definition ktimer :: "(os \<Rightarrow> int \<times> os) \<Rightarrow> mnld \<Rightarrow> mnld" where
  "ktimer f s = s\<lparr>kern := snd (f (kern s))\<rparr>"

definition leave :: "ext_call \<Rightarrow> mnld \<Rightarrow> mnld" where
  "leave c s = s\<lparr>ext := ext s @ [c]\<rparr>"

definition client :: "gps_client \<Rightarrow> mnld \<Rightarrow> mnld_gps_client" where
  "client c s = clients (gps s) c"

definition set_client :: "gps_client \<Rightarrow> (mnld_gps_client \<Rightarrow> mnld_gps_client) \<Rightarrow> mnld \<Rightarrow> mnld" where
  "set_client c f s = s\<lparr>gps := (gps s)\<lparr>clients := (clients (gps s))(c := f (clients (gps s) c))\<rparr>\<rparr>"

definition set_state :: "mnld_gps_state \<Rightarrow> mnld \<Rightarrow> mnld" where
  "set_state st s = s\<lparr>gps := (gps s)\<lparr>gps_state := st\<rparr>\<rparr>"

definition set_delete_flag :: "i32 \<Rightarrow> mnld \<Rightarrow> mnld" where
  "set_delete_flag fl s = s\<lparr>gps := (gps s)\<lparr>delete_aiding_flag := fl\<rparr>\<rparr>"

text \<open>\<open>CRASH_TO_DEBUG\<close> writes through a null pointer.\<close>

definition CRASH_TO_DEBUG :: "mnld act" where "CRASH_TO_DEBUG s = None"

section \<open>State queries\<close>

definition mnld_is_gps_started :: "mnld \<Rightarrow> bool" where
  "mnld_is_gps_started s =
     (gps_state (gps s) = MNLD_GPS_STATE_STARTING \<or> gps_state (gps s) = MNLD_GPS_STATE_STARTED)"

definition mnld_is_gps_started_done :: "mnld \<Rightarrow> bool" where
  "mnld_is_gps_started_done s = (gps_state (gps s) = MNLD_GPS_STATE_STARTED)"

definition mnld_is_gps_stopped :: "mnld \<Rightarrow> bool" where
  "mnld_is_gps_stopped s =
     (gps_state (gps s) = MNLD_GPS_STATE_IDLE \<or> gps_state (gps s) = MNLD_GPS_STATE_STOPPING)"

definition mnld_is_gps_meas_enabled :: "mnld \<Rightarrow> bool" where
  "mnld_is_gps_meas_enabled s = is_gps_meas_enabled (gps s)"

definition mnld_is_gps_navi_enabled :: "mnld \<Rightarrow> bool" where
  "mnld_is_gps_navi_enabled s = is_gps_navi_enabled (gps s)"

section \<open>The state machine\<close>

definition do_gps_reset_hdlr :: "mnld act" where
  "do_gps_reset_hdlr s =
     (if need_reset_ack (client AGPS s)
      then ksend mnl2agps_reset_gps_done (set_client AGPS (need_reset_ack_update (\<lambda>_. False)) s)
      else Some s)"

definition do_gps_started_hdlr :: "i32 \<Rightarrow> mnld act" where
  "do_gps_started_hdlr si_assist_req s = do {
     s \<leftarrow> (if need_open_ack (client HAL s) then do {
             let s = set_client HAL (need_open_ack_update (\<lambda>_. False)) s;
             s \<leftarrow> ksend (mnl2hal_gps_status GPS_STATUS_SESSION_ENGINE_ON) s;
             s \<leftarrow> ksend (mnl2hal_gps_status GPS_STATUS_SESSION_BEGIN) s;
             ksend (mnl2agps_gps_open si_assist_req) s }
           else Some s);
     s \<leftarrow> (if need_open_ack (client AGPS s) then do {
             let s = set_client AGPS (need_open_ack_update (\<lambda>_. False)) s;
             ksend mnl2agps_open_gps_done s }
           else Some s);
     s \<leftarrow> (if need_open_ack (client FLP s) then do {
             let s = set_client FLP (need_open_ack_update (\<lambda>_. False)) s;
             s \<leftarrow> ksend mnl2flp_gps_open_done s;
             ksend (mnl2agps_gps_open si_assist_req) s }
           else Some s);
     let s = (if need_open_ack (client FLP_TEST s)
              then set_client FLP_TEST (need_open_ack_update (\<lambda>_. False)) s else s);
     let s = (if need_open_ack (client AT_CMD_TEST s)
              then set_client AT_CMD_TEST (need_open_ack_update (\<lambda>_. False)) s else s);
     let s = (if need_open_ack (client FACTORY s)
              then set_client FACTORY (need_open_ack_update (\<lambda>_. False)) s else s);
     s \<leftarrow> do_gps_reset_hdlr s;
     (if delete_aiding_flag (gps s) \<noteq> 0 then do {
        let s = ktimer (start_timer (timer_reset (gps s)) MNLD_GPS_RESET_TIMEOUT) s;
        s \<leftarrow> ksend (gps_control_gps_reset (delete_aiding_flag (gps s))) s;
        Some (set_delete_flag 0 s) }
      else Some s) }"

definition do_gps_stopped_hdlr :: "mnld act" where
  "do_gps_stopped_hdlr s = do {
     s \<leftarrow> (if need_close_ack (client HAL s) then do {
             let s = set_client HAL (need_close_ack_update (\<lambda>_. False)) s;
             s \<leftarrow> ksend (mnl2hal_gps_status GPS_STATUS_SESSION_END) s;
             s \<leftarrow> ksend (mnl2hal_gps_status GPS_STATUS_SESSION_ENGINE_OFF) s;
             ksend mnl2agps_gps_close s }
           else Some s);
     s \<leftarrow> (if need_close_ack (client AGPS s) then do {
             let s = set_client AGPS (need_close_ack_update (\<lambda>_. False)) s;
             ksend mnl2agps_close_gps_done s }
           else Some s);
     s \<leftarrow> (if need_close_ack (client FLP s) then do {
             let s = set_client FLP (need_close_ack_update (\<lambda>_. False)) s;
             ksend mnl2flp_gps_close_done s }
           else Some s);
     let s = (if need_close_ack (client FLP_TEST s)
              then set_client FLP_TEST (need_close_ack_update (\<lambda>_. False)) s else s);
     let s = (if need_close_ack (client AT_CMD_TEST s)
              then set_client AT_CMD_TEST (need_close_ack_update (\<lambda>_. False)) s else s);
     let s = (if need_close_ack (client FACTORY s)
              then set_client FACTORY (need_close_ack_update (\<lambda>_. False)) s else s);
     do_gps_reset_hdlr s }"

definition is_all_gps_client_exit :: "mnld \<Rightarrow> bool" where
  "is_all_gps_client_exit s =
     (gps_used (client HAL s) = False \<and> gps_used (client AGPS s) = False \<and> gps_used (client FLP s) = False
      \<and> gps_used (client FLP_TEST s) = False \<and> gps_used (client AT_CMD_TEST s) = False
      \<and> gps_used (client FACTORY s) = False)"

definition is_a_gps_client_exist :: "mnld \<Rightarrow> bool" where
  "is_a_gps_client_exist s =
     (gps_used (client HAL s) = True \<or> gps_used (client AGPS s) = True \<or> gps_used (client FLP s) = True
      \<or> gps_used (client FLP_TEST s) = True \<or> gps_used (client AT_CMD_TEST s) = True
      \<or> gps_used (client FACTORY s) = True)"

definition clear_used :: "gps_client \<Rightarrow> mnld \<Rightarrow> mnld" where
  "clear_used c s = (if gps_used (client c s) then set_client c (gps_used_update (\<lambda>_. False)) s else s)"

definition mtk_gps_clear_gps_user :: "mnld \<Rightarrow> mnld" where
  "mtk_gps_clear_gps_user s =
     clear_used FACTORY (clear_used AT_CMD_TEST (clear_used FLP_TEST (clear_used FLP (clear_used AGPS (clear_used HAL s)))))"

definition mtk_gps_get_gps_user :: "mnld \<Rightarrow> i32" where
  "mtk_gps_get_gps_user s =
     (let gps_user = 0;
          gps_user = (if gps_used (client HAL s) then gps_user OR GPS_USER_APP else gps_user);
          gps_user = (if gps_used (client AGPS s) then gps_user OR GPS_USER_AGPS else gps_user);
          gps_user = (if gps_used (client FLP s) then gps_user OR GPS_USER_FLP else gps_user);
          gps_user = (if gps_used (client FLP_TEST s) then gps_user OR GPS_USER_OFL_TEST else gps_user);
          gps_user = (if gps_used (client AT_CMD_TEST s) then gps_user OR GPS_USER_AT_CMD else gps_user);
          gps_user = (if gps_used (client FACTORY s) then gps_user OR GPS_USER_META else gps_user)
      in gps_user)"

definition is_flp_user_exist :: "mnld \<Rightarrow> bool" where
  "is_flp_user_exist s = gps_used (client FLP s)"

text \<open>The start timer is not armed when only offload users are active and offload is enabled.\<close>

definition arm_start_timer :: "mnld_env \<Rightarrow> mnld \<Rightarrow> mnld" where
  "arm_start_timer e s =
     (let gps_user = mtk_gps_get_gps_user s
      in if (gps_user AND (GPS_USER_FLP OR GPS_USER_OFL_TEST)) = gps_user \<and> offload_enabled s then s
         else ktimer (start_timer (timer_start (gps s)) (start_time_out e)) s)"

definition fsm_gps_state_idle :: "mnld_env \<Rightarrow> mnld_gps_event \<Rightarrow> i32 \<Rightarrow> mnld act" where
  "fsm_gps_state_idle e event data1 s =
     (case event of
        GPS_EVENT_START \<Rightarrow> do {
          s \<leftarrow> ksend mnl2hal_request_wakelock s;
          let s = (if cmcc_log_enabled e then leave Op01_log_gps_start s else s);
          let s = s\<lparr>gps := (gps s)\<lparr>gps_start_time := get_tick (clock_now e)\<rparr>\<rparr>;
          let s = s\<lparr>gps := (gps s)\<lparr>wait_first_location := True\<rparr>\<rparr>;
          let s = set_state MNLD_GPS_STATE_STARTING s;
          let s = arm_start_timer e s;
          s \<leftarrow> ksend (gps_control_gps_start (delete_aiding_flag (gps s))) s;
          Some (set_delete_flag 0 s) }
      | GPS_EVENT_STOP \<Rightarrow> do_gps_stopped_hdlr s
      | GPS_EVENT_RESET \<Rightarrow> do_gps_reset_hdlr s
      | GPS_EVENT_START_DONE \<Rightarrow> Some s
      | GPS_EVENT_STOP_DONE \<Rightarrow> Some s)"

definition fsm_gps_state_starting :: "mnld_env \<Rightarrow> mnld_gps_event \<Rightarrow> i32 \<Rightarrow> mnld act" where
  "fsm_gps_state_starting e event data1 s =
     (case event of
        GPS_EVENT_START \<Rightarrow> Some s
      | GPS_EVENT_STOP \<Rightarrow> Some s
      | GPS_EVENT_RESET \<Rightarrow> Some s
      | GPS_EVENT_START_DONE \<Rightarrow> do {
          let s = ktimer (stop_timer (timer_start (gps s))) s;
          s \<leftarrow> do_gps_started_hdlr data1 s;
          (if is_all_gps_client_exit s then do {
             let s = set_state MNLD_GPS_STATE_STOPPING s;
             let s = ktimer (start_timer (timer_stop (gps s)) MNLD_GPS_STOP_TIMEOUT) s;
             ksend gps_control_gps_stop s }
           else Some (set_state MNLD_GPS_STATE_STARTED s)) }
      | GPS_EVENT_STOP_DONE \<Rightarrow> CRASH_TO_DEBUG s)"

definition fsm_gps_state_started :: "mnld_env \<Rightarrow> mnld_gps_event \<Rightarrow> i32 \<Rightarrow> mnld act" where
  "fsm_gps_state_started e event data1 s =
     (case event of
        GPS_EVENT_START \<Rightarrow> do_gps_started_hdlr 0 s
      | GPS_EVENT_STOP \<Rightarrow>
          (if is_all_gps_client_exit s then do {
             let s = set_state MNLD_GPS_STATE_STOPPING s;
             let s = ktimer (start_timer (timer_stop (gps s)) MNLD_GPS_STOP_TIMEOUT) s;
             ksend gps_control_gps_stop s }
           else do_gps_stopped_hdlr s)
      | GPS_EVENT_RESET \<Rightarrow>
          (if delete_aiding_flag (gps s) \<noteq> 0 then do {
             let s = ktimer (start_timer (timer_reset (gps s)) MNLD_GPS_RESET_TIMEOUT) s;
             s \<leftarrow> ksend (gps_control_gps_reset (delete_aiding_flag (gps s))) s;
             Some (set_delete_flag 0 s) }
           else Some s)
      | GPS_EVENT_START_DONE \<Rightarrow>
          (if GPS_USER_APP AND mtk_gps_get_gps_user s \<noteq> 0 then ksend mnl2agps_reaiding_req s else Some s)
      | GPS_EVENT_STOP_DONE \<Rightarrow> CRASH_TO_DEBUG s)"

definition fsm_gps_state_stopping :: "mnld_env \<Rightarrow> mnld_gps_event \<Rightarrow> i32 \<Rightarrow> mnld act" where
  "fsm_gps_state_stopping e event data1 s =
     (case event of
        GPS_EVENT_START \<Rightarrow> Some s
      | GPS_EVENT_STOP \<Rightarrow> Some s
      | GPS_EVENT_RESET \<Rightarrow> do_gps_reset_hdlr s
      | GPS_EVENT_STOP_DONE \<Rightarrow> do {
          let s = ktimer (stop_timer (timer_stop (gps s))) s;
          s \<leftarrow> do_gps_stopped_hdlr s;
          (if is_a_gps_client_exist s then do {
             let s = set_state MNLD_GPS_STATE_STARTING s;
             let s = arm_start_timer e s;
             s \<leftarrow> ksend (gps_control_gps_start (delete_aiding_flag (gps s))) s;
             Some (set_delete_flag 0 s) }
           else do {
             s \<leftarrow> ksend mnl2hal_release_wakelock s;
             let s = (if cmcc_log_enabled e then leave Op01_log_gps_stop s else s);
             let s = s\<lparr>gps := (gps s)\<lparr>gps_stop_time := get_tick (clock_now e)\<rparr>\<rparr>;
             let s = s\<lparr>gps := (gps s)\<lparr>wait_first_location := False\<rparr>\<rparr>;
             Some (set_state MNLD_GPS_STATE_IDLE s) }) }
      | GPS_EVENT_START_DONE \<Rightarrow> Some s)"

definition mnld_fsm :: "mnld_env \<Rightarrow> mnld_gps_event \<Rightarrow> i32 \<Rightarrow> mnld act" where
  "mnld_fsm e event data1 s =
     (case gps_state (gps s) of
        MNLD_GPS_STATE_IDLE \<Rightarrow> fsm_gps_state_idle e event data1 s
      | MNLD_GPS_STATE_STARTING \<Rightarrow> fsm_gps_state_starting e event data1 s
      | MNLD_GPS_STATE_STARTED \<Rightarrow> fsm_gps_state_started e event data1 s
      | MNLD_GPS_STATE_STOPPING \<Rightarrow> fsm_gps_state_stopping e event data1 s)"

text \<open>The NMEA watchdog.\<close>

definition mnld_gps_controller_mnl_nmea_timeout :: "mnld_env \<Rightarrow> mnld \<Rightarrow> mnld" where
  "mnld_gps_controller_mnl_nmea_timeout e s =
     (if timer_nmea_monitor (gps s) \<noteq> 0
      then ktimer (start_timer (timer_nmea_monitor (gps s)) (nmea_data_time_out e)) s else s)"

definition mnld_gps_start_nmea_monitor :: "mnld_env \<Rightarrow> mnld \<Rightarrow> mnld" where
  "mnld_gps_start_nmea_monitor e s =
     (if timer_nmea_monitor (gps s) \<noteq> 0
      then ktimer (start_timer (timer_nmea_monitor (gps s)) (nmea_data_time_out e)) s else s)"

definition mnld_gps_stop_nmea_monitor :: "mnld \<Rightarrow> mnld" where
  "mnld_gps_stop_nmea_monitor s =
     (if timer_nmea_monitor (gps s) \<noteq> 0 then ktimer (stop_timer (timer_nmea_monitor (gps s))) s else s)"

end
