(* ===== verification/Mnld_Fsm.thy ===== *)
theory Mnld_Fsm
  imports Mnld
begin

text \<open>
  The state machine in closed form: sending is a state update (\<open>emits\<close>), each group of pending
  acknowledgements is a list of messages computed from the clients, and the three acknowledgement
  functions of \<open>mnld.c\<close> equal one such update. The invariant proofs rest on these equations and on the
  frame rules.
\<close>

section \<open>Sending as a state update\<close>

definition emit :: "string \<Rightarrow> byte list \<Rightarrow> mnld \<Rightarrow> mnld" where
  "emit path d s = s\<lparr>kern := sent path d (kern s)\<rparr>"

definition emits :: "(string \<times> byte list) list \<Rightarrow> mnld \<Rightarrow> mnld" where
  "emits = fold (\<lambda>(path, d). emit path d)"

definition to_hal :: "mnl2hal_msg \<Rightarrow> string \<times> byte list" where "to_hal m = (MTK_MNL2HAL, m2h_wire m)"
definition to_agps :: "mnl2agps_msg \<Rightarrow> string \<times> byte list" where "to_agps m = (MNL_TO_AGPS, m2a_wire m)"
definition to_flp :: "byte list \<Rightarrow> string \<times> byte list" where "to_flp d = (MTK_MNL2FLP, d)"
definition to_ctl :: "ctl_msg \<Rightarrow> string \<times> byte list" where "to_ctl m = (MNLD_GPS_CONTROL_SOCKET, ctl_wire m)"

lemma emits_simps [simp]: "emits [] s = s" "emits ((p, d) # l) s = emits l (emit p d s)"
  by (simp_all add: emits_def)

lemma emits_append: "emits (l @ l') s = emits l' (emits l s)"
  by (simp add: emits_def)

lemma emit_emits: "emit p d s = emits [(p, d)] s"
  by simp

lemma ksend_Some: "f (kern s) = Some (r, sent p d (kern s)) \<Longrightarrow> ksend f s = Some (emits [(p, d)] s)"
  by (simp add: ksend_def emit_def)

lemma ksend_hal: "m2h_fits m \<Longrightarrow> (\<And>k. f k = mnl2hal_send m k) \<Longrightarrow> ksend f s = Some (emits [to_hal m] s)"
  by (simp add: mnl2hal_send_transmit transmit_alt to_hal_def ksend_Some del: emits_simps)

lemma ksend_agps: "m2a_fits m \<Longrightarrow> (\<And>k. f k = mnl2agps_send m k) \<Longrightarrow> ksend f s = Some (emits [to_agps m] s)"
  by (simp add: mnl2agps_send_transmit transmit0_def to_agps_def ksend_Some del: emits_simps)

lemma ksend_ctl: "(\<And>k. f k = ctl_send m k) \<Longrightarrow> ksend f s = Some (emits [to_ctl m] s)"
  by (simp add: ctl_send_transmit transmit_alt to_ctl_def ksend_Some del: emits_simps)

lemma ksend_hal_fixed:
  "ksend (mnl2hal_gps_status v) s = Some (emits [to_hal (M_gps_status v)] s)"
  "ksend mnl2hal_request_wakelock s = Some (emits [to_hal M_request_wakelock] s)"
  "ksend mnl2hal_release_wakelock s = Some (emits [to_hal M_release_wakelock] s)"
  "ksend mnl2hal_mnld_reboot s = Some (emits [to_hal M_mnld_reboot] s)"
  "ksend mnl2hal_release_data_conn s = Some (emits [to_hal M_release_data_conn] s)"
  "ksend (mnl2hal_request_set_id v) s = Some (emits [to_hal (M_request_set_id v)] s)"
  "ksend (mnl2hal_request_ref_loc v) s = Some (emits [to_hal (M_request_ref_loc v)] s)"
  by (rule ksend_hal; simp add: m2h_fits_def m2h_head_def HAL_MNL_BUFF_SIZE_def)+

lemma ksend_agps_fixed:
  "ksend mnl2agps_reset_gps_done s = Some (emits [to_agps G_reset_gps_done] s)"
  "ksend mnl2agps_open_gps_done s = Some (emits [to_agps G_open_gps_done] s)"
  "ksend mnl2agps_close_gps_done s = Some (emits [to_agps G_close_gps_done] s)"
  "ksend (mnl2agps_gps_open v) s = Some (emits [to_agps (G_gps_open v)] s)"
  "ksend mnl2agps_gps_close s = Some (emits [to_agps G_gps_close] s)"
  "ksend mnl2agps_reaiding_req s = Some (emits [to_agps G_reaiding_req] s)"
  "ksend mnl2agps_mnl_reboot s = Some (emits [to_agps G_mnl_reboot] s)"
  "ksend mnl2agps_gps_init s = Some (emits [to_agps G_gps_init] s)"
  "ksend mnl2agps_gps_cleanup s = Some (emits [to_agps G_gps_cleanup] s)"
  "ksend (mnl2agps_delete_aiding_data v) s = Some (emits [to_agps (G_delete_aiding_data v)] s)"
  "ksend (mnl2agps_location_sync la lo a) s = Some (emits [to_agps (G_location_sync la lo a)] s)"
  "ksend mnl2agps_data_conn_closed s = Some (emits [to_agps G_data_conn_closed] s)"
  "ksend mnl2agps_data_conn_failed s = Some (emits [to_agps G_data_conn_failed] s)"
  "ksend (mnl2agps_ni_respond i r) s = Some (emits [to_agps (G_ni_respond i r)] s)"
  "ksend (mnl2agps_set_ref_loc t mcc mnc lac cid) s = Some (emits [to_agps (G_set_ref_loc t mcc mnc lac cid)] s)"
  "ksend (mnl2agps_agps_settings_ack st) s = Some (emits [to_agps (G_agps_settings_ack st)] s)"
  by (rule ksend_agps; simp add: m2a_fits_def agps_head_def MNL_AGPS_MAX_BUFF_SIZE_def)+

lemma ksend_ctl_fixed:
  "ksend (gps_control_gps_start v) s = Some (emits [to_ctl (C_start v)] s)"
  "ksend gps_control_gps_stop s = Some (emits [to_ctl C_stop] s)"
  "ksend (gps_control_gps_reset v) s = Some (emits [to_ctl (C_reset v)] s)"
  by (rule ksend_ctl; simp)+

lemma ksend_epo: "ksend epo_downloader_start s = Some (emits [(MNLD_EPO_DOWNLOAD_SOCKET, epo_wire)] s)"
  by (rule ksend_Some) (simp add: epo_start_transmit transmit_alt)

definition flp_open_msg :: "byte list" where "flp_open_msg = flp_msg 608 FLPMNL_GPS_OPEN_DONE 0 []"
definition flp_close_msg :: "byte list" where "flp_close_msg = flp_msg 608 FLPMNL_GPS_STOP_DONE 0 []"
definition flp_reboot_msg :: "byte list" where
  "flp_reboot_msg = flp_msg 608 FLPMNL_REBOOT_DONE 4 (enc_int FLP_MNL_INTERFACE_VERSION)"

lemma ksend_flp_fixed:
  "ksend mnl2flp_gps_open_done s = Some (emits [to_flp flp_open_msg] s)"
  "ksend mnl2flp_gps_close_done s = Some (emits [to_flp flp_close_msg] s)"
  "ksend mnl2flp_mnld_reboot s = Some (emits [to_flp flp_reboot_msg] s)"
  unfolding to_flp_def
  by (rule ksend_Some; simp add: mnl2flp_ack_eq mnl2flp_mnld_reboot_eq flp_posted_def flp_open_msg_def
      flp_close_msg_def flp_reboot_msg_def)+

lemmas ksend_fixed = ksend_hal_fixed ksend_agps_fixed ksend_ctl_fixed ksend_epo ksend_flp_fixed

section \<open>Frame rules\<close>

text \<open>What \<open>emits\<close>, \<open>set_client\<close> and the timer operations leave alone.\<close>

lemma emits_frame [simp]:
  "gps (emits l s) = gps s" "epo (emits l s) = epo s" "ext (emits l s) = ext s"
  "offload_enabled (emits l s) = offload_enabled s" "timers (kern (emits l s)) = timers (kern s)"
  "client c (emits l s) = client c s" "ofl (emits l s) = ofl s"
  by (induction l arbitrary: s) (auto simp: emit_def client_def)

lemma sends_emits [simp]: "sends (kern (emits l s)) = sends (kern s) @ l"
  by (induction l arbitrary: s) (auto simp: emit_def)

lemma slog_sent: "\<exists>a. slog (sent p d k) = slog k @ [(p, d, a)]"
  by (auto simp: sent_def post_def sys_answer_def log_send_def split: list.splits prod.splits)

lemma prefix_sent [simp]: "prefix h (slog k) \<Longrightarrow> prefix h (slog (sent p d k))"
  using slog_sent [of p d k] by auto

lemma prefix_emits [simp]: "prefix h (slog (kern s)) \<Longrightarrow> prefix h (slog (kern (emits l s)))"
  by (induction l arbitrary: s) (auto simp: emit_def)

lemma kern_gps_commute: "s\<lparr>kern := k, gps := g\<rparr> = s\<lparr>gps := g, kern := k\<rparr>"
  by (cases s) simp

lemma emits_gps_update: "(emits l s)\<lparr>gps := g\<rparr> = emits l (s\<lparr>gps := g\<rparr>)"
  by (induction l arbitrary: s) (auto simp: emit_def kern_gps_commute)

lemma set_client_emits [simp]: "set_client c f (emits l s) = emits l (set_client c f s)"
  by (simp add: set_client_def emits_gps_update)

lemma set_client_frame [simp]:
  "gps_state (gps (set_client c f s)) = gps_state (gps s)"
  "delete_aiding_flag (gps (set_client c f s)) = delete_aiding_flag (gps s)"
  "kern (set_client c f s) = kern s" "ofl (set_client c f s) = ofl s"
  "client c' (set_client c f s) = (if c' = c then f (client c s) else client c' s)"
  by (simp_all add: set_client_def client_def)

lemma set_client_id: "f (client c s) = client c s \<Longrightarrow> set_client c f s = s"
  by (simp add: set_client_def client_def)

lemma ktimer_frame [simp]:
  "gps (ktimer f s) = gps s" "epo (ktimer f s) = epo s" "ext (ktimer f s) = ext s"
  "offload_enabled (ktimer f s) = offload_enabled s" "client c (ktimer f s) = client c s"
  "kern (ktimer f s) = snd (f (kern s))" "ofl (ktimer f s) = ofl s"
  by (simp_all add: ktimer_def client_def)

lemma leave_frame [simp]:
  "gps (leave x s) = gps s" "epo (leave x s) = epo s" "kern (leave x s) = kern s"
  "offload_enabled (leave x s) = offload_enabled s" "client c (leave x s) = client c s"
  "ofl (leave x s) = ofl s"
  by (simp_all add: leave_def client_def)

lemma set_state_frame [simp]:
  "gps (set_state st s) = (gps s)\<lparr>gps_state := st\<rparr>" "kern (set_state st s) = kern s" "epo (set_state st s) = epo s"
  "offload_enabled (set_state st s) = offload_enabled s" "client c (set_state st s) = client c s"
  "ofl (set_state st s) = ofl s"
  by (simp_all add: set_state_def client_def)

lemma set_delete_flag_frame [simp]:
  "gps (set_delete_flag fl s) = (gps s)\<lparr>delete_aiding_flag := fl\<rparr>" "kern (set_delete_flag fl s) = kern s"
  "epo (set_delete_flag fl s) = epo s"
  "offload_enabled (set_delete_flag fl s) = offload_enabled s" "client c (set_delete_flag fl s) = client c s"
  "ofl (set_delete_flag fl s) = ofl s"
  by (simp_all add: set_delete_flag_def client_def)

lemma slog_timer [simp]: "slog (snd (start_timer t ms k)) = slog k" "slog (snd (stop_timer t k)) = slog k"
  by (simp_all add: stop_timer_def start_timer_def Let_def)

lemma start_timer_other: "t' \<noteq> t \<Longrightarrow> timers (snd (start_timer t ms k)) t' = timers k t'"
  by (auto simp: start_timer_def Let_def)

lemma timer_sends [simp]:
  "sends (snd (stop_timer t k)) = sends k" "sends (k\<lparr>timers := x\<rparr>) = sends k"
  by (simp_all add: stop_timer_def) (simp add: sends_def)

section \<open>The acknowledgements\<close>

text \<open>
  The messages each group of pending acknowledgements causes, and the clients afterwards.
\<close>

type_synonym clients_map = "gps_client \<Rightarrow> mnld_gps_client"

definition open_acks :: "i32 \<Rightarrow> clients_map \<Rightarrow> (string \<times> byte list) list" where
  "open_acks a cl =
     (if need_open_ack (cl HAL)
      then [to_hal (M_gps_status GPS_STATUS_SESSION_ENGINE_ON), to_hal (M_gps_status GPS_STATUS_SESSION_BEGIN),
            to_agps (G_gps_open a)] else [])
     @ (if need_open_ack (cl AGPS) then [to_agps G_open_gps_done] else [])
     @ (if need_open_ack (cl FLP) then [to_flp flp_open_msg, to_agps (G_gps_open a)] else [])"

definition close_acks :: "clients_map \<Rightarrow> (string \<times> byte list) list" where
  "close_acks cl =
     (if need_close_ack (cl HAL)
      then [to_hal (M_gps_status GPS_STATUS_SESSION_END), to_hal (M_gps_status GPS_STATUS_SESSION_ENGINE_OFF),
            to_agps G_gps_close] else [])
     @ (if need_close_ack (cl AGPS) then [to_agps G_close_gps_done] else [])
     @ (if need_close_ack (cl FLP) then [to_flp flp_close_msg] else [])"

definition reset_acks :: "clients_map \<Rightarrow> (string \<times> byte list) list" where
  "reset_acks cl = (if need_reset_ack (cl AGPS) then [to_agps G_reset_gps_done] else [])"

definition opened :: "clients_map \<Rightarrow> clients_map" where
  "opened cl c = (cl c)\<lparr>need_open_ack := False\<rparr>"

definition closed_all :: "clients_map \<Rightarrow> clients_map" where
  "closed_all cl c = (cl c)\<lparr>need_close_ack := False\<rparr>"

definition reset_cleared :: "clients_map \<Rightarrow> clients_map" where
  "reset_cleared cl = cl(AGPS := (cl AGPS)\<lparr>need_reset_ack := False\<rparr>)"

definition set_clients :: "clients_map \<Rightarrow> mnld \<Rightarrow> mnld" where
  "set_clients cl s = s\<lparr>gps := (gps s)\<lparr>clients := cl\<rparr>\<rparr>"

definition reset_request :: "mnld \<Rightarrow> mnld" where
  "reset_request s =
     (if delete_aiding_flag (gps s) = 0 then s
      else set_delete_flag 0 (emits [to_ctl (C_reset (delete_aiding_flag (gps s)))]
             (ktimer (start_timer (timer_reset (gps s)) MNLD_GPS_RESET_TIMEOUT) s)))"

lemma ack_off [simp]:
  "\<not> need_open_ack x \<Longrightarrow> need_open_ack_update (\<lambda>_. False) x = x"
  "\<not> need_close_ack y \<Longrightarrow> need_close_ack_update (\<lambda>_. False) y = y"
  "\<not> need_reset_ack z \<Longrightarrow> need_reset_ack_update (\<lambda>_. False) z = z"
  by (cases x, simp) (cases y, simp, cases z, simp)

lemma ack_step:
  assumes "\<not> P (client c s) \<Longrightarrow> f (client c s) = client c s"
    and "P (client c s) \<Longrightarrow> body = Some (emits l (set_client c f s))"
  shows "(if P (client c s) then body else Some s) = Some (emits (if P (client c s) then l else []) (set_client c f s))"
  using assms by (auto simp: set_client_id)

lemma ack_step_quiet:
  "(if need_open_ack (client c s) then set_client c (need_open_ack_update (\<lambda>_. False)) s else s)
     = set_client c (need_open_ack_update (\<lambda>_. False)) s"
  "(if need_close_ack (client c s) then set_client c (need_close_ack_update (\<lambda>_. False)) s else s)
     = set_client c (need_close_ack_update (\<lambda>_. False)) s"
  by (simp_all add: set_client_id)

lemma do_gps_reset_hdlr_client:
  "do_gps_reset_hdlr s = Some (emits (reset_acks (clients (gps s))) (set_client AGPS (need_reset_ack_update (\<lambda>_. False)) s))"
  by (simp add: do_gps_reset_hdlr_def reset_acks_def ksend_fixed set_client_id) (simp add: client_def)

lemma set_client_set_clients:
  "set_client c f s = set_clients ((clients (gps s))(c := f (clients (gps s) c))) s"
  by (simp add: set_client_def set_clients_def)

lemma do_gps_reset_hdlr_eq:
  "do_gps_reset_hdlr s = Some (emits (reset_acks (clients (gps s))) (set_clients (reset_cleared (clients (gps s))) s))"
  by (simp add: do_gps_reset_hdlr_client set_client_set_clients reset_cleared_def)

lemma clients_emits [simp]: "clients (gps (emits l s)) = clients (gps s)"
  by simp

lemma client_clients: "client c s = clients (gps s) c"
  by (simp add: client_def)

lemma set_clients_frame [simp]:
  "clients (gps (set_clients cl s)) = cl" "set_clients cl (emits l s) = emits l (set_clients cl s)"
  "set_clients cl (set_clients cl' s) = set_clients cl s" "client c (set_clients cl s) = cl c"
  "gps_state (gps (set_clients cl s)) = gps_state (gps s)"
  "delete_aiding_flag (gps (set_clients cl s)) = delete_aiding_flag (gps s)"
  "gps (set_clients cl s) = (gps s)\<lparr>clients := cl\<rparr>"
  "kern (set_clients cl s) = kern s" "ofl (set_clients cl s) = ofl s" "epo (set_clients cl s) = epo s" "offload_enabled (set_clients cl s) = offload_enabled s"
  "timer_start (gps (set_clients cl s)) = timer_start (gps s)"
  "timer_stop (gps (set_clients cl s)) = timer_stop (gps s)"
  "timer_reset (gps (set_clients cl s)) = timer_reset (gps s)"
  "timer_nmea_monitor (gps (set_clients cl s)) = timer_nmea_monitor (gps s)"
  by (simp_all add: set_clients_def emits_gps_update client_def)

lemma all_clients:
  "cl(HAL := f (cl HAL), AGPS := f (cl AGPS), FLP := f (cl FLP), FLP_TEST := f (cl FLP_TEST),
     AT_CMD_TEST := f (cl AT_CMD_TEST), FACTORY := f (cl FACTORY)) = (\<lambda>c. f (cl c))"
proof
  fix c show "(cl(HAL := f (cl HAL), AGPS := f (cl AGPS), FLP := f (cl FLP), FLP_TEST := f (cl FLP_TEST),
     AT_CMD_TEST := f (cl AT_CMD_TEST), FACTORY := f (cl FACTORY))) c = f (cl c)"
    by (cases c) simp_all
qed

lemma if_emits: "(if b then Some (emits l s) else Some s') = Some (if b then emits l s else s')"
  by simp

lemma open_ack_steps:
  "(if need_open_ack (client HAL s) then do {
      let s = set_client HAL (need_open_ack_update (\<lambda>_. False)) s;
      s \<leftarrow> ksend (mnl2hal_gps_status GPS_STATUS_SESSION_ENGINE_ON) s;
      s \<leftarrow> ksend (mnl2hal_gps_status GPS_STATUS_SESSION_BEGIN) s;
      ksend (mnl2agps_gps_open a) s } else Some s)
    = Some (emits (if need_open_ack (client HAL s)
        then [to_hal (M_gps_status GPS_STATUS_SESSION_ENGINE_ON), to_hal (M_gps_status GPS_STATUS_SESSION_BEGIN),
              to_agps (G_gps_open a)] else []) (set_client HAL (need_open_ack_update (\<lambda>_. False)) s))"
  "(if need_open_ack (client AGPS s) then do {
      let s = set_client AGPS (need_open_ack_update (\<lambda>_. False)) s;
      ksend mnl2agps_open_gps_done s } else Some s)
    = Some (emits (if need_open_ack (client AGPS s) then [to_agps G_open_gps_done] else [])
        (set_client AGPS (need_open_ack_update (\<lambda>_. False)) s))"
  "(if need_open_ack (client FLP s) then do {
      let s = set_client FLP (need_open_ack_update (\<lambda>_. False)) s;
      s \<leftarrow> ksend mnl2flp_gps_open_done s;
      ksend (mnl2agps_gps_open a) s } else Some s)
    = Some (emits (if need_open_ack (client FLP s) then [to_flp flp_open_msg, to_agps (G_gps_open a)] else [])
        (set_client FLP (need_open_ack_update (\<lambda>_. False)) s))"
  by (rule ack_step; simp add: ksend_fixed flip: emits_append)+

lemma close_ack_steps:
  "(if need_close_ack (client HAL s) then do {
      let s = set_client HAL (need_close_ack_update (\<lambda>_. False)) s;
      s \<leftarrow> ksend (mnl2hal_gps_status GPS_STATUS_SESSION_END) s;
      s \<leftarrow> ksend (mnl2hal_gps_status GPS_STATUS_SESSION_ENGINE_OFF) s;
      ksend mnl2agps_gps_close s } else Some s)
    = Some (emits (if need_close_ack (client HAL s)
        then [to_hal (M_gps_status GPS_STATUS_SESSION_END), to_hal (M_gps_status GPS_STATUS_SESSION_ENGINE_OFF),
              to_agps G_gps_close] else []) (set_client HAL (need_close_ack_update (\<lambda>_. False)) s))"
  "(if need_close_ack (client AGPS s) then do {
      let s = set_client AGPS (need_close_ack_update (\<lambda>_. False)) s;
      ksend mnl2agps_close_gps_done s } else Some s)
    = Some (emits (if need_close_ack (client AGPS s) then [to_agps G_close_gps_done] else [])
        (set_client AGPS (need_close_ack_update (\<lambda>_. False)) s))"
  "(if need_close_ack (client FLP s) then do {
      let s = set_client FLP (need_close_ack_update (\<lambda>_. False)) s;
      ksend mnl2flp_gps_close_done s } else Some s)
    = Some (emits (if need_close_ack (client FLP s) then [to_flp flp_close_msg] else [])
        (set_client FLP (need_close_ack_update (\<lambda>_. False)) s))"
  by (rule ack_step; simp add: ksend_fixed flip: emits_append)+

lemma do_gps_stopped_hdlr_eq:
  "do_gps_stopped_hdlr s =
     Some (emits (close_acks (clients (gps s)) @ reset_acks (clients (gps s)))
       (set_clients (reset_cleared (closed_all (clients (gps s)))) s))"
  unfolding do_gps_stopped_hdlr_def close_ack_steps
  unfolding ack_step_quiet Let_def
  by (simp add: do_gps_reset_hdlr_eq set_client_set_clients client_clients all_clients close_acks_def
      reset_acks_def closed_all_def [abs_def] flip: emits_append)

lemma do_gps_started_hdlr_eq:
  "do_gps_started_hdlr a s =
     Some (reset_request (emits (open_acks a (clients (gps s)) @ reset_acks (clients (gps s)))
       (set_clients (reset_cleared (opened (clients (gps s)))) s)))"
  unfolding do_gps_started_hdlr_def open_ack_steps
  unfolding ack_step_quiet Let_def
  by (simp add: do_gps_reset_hdlr_eq set_client_set_clients client_clients all_clients open_acks_def
      reset_acks_def opened_def [abs_def] reset_request_def ksend_fixed flip: emits_append)

end
