(* ===== verification/Mnld_Handlers.thy ===== *)
theory Mnld_Handlers
  imports Mnld
begin

text \<open>
  \<open>mnld.c\<close>, continued: the callbacks of the main thread behind the HAL, assisted-GPS, fused location,
  test, factory and AT interfaces, the internal events, and one round of the main loop.
\<close>

section \<open>HAL to daemon\<close>

definition hal_reboot :: "mnld_env \<Rightarrow> mnld act" where
  "hal_reboot e s =
     mnld_fsm e GPS_EVENT_STOP 0
       (set_client HAL (\<lambda>c. c\<lparr>gps_used := False, need_open_ack := False, need_close_ack := False,
          need_reset_ack := False\<rparr>) s)"

definition hal_gps_init :: "mnld act" where
  "hal_gps_init s = do {
     let s = s\<lparr>gps := (gps s)\<lparr>is_gps_init := True\<rparr>\<rparr>;
     let s = leave Gps_driver_state_init s;
     ksend mnl2agps_gps_init s }"

definition hal_start_gps_trigger_epo_download :: "mnld_env \<Rightarrow> mnld act" where
  "hal_start_gps_trigger_epo_download e s = do {
     let s = leave Epo_read_cust_config s;
     (if \<not> is_epo_downloading (epo s) \<and> epo_file_invalid e \<and> epo_download_enabled e
      then ksend epo_downloader_start (s\<lparr>epo := (epo s)\<lparr>is_epo_downloading := True\<rparr>\<rparr>)
      else Some s) }"

definition hal_gps_start :: "mnld_env \<Rightarrow> mnld act" where
  "hal_gps_start e s = do {
     let s = set_client HAL (\<lambda>c. c\<lparr>gps_used := True, need_open_ack := True, need_close_ack := False\<rparr>) s;
     s \<leftarrow> hal_start_gps_trigger_epo_download e s;
     mnld_fsm e GPS_EVENT_START 0 s }"

definition hal_gps_stop :: "mnld_env \<Rightarrow> mnld act" where
  "hal_gps_stop e s =
     mnld_fsm e GPS_EVENT_STOP 0
       (set_client HAL (\<lambda>c. c\<lparr>gps_used := False, need_open_ack := False, need_close_ack := True\<rparr>) s)"

definition hal_gps_cleanup :: "mnld act" where
  "hal_gps_cleanup s = ksend mnl2agps_gps_cleanup (s\<lparr>gps := (gps s)\<lparr>is_gps_init := False\<rparr>\<rparr>)"

definition hal_gps_inject_time :: "i64 \<Rightarrow> i64 \<Rightarrow> i32 \<Rightarrow> mnld act" where
  "hal_gps_inject_time time time_reference uncertainty s =
     Some (leave (Inject_ntp_time time time_reference uncertainty) s)"

definition hal_gps_inject_location :: "mnld_env \<Rightarrow> f64 \<Rightarrow> f64 \<Rightarrow> f32 \<Rightarrow> mnld act" where
  "hal_gps_inject_location e lat lng acc s =
     (case clock_now e of
        None \<Rightarrow> Some s
      | Some ts \<Rightarrow> do {
          let s = leave (Inject_nlp_location ts lat lng acc 0 (mnld_is_gps_started_done s)) s;
          ksend (mnl2agps_location_sync lat lng (f32_to_int acc)) s })"

definition hal_gps_delete_aiding_data :: "mnld_env \<Rightarrow> i32 \<Rightarrow> mnld act" where
  "hal_gps_delete_aiding_data e flags s = do {
     s \<leftarrow> ksend (mnl2agps_delete_aiding_data flags) s;
     let s = set_client HAL (need_reset_ack_update (\<lambda>_. False)) s;
     let s = set_delete_flag (delete_aiding_flag (gps s) OR flags) s;
     mnld_fsm e GPS_EVENT_RESET 0 s }"

definition hal_gps_set_position_mode :: "i32 \<Rightarrow> i32 \<Rightarrow> i32 \<Rightarrow> i32 \<Rightarrow> i32 \<Rightarrow> mnld act" where
  "hal_gps_set_position_mode mode recurrence min_interval preferred_acc preferred_time s = Some s"

definition hal_data_conn_open :: "cstr \<Rightarrow> mnld act" where
  "hal_data_conn_open apn = ksend (mnl2agps_data_conn_open apn)"

definition hal_data_conn_open_with_apn_ip_type :: "cstr \<Rightarrow> i32 \<Rightarrow> mnld act" where
  "hal_data_conn_open_with_apn_ip_type apn ip_type = ksend (mnl2agps_data_conn_open_ip_type apn ip_type)"

definition hal_data_conn_closed :: "mnld act" where
  "hal_data_conn_closed = ksend mnl2agps_data_conn_closed"

definition hal_data_conn_failed :: "mnld act" where
  "hal_data_conn_failed = ksend mnl2agps_data_conn_failed"

definition hal_set_server :: "i32 \<Rightarrow> cstr \<Rightarrow> i32 \<Rightarrow> mnld act" where
  "hal_set_server type hostname port = ksend (mnl2agps_set_server type hostname port)"

definition hal_set_ref_location :: "i32 \<Rightarrow> i32 \<Rightarrow> i32 \<Rightarrow> i32 \<Rightarrow> i32 \<Rightarrow> mnld act" where
  "hal_set_ref_location type mcc mnc lac cid = ksend (mnl2agps_set_ref_loc type mcc mnc lac cid)"

definition hal_set_id :: "i32 \<Rightarrow> cstr \<Rightarrow> mnld act" where
  "hal_set_id type setid = ksend (mnl2agps_set_set_id type setid)"

definition hal_ni_message :: "byte list \<Rightarrow> i32 \<Rightarrow> mnld act" where
  "hal_ni_message msg len = ksend (mnl2agps_ni_message msg len)"

definition hal_ni_respond :: "i32 \<Rightarrow> i32 \<Rightarrow> mnld act" where
  "hal_ni_respond notif_id user_response = ksend (mnl2agps_ni_respond notif_id user_response)"

definition NETWORK_TYPE_WIFI :: i32 where "NETWORK_TYPE_WIFI = 1"

definition hal_update_network_state :: "mnld_env \<Rightarrow> i32 \<Rightarrow> i32 \<Rightarrow> i32 \<Rightarrow> cstr \<Rightarrow> mnld act" where
  "hal_update_network_state e is_connected type roaming extra_info s = do {
     s \<leftarrow> ksend (mnl2agps_update_network_state is_connected type roaming extra_info) s;
     let s = s\<lparr>epo := (epo s)\<lparr>is_network_connected := (is_connected \<noteq> 0)\<rparr>\<rparr>;
     let s = s\<lparr>epo := (epo s)\<lparr>is_wifi_connected := (if type = NETWORK_TYPE_WIFI then is_connected \<noteq> 0 else False)\<rparr>\<rparr>;
     (if mnld_is_gps_started s then do {
        let s = leave Epo_read_cust_config s;
        (if is_connected \<noteq> 0 \<and> \<not> is_epo_downloading (epo s) \<and> epo_file_invalid e \<and> epo_download_enabled e
         then ksend epo_downloader_start (s\<lparr>epo := (epo s)\<lparr>is_epo_downloading := True\<rparr>\<rparr>)
         else Some s) }
      else if type = NETWORK_TYPE_WIFI then do {
        let s = leave Epo_read_cust_config s;
        (if is_connected \<noteq> 0 \<and> \<not> is_epo_downloading (epo s) \<and> epo_wifi_trigger e
            \<and> epo_file_invalid e \<and> epo_download_enabled e
         then ksend epo_downloader_start (s\<lparr>epo := (epo s)\<lparr>is_epo_downloading := True\<rparr>\<rparr>)
         else Some s) }
      else Some s) }"

definition hal_update_network_availability :: "i32 \<Rightarrow> cstr \<Rightarrow> mnld act" where
  "hal_update_network_availability available apn = ksend (mnl2agps_update_network_availability available apn)"

definition hal_set_gps_measurement :: "bool \<Rightarrow> mnld act" where
  "hal_set_gps_measurement enabled s = Some (s\<lparr>gps := (gps s)\<lparr>is_gps_meas_enabled := enabled\<rparr>\<rparr>)"

definition hal_set_gps_navigation :: "bool \<Rightarrow> mnld act" where
  "hal_set_gps_navigation enabled s = Some (s\<lparr>gps := (gps s)\<lparr>is_gps_navi_enabled := enabled\<rparr>\<rparr>)"

definition g_hal2mnl_interface :: "mnld_env \<Rightarrow> mnld hal2mnl_interface" where
  "g_hal2mnl_interface e =
     \<lparr>h2m_hal_reboot = Some (hal_reboot e), h2m_gps_init = Some hal_gps_init,
      h2m_gps_start = Some (hal_gps_start e), h2m_gps_stop = Some (hal_gps_stop e),
      h2m_gps_cleanup = Some hal_gps_cleanup, h2m_gps_inject_time = Some hal_gps_inject_time,
      h2m_gps_inject_location = Some (hal_gps_inject_location e),
      h2m_gps_delete_aiding_data = Some (hal_gps_delete_aiding_data e),
      h2m_gps_set_position_mode = Some hal_gps_set_position_mode,
      h2m_data_conn_open = Some hal_data_conn_open,
      h2m_data_conn_open_with_apn_ip_type = Some hal_data_conn_open_with_apn_ip_type,
      h2m_data_conn_closed = Some hal_data_conn_closed, h2m_data_conn_failed = Some hal_data_conn_failed,
      h2m_set_server = Some hal_set_server, h2m_set_ref_location = Some hal_set_ref_location,
      h2m_set_id = Some hal_set_id, h2m_ni_message = Some hal_ni_message, h2m_ni_respond = Some hal_ni_respond,
      h2m_update_network_state = Some (hal_update_network_state e),
      h2m_update_network_availability = Some hal_update_network_availability,
      h2m_set_gps_measurement = Some hal_set_gps_measurement,
      h2m_set_gps_navigation = Some hal_set_gps_navigation\<rparr>"

section \<open>Assisted-GPS daemon to daemon\<close>

definition agps_reboot :: "mnld_env \<Rightarrow> mnld act" where
  "agps_reboot e s =
     mnld_fsm e GPS_EVENT_STOP 0
       (set_client AGPS (\<lambda>c. c\<lparr>gps_used := False, need_open_ack := False, need_close_ack := False,
          need_reset_ack := False\<rparr>) s)"

definition agps_open_gps_req :: "mnld_env \<Rightarrow> i32 \<Rightarrow> mnld act" where
  "agps_open_gps_req e show_gps_icon s =
     mnld_fsm e GPS_EVENT_START 0
       (set_client AGPS (\<lambda>c. c\<lparr>gps_used := True, need_open_ack := True, need_close_ack := False\<rparr>) s)"

definition agps_close_gps_req :: "mnld_env \<Rightarrow> mnld act" where
  "agps_close_gps_req e s =
     mnld_fsm e GPS_EVENT_STOP 0
       (set_client AGPS (\<lambda>c. c\<lparr>gps_used := False, need_open_ack := False, need_close_ack := True\<rparr>) s)"

definition agps_reset_gps_req :: "mnld_env \<Rightarrow> i32 \<Rightarrow> mnld act" where
  "agps_reset_gps_req e flags s =
     (if flags = 0 then ksend mnl2agps_reset_gps_done s
      else do {
        let s = set_delete_flag (delete_aiding_flag (gps s) OR flags) s;
        let s = set_client AGPS (need_reset_ack_update (\<lambda>_. True)) s;
        mnld_fsm e GPS_EVENT_RESET 0 s })"

definition agps_session_done :: "mnld act" where
  "agps_session_done s = Some (leave Agps_session_done s)"

definition NI_ENCODING_TYPE_UCS2 :: i32 where "NI_ENCODING_TYPE_UCS2 = 3"

text \<open>The two texts are converted in local arrays of 1024 bytes.\<close>

definition agps_ni_notify :: "i32 \<Rightarrow> i32 \<Rightarrow> cstr \<Rightarrow> cstr \<Rightarrow> mnld act" where
  "agps_ni_notify session_id type requestor_id client_name s = do {
     (usc2_len, ucs2_buff) \<leftarrow> asc_str_to_usc2_str (replicate 1024 0) requestor_id;
     requestorId \<leftarrow> raw_data_to_hex_string (replicate 1024 0) ucs2_buff usc2_len;
     (usc2_len, ucs2_buff) \<leftarrow> asc_str_to_usc2_str (replicate 1024 0) client_name;
     clientName \<leftarrow> raw_data_to_hex_string (replicate 1024 0) ucs2_buff usc2_len;
     requestorId \<leftarrow> c_string requestorId;
     clientName \<leftarrow> c_string clientName;
     ksend (mnl2hal_request_ni_notify session_id type (Some requestorId) (Some clientName)
       NI_ENCODING_TYPE_UCS2 NI_ENCODING_TYPE_UCS2) s }"

text \<open>A \<open>sockaddr_in\<close> inside the zeroed \<open>sockaddr_storage\<close>: family, port, address.\<close>

definition AF_INET :: i16 where "AF_INET = 2"

definition agps_data_conn_req :: "i32 \<Rightarrow> i32 \<Rightarrow> mnld act" where
  "agps_data_conn_req ipaddr is_emergency s = do {
     addr \<leftarrow> store (replicate sizeof_sockaddr_storage 0) 0 (enc_short AF_INET);
     addr \<leftarrow> store addr 4 (enc_int ipaddr);
     ksend (mnl2hal_request_data_conn addr) s }"

definition agps_data_conn_release :: "mnld act" where
  "agps_data_conn_release = ksend mnl2hal_release_data_conn"

definition agps_set_id_req :: "i32 \<Rightarrow> mnld act" where
  "agps_set_id_req flags = ksend (mnl2hal_request_set_id flags)"

definition agps_ref_loc_req :: "i32 \<Rightarrow> mnld act" where
  "agps_ref_loc_req flags = ksend (mnl2hal_request_ref_loc flags)"

text \<open>\<open>gps_controller_rcv_pmtk\<close> drops the sentence while the engine is stopped.\<close>

definition agps_rcv_pmtk :: "cstr \<Rightarrow> mnld act" where
  "agps_rcv_pmtk pmtk s = (if mnld_is_gps_stopped s then Some s else Some (leave (Rcv_pmtk pmtk) s))"

definition agps_gpevt :: "i32 \<Rightarrow> mnld act" where
  "agps_gpevt type s = Some s"

definition GPS_LOCATION_HAS_LAT_LONG :: i32 where "GPS_LOCATION_HAS_LAT_LONG = 0x0001"
definition GPS_LOCATION_HAS_ALT :: i32 where "GPS_LOCATION_HAS_ALT = 0x0002"
definition GPS_LOCATION_HAS_SPEED :: i32 where "GPS_LOCATION_HAS_SPEED = 0x0004"
definition GPS_LOCATION_HAS_BEARING :: i32 where "GPS_LOCATION_HAS_BEARING = 0x0008"
definition GPS_LOCATION_HAS_ACCURACY :: i32 where "GPS_LOCATION_HAS_ACCURACY = 0x0010"

definition zero_location :: gps_location where
  "zero_location = \<lparr>loc_flags = 0, loc_lat = 0, loc_lng = 0, loc_alt = 0, loc_speed = 0, loc_bearing = 0,
     loc_accuracy = 0, loc_timestamp = 0\<rparr>"

definition agps_to_gps_location :: "mnl_agps_agps_location \<Rightarrow> gps_location" where
  "agps_to_gps_location a =
     (let l = zero_location;
          l = l\<lparr>loc_flags := loc_flags l OR GPS_LOCATION_HAS_LAT_LONG, loc_lat := al_latitude a,
                loc_lng := al_longitude a\<rparr>;
          l = (if al_altitude_used a \<noteq> 0
               then l\<lparr>loc_flags := loc_flags l OR GPS_LOCATION_HAS_ALT, loc_alt := al_altitude a\<rparr> else l);
          l = (if al_speed_used a \<noteq> 0
               then l\<lparr>loc_flags := loc_flags l OR GPS_LOCATION_HAS_SPEED, loc_speed := al_speed a\<rparr> else l);
          l = (if al_bearing_used a \<noteq> 0
               then l\<lparr>loc_flags := loc_flags l OR GPS_LOCATION_HAS_BEARING, loc_bearing := al_bearing a\<rparr> else l);
          l = (if al_accuracy_used a \<noteq> 0
               then l\<lparr>loc_flags := loc_flags l OR GPS_LOCATION_HAS_ACCURACY, loc_accuracy := al_accuracy a\<rparr> else l);
          l = (if al_timestamp_used a \<noteq> 0 then l\<lparr>loc_timestamp := al_timestamp a\<rparr> else l)
      in l)"

definition agps_location :: "mnld_env \<Rightarrow> byte list \<Rightarrow> mnld act" where
  "agps_location e location s =
     (let a = agps_location_of_bytes location
      in do {
        s \<leftarrow> ksend (mnl2hal_location (gps_location_bytes (agps_to_gps_location a))) s;
        (case clock_now e of
           None \<Rightarrow> Some s
         | Some ts \<Rightarrow> Some (leave (Inject_nlp_location ts (al_latitude a) (al_longitude a) (al_accuracy a) 0 True) s)) })"

definition agps_ni_notify2 :: "i32 \<Rightarrow> i32 \<Rightarrow> cstr \<Rightarrow> cstr \<Rightarrow> i32 \<Rightarrow> i32 \<Rightarrow> mnld act" where
  "agps_ni_notify2 session_id type requestor_id client_name requestor_id_encoding client_name_encoding =
     ksend (mnl2hal_request_ni_notify session_id type requestor_id client_name
       requestor_id_encoding client_name_encoding)"

definition agps_data_conn_req2 :: "byte list \<Rightarrow> i32 \<Rightarrow> mnld act" where
  "agps_data_conn_req2 addr is_emergency = ksend (mnl2hal_request_data_conn addr)"

text \<open>
  \<open>get_chip_sv_support_capability\<close> of \<open>gps_controller.c\<close> leaves \<open>*sv_type\<close> alone for a chip it does not know.
\<close>

definition get_chip_sv_support_capability :: "string \<Rightarrow> byte \<Rightarrow> byte" where
  "get_chip_sv_support_capability chip sv_type =
     (if chip = ''0x6620'' \<or> chip = ''0x6628'' \<or> chip = ''0x3336'' \<or> chip = ''0x6572''
         \<or> chip = ''0x6582'' \<or> chip = ''0x6592'' \<or> chip = ''0x6571'' \<or> chip = ''0x6580''
         \<or> chip = ''0x0335'' then 1
      else if chip = ''0x3332'' \<or> chip = ''0x6752'' \<or> chip = ''0x0321'' \<or> chip = ''0x0337''
         \<or> chip = ''0x6755'' \<or> chip = ''0x6757'' then 3
      else if chip = ''0x6797'' \<or> chip = ''0x6630'' then 7
      else if chip = ''0x6632'' then 15
      else sv_type)"

definition agps_settings_sync :: "mnld_env \<Rightarrow> mnl_agps_agps_settings \<Rightarrow> mnld act" where
  "agps_settings_sync e st s =
     (let s = s\<lparr>g_settings_from_agps := st\<rparr>;
          sv = 0;
          sv = sv OR push_bit 4 (a_glonass_satellite_enable st AND 0x01);
          sv = sv OR push_bit 3 (galileo_satellite_enable st AND 0x01);
          sv = sv OR push_bit 2 (beidou_satellite_enable st AND 0x01);
          sv = sv OR push_bit 1 (glonass_satellite_enable st AND 0x01);
          sv = sv OR (gps_satellite_enable st AND 0x01);
          s = s\<lparr>sv_type_agps_set := sv, g_sib8_16_enable := sib8_16_enable st\<rparr>;
          s = (if mnld_is_gps_started_done s
               then leave (Set_param_sib8_16 (g_sib8_16_enable s))
                      (leave (Set_param_constellation (sv_type_agps_set s)) s) else s);
          sv_type = get_chip_sv_support_capability (chip_id e) (stack_byte e);
          s = s\<lparr>g_settings_to_agps :=
                 \<lparr>gps_satellite_support = sv_type AND 0x01,
                  glonass_satellite_support = drop_bit 1 (sv_type AND 0x02),
                  beidou_satellite_support = drop_bit 2 (sv_type AND 0x04),
                  galileo_satellite_support = drop_bit 3 (sv_type AND 0x08)\<rparr>\<rparr>
      in ksend (mnl2agps_agps_settings_ack (g_settings_to_agps s)) s)"

definition g_agps2mnl_interface :: "mnld_env \<Rightarrow> mnld agps2mnl_interface" where
  "g_agps2mnl_interface e =
     \<lparr>a2m_agps_reboot = Some (agps_reboot e), a2m_agps_open_gps_req = Some (agps_open_gps_req e),
      a2m_agps_close_gps_req = Some (agps_close_gps_req e), a2m_agps_reset_gps_req = Some (agps_reset_gps_req e),
      a2m_agps_session_done = Some agps_session_done, a2m_ni_notify = Some agps_ni_notify,
      a2m_ni_notify2 = Some agps_ni_notify2, a2m_data_conn_req = Some agps_data_conn_req,
      a2m_data_conn_req2 = Some agps_data_conn_req2, a2m_data_conn_release = Some agps_data_conn_release,
      a2m_set_id_req = Some agps_set_id_req, a2m_ref_loc_req = Some agps_ref_loc_req,
      a2m_rcv_pmtk = Some agps_rcv_pmtk, a2m_gpevt = Some agps_gpevt, a2m_agps_location = Some (agps_location e),
      a2m_agps_settings_sync = Some (agps_settings_sync e)\<rparr>"

section \<open>Fused location, tests, factory and AT commands\<close>

definition flp2mnl_flp_reboot :: "mnld_env \<Rightarrow> mnld act" where
  "flp2mnl_flp_reboot e s =
     mnld_fsm e GPS_EVENT_STOP 0
       (set_client FLP (\<lambda>c. c\<lparr>gps_used := False, need_open_ack := False, need_close_ack := False,
          need_reset_ack := False\<rparr>) s)"

definition flp2mnl_gps_start :: "mnld_env \<Rightarrow> mnld act" where
  "flp2mnl_gps_start e s =
     mnld_fsm e GPS_EVENT_START 0
       (set_client FLP (\<lambda>c. c\<lparr>gps_used := True, need_open_ack := True, need_close_ack := False\<rparr>) s)"

definition flp2mnl_gps_stop :: "mnld_env \<Rightarrow> mnld act" where
  "flp2mnl_gps_stop e s =
     mnld_fsm e GPS_EVENT_STOP 0
       (set_client FLP (\<lambda>c. c\<lparr>gps_used := False, need_open_ack := False, need_close_ack := True\<rparr>) s)"

definition flp2mnl_flp_lpbk :: "byte list \<Rightarrow> nat \<Rightarrow> mnld act" where
  "flp2mnl_flp_lpbk buf len = ksend (mnl2flp_data_send buf (int len))"

definition flp2mnl_flp_data :: "byte list \<Rightarrow> mnld act" where
  "flp2mnl_flp_data prMsg s =
     (let len = unat (field_int prMsg 4)
      in if 0 < len \<and> len \<le> OFFLOAD_PAYLOAD_LEN
         then Some (leave (Ofl_send_flp_data (take len (drop 8 prMsg))) s) else Some s)"

definition g_flp2mnl_interface :: "mnld_env \<Rightarrow> mnld flp2mnl_interface" where
  "g_flp2mnl_interface e =
     \<lparr>f2m_flp_reboot = Some (flp2mnl_flp_reboot e), f2m_gps_start = Some (flp2mnl_gps_start e),
      f2m_gps_stop = Some (flp2mnl_gps_stop e), f2m_flp_lpbk = Some flp2mnl_flp_lpbk,
      f2m_flp_data = Some flp2mnl_flp_data\<rparr>"

definition flp_test2mnl_gps_start :: "mnld_env \<Rightarrow> mnld act" where
  "flp_test2mnl_gps_start e s =
     mnld_fsm e GPS_EVENT_START 0
       (set_client FLP_TEST (\<lambda>c. c\<lparr>gps_used := True, need_open_ack := False, need_close_ack := False\<rparr>) s)"

definition flp_test2mnl_gps_stop :: "mnld_env \<Rightarrow> mnld act" where
  "flp_test2mnl_gps_stop e s =
     mnld_fsm e GPS_EVENT_STOP 0
       (set_client FLP_TEST (\<lambda>c. c\<lparr>gps_used := False, need_open_ack := False, need_close_ack := False\<rparr>) s)"

text \<open>The loop fills a local array of 1024 bytes.\<close>

definition flp_test2mnl_flp_lpbk_start :: "mnld act" where
  "flp_test2mnl_flp_lpbk_start s =
     (if ofl_lpbk_tst_size (ofl s) \<le> 1024
      then Some ((leave (Ofl_send_flp_data (replicate (nat (ofl_lpbk_tst_size (ofl s))) 0x80)) s)
                   \<lparr>ofl := (ofl s)\<lparr>ofl_lpbk_tst_start := 1\<rparr>\<rparr>)
      else None)"

definition flp_test2mnl_flp_lpbk_stop :: "mnld act" where
  "flp_test2mnl_flp_lpbk_stop s = Some (s\<lparr>ofl := (ofl s)\<lparr>ofl_lpbk_tst_start := 0\<rparr>\<rparr>)"

definition g_flp_test2mnl_interface :: "mnld_env \<Rightarrow> mnld flp_test2mnl_interface" where
  "g_flp_test2mnl_interface e =
     \<lparr>ft_gps_start = Some (flp_test2mnl_gps_start e), ft_gps_stop = Some (flp_test2mnl_gps_stop e),
      ft_lpbk_start = Some flp_test2mnl_flp_lpbk_start, ft_lpbk_stop = Some flp_test2mnl_flp_lpbk_stop\<rparr>"

definition factory_mnld_gps_start :: "mnld_env \<Rightarrow> mnld act" where
  "factory_mnld_gps_start e s =
     mnld_fsm e GPS_EVENT_START 0
       (set_client FACTORY (\<lambda>c. c\<lparr>gps_used := True, need_open_ack := False, need_close_ack := False\<rparr>) s)"

definition factory_mnld_gps_stop :: "mnld_env \<Rightarrow> mnld act" where
  "factory_mnld_gps_stop e s =
     mnld_fsm e GPS_EVENT_STOP 0
       (set_client FACTORY (\<lambda>c. c\<lparr>gps_used := False, need_open_ack := False, need_close_ack := False\<rparr>) s)"

definition at_test2mnl_gps_start :: "mnld_env \<Rightarrow> mnld act" where
  "at_test2mnl_gps_start e s =
     mnld_fsm e GPS_EVENT_START 0
       (set_client AT_CMD_TEST (\<lambda>c. c\<lparr>gps_used := True, need_open_ack := False, need_close_ack := False\<rparr>) s)"

definition at_test2mnl_gps_stop :: "mnld_env \<Rightarrow> mnld act" where
  "at_test2mnl_gps_stop e s =
     mnld_fsm e GPS_EVENT_STOP 0
       (set_client AT_CMD_TEST (\<lambda>c. c\<lparr>gps_used := False, need_open_ack := False, need_close_ack := False\<rparr>) s)"

section \<open>Internal events\<close>

text \<open>\<open>0x44fa0000\<close> is the \<open>float\<close> 2000.\<close>

definition main_event_hdlr :: "mnld_env \<Rightarrow> (nat \<Rightarrow> byte) \<Rightarrow> rx_ans list \<Rightarrow> mnld \<Rightarrow> (int \<times> mnld) option" where
  "main_event_hdlr e junk rx s =
    (let (read_len, mem) = safe_recvfrom rx (replicate MNLD_INTERNAL_BUFF_SIZE 0)
     in if read_len \<le> 0 then Some (-1, s)
     else do {
       (cmd, b) \<leftarrow> get_int (cursor mem);
       s \<leftarrow> (case main_event_of cmd of
          Some GPS2MAIN_EVENT_START_DONE \<Rightarrow> do {
            (is_assist_req, b) \<leftarrow> get_int b;
            mnld_fsm e GPS_EVENT_START_DONE is_assist_req s }
        | Some GPS2MAIN_EVENT_STOP_DONE \<Rightarrow> mnld_fsm e GPS_EVENT_STOP_DONE 0 s
        | Some GPS2MAIN_EVENT_RESET_DONE \<Rightarrow> do_gps_reset_hdlr (ktimer (stop_timer (timer_reset (gps s))) s)
        | Some GPS2MAIN_EVENT_NMEA_TIMEOUT \<Rightarrow>
            (if mnld_is_gps_started_done s then do {
               let s = mtk_gps_clear_gps_user s;
               s \<leftarrow> mnld_fsm e GPS_EVENT_STOP 0 s;
               s \<leftarrow> ksend mnl2hal_mnld_reboot s;
               s \<leftarrow> ksend mnl2agps_mnl_reboot s;
               s \<leftarrow> ksend mnl2flp_mnld_reboot s;
               Some (leave Mnl_set_status s) }
             else Some s)
        | Some GPS2MAIN_EVENT_UPDATE_LOCATION \<Rightarrow> do {
            ((len, mem), b) \<leftarrow> get_binary (uninit junk sizeof_gps_location) b;
            let location = gps_location_of_bytes mem;
            let valid_acc = (if loc_flags location AND GPS_LOCATION_HAS_ACCURACY \<noteq> 0
                             then loc_accuracy location else 0x44fa0000);
            s \<leftarrow> ksend (mnl2agps_location_sync (loc_lat location) (loc_lng location) (f32_to_int valid_acc)) s;
            (if wait_first_location (gps s) then do {
               let s = s\<lparr>gps := (gps s)\<lparr>wait_first_location := False\<rparr>\<rparr>;
               let s = s\<lparr>gps := (gps s)\<lparr>gps_ttff := get_tick (clock_now e) - gps_start_time (gps s)\<rparr>\<rparr>;
               Some (if cmcc_log_enabled e
                     then leave (Op01_log_gps_location (loc_lat location) (loc_lng location) (gps_ttff (gps s))) s
                     else s) }
             else Some s) }
        | Some EPO2MAIN_EVENT_EPO_DONE \<Rightarrow> do {
            (result, b) \<leftarrow> get_int b;
            let s = s\<lparr>epo := (epo s)\<lparr>is_epo_downloading := False\<rparr>\<rparr>;
            Some (if mnld_is_gps_started_done s then leave Epo_update_file s else s) }
        | Some QEPO2MAIN_EVENT_QEPO_DONE \<Rightarrow> do {
            (result, b) \<leftarrow> get_int b;
            Some (if mnld_is_gps_started_done s then leave (Qepo_update_file result) s else s) }
        | None \<Rightarrow> Some s);
       Some (0, s) })"

section \<open>The main loop\<close>

text \<open>
  One ready descriptor of \<open>epoll_wait\<close>, with what the kernel answers to the receive. The AT command
  interpreter and the log socket are other components; an AT command reaches the main thread as one
  of its two calls.
\<close>

datatype main_input =
    In_agps "rx_ans list" | In_hal "rx_ans list" | In_flp "rx_ans list" | In_flp_test "rx_ans list"
  | In_at_start | In_at_stop | In_int "rx_ans list"

primrec main_dispatch :: "mnld_env \<Rightarrow> (nat \<Rightarrow> byte) \<Rightarrow> main_input \<Rightarrow> mnld act" where
  "main_dispatch e junk (In_agps rx) s = agps2mnl_hdlr junk rx (g_agps2mnl_interface e) s"
| "main_dispatch e junk (In_hal rx) s = map_option snd (hal2mnl_hdlr rx (g_hal2mnl_interface e) s)"
| "main_dispatch e junk (In_flp rx) s =
     map_option snd (flp2mnl_hdlr (\<lambda>b s. s\<lparr>offload_enabled := b\<rparr>) rx (g_flp2mnl_interface e) s)"
| "main_dispatch e junk (In_flp_test rx) s = map_option snd (flp_test2mnl_hdlr rx (g_flp_test2mnl_interface e) s)"
| "main_dispatch e junk In_at_start s = at_test2mnl_gps_start e s"
| "main_dispatch e junk In_at_stop s = at_test2mnl_gps_stop e s"
| "main_dispatch e junk (In_int rx) s = map_option snd (main_event_hdlr e junk rx s)"

primrec main_round :: "mnld_env \<Rightarrow> (nat \<Rightarrow> byte) \<Rightarrow> main_input list \<Rightarrow> mnld act" where
  "main_round e junk [] s = Some s"
| "main_round e junk (i # is) s = do { s \<leftarrow> main_dispatch e junk i s; main_round e junk is s }"

definition mnld_main_thread_round :: "int \<Rightarrow> mnld_env \<Rightarrow> (nat \<Rightarrow> byte) \<Rightarrow> main_input list \<Rightarrow> mnld act" where
  "mnld_main_thread_round hdlr_timer e junk events s = do {
     let s = ktimer (start_timer hdlr_timer MNLD_MAIN_HANDLER_TIMEOUT) s;
     s \<leftarrow> main_round e junk events s;
     Some (ktimer (stop_timer hdlr_timer) s) }"

text \<open>
  The zeroed context and the initial values of the file's other globals, over a given kernel.
\<close>

definition mnld_zero :: "os \<Rightarrow> mnld" where
  "mnld_zero k =
     \<lparr>gps = \<lparr>clients = (\<lambda>_. \<lparr>gps_used = False, need_open_ack = False, need_close_ack = False, need_reset_ack = False\<rparr>),
             gps_state = MNLD_GPS_STATE_IDLE, is_gps_init = False, is_gps_meas_enabled = False,
             is_gps_navi_enabled = False, delete_aiding_flag = 0, timer_start = 0, timer_stop = 0,
             timer_reset = 0, timer_nmea_monitor = 0, gps_start_time = 0, gps_stop_time = 0, gps_ttff = 0,
             wait_first_location = False\<rparr>,
      epo = \<lparr>is_network_connected = False, is_wifi_connected = False, is_epo_downloading = False\<rparr>,
      fds = \<lparr>fd_hal = 0, fd_agps = 0, fd_flp = 0, fd_flp_test = 0, fd_at_cmd = 0, fd_int = 0, fd_mtklogger = 0,
        fd_mtklogger_client = 0\<rparr>,
      sv_type_agps_set = 0, g_sib8_16_enable = 0,
      g_settings_from_agps = \<lparr>sib8_16_enable = 0, gps_satellite_enable = 0, glonass_satellite_enable = 0,
        beidou_satellite_enable = 0, galileo_satellite_enable = 0, a_glonass_satellite_enable = 0\<rparr>,
      g_settings_to_agps = \<lparr>gps_satellite_support = 1, glonass_satellite_support = 0,
        beidou_satellite_support = 0, galileo_satellite_support = 0\<rparr>,
      offload_enabled = False, ofl = ofl_statics_init, kern = k, ext = []\<rparr>"

text \<open>
  Start-up: descriptors and timers as the kernel hands them out (a negative descriptor or the timer
  -1 is a failure), then the reboot messages. The context is zero before.
\<close>

definition mnld_init :: "mnld_fds \<Rightarrow> int \<Rightarrow> int \<Rightarrow> int \<Rightarrow> int \<Rightarrow> mnld \<Rightarrow> (int \<times> mnld) option" where
  "mnld_init new t1 t2 t3 t4 s =
    (let s = s\<lparr>fds := (fds s)\<lparr>fd_agps := fd_agps new\<rparr>\<rparr> in if fd_agps new < 0 then Some (-1, s) else
     let s = s\<lparr>fds := (fds s)\<lparr>fd_hal := fd_hal new\<rparr>\<rparr> in if fd_hal new < 0 then Some (-1, s) else
     let s = s\<lparr>fds := (fds s)\<lparr>fd_flp := fd_flp new\<rparr>\<rparr> in if fd_flp new < 0 then Some (-1, s) else
     let s = s\<lparr>fds := (fds s)\<lparr>fd_flp_test := fd_flp_test new\<rparr>\<rparr> in if fd_flp_test new < 0 then Some (-1, s) else
     let s = s\<lparr>fds := (fds s)\<lparr>fd_at_cmd := fd_at_cmd new\<rparr>\<rparr> in if fd_at_cmd new < 0 then Some (-1, s) else
     let s = s\<lparr>fds := (fds s)\<lparr>fd_int := fd_int new\<rparr>\<rparr> in if fd_int new < 0 then Some (-1, s) else
     let s = s\<lparr>fds := (fds s)\<lparr>fd_mtklogger := fd_mtklogger new\<rparr>\<rparr> in if fd_mtklogger new < 0 then Some (-1, s) else
     let s = s\<lparr>gps := (gps s)\<lparr>timer_start := t1\<rparr>\<rparr> in if t1 = -1 then Some (-1, s) else
     let s = s\<lparr>gps := (gps s)\<lparr>timer_stop := t2\<rparr>\<rparr> in if t2 = -1 then Some (-1, s) else
     let s = s\<lparr>gps := (gps s)\<lparr>timer_reset := t3\<rparr>\<rparr> in if t3 = -1 then Some (-1, s) else
     let s = s\<lparr>gps := (gps s)\<lparr>timer_nmea_monitor := t4\<rparr>\<rparr> in if t4 = -1 then Some (-1, s) else
     do {
       s \<leftarrow> ksend mnl2hal_mnld_reboot s;
       s \<leftarrow> ksend mnl2agps_mnl_reboot s;
       s \<leftarrow> ksend mnl2flp_mnld_reboot s;
       Some (0, s) })"

end
