(* ===== verification/Mnld_Invariants.thy ===== *)
theory Mnld_Invariants
  imports Mnld_Fsm Mnld_Handlers
begin

text \<open>
  The invariant of the daemon's state machine: what the state says about the users, the pending
  acknowledgements, the timers, the wake lock the daemon holds through the HAL, and the requests it
  has made of the GPS control thread; and that every event keeps it.
\<close>

section \<open>Counting messages\<close>

primrec m2h_cmd :: "mnl2hal_msg \<Rightarrow> mnl2hal_cmd" where
  "m2h_cmd M_mnld_reboot = MNL2HAL_MNLD_REBOOT"
| "m2h_cmd (M_location l) = MNL2HAL_LOCATION"
| "m2h_cmd (M_gps_status v) = MNL2HAL_GPS_STATUS"
| "m2h_cmd (M_gps_sv d) = MNL2HAL_GPS_SV"
| "m2h_cmd (M_nmea t s n) = MNL2HAL_NMEA"
| "m2h_cmd (M_gps_capabilities v) = MNL2HAL_GPS_CAPABILITIES"
| "m2h_cmd (M_gps_measurements d) = MNL2HAL_GPS_MEASUREMENTS"
| "m2h_cmd (M_gps_navigation d) = MNL2HAL_GPS_NAVIGATION"
| "m2h_cmd (M_gnss_measurements d) = MNL2HAL_GNSS_MEASUREMENTS"
| "m2h_cmd (M_gnss_navigation d) = MNL2HAL_GNSS_NAVIGATION"
| "m2h_cmd M_request_wakelock = MNL2HAL_REQUEST_WAKELOCK"
| "m2h_cmd M_release_wakelock = MNL2HAL_RELEASE_WAKELOCK"
| "m2h_cmd M_request_utc_time = MNL2HAL_REQUEST_UTC_TIME"
| "m2h_cmd (M_request_data_conn a) = MNL2HAL_REQUEST_DATA_CONN"
| "m2h_cmd M_release_data_conn = MNL2HAL_RELEASE_DATA_CONN"
| "m2h_cmd (M_request_ni_notify i t r c re ce) = MNL2HAL_REQUEST_NI_NOTIFY"
| "m2h_cmd (M_request_set_id v) = MNL2HAL_REQUEST_SET_ID"
| "m2h_cmd (M_request_ref_loc v) = MNL2HAL_REQUEST_REF_LOC"

primrec ctl_cmd :: "ctl_msg \<Rightarrow> main2gps_event" where
  "ctl_cmd (C_start f) = MAIN2GPS_EVENT_START"
| "ctl_cmd C_stop = MAIN2GPS_EVENT_STOP"
| "ctl_cmd (C_reset f) = MAIN2GPS_DELETE_AIDING_DATA"

text \<open>The integer a receiver reads first, from a datagram in a zeroed buffer.\<close>

definition head_int :: "byte list \<Rightarrow> i32" where
  "head_int d = field_int (d @ replicate 4 0) 0"

text \<open>How many messages with a given command were sent to the HAL, and to the GPS control thread.\<close>

definition hal_count :: "mnl2hal_cmd \<Rightarrow> (string \<times> byte list) list \<Rightarrow> int" where
  "hal_count c l = int (length (filter (\<lambda>(p, d). p = MTK_MNL2HAL \<and> take 8 d = m2h_head c) l))"

definition ctl_count :: "main2gps_event \<Rightarrow> (string \<times> byte list) list \<Rightarrow> int" where
  "ctl_count c l = int (length (filter (\<lambda>(p, d). p = MNLD_GPS_CONTROL_SOCKET \<and> main2gps_event_of (head_int d) = Some c) l))"

lemma m2h_code_inj: "(mnl2hal_code c = mnl2hal_code c') = (c = c')"
  by (metis mnl2hal_cmd_of_code option.inject)

lemma m2h_wire_head: "take 8 (m2h_wire m) = m2h_head (m2h_cmd m)"
  by (cases m) (simp_all add: m2h_head_def)

lemma m2h_head_inj: "(m2h_head c = m2h_head c') = (c = c')"
  by (simp add: m2h_head_def enc_int_inj m2h_code_inj)

lemma head_int_enc [simp]: "head_int (enc_int v) = v" "head_int (enc_int v @ xs) = v"
  unfolding head_int_def by (rule field_int_enc [where pre = "[]"], simp, simp)+

lemma ctl_wire_head: "head_int (ctl_wire m) = main2gps_code (ctl_cmd m)"
  by (cases m) (simp_all del: main2gps_code.simps)

lemma socket_diff [simp]:
  "MNL_TO_AGPS \<noteq> MNLD_GPS_CONTROL_SOCKET" "MTK_MNL2FLP \<noteq> MNLD_GPS_CONTROL_SOCKET" "MTK_MNL2FLP \<noteq> MTK_MNL2HAL"
  "MNLD_EPO_DOWNLOAD_SOCKET \<noteq> MTK_MNL2HAL" "MNLD_EPO_DOWNLOAD_SOCKET \<noteq> MNLD_GPS_CONTROL_SOCKET"
  "MTK_MNL2HAL \<noteq> MNLD_GPS_CONTROL_SOCKET"
  by (simp_all add: MNL_TO_AGPS_def MNLD_GPS_CONTROL_SOCKET_def MTK_MNL2FLP_def MTK_MNL2HAL_def
      MNLD_EPO_DOWNLOAD_SOCKET_def)

lemma hal_count_simps [simp]:
  "hal_count c [] = 0" "hal_count c (l @ l') = hal_count c l + hal_count c l'"
  "hal_count c (to_hal m # l) = of_bool (m2h_cmd m = c) + hal_count c l"
  "hal_count c (to_agps g # l) = hal_count c l" "hal_count c (to_flp d # l) = hal_count c l"
  "hal_count c (to_ctl x # l) = hal_count c l" "hal_count c ((MNLD_EPO_DOWNLOAD_SOCKET, d) # l) = hal_count c l"
  by (simp_all add: hal_count_def to_hal_def to_agps_def to_flp_def to_ctl_def m2h_wire_head m2h_head_inj)

lemma ctl_count_simps [simp]:
  "ctl_count c [] = 0" "ctl_count c (l @ l') = ctl_count c l + ctl_count c l'"
  "ctl_count c (to_ctl m # l) = of_bool (ctl_cmd m = c) + ctl_count c l"
  "ctl_count c (to_agps g # l) = ctl_count c l" "ctl_count c (to_flp d # l) = ctl_count c l"
  "ctl_count c (to_hal x # l) = ctl_count c l" "ctl_count c ((MNLD_EPO_DOWNLOAD_SOCKET, d) # l) = ctl_count c l"
  by (simp_all add: ctl_count_def to_hal_def to_agps_def to_flp_def to_ctl_def ctl_wire_head)

lemma acks_count [simp]:
  "hal_count MNL2HAL_REQUEST_WAKELOCK (open_acks a cl) = 0" "hal_count MNL2HAL_RELEASE_WAKELOCK (open_acks a cl) = 0"
  "hal_count MNL2HAL_REQUEST_WAKELOCK (close_acks cl) = 0" "hal_count MNL2HAL_RELEASE_WAKELOCK (close_acks cl) = 0"
  "hal_count c (reset_acks cl) = 0"
  "ctl_count x (open_acks a cl) = 0" "ctl_count x (close_acks cl) = 0" "ctl_count x (reset_acks cl) = 0"
  by (simp_all add: open_acks_def close_acks_def reset_acks_def)

section \<open>The invariant of the state machine\<close>

definition timer_ids :: "mnld \<Rightarrow> int list" where
  "timer_ids s = [timer_start (gps s), timer_stop (gps s), timer_reset (gps s), timer_nmea_monitor (gps s)]"

definition armed :: "mnld \<Rightarrow> int \<Rightarrow> bool" where
  "armed s t = (timers (kern s) t \<noteq> None)"

definition wakelocks_held :: "mnld \<Rightarrow> int" where
  "wakelocks_held s = hal_count MNL2HAL_REQUEST_WAKELOCK (sends (kern s)) - hal_count MNL2HAL_RELEASE_WAKELOCK (sends (kern s))"

definition engine_runs :: "mnld \<Rightarrow> int" where
  "engine_runs s = ctl_count MAIN2GPS_EVENT_START (sends (kern s)) - ctl_count MAIN2GPS_EVENT_STOP (sends (kern s))"

definition engine_stops :: "mnld \<Rightarrow> int" where
  "engine_stops s = ctl_count MAIN2GPS_EVENT_STOP (sends (kern s))"

abbreviation "state_of s \<equiv> gps_state (gps s)"
abbreviation "used s c \<equiv> gps_used (clients (gps s) c)"
abbreviation "wants_open s c \<equiv> need_open_ack (clients (gps s) c)"
abbreviation "wants_close s c \<equiv> need_close_ack (clients (gps s) c)"
abbreviation "wants_reset s c \<equiv> need_reset_ack (clients (gps s) c)"

definition fsm_inv :: "int \<Rightarrow> (string \<times> byte list \<times> bool) list \<Rightarrow> mnld \<Rightarrow> bool" where
  "fsm_inv n h s =
     (distinct (timer_ids s)
      \<and> (state_of s = MNLD_GPS_STATE_IDLE \<longrightarrow> (\<forall>c. \<not> used s c))
      \<and> (state_of s = MNLD_GPS_STATE_STARTED \<longrightarrow> (\<exists>c. used s c))
      \<and> (\<forall>c. wants_open s c \<longrightarrow> used s c \<and> state_of s \<in> {MNLD_GPS_STATE_STARTING, MNLD_GPS_STATE_STOPPING})
      \<and> (\<forall>c. wants_close s c \<longrightarrow> \<not> used s c \<and> state_of s \<noteq> MNLD_GPS_STATE_IDLE)
      \<and> (\<forall>c. wants_reset s c \<longrightarrow> c = AGPS)
      \<and> (wants_reset s AGPS \<longrightarrow> state_of s = MNLD_GPS_STATE_STARTING \<or> armed s (timer_reset (gps s)))
      \<and> (state_of s = MNLD_GPS_STATE_STARTED \<longrightarrow> delete_aiding_flag (gps s) = 0)
      \<and> armed s (timer_stop (gps s)) = (state_of s = MNLD_GPS_STATE_STOPPING)
      \<and> (armed s (timer_start (gps s)) \<longrightarrow> state_of s = MNLD_GPS_STATE_STARTING)
      \<and> wakelocks_held s = of_bool (state_of s \<noteq> MNLD_GPS_STATE_IDLE)
      \<and> engine_runs s = of_bool (mnld_is_gps_started s)
      \<and> engine_stops s = n + of_bool (state_of s = MNLD_GPS_STATE_STOPPING)
      \<and> ofl_lpbk_tst_size (ofl s) \<le> 1024
      \<and> prefix h (slog (kern s)))"

definition fsm_view :: "mnld \<Rightarrow> mnld_gps_status \<times> (int \<Rightarrow> int option) \<times> int \<times> int \<times> int \<times> int" where
  "fsm_view s = (gps s, timers (kern s), wakelocks_held s, engine_runs s, engine_stops s, ofl_lpbk_tst_size (ofl s))"

lemma fsm_inv_view:
  "fsm_inv n h s \<Longrightarrow> fsm_view s' = fsm_view s \<Longrightarrow> prefix (slog (kern s)) (slog (kern s')) \<Longrightarrow> fsm_inv n h s'"
  by (auto simp: fsm_view_def fsm_inv_def timer_ids_def armed_def mnld_is_gps_started_def
      intro: prefix_order.trans)

lemma arm_start_timer_frame [simp]:
  "gps (arm_start_timer e s) = gps s" "sends (kern (arm_start_timer e s)) = sends (kern s)"
  "t \<noteq> timer_start (gps s) \<Longrightarrow> timers (kern (arm_start_timer e s)) t = timers (kern s) t"
  "epo (arm_start_timer e s) = epo s" "client c (arm_start_timer e s) = client c s"
  "ofl (arm_start_timer e s) = ofl s" "slog (kern (arm_start_timer e s)) = slog (kern s)"
  by (simp_all add: arm_start_timer_def Let_def start_timer_other)

lemma reset_request_frame [simp]:
  "gps (reset_request s) = (gps s)\<lparr>delete_aiding_flag := 0\<rparr>" "ofl (reset_request s) = ofl s"
  "t \<noteq> timer_reset (gps s) \<Longrightarrow> timers (kern (reset_request s)) t = timers (kern s) t"
  "hal_count c (sends (kern (reset_request s))) = hal_count c (sends (kern s))"
  "ctl_count MAIN2GPS_EVENT_START (sends (kern (reset_request s))) = ctl_count MAIN2GPS_EVENT_START (sends (kern s))"
  "ctl_count MAIN2GPS_EVENT_STOP (sends (kern (reset_request s))) = ctl_count MAIN2GPS_EVENT_STOP (sends (kern s))"
  by (auto simp: reset_request_def start_timer_other)

lemma prefix_reset_request [simp]: "prefix h (slog (kern s)) \<Longrightarrow> prefix h (slog (kern (reset_request s)))"
  by (simp add: reset_request_def)

lemma opened_simps [simp]:
  "gps_used (opened cl c) = gps_used (cl c)" "\<not> need_open_ack (opened cl c)"
  "need_close_ack (opened cl c) = need_close_ack (cl c)" "need_reset_ack (opened cl c) = need_reset_ack (cl c)"
  by (simp_all add: opened_def)

lemma closed_simps [simp]:
  "gps_used (closed_all cl c) = gps_used (cl c)" "\<not> need_close_ack (closed_all cl c)"
  "need_open_ack (closed_all cl c) = need_open_ack (cl c)" "need_reset_ack (closed_all cl c) = need_reset_ack (cl c)"
  by (simp_all add: closed_all_def)

lemma reset_cleared_simps [simp]:
  "gps_used (reset_cleared cl c) = gps_used (cl c)" "need_open_ack (reset_cleared cl c) = need_open_ack (cl c)"
  "need_close_ack (reset_cleared cl c) = need_close_ack (cl c)"
  "need_reset_ack (reset_cleared cl c) = (c \<noteq> AGPS \<and> need_reset_ack (cl c))"
  by (simp_all add: reset_cleared_def)

lemma timeout_pos [simp]:
  "start_timer t MNLD_GPS_STOP_TIMEOUT k = (0, k\<lparr>timers := (timers k)(t := Some 10000)\<rparr>)"
  "start_timer t MNLD_GPS_RESET_TIMEOUT k = (0, k\<lparr>timers := (timers k)(t := Some 10000)\<rparr>)"
  by (simp_all add: MNLD_GPS_STOP_TIMEOUT_def MNLD_GPS_RESET_TIMEOUT_def start_timer_pos)

lemmas fsm_defs = mnld_fsm_def fsm_gps_state_idle_def fsm_gps_state_starting_def fsm_gps_state_started_def
  fsm_gps_state_stopping_def

lemmas inv_defs = fsm_inv_def timer_ids_def armed_def wakelocks_held_def engine_runs_def engine_stops_def mnld_is_gps_started_def

lemma all_gps_client: "(\<forall>c. P c) = (P HAL \<and> P AGPS \<and> P FLP \<and> P FLP_TEST \<and> P AT_CMD_TEST \<and> P FACTORY)"
  by (metis gps_client.exhaust)

lemma all_exit_iff: "is_all_gps_client_exit s = (\<forall>c. \<not> used s c)"
  by (simp add: is_all_gps_client_exit_def client_def all_gps_client)

lemma a_client_iff: "is_a_gps_client_exist s = (\<exists>c. used s c)"
  using all_gps_client [of "\<lambda>c. \<not> used s c"] by (auto simp: is_a_gps_client_exist_def client_def)

lemma fsm_start_inv:
  assumes inv: "fsm_inv n h s"
    and view: "fsm_view s1 = fsm_view (set_client c (\<lambda>x. x\<lparr>gps_used := True, need_open_ack := ack,
       need_close_ack := False\<rparr>) s)"
    and ext: "prefix (slog (kern s)) (slog (kern s1))"
  shows "\<exists>s'. mnld_fsm e GPS_EVENT_START d s1 = Some s' \<and> fsm_inv n h s'"
proof -
  let ?cl = "(clients (gps s))(c := (clients (gps s) c)\<lparr>gps_used := True, need_open_ack := ack, need_close_ack := False\<rparr>)"
  from view have g: "gps s1 = (gps s)\<lparr>clients := ?cl\<rparr>" and t: "timers (kern s1) = timers (kern s)"
    and w: "wakelocks_held s1 = wakelocks_held s" and r: "engine_runs s1 = engine_runs s"
    and x: "engine_stops s1 = engine_stops s" and o: "ofl_lpbk_tst_size (ofl s1) = ofl_lpbk_tst_size (ofl s)"
    by (simp_all add: fsm_view_def wakelocks_held_def engine_runs_def engine_stops_def) (simp add: set_client_def)
  from inv ext have p: "prefix h (slog (kern s1))" by (auto simp: fsm_inv_def intro: prefix_order.trans)
  show ?thesis
    by (cases "state_of s"; use g t w r x o p inv in
        \<open>simp add: fsm_defs ksend_fixed do_gps_started_hdlr_eq Let_def\<close>; auto simp: inv_defs)
qed

lemma fsm_stop_inv:
  assumes inv: "fsm_inv n h s"
    and view: "fsm_view s1 = fsm_view (set_clients cl s)" and ext: "prefix (slog (kern s)) (slog (kern s1))"
    and cl: "\<And>c. cl c = clients (gps s) c \<or> \<not> gps_used (cl c) \<and> \<not> need_open_ack (cl c)
        \<and> (need_reset_ack (cl c) \<longrightarrow> wants_reset s c)"
  shows "\<exists>s'. mnld_fsm e GPS_EVENT_STOP d s1 = Some s' \<and> fsm_inv n h s'"
proof -
  from view have g: "gps s1 = (gps s)\<lparr>clients := cl\<rparr>" and t: "timers (kern s1) = timers (kern s)"
    and w: "wakelocks_held s1 = wakelocks_held s" and r: "engine_runs s1 = engine_runs s"
    and x: "engine_stops s1 = engine_stops s" and o: "ofl_lpbk_tst_size (ofl s1) = ofl_lpbk_tst_size (ofl s)"
    by (simp_all add: fsm_view_def wakelocks_held_def engine_runs_def engine_stops_def)
  from inv ext have p: "prefix h (slog (kern s1))" by (auto simp: fsm_inv_def intro: prefix_order.trans)
  have cl': "gps_used (cl c) \<Longrightarrow> used s c" "need_open_ack (cl c) \<Longrightarrow> wants_open s c \<and> gps_used (cl c)"
    "need_reset_ack (cl c) \<Longrightarrow> wants_reset s c" "need_close_ack (cl c) \<Longrightarrow> \<not> gps_used (cl c)" for c
    using cl [of c] inv by (auto simp: fsm_inv_def)
  have ex: "is_all_gps_client_exit s1 = (\<forall>c. \<not> gps_used (cl c))"
    using g by (simp add: all_exit_iff)
  show ?thesis
  proof (cases "state_of s")
    case MNLD_GPS_STATE_IDLE
    with g t w r x o p inv cl' show ?thesis
      by (simp add: fsm_defs do_gps_stopped_hdlr_eq) (auto simp: inv_defs)
  next
    case MNLD_GPS_STATE_STARTING
    with g t w r x o p inv cl' show ?thesis
      by (simp add: fsm_defs) (auto simp: inv_defs)
  next
    case MNLD_GPS_STATE_STARTED
    show ?thesis
    proof (cases "\<forall>c. \<not> gps_used (cl c)")
      case True
      with MNLD_GPS_STATE_STARTED g t w r x o p inv cl' ex show ?thesis
        by (simp add: fsm_defs ksend_fixed Let_def) (auto simp: inv_defs)
    next
      case False
      with MNLD_GPS_STATE_STARTED g t w r x o p inv cl' ex show ?thesis
        by (simp add: fsm_defs do_gps_stopped_hdlr_eq Let_def) (auto simp: inv_defs)
    qed
  next
    case MNLD_GPS_STATE_STOPPING
    with g t w r x o p inv cl' show ?thesis
      by (simp add: fsm_defs) (auto simp: inv_defs)
  qed
qed

lemma fsm_reset_inv:
  assumes inv: "fsm_inv n h s"
    and view: "fsm_view s1 = fsm_view (set_delete_flag fl (set_clients cl s))"
    and ext: "prefix (slog (kern s)) (slog (kern s1))"
    and cl: "cl = clients (gps s) \<or> cl = (clients (gps s))(AGPS := (clients (gps s) AGPS)\<lparr>need_reset_ack := True\<rparr>) \<and> fl \<noteq> 0"
  shows "\<exists>s'. mnld_fsm e GPS_EVENT_RESET d s1 = Some s' \<and> fsm_inv n h s'"
proof -
  from view have g: "gps s1 = (gps s)\<lparr>clients := cl, delete_aiding_flag := fl\<rparr>" and t: "timers (kern s1) = timers (kern s)"
    and w: "wakelocks_held s1 = wakelocks_held s" and r: "engine_runs s1 = engine_runs s"
    and x: "engine_stops s1 = engine_stops s" and o: "ofl_lpbk_tst_size (ofl s1) = ofl_lpbk_tst_size (ofl s)"
    by (simp_all add: fsm_view_def wakelocks_held_def engine_runs_def engine_stops_def)
  from inv ext have p: "prefix h (slog (kern s1))" by (auto simp: fsm_inv_def intro: prefix_order.trans)
  have rs: "wants_reset s c \<Longrightarrow> c = AGPS" for c
    using inv by (simp add: fsm_inv_def)
  have cl': "gps_used (cl c) = used s c" "need_open_ack (cl c) = wants_open s c"
    "need_close_ack (cl c) = wants_close s c" "need_reset_ack (cl c) \<Longrightarrow> c = AGPS"
    "need_reset_ack (cl AGPS) \<Longrightarrow> wants_reset s AGPS \<or> fl \<noteq> 0" for c
    using cl rs by (auto split: if_splits)
  show ?thesis
  proof (cases "state_of s")
    case MNLD_GPS_STATE_STARTED
    with g t w r x o p inv cl' show ?thesis
      by (simp add: fsm_defs ksend_fixed Let_def) (auto simp: inv_defs)
  qed (use g t w r x o p inv cl' in \<open>simp add: fsm_defs do_gps_reset_hdlr_eq; auto simp: inv_defs\<close>)+
qed

lemma fsm_start_done_inv:
  assumes inv: "fsm_inv n h s"
  shows "\<exists>s'. mnld_fsm e GPS_EVENT_START_DONE d s = Some s' \<and> fsm_inv n h s'"
proof (cases "state_of s")
  case MNLD_GPS_STATE_STARTING
  show ?thesis
  proof (cases "\<forall>c. \<not> used s c")
    case True
    with MNLD_GPS_STATE_STARTING inv show ?thesis
      by (simp add: fsm_defs ksend_fixed do_gps_started_hdlr_eq all_exit_iff Let_def) (auto simp: inv_defs stop_timer_eq)
  next
    case False
    with MNLD_GPS_STATE_STARTING inv show ?thesis
      by (simp add: fsm_defs ksend_fixed do_gps_started_hdlr_eq all_exit_iff Let_def) (auto simp: inv_defs stop_timer_eq)
  qed
qed (use inv in \<open>simp add: fsm_defs ksend_fixed; auto simp: inv_defs\<close>)+

lemma fsm_stop_done_inv:
  assumes inv: "fsm_inv n h s" and st: "state_of s = MNLD_GPS_STATE_STOPPING"
  shows "\<exists>s'. mnld_fsm e GPS_EVENT_STOP_DONE d s = Some s' \<and> fsm_inv (n + 1) h s'"
proof (cases "\<exists>c. used s c")
  case True
  with st inv show ?thesis
    by (simp add: fsm_defs ksend_fixed do_gps_stopped_hdlr_eq a_client_iff Let_def) (auto simp: inv_defs stop_timer_eq)
next
  case False
  with st inv show ?thesis
    by (simp add: fsm_defs ksend_fixed do_gps_stopped_hdlr_eq a_client_iff Let_def) (auto simp: inv_defs stop_timer_eq)
qed

section \<open>Handlers keep the invariant\<close>

lemma if_leave_frame [simp]:
  "gps (if b then leave x s else s) = gps s" "kern (if b then leave x s else s) = kern s"
  "epo (if b then leave x s else s) = epo s"
  "ofl (if b then leave x s else s) = ofl s"
  by simp_all

lemma fsm_view_simps [simp]:
  "fsm_view (leave x s) = fsm_view s"
  "fsm_view (s\<lparr>epo := ep\<rparr>) = fsm_view s"
  "fsm_view (s\<lparr>offload_enabled := b\<rparr>) = fsm_view s"
  by (simp_all add: fsm_view_def wakelocks_held_def engine_runs_def engine_stops_def)

lemma fsm_view_emits:
  assumes "hal_count MNL2HAL_REQUEST_WAKELOCK l = 0" "hal_count MNL2HAL_RELEASE_WAKELOCK l = 0"
    and "ctl_count MAIN2GPS_EVENT_START l = 0" "ctl_count MAIN2GPS_EVENT_STOP l = 0"
  shows "fsm_view (emits l s) = fsm_view s"
  using assms by (simp add: fsm_view_def wakelocks_held_def engine_runs_def engine_stops_def)

lemma fsm_inv_emits:
  assumes "fsm_inv n h s" "hal_count MNL2HAL_REQUEST_WAKELOCK l = 0" "hal_count MNL2HAL_RELEASE_WAKELOCK l = 0"
    and "ctl_count MAIN2GPS_EVENT_START l = 0" "ctl_count MAIN2GPS_EVENT_STOP l = 0"
  shows "fsm_inv n h (emits l s)"
  using fsm_inv_view [OF assms(1) fsm_view_emits [of l s]] assms by simp

lemma fsm_inv_simps [simp]:
  "fsm_inv n h (leave x s) = fsm_inv n h s" "fsm_inv n h (s\<lparr>epo := ep\<rparr>) = fsm_inv n h s"
  "fsm_inv n h (s\<lparr>offload_enabled := b\<rparr>) = fsm_inv n h s"
  "fsm_inv n h (s\<lparr>ofl := (ofl s)\<lparr>ofl_lpbk_tst_start := i\<rparr>\<rparr>) = fsm_inv n h s" "fsm_inv n h (s\<lparr>g_settings_from_agps := sf\<rparr>) = fsm_inv n h s"
  "fsm_inv n h (s\<lparr>g_settings_to_agps := sg\<rparr>) = fsm_inv n h s" "fsm_inv n h (s\<lparr>sv_type_agps_set := v\<rparr>) = fsm_inv n h s"
  "fsm_inv n h (s\<lparr>g_sib8_16_enable := v\<rparr>) = fsm_inv n h s"
  by (auto elim!: fsm_inv_view simp: fsm_view_def wakelocks_held_def engine_runs_def engine_stops_def)

lemma fsm_inv_gps_simps [simp]:
  "fsm_inv n h (s\<lparr>gps := (gps s)\<lparr>is_gps_init := b\<rparr>\<rparr>) = fsm_inv n h s"
  "fsm_inv n h (s\<lparr>gps := (gps s)\<lparr>is_gps_meas_enabled := b\<rparr>\<rparr>) = fsm_inv n h s"
  "fsm_inv n h (s\<lparr>gps := (gps s)\<lparr>is_gps_navi_enabled := b\<rparr>\<rparr>) = fsm_inv n h s"
  "fsm_inv n h (s\<lparr>gps := (gps s)\<lparr>wait_first_location := b\<rparr>\<rparr>) = fsm_inv n h s"
  "fsm_inv n h (s\<lparr>gps := (gps s)\<lparr>gps_ttff := t\<rparr>\<rparr>) = fsm_inv n h s"
  by (simp_all add: inv_defs)

section \<open>The users of the engine\<close>

text \<open>
  Six users start and stop the engine in the same way: they note the wish in their client record and
  raise an event. The locale states that; what follows for the state machine is proved once.
\<close>

locale gps_user =
  fixes who :: gps_client
    and ack :: bool
    and start :: "mnld_env \<Rightarrow> mnld act"
    and stop :: "mnld_env \<Rightarrow> mnld act"
    and prep :: "mnld_env \<Rightarrow> mnld \<Rightarrow> mnld"
  assumes start_eq: "start e s = mnld_fsm e GPS_EVENT_START 0
        (prep e (set_client who (\<lambda>x. x\<lparr>gps_used := True, need_open_ack := ack, need_close_ack := False\<rparr>) s))"
    and stop_eq: "stop e s = mnld_fsm e GPS_EVENT_STOP 0
        (set_client who (\<lambda>x. x\<lparr>gps_used := False, need_open_ack := False, need_close_ack := ack\<rparr>) s)"
    and prep_view: "fsm_view (prep e s) = fsm_view s"
    and prep_log: "prefix (slog (kern s)) (slog (kern (prep e s)))"
begin

lemma prep_ext: "kern t = kern s \<Longrightarrow> prefix (slog (kern s)) (slog (kern (prep e t)))"
  using prep_log [of t e] by simp

lemma start_inv: "fsm_inv n h s \<Longrightarrow> \<exists>s'. start e s = Some s' \<and> fsm_inv n h s'"
  unfolding start_eq by (rule fsm_start_inv [where c = who and ack = ack]) (simp_all add: prep_view, rule prep_ext, simp)

lemma stop_inv: "fsm_inv n h s \<Longrightarrow> \<exists>s'. stop e s = Some s' \<and> fsm_inv n h s'"
  unfolding stop_eq set_client_set_clients by (rule fsm_stop_inv) (auto split: if_splits)

lemma prep_gps: "gps (prep e s) = gps s"
  using prep_view [of e s] by (simp add: fsm_view_def)

text \<open>A start of the idle engine requests the engine; a start of the running one is acknowledged at once.\<close>

lemma start_state:
  assumes "start e s = Some s'"
  shows "used s' who
    \<and> state_of s' = (if state_of s = MNLD_GPS_STATE_IDLE then MNLD_GPS_STATE_STARTING else state_of s)
    \<and> wants_open s' who = (state_of s \<noteq> MNLD_GPS_STATE_STARTED \<and> ack)"
proof -
  let ?s = "prep e (set_client who (\<lambda>x. x\<lparr>gps_used := True, need_open_ack := ack, need_close_ack := False\<rparr>) s)"
  have g: "gps ?s = (gps s)\<lparr>clients := (clients (gps s))(who := (clients (gps s) who)
      \<lparr>gps_used := True, need_open_ack := ack, need_close_ack := False\<rparr>)\<rparr>"
    by (simp add: prep_gps set_client_def)
  from assms have "mnld_fsm e GPS_EVENT_START 0 ?s = Some s'"
    by (simp add: start_eq)
  with g show ?thesis
    by (cases "state_of s") (auto simp: fsm_defs ksend_fixed do_gps_started_hdlr_eq Let_def)
qed

text \<open>The last user to stop a running engine stops it; otherwise the stop is acknowledged at once.\<close>

lemma stop_state:
  assumes "stop e s = Some s'"
  shows "\<not> used s' who
    \<and> state_of s' = (if state_of s = MNLD_GPS_STATE_STARTED \<and> (\<forall>c. c \<noteq> who \<longrightarrow> \<not> used s c)
        then MNLD_GPS_STATE_STOPPING else state_of s)"
proof -
  let ?s = "set_client who (\<lambda>x. x\<lparr>gps_used := False, need_open_ack := False, need_close_ack := ack\<rparr>) s"
  have g: "gps ?s = (gps s)\<lparr>clients := (clients (gps s))(who := (clients (gps s) who)
      \<lparr>gps_used := False, need_open_ack := False, need_close_ack := ack\<rparr>)\<rparr>"
    by (simp add: set_client_def)
  then have ex: "is_all_gps_client_exit ?s = (\<forall>c. c \<noteq> who \<longrightarrow> \<not> used s c)"
    by (simp add: all_exit_iff)
  from assms have "mnld_fsm e GPS_EVENT_STOP 0 ?s = Some s'"
    by (simp add: stop_eq)
  with g ex show ?thesis
    by (cases "state_of s") (auto simp: fsm_defs ksend_fixed do_gps_stopped_hdlr_eq Let_def split: if_splits)
qed

end

definition epo_trigger :: "mnld_env \<Rightarrow> mnld \<Rightarrow> mnld" where
  "epo_trigger e s =
     (let s = leave Epo_read_cust_config s
      in if \<not> is_epo_downloading (epo s) \<and> epo_file_invalid e \<and> epo_download_enabled e
         then emits [(MNLD_EPO_DOWNLOAD_SOCKET, epo_wire)] (s\<lparr>epo := (epo s)\<lparr>is_epo_downloading := True\<rparr>\<rparr>) else s)"

lemma hal_trigger_eq: "hal_start_gps_trigger_epo_download e s = Some (epo_trigger e s)"
  by (simp add: hal_start_gps_trigger_epo_download_def epo_trigger_def ksend_fixed Let_def)

lemma epo_trigger_view: "fsm_view (epo_trigger e s) = fsm_view s"
proof -
  have "fsm_view (emits [(MNLD_EPO_DOWNLOAD_SOCKET, epo_wire)] s1) = fsm_view s1" for s1
    by (rule fsm_view_emits) (simp_all del: emits_simps)
  then show ?thesis by (simp add: epo_trigger_def Let_def del: emits_simps)
qed

lemma epo_trigger_log: "prefix (slog (kern s)) (slog (kern (epo_trigger e s)))"
  by (simp add: epo_trigger_def Let_def del: emits_simps)

interpretation u_hal: gps_user HAL True hal_gps_start hal_gps_stop epo_trigger
  by unfold_locales (simp_all add: hal_gps_start_def hal_gps_stop_def hal_trigger_eq epo_trigger_view epo_trigger_log)

interpretation u_agps: gps_user AGPS True "\<lambda>e. agps_open_gps_req e icon" agps_close_gps_req "\<lambda>_ s. s" for icon
  by unfold_locales (simp_all add: agps_open_gps_req_def agps_close_gps_req_def)

interpretation u_flp: gps_user FLP True flp2mnl_gps_start flp2mnl_gps_stop "\<lambda>_ s. s"
  by unfold_locales (simp_all add: flp2mnl_gps_start_def flp2mnl_gps_stop_def)

interpretation u_flp_test: gps_user FLP_TEST False flp_test2mnl_gps_start flp_test2mnl_gps_stop "\<lambda>_ s. s"
  by unfold_locales (simp_all add: flp_test2mnl_gps_start_def flp_test2mnl_gps_stop_def)

interpretation u_at: gps_user AT_CMD_TEST False at_test2mnl_gps_start at_test2mnl_gps_stop "\<lambda>_ s. s"
  by unfold_locales (simp_all add: at_test2mnl_gps_start_def at_test2mnl_gps_stop_def)

interpretation u_factory: gps_user FACTORY False factory_mnld_gps_start factory_mnld_gps_stop "\<lambda>_ s. s"
  by unfold_locales (simp_all add: factory_mnld_gps_start_def factory_mnld_gps_stop_def)

end
