(* ===== verification/Agps2Mnl_Interface.thy ===== *)
theory Agps2Mnl_Interface
  imports Agps_Common
begin

text \<open>
  \<open>agps2mnl_interface.c\<close>, the assisted-GPS daemon's end: one function per message to \<open>mnld\<close>, and
  \<open>mnl2agps_hdlr\<close>, which receives one message of \<open>mnld\<close>.
\<close>

section \<open>Messages to the daemon\<close>

definition agps2mnl_agps_reboot :: "string \<Rightarrow> os \<Rightarrow> (int \<times> os) option" where
  "agps2mnl_agps_reboot g_agps2mnl_path k = do {
     b \<leftarrow> put_int MNL_AGPS_INTERFACE_VERSION (fresh MNL_AGPS_MAX_BUFF_SIZE);
     b \<leftarrow> put_int (mnl_agps_code MNL_AGPS_TYPE_AGPS_REBOOT) b;
     send2mnl g_agps2mnl_path (buff b) (offset b) k }"

definition agps2mnl_agps_open_gps_req :: "string \<Rightarrow> i32 \<Rightarrow> os \<Rightarrow> (int \<times> os) option" where
  "agps2mnl_agps_open_gps_req g_agps2mnl_path show_gps_icon k = do {
     b \<leftarrow> put_int MNL_AGPS_INTERFACE_VERSION (fresh MNL_AGPS_MAX_BUFF_SIZE);
     b \<leftarrow> put_int (mnl_agps_code MNL_AGPS_TYPE_AGPS_OPEN_GPS_REQ) b;
     b \<leftarrow> put_int show_gps_icon b;
     send2mnl g_agps2mnl_path (buff b) (offset b) k }"

definition agps2mnl_agps_close_gps_req :: "string \<Rightarrow> os \<Rightarrow> (int \<times> os) option" where
  "agps2mnl_agps_close_gps_req g_agps2mnl_path k = do {
     b \<leftarrow> put_int MNL_AGPS_INTERFACE_VERSION (fresh MNL_AGPS_MAX_BUFF_SIZE);
     b \<leftarrow> put_int (mnl_agps_code MNL_AGPS_TYPE_AGPS_CLOSE_GPS_REQ) b;
     send2mnl g_agps2mnl_path (buff b) (offset b) k }"

definition agps2mnl_agps_reset_gps_req :: "string \<Rightarrow> i32 \<Rightarrow> os \<Rightarrow> (int \<times> os) option" where
  "agps2mnl_agps_reset_gps_req g_agps2mnl_path flags k = do {
     b \<leftarrow> put_int MNL_AGPS_INTERFACE_VERSION (fresh MNL_AGPS_MAX_BUFF_SIZE);
     b \<leftarrow> put_int (mnl_agps_code MNL_AGPS_TYPE_AGPS_RESET_GPS_REQ) b;
     b \<leftarrow> put_int flags b;
     send2mnl g_agps2mnl_path (buff b) (offset b) k }"

definition agps2mnl_agps_session_done :: "string \<Rightarrow> os \<Rightarrow> (int \<times> os) option" where
  "agps2mnl_agps_session_done g_agps2mnl_path k = do {
     b \<leftarrow> put_int MNL_AGPS_INTERFACE_VERSION (fresh MNL_AGPS_MAX_BUFF_SIZE);
     b \<leftarrow> put_int (mnl_agps_code MNL_AGPS_TYPE_AGPS_SESSION_DONE) b;
     send2mnl g_agps2mnl_path (buff b) (offset b) k }"

definition agps2mnl_ni_notify :: "string \<Rightarrow> i32 \<Rightarrow> i32 \<Rightarrow> cstr \<Rightarrow> cstr \<Rightarrow> os \<Rightarrow> (int \<times> os) option" where
  "agps2mnl_ni_notify g_agps2mnl_path session_id type requestor_id client_name k = do {
     b \<leftarrow> put_int MNL_AGPS_INTERFACE_VERSION (fresh MNL_AGPS_MAX_BUFF_SIZE);
     b \<leftarrow> put_int (mnl_agps_code MNL_AGPS_TYPE_NI_NOTIFY) b;
     b \<leftarrow> put_int session_id b;
     b \<leftarrow> put_int type b;
     b \<leftarrow> put_string requestor_id b;
     b \<leftarrow> put_string client_name b;
     send2mnl g_agps2mnl_path (buff b) (offset b) k }"

definition agps2mnl_ni_notify2 :: "string \<Rightarrow> i32 \<Rightarrow> i32 \<Rightarrow> cstr \<Rightarrow> cstr \<Rightarrow> i32 \<Rightarrow> i32 \<Rightarrow> os \<Rightarrow> (int \<times> os) option" where
  "agps2mnl_ni_notify2 g_agps2mnl_path session_id type requestor_id client_name requestor_id_encoding client_name_encoding k = do {
     b \<leftarrow> put_int MNL_AGPS_INTERFACE_VERSION (fresh MNL_AGPS_MAX_BUFF_SIZE);
     b \<leftarrow> put_int (mnl_agps_code MNL_AGPS_TYPE_NI_NOTIFY_2) b;
     b \<leftarrow> put_int session_id b;
     b \<leftarrow> put_int type b;
     b \<leftarrow> put_string requestor_id b;
     b \<leftarrow> put_string client_name b;
     b \<leftarrow> put_int requestor_id_encoding b;
     b \<leftarrow> put_int client_name_encoding b;
     send2mnl g_agps2mnl_path (buff b) (offset b) k }"

definition agps2mnl_data_conn_req :: "string \<Rightarrow> i32 \<Rightarrow> i32 \<Rightarrow> os \<Rightarrow> (int \<times> os) option" where
  "agps2mnl_data_conn_req g_agps2mnl_path ipaddr is_emergency k = do {
     b \<leftarrow> put_int MNL_AGPS_INTERFACE_VERSION (fresh MNL_AGPS_MAX_BUFF_SIZE);
     b \<leftarrow> put_int (mnl_agps_code MNL_AGPS_TYPE_DATA_CONN_REQ) b;
     b \<leftarrow> put_int ipaddr b;
     b \<leftarrow> put_int is_emergency b;
     send2mnl g_agps2mnl_path (buff b) (offset b) k }"

definition agps2mnl_data_conn_req2 :: "string \<Rightarrow> byte list \<Rightarrow> i32 \<Rightarrow> os \<Rightarrow> (int \<times> os) option" where
  "agps2mnl_data_conn_req2 g_agps2mnl_path addr is_emergency k = do {
     b \<leftarrow> put_int MNL_AGPS_INTERFACE_VERSION (fresh MNL_AGPS_MAX_BUFF_SIZE);
     b \<leftarrow> put_int (mnl_agps_code MNL_AGPS_TYPE_DATA_CONN_REQ2) b;
     b \<leftarrow> put_binary addr (word_of_nat sizeof_sockaddr_storage) b;
     b \<leftarrow> put_int is_emergency b;
     send2mnl g_agps2mnl_path (buff b) (offset b) k }"

definition agps2mnl_data_conn_release :: "string \<Rightarrow> os \<Rightarrow> (int \<times> os) option" where
  "agps2mnl_data_conn_release g_agps2mnl_path k = do {
     b \<leftarrow> put_int MNL_AGPS_INTERFACE_VERSION (fresh MNL_AGPS_MAX_BUFF_SIZE);
     b \<leftarrow> put_int (mnl_agps_code MNL_AGPS_TYPE_DATA_CONN_RELEASE) b;
     send2mnl g_agps2mnl_path (buff b) (offset b) k }"

definition agps2mnl_set_id_req :: "string \<Rightarrow> i32 \<Rightarrow> os \<Rightarrow> (int \<times> os) option" where
  "agps2mnl_set_id_req g_agps2mnl_path flags k = do {
     b \<leftarrow> put_int MNL_AGPS_INTERFACE_VERSION (fresh MNL_AGPS_MAX_BUFF_SIZE);
     b \<leftarrow> put_int (mnl_agps_code MNL_AGPS_TYPE_SET_ID_REQ) b;
     b \<leftarrow> put_int flags b;
     send2mnl g_agps2mnl_path (buff b) (offset b) k }"

definition agps2mnl_ref_loc_req :: "string \<Rightarrow> i32 \<Rightarrow> os \<Rightarrow> (int \<times> os) option" where
  "agps2mnl_ref_loc_req g_agps2mnl_path flags k = do {
     b \<leftarrow> put_int MNL_AGPS_INTERFACE_VERSION (fresh MNL_AGPS_MAX_BUFF_SIZE);
     b \<leftarrow> put_int (mnl_agps_code MNL_AGPS_TYPE_REF_LOC_REQ) b;
     b \<leftarrow> put_int flags b;
     send2mnl g_agps2mnl_path (buff b) (offset b) k }"

definition agps2mnl_pmtk :: "string \<Rightarrow> cstr \<Rightarrow> os \<Rightarrow> (int \<times> os) option" where
  "agps2mnl_pmtk g_agps2mnl_path pmtk k = do {
     b \<leftarrow> put_int MNL_AGPS_INTERFACE_VERSION (fresh MNL_AGPS_MAX_BUFF_SIZE);
     b \<leftarrow> put_int (mnl_agps_code MNL_AGPS_TYPE_AGPS2MNL_PMTK) b;
     b \<leftarrow> put_string pmtk b;
     send2mnl g_agps2mnl_path (buff b) (offset b) k }"

definition agps2mnl_gpevt :: "string \<Rightarrow> i32 \<Rightarrow> os \<Rightarrow> (int \<times> os) option" where
  "agps2mnl_gpevt g_agps2mnl_path type k = do {
     b \<leftarrow> put_int MNL_AGPS_INTERFACE_VERSION (fresh MNL_AGPS_MAX_BUFF_SIZE);
     b \<leftarrow> put_int (mnl_agps_code MNL_AGPS_TYPE_GPEVT) b;
     b \<leftarrow> put_int type b;
     send2mnl g_agps2mnl_path (buff b) (offset b) k }"

definition agps2mnl_agps_location :: "string \<Rightarrow> byte list \<Rightarrow> os \<Rightarrow> (int \<times> os) option" where
  "agps2mnl_agps_location g_agps2mnl_path location k = do {
     b \<leftarrow> put_int MNL_AGPS_INTERFACE_VERSION (fresh MNL_AGPS_MAX_BUFF_SIZE);
     b \<leftarrow> put_int (mnl_agps_code MNL_AGPS_TYPE_AGPS_LOC) b;
     b \<leftarrow> put_binary location (word_of_nat sizeof_mnl_agps_agps_location) b;
     send2mnl g_agps2mnl_path (buff b) (offset b) k }"

section \<open>Messages from the daemon\<close>

record 's mnl2agps_interface =
  m2a_mnl_reboot :: "'s act option"
  m2a_open_gps_done :: "'s act option"
  m2a_close_gps_done :: "'s act option"
  m2a_reset_gps_done :: "'s act option"
  m2a_gps_init :: "'s act option"
  m2a_gps_cleanup :: "'s act option"
  m2a_set_server :: "(i32 \<Rightarrow> cstr \<Rightarrow> i32 \<Rightarrow> 's act) option"
  m2a_delete_aiding_data :: "(i32 \<Rightarrow> 's act) option"
  m2a_gps_open :: "(i32 \<Rightarrow> 's act) option"
  m2a_gps_close :: "'s act option"
  m2a_data_conn_open :: "(cstr \<Rightarrow> 's act) option"
  m2a_data_conn_open_ip_type :: "(cstr \<Rightarrow> i32 \<Rightarrow> 's act) option"
  m2a_install_certificates :: "(i32 \<Rightarrow> i32 \<Rightarrow> byte list \<Rightarrow> i32 \<Rightarrow> 's act) option"
  m2a_revoke_certificates :: "(byte list \<Rightarrow> i32 \<Rightarrow> 's act) option"
  m2a_data_conn_failed :: "'s act option"
  m2a_data_conn_closed :: "'s act option"
  m2a_ni_message :: "(byte list \<Rightarrow> i32 \<Rightarrow> 's act) option"
  m2a_ni_respond :: "(i32 \<Rightarrow> i32 \<Rightarrow> 's act) option"
  m2a_set_ref_loc :: "(i32 \<Rightarrow> i32 \<Rightarrow> i32 \<Rightarrow> i32 \<Rightarrow> i32 \<Rightarrow> 's act) option"
  m2a_set_set_id :: "(i32 \<Rightarrow> cstr \<Rightarrow> 's act) option"
  m2a_update_network_state :: "(i32 \<Rightarrow> i32 \<Rightarrow> i32 \<Rightarrow> cstr \<Rightarrow> 's act) option"
  m2a_update_network_availability :: "(i32 \<Rightarrow> cstr \<Rightarrow> 's act) option"
  m2a_rcv_pmtk :: "(cstr \<Rightarrow> 's act) option"
  m2a_raw_dbg :: "(i32 \<Rightarrow> 's act) option"
  m2a_reaiding_req :: "'s act option"
  m2a_location_sync :: "(f64 \<Rightarrow> f64 \<Rightarrow> i32 \<Rightarrow> 's act) option"

definition mnl2agps_hdlr :: "rx_ans list \<Rightarrow> 's mnl2agps_interface \<Rightarrow> 's act" where
  "mnl2agps_hdlr rx agps_interface s =
    (let (ret, mem) = safe_recvfrom rx (replicate MNL_AGPS_MAX_BUFF_SIZE 0)
     in if ret \<le> 0 then Some s
     else do {
       (version, b) \<leftarrow> get_int (cursor mem);
       (type, b) \<leftarrow> get_int b;
       (case mnl_agps_type_of type of
          Some MNL_AGPS_TYPE_MNL_REBOOT \<Rightarrow> call_cb (m2a_mnl_reboot agps_interface) (\<lambda>f s. f s) s
        | Some MNL_AGPS_TYPE_AGPS_OPEN_GPS_DONE \<Rightarrow> call_cb (m2a_open_gps_done agps_interface) (\<lambda>f s. f s) s
        | Some MNL_AGPS_TYPE_AGPS_CLOSE_GPS_DONE \<Rightarrow> call_cb (m2a_close_gps_done agps_interface) (\<lambda>f s. f s) s
        | Some MNL_AGPS_TYPE_AGPS_RESET_GPS_DONE \<Rightarrow> call_cb (m2a_reset_gps_done agps_interface) (\<lambda>f s. f s) s
        | Some MNL_AGPS_TYPE_GPS_INIT \<Rightarrow> call_cb (m2a_gps_init agps_interface) (\<lambda>f s. f s) s
        | Some MNL_AGPS_TYPE_GPS_CLEANUP \<Rightarrow> call_cb (m2a_gps_cleanup agps_interface) (\<lambda>f s. f s) s
        | Some MNL_AGPS_TYPE_SET_SERVER \<Rightarrow> do {
            (type, b) \<leftarrow> get_int b;
            (hostname, b) \<leftarrow> get_string b;
            (port, b) \<leftarrow> get_int b;
            call_cb (m2a_set_server agps_interface) (\<lambda>f s. do { hostname \<leftarrow> deref_str hostname; f type hostname port s }) s }
        | Some MNL_AGPS_TYPE_DELETE_AIDING_DATA \<Rightarrow> do {
            (flags, b) \<leftarrow> get_int b;
            call_cb (m2a_delete_aiding_data agps_interface) (\<lambda>f. f flags) s }
        | Some MNL_AGPS_TYPE_GPS_OPEN \<Rightarrow> do {
            (assist_req, b) \<leftarrow> get_int b;
            call_cb (m2a_gps_open agps_interface) (\<lambda>f. f assist_req) s }
        | Some MNL_AGPS_TYPE_GPS_CLOSE \<Rightarrow> call_cb (m2a_gps_close agps_interface) (\<lambda>f s. f s) s
        | Some MNL_AGPS_TYPE_DATA_CONN_OPEN \<Rightarrow> do {
            (apn, b) \<leftarrow> get_string b;
            call_cb (m2a_data_conn_open agps_interface) (\<lambda>f s. do { apn \<leftarrow> deref_str apn; f apn s }) s }
        | Some MNL_AGPS_TYPE_DATA_CONN_OPEN_IP_TYPE \<Rightarrow> do {
            (apn, b) \<leftarrow> get_string b;
            (ip_type, b) \<leftarrow> get_int b;
            call_cb (m2a_data_conn_open_ip_type agps_interface) (\<lambda>f s. do { apn \<leftarrow> deref_str apn; f apn ip_type s }) s }
        | Some MNL_AGPS_TYPE_INSTALL_CERTIFICATES \<Rightarrow> do {
            (index, b) \<leftarrow> get_int b;
            (total_num, b) \<leftarrow> get_int b;
            ((len, data), b) \<leftarrow> get_binary (replicate MNL_AGPS_MAX_BUFF_SIZE 0) b;
            call_cb (m2a_install_certificates agps_interface) (\<lambda>f. f index total_num data len) s }
        | Some MNL_AGPS_TYPE_REVOKE_CERTIFICATES \<Rightarrow> do {
            ((len, data), b) \<leftarrow> get_binary (replicate MNL_AGPS_MAX_BUFF_SIZE 0) b;
            call_cb (m2a_revoke_certificates agps_interface) (\<lambda>f. f data len) s }
        | Some MNL_AGPS_TYPE_DATA_CONN_FAILED \<Rightarrow> call_cb (m2a_data_conn_failed agps_interface) (\<lambda>f s. f s) s
        | Some MNL_AGPS_TYPE_DATA_CONN_CLOSED \<Rightarrow> call_cb (m2a_data_conn_closed agps_interface) (\<lambda>f s. f s) s
        | Some MNL_AGPS_TYPE_NI_MESSAGE \<Rightarrow> do {
            ((len, msg), b) \<leftarrow> get_binary (replicate 1024 0) b;
            call_cb (m2a_ni_message agps_interface) (\<lambda>f. f msg len) s }
        | Some MNL_AGPS_TYPE_NI_RESPOND \<Rightarrow> do {
            (session_id, b) \<leftarrow> get_int b;
            (user_response, b) \<leftarrow> get_int b;
            call_cb (m2a_ni_respond agps_interface) (\<lambda>f. f session_id user_response) s }
        | Some MNL_AGPS_TYPE_SET_REF_LOC \<Rightarrow> do {
            (type, b) \<leftarrow> get_int b;
            (mcc, b) \<leftarrow> get_int b;
            (mnc, b) \<leftarrow> get_int b;
            (lac, b) \<leftarrow> get_int b;
            (cid, b) \<leftarrow> get_int b;
            call_cb (m2a_set_ref_loc agps_interface) (\<lambda>f. f type mcc mnc lac cid) s }
        | Some MNL_AGPS_TYPE_SET_SET_ID \<Rightarrow> do {
            (type, b) \<leftarrow> get_int b;
            (setid, b) \<leftarrow> get_string b;
            call_cb (m2a_set_set_id agps_interface) (\<lambda>f s. do { setid \<leftarrow> deref_str setid; f type setid s }) s }
        | Some MNL_AGPS_TYPE_UPDATE_NETWORK_STATE \<Rightarrow> do {
            (is_connected, b) \<leftarrow> get_int b;
            (type, b) \<leftarrow> get_int b;
            (roaming, b) \<leftarrow> get_int b;
            (extra_info, b) \<leftarrow> get_string b;
            call_cb (m2a_update_network_state agps_interface) (\<lambda>f s. do { extra_info \<leftarrow> deref_str extra_info; f is_connected type roaming extra_info s }) s }
        | Some MNL_AGPS_TYPE_UPDATE_NETWORK_AVAILABILITY \<Rightarrow> do {
            (avaiable, b) \<leftarrow> get_int b;
            (apn, b) \<leftarrow> get_string b;
            call_cb (m2a_update_network_availability agps_interface) (\<lambda>f s. do { apn \<leftarrow> deref_str apn; f avaiable apn s }) s }
        | Some MNL_AGPS_TYPE_MNL2AGPS_PMTK \<Rightarrow> do {
            (pmtk, b) \<leftarrow> get_string b;
            call_cb (m2a_rcv_pmtk agps_interface) (\<lambda>f s. do { pmtk \<leftarrow> deref_str pmtk; f pmtk s }) s }
        | Some MNL_AGPS_TYPE_RAW_DBG \<Rightarrow> do {
            (enabled, b) \<leftarrow> get_int b;
            call_cb (m2a_raw_dbg agps_interface) (\<lambda>f. f enabled) s }
        | Some MNL_AGPS_TYPE_REAIDING \<Rightarrow> call_cb (m2a_reaiding_req agps_interface) (\<lambda>f s. f s) s
        | Some MNL_AGPS_TYPE_LOCATION_SYNC \<Rightarrow> call_cb (m2a_location_sync agps_interface) (\<lambda>f s. do {
            (lat, b) \<leftarrow> get_double b;
            (lng, b) \<leftarrow> get_double b;
            (acc, b) \<leftarrow> get_int b;
            f lat lng acc s }) s
        | _ \<Rightarrow> Some s) })"

section \<open>The assisted-GPS daemon's messages as values\<close>

datatype agps2mnl_msg =
    A_agps_reboot
  | A_agps_open_gps_req i32
  | A_agps_close_gps_req
  | A_agps_reset_gps_req i32
  | A_agps_session_done
  | A_ni_notify i32 i32 cstr cstr
  | A_ni_notify2 i32 i32 cstr cstr i32 i32
  | A_data_conn_req i32 i32
  | A_data_conn_req2 "byte list" i32
  | A_data_conn_release
  | A_set_id_req i32
  | A_ref_loc_req i32
  | A_pmtk cstr
  | A_gpevt i32
  | A_agps_location "byte list"

definition a2m_head :: "mnl_agps_type \<Rightarrow> byte list" where
  "a2m_head c = enc_int MNL_AGPS_INTERFACE_VERSION @ enc_int (mnl_agps_code c)"

primrec a2m_wire :: "agps2mnl_msg \<Rightarrow> byte list" where
  "a2m_wire A_agps_reboot = a2m_head MNL_AGPS_TYPE_AGPS_REBOOT"
| "a2m_wire (A_agps_open_gps_req show_gps_icon) = a2m_head MNL_AGPS_TYPE_AGPS_OPEN_GPS_REQ @ enc_int show_gps_icon"
| "a2m_wire A_agps_close_gps_req = a2m_head MNL_AGPS_TYPE_AGPS_CLOSE_GPS_REQ"
| "a2m_wire (A_agps_reset_gps_req flags) = a2m_head MNL_AGPS_TYPE_AGPS_RESET_GPS_REQ @ enc_int flags"
| "a2m_wire A_agps_session_done = a2m_head MNL_AGPS_TYPE_AGPS_SESSION_DONE"
| "a2m_wire (A_ni_notify session_id type requestor_id client_name) = a2m_head MNL_AGPS_TYPE_NI_NOTIFY @ enc_int session_id @ enc_int type @ enc_string requestor_id @ enc_string client_name"
| "a2m_wire (A_ni_notify2 session_id type requestor_id client_name requestor_id_encoding client_name_encoding) = a2m_head MNL_AGPS_TYPE_NI_NOTIFY_2 @ enc_int session_id @ enc_int type @ enc_string requestor_id @ enc_string client_name @ enc_int requestor_id_encoding @ enc_int client_name_encoding"
| "a2m_wire (A_data_conn_req ipaddr is_emergency) = a2m_head MNL_AGPS_TYPE_DATA_CONN_REQ @ enc_int ipaddr @ enc_int is_emergency"
| "a2m_wire (A_data_conn_req2 addr is_emergency) = a2m_head MNL_AGPS_TYPE_DATA_CONN_REQ2 @ enc_binary addr @ enc_int is_emergency"
| "a2m_wire A_data_conn_release = a2m_head MNL_AGPS_TYPE_DATA_CONN_RELEASE"
| "a2m_wire (A_set_id_req flags) = a2m_head MNL_AGPS_TYPE_SET_ID_REQ @ enc_int flags"
| "a2m_wire (A_ref_loc_req flags) = a2m_head MNL_AGPS_TYPE_REF_LOC_REQ @ enc_int flags"
| "a2m_wire (A_pmtk pmtk) = a2m_head MNL_AGPS_TYPE_AGPS2MNL_PMTK @ enc_string pmtk"
| "a2m_wire (A_gpevt type) = a2m_head MNL_AGPS_TYPE_GPEVT @ enc_int type"
| "a2m_wire (A_agps_location location) = a2m_head MNL_AGPS_TYPE_AGPS_LOC @ enc_binary location"

fun a2m_wf :: "agps2mnl_msg \<Rightarrow> bool" where
  "a2m_wf (A_ni_notify session_id type requestor_id client_name) = (ok_string requestor_id \<and> ok_string client_name)"
| "a2m_wf (A_ni_notify2 session_id type requestor_id client_name requestor_id_encoding client_name_encoding) = (ok_string requestor_id \<and> ok_string client_name)"
| "a2m_wf (A_data_conn_req2 addr is_emergency) = (length addr = sizeof_sockaddr_storage)"
| "a2m_wf (A_pmtk pmtk) = (ok_string pmtk)"
| "a2m_wf (A_agps_location location) = (length location = sizeof_mnl_agps_agps_location)"
| "a2m_wf _ = True"

definition a2m_fits :: "agps2mnl_msg \<Rightarrow> bool" where
  "a2m_fits m = (a2m_wf m \<and> length (a2m_wire m) \<le> MNL_AGPS_MAX_BUFF_SIZE)"

primrec agps2mnl_send :: "agps2mnl_msg \<Rightarrow> os \<Rightarrow> (int \<times> os) option" where
  "agps2mnl_send A_agps_reboot k = agps2mnl_agps_reboot AGPS_TO_MNL k"
| "agps2mnl_send (A_agps_open_gps_req show_gps_icon) k = agps2mnl_agps_open_gps_req AGPS_TO_MNL show_gps_icon k"
| "agps2mnl_send A_agps_close_gps_req k = agps2mnl_agps_close_gps_req AGPS_TO_MNL k"
| "agps2mnl_send (A_agps_reset_gps_req flags) k = agps2mnl_agps_reset_gps_req AGPS_TO_MNL flags k"
| "agps2mnl_send A_agps_session_done k = agps2mnl_agps_session_done AGPS_TO_MNL k"
| "agps2mnl_send (A_ni_notify session_id type requestor_id client_name) k = agps2mnl_ni_notify AGPS_TO_MNL session_id type requestor_id client_name k"
| "agps2mnl_send (A_ni_notify2 session_id type requestor_id client_name requestor_id_encoding client_name_encoding) k = agps2mnl_ni_notify2 AGPS_TO_MNL session_id type requestor_id client_name requestor_id_encoding client_name_encoding k"
| "agps2mnl_send (A_data_conn_req ipaddr is_emergency) k = agps2mnl_data_conn_req AGPS_TO_MNL ipaddr is_emergency k"
| "agps2mnl_send (A_data_conn_req2 addr is_emergency) k = agps2mnl_data_conn_req2 AGPS_TO_MNL addr is_emergency k"
| "agps2mnl_send A_data_conn_release k = agps2mnl_data_conn_release AGPS_TO_MNL k"
| "agps2mnl_send (A_set_id_req flags) k = agps2mnl_set_id_req AGPS_TO_MNL flags k"
| "agps2mnl_send (A_ref_loc_req flags) k = agps2mnl_ref_loc_req AGPS_TO_MNL flags k"
| "agps2mnl_send (A_pmtk pmtk) k = agps2mnl_pmtk AGPS_TO_MNL pmtk k"
| "agps2mnl_send (A_gpevt type) k = agps2mnl_gpevt AGPS_TO_MNL type k"
| "agps2mnl_send (A_agps_location location) k = agps2mnl_agps_location AGPS_TO_MNL location k"

lemmas agps2mnl_defs =
  agps2mnl_agps_reboot_def agps2mnl_agps_open_gps_req_def agps2mnl_agps_close_gps_req_def agps2mnl_agps_reset_gps_req_def agps2mnl_agps_session_done_def agps2mnl_ni_notify_def agps2mnl_ni_notify2_def agps2mnl_data_conn_req_def agps2mnl_data_conn_req2_def agps2mnl_data_conn_release_def agps2mnl_set_id_req_def agps2mnl_ref_loc_req_def agps2mnl_pmtk_def agps2mnl_gpevt_def agps2mnl_agps_location_def

lemma agps2mnl_send_transmit:
  assumes "a2m_fits m"
  shows "agps2mnl_send m k = Some (transmit0 AGPS_TO_MNL (a2m_wire m) k)"
  using assms
  by (cases m)
    (simp_all add: a2m_fits_def agps2mnl_defs a2m_head_def fresh_wr wire_put sizeof_defs
      sizeof_mnl_agps_agps_location_def MNL_AGPS_MAX_BUFF_SIZE_def del: mnl_agps_code.simps)

end
