(* ===== verification/Agps_Channel.thy ===== *)
theory Agps_Channel
  imports Mnl2Agps_Interface Agps2Mnl_Interface
begin

text \<open>
  Both directions of the assisted-GPS sockets as channels, in the same way as the HAL sockets.
\<close>

primrec a2m_dispatch :: "'s agps2mnl_interface \<Rightarrow> agps2mnl_msg \<Rightarrow> 's act" where
  "a2m_dispatch h A_agps_reboot = call_cb (a2m_agps_reboot h) id"
| "a2m_dispatch h (A_agps_open_gps_req show_gps_icon) = call_cb (a2m_agps_open_gps_req h) (\<lambda>f. f show_gps_icon)"
| "a2m_dispatch h A_agps_close_gps_req = call_cb (a2m_agps_close_gps_req h) id"
| "a2m_dispatch h (A_agps_reset_gps_req flags) = call_cb (a2m_agps_reset_gps_req h) (\<lambda>f. f flags)"
| "a2m_dispatch h A_agps_session_done = call_cb (a2m_agps_session_done h) id"
| "a2m_dispatch h (A_ni_notify session_id type requestor_id client_name) = call_cb (a2m_ni_notify h) (\<lambda>f. f session_id type requestor_id client_name)"
| "a2m_dispatch h (A_ni_notify2 session_id type requestor_id client_name requestor_id_encoding client_name_encoding) = call_cb (a2m_ni_notify2 h) (\<lambda>f. f session_id type requestor_id client_name requestor_id_encoding client_name_encoding)"
| "a2m_dispatch h (A_data_conn_req ipaddr is_emergency) = call_cb (a2m_data_conn_req h) (\<lambda>f. f ipaddr is_emergency)"
| "a2m_dispatch h (A_data_conn_req2 addr is_emergency) = call_cb (a2m_data_conn_req2 h) (\<lambda>f. f addr is_emergency)"
| "a2m_dispatch h A_data_conn_release = call_cb (a2m_data_conn_release h) id"
| "a2m_dispatch h (A_set_id_req flags) = call_cb (a2m_set_id_req h) (\<lambda>f. f flags)"
| "a2m_dispatch h (A_ref_loc_req flags) = call_cb (a2m_ref_loc_req h) (\<lambda>f. f flags)"
| "a2m_dispatch h (A_pmtk pmtk) = call_cb (a2m_rcv_pmtk h) (\<lambda>f. f pmtk)"
| "a2m_dispatch h (A_gpevt type) = call_cb (a2m_gpevt h) (\<lambda>f. f type)"
| "a2m_dispatch h (A_agps_location location) = call_cb (a2m_agps_location h) (\<lambda>f. f location)"

text \<open>
  The assisted-GPS daemon has no branch for the settings acknowledgement: it is logged and dropped.
\<close>

primrec m2a_dispatch :: "'s mnl2agps_interface \<Rightarrow> mnl2agps_msg \<Rightarrow> 's act" where
  "m2a_dispatch h G_mnl_reboot = call_cb (m2a_mnl_reboot h) id"
| "m2a_dispatch h G_open_gps_done = call_cb (m2a_open_gps_done h) id"
| "m2a_dispatch h G_close_gps_done = call_cb (m2a_close_gps_done h) id"
| "m2a_dispatch h G_reset_gps_done = call_cb (m2a_reset_gps_done h) id"
| "m2a_dispatch h G_gps_init = call_cb (m2a_gps_init h) id"
| "m2a_dispatch h G_gps_cleanup = call_cb (m2a_gps_cleanup h) id"
| "m2a_dispatch h (G_set_server type hostname port) = call_cb (m2a_set_server h) (\<lambda>f. f type hostname port)"
| "m2a_dispatch h (G_delete_aiding_data flags) = call_cb (m2a_delete_aiding_data h) (\<lambda>f. f flags)"
| "m2a_dispatch h (G_gps_open assist_req) = call_cb (m2a_gps_open h) (\<lambda>f. f assist_req)"
| "m2a_dispatch h G_gps_close = call_cb (m2a_gps_close h) id"
| "m2a_dispatch h (G_data_conn_open apn) = call_cb (m2a_data_conn_open h) (\<lambda>f. f apn)"
| "m2a_dispatch h (G_data_conn_open_ip_type apn ip_type) = call_cb (m2a_data_conn_open_ip_type h) (\<lambda>f. f apn ip_type)"
| "m2a_dispatch h (G_install_certificates index total_num data) = call_cb (m2a_install_certificates h) (\<lambda>f. f index total_num (data @ replicate (MNL_AGPS_MAX_BUFF_SIZE - length data) 0) (word_of_nat (length data)))"
| "m2a_dispatch h (G_revoke_certificates data) = call_cb (m2a_revoke_certificates h) (\<lambda>f. f (data @ replicate (MNL_AGPS_MAX_BUFF_SIZE - length data) 0) (word_of_nat (length data)))"
| "m2a_dispatch h G_data_conn_failed = call_cb (m2a_data_conn_failed h) id"
| "m2a_dispatch h G_data_conn_closed = call_cb (m2a_data_conn_closed h) id"
| "m2a_dispatch h (G_ni_message msg) = call_cb (m2a_ni_message h) (\<lambda>f. f (msg @ replicate (1024 - length msg) 0) (word_of_nat (length msg)))"
| "m2a_dispatch h (G_ni_respond session_id user_response) = call_cb (m2a_ni_respond h) (\<lambda>f. f session_id user_response)"
| "m2a_dispatch h (G_set_ref_loc type mcc mnc lac cid) = call_cb (m2a_set_ref_loc h) (\<lambda>f. f type mcc mnc lac cid)"
| "m2a_dispatch h (G_set_set_id type setid) = call_cb (m2a_set_set_id h) (\<lambda>f. f type setid)"
| "m2a_dispatch h (G_update_network_state is_connected type roaming extra_info) = call_cb (m2a_update_network_state h) (\<lambda>f. f is_connected type roaming extra_info)"
| "m2a_dispatch h (G_update_network_availability avaiable apn) = call_cb (m2a_update_network_availability h) (\<lambda>f. f avaiable apn)"
| "m2a_dispatch h (G_pmtk pmtk) = call_cb (m2a_rcv_pmtk h) (\<lambda>f. f pmtk)"
| "m2a_dispatch h (G_raw_dbg enabled) = call_cb (m2a_raw_dbg h) (\<lambda>f. f enabled)"
| "m2a_dispatch h G_reaiding_req = call_cb (m2a_reaiding_req h) id"
| "m2a_dispatch h (G_location_sync lat lng acc) = call_cb (m2a_location_sync h) (\<lambda>f. f lat lng acc)"
| "m2a_dispatch h (G_agps_settings_ack settings) = Some"

fun m2a_safe :: "mnl2agps_msg \<Rightarrow> bool" where
  "m2a_safe (G_ni_message msg) = (length msg \<le> 1024)"
| "m2a_safe _ = True"

section \<open>The handlers implement the dispatch\<close>

lemma a2m_wire_nonempty [simp]: "a2m_wire m \<noteq> []"
  by (cases m) (simp_all add: a2m_head_def enc_int_def)

lemma m2a_wire_nonempty [simp]: "m2a_wire m \<noteq> []"
  by (cases m) (simp_all add: agps_head_def enc_int_def)

lemma deref_str_app2 [simp]: "ok_string s \<Longrightarrow> deref_str (map_option (\<lambda>t. t @ 0 # rest) s) = Some s"
  by (simp add: ok_string_def)

lemma agps2mnl_hdlr_refines:
  assumes "a2m_fits m" "recvfrom_loop rx 10 = Some (a2m_wire m)"
  shows "agps2mnl_hdlr junk rx hdlr s = a2m_dispatch hdlr m s"
proof -
  let ?pad = "replicate (MNL_AGPS_MAX_BUFF_SIZE - length (a2m_wire m)) 0"
  have rx: "safe_recvfrom rx (replicate MNL_AGPS_MAX_BUFF_SIZE 0) = (int (length (a2m_wire m)), a2m_wire m @ ?pad)"
    using assms by (simp add: wire_get a2m_fits_def)
  have pos: "\<not> int (length (a2m_wire m)) \<le> 0" by simp
  show ?thesis
    using assms(1) unfolding agps2mnl_hdlr_def rx Let_def prod.case if_not_P [OF pos] cursor_rd
    by (cases m)
      (auto simp: a2m_fits_def a2m_head_def wire_get sizeof_defs sizeof_mnl_agps_agps_location_def
        intro!: call_cb_cong simp del: mnl_agps_code.simps replicate.simps)
qed

lemma mnl2agps_hdlr_refines:
  assumes "m2a_fits m" "m2a_safe m" "recvfrom_loop rx 10 = Some (m2a_wire m)"
  shows "mnl2agps_hdlr rx hdlr s = m2a_dispatch hdlr m s"
proof -
  let ?pad = "replicate (MNL_AGPS_MAX_BUFF_SIZE - length (m2a_wire m)) 0"
  have rx: "safe_recvfrom rx (replicate MNL_AGPS_MAX_BUFF_SIZE 0) = (int (length (m2a_wire m)), m2a_wire m @ ?pad)"
    using assms by (simp add: wire_get m2a_fits_def)
  have pos: "\<not> int (length (m2a_wire m)) \<le> 0" by simp
  show ?thesis
    using assms(1,2) unfolding mnl2agps_hdlr_def rx Let_def prod.case if_not_P [OF pos] cursor_rd
    by (cases m)
      (auto simp: m2a_fits_def agps_head_def wire_get intro!: call_cb_cong
        simp del: mnl_agps_code.simps replicate.simps)
qed

definition ignoring_return :: "('s \<Rightarrow> 's option) \<Rightarrow> 's \<Rightarrow> (int \<times> 's) option" where
  "ignoring_return f s = map_option (Pair 0) (f s)"

interpretation a2m: channel AGPS_TO_MNL a2m_wire a2m_fits "\<lambda>_. True" "\<lambda>_. 0" agps2mnl_send
    "\<lambda>rx. ignoring_return (agps2mnl_hdlr junk rx hdlr)" "\<lambda>m. ignoring_return (a2m_dispatch hdlr m)" for junk hdlr
  by unfold_locales
    (simp_all add: agps2mnl_send_transmit transmit0_def agps2mnl_hdlr_refines ignoring_return_def)

interpretation m2a: channel MNL_TO_AGPS m2a_wire m2a_fits m2a_safe "\<lambda>_. 0" mnl2agps_send
    "\<lambda>rx. ignoring_return (mnl2agps_hdlr rx hdlr)" "\<lambda>m. ignoring_return (m2a_dispatch hdlr m)" for hdlr
  by unfold_locales
    (simp_all add: mnl2agps_send_transmit transmit0_def mnl2agps_hdlr_refines ignoring_return_def)

end
