(* ===== verification/Mnld_Dispatch.thy ===== *)
theory Mnld_Dispatch
  imports Mnld_Invariants Hal_Channel Agps_Channel
begin

text \<open>
  Every message the daemon's main thread can receive, handled from any consistent state: the handlers
  of \<open>mnld.c\<close> return, and leave a consistent state. For the messages of the HAL and of the assisted-GPS
  daemon the conditions under which this holds are spelled out (\<open>relay_fits\<close>, \<open>a2m_safe\<close>); the fused
  location, test and AT sockets need none. The socket of internal events is shown to be a channel.
\<close>

section \<open>What the daemon relays\<close>

text \<open>
  The messages of the HAL that the daemon passes on to the assisted-GPS daemon.
\<close>

fun h2m_relay :: "hal2mnl_msg \<Rightarrow> mnl2agps_msg option" where
  "h2m_relay H_gps_init = Some G_gps_init"
| "h2m_relay H_gps_cleanup = Some G_gps_cleanup"
| "h2m_relay (H_gps_delete_aiding_data f) = Some (G_delete_aiding_data f)"
| "h2m_relay (H_data_conn_open apn) = Some (G_data_conn_open apn)"
| "h2m_relay (H_data_conn_open_with_apn_ip_type apn t) = Some (G_data_conn_open_ip_type apn t)"
| "h2m_relay H_data_conn_closed = Some G_data_conn_closed"
| "h2m_relay H_data_conn_failed = Some G_data_conn_failed"
| "h2m_relay (H_set_server t h p) = Some (G_set_server t h p)"
| "h2m_relay (H_set_ref_location t mcc mnc lac cid) = Some (G_set_ref_loc t mcc mnc lac cid)"
| "h2m_relay (H_set_id t i) = Some (G_set_set_id t i)"
| "h2m_relay (H_ni_message d) = Some (G_ni_message d)"
| "h2m_relay (H_ni_respond i r) = Some (G_ni_respond i r)"
| "h2m_relay (H_update_network_state c t r x) = Some (G_update_network_state c t r x)"
| "h2m_relay (H_update_network_availability a apn) = Some (G_update_network_availability a apn)"
| "h2m_relay _ = None"

definition relay_fits :: "hal2mnl_msg \<Rightarrow> bool" where
  "relay_fits m = (case h2m_relay m of None \<Rightarrow> True | Some g \<Rightarrow> m2a_fits g)"

text \<open>Everything sent to the assisted-GPS daemon so far.\<close>

definition agps_traffic :: "mnld \<Rightarrow> byte list list" where
  "agps_traffic s = map snd (filter (\<lambda>(p, d). p = MNL_TO_AGPS) (sends (kern s)))"

lemma agps_traffic_emits [simp]:
  "agps_traffic (emits l s) = agps_traffic s @ map snd (filter (\<lambda>(p, d). p = MNL_TO_AGPS) l)"
  by (simp add: agps_traffic_def)

lemma agps_traffic_simps [simp]:
  "agps_traffic (leave x s) = agps_traffic s" "agps_traffic (s\<lparr>epo := ep\<rparr>) = agps_traffic s"
  "agps_traffic (s\<lparr>gps := g\<rparr>) = agps_traffic s"
  by (simp_all add: agps_traffic_def)

lemma to_paths [simp]:
  "fst (to_agps g) = MNL_TO_AGPS" "snd (to_agps g) = m2a_wire g" "fst (to_hal m) = MTK_MNL2HAL"
  "fst (to_ctl c) = MNLD_GPS_CONTROL_SOCKET"
  by (simp_all add: to_agps_def to_hal_def to_ctl_def)

lemma more_socket_diff [simp]:
  "MNLD_EPO_DOWNLOAD_SOCKET \<noteq> MNL_TO_AGPS" "MTK_MNL2FLP \<noteq> MNL_TO_AGPS"
  "MNLD_MAIN_SOCKET \<noteq> MNL_TO_AGPS" "MNLD_MAIN_SOCKET \<noteq> MTK_MNL2FLP" "MNLD_GPS_CONTROL_SOCKET \<noteq> MNL_TO_AGPS"
  "MNLD_GPS_CONTROL_SOCKET \<noteq> MTK_MNL2FLP"
  by (simp_all add: MNL_TO_AGPS_def MTK_MNL2FLP_def MNLD_EPO_DOWNLOAD_SOCKET_def MNLD_MAIN_SOCKET_def
      MNLD_GPS_CONTROL_SOCKET_def)

lemma ksend_agps_str:
  "m2a_fits (G_data_conn_open apn) \<Longrightarrow>
     ksend (mnl2agps_data_conn_open apn) s = Some (emits [to_agps (G_data_conn_open apn)] s)"
  "m2a_fits (G_data_conn_open_ip_type apn t) \<Longrightarrow>
     ksend (mnl2agps_data_conn_open_ip_type apn t) s = Some (emits [to_agps (G_data_conn_open_ip_type apn t)] s)"
  "m2a_fits (G_set_server t h p) \<Longrightarrow>
     ksend (mnl2agps_set_server t h p) s = Some (emits [to_agps (G_set_server t h p)] s)"
  "m2a_fits (G_set_set_id t i) \<Longrightarrow>
     ksend (mnl2agps_set_set_id t i) s = Some (emits [to_agps (G_set_set_id t i)] s)"
  "m2a_fits (G_update_network_state c t r x) \<Longrightarrow>
     ksend (mnl2agps_update_network_state c t r x) s = Some (emits [to_agps (G_update_network_state c t r x)] s)"
  "m2a_fits (G_update_network_availability a apn) \<Longrightarrow>
     ksend (mnl2agps_update_network_availability a apn) s = Some (emits [to_agps (G_update_network_availability a apn)] s)"
  by (rule ksend_agps; simp)+

lemma ksend_agps_ni:
  assumes "m2a_fits (G_ni_message d)"
  shows "ksend (mnl2agps_ni_message (d @ z) (word_of_nat (length d))) s = Some (emits [to_agps (G_ni_message d)] s)"
  by (rule ksend_agps [OF assms]) (use assms in \<open>simp add: mnl2agps_ni_message_def put_binary_prefix m2a_fits_def\<close>)

lemmas relay_defs = hal_gps_init_def hal_gps_cleanup_def hal_gps_inject_time_def hal_gps_inject_location_def
  hal_gps_set_position_mode_def hal_data_conn_open_def hal_data_conn_open_with_apn_ip_type_def
  hal_data_conn_closed_def hal_data_conn_failed_def hal_set_server_def hal_set_ref_location_def hal_set_id_def
  hal_ni_message_def hal_ni_respond_def hal_update_network_availability_def hal_set_gps_measurement_def
  hal_set_gps_navigation_def

lemma hal_reboot_inv: "fsm_inv n h s \<Longrightarrow> \<exists>s'. hal_reboot e s = Some s' \<and> fsm_inv n h s'"
  unfolding hal_reboot_def set_client_set_clients by (rule fsm_stop_inv) (auto split: if_splits)

lemma agps_reboot_inv: "fsm_inv n h s \<Longrightarrow> \<exists>s'. agps_reboot e s = Some s' \<and> fsm_inv n h s'"
  unfolding agps_reboot_def set_client_set_clients by (rule fsm_stop_inv) (auto split: if_splits)

lemma flp_reboot_inv: "fsm_inv n h s \<Longrightarrow> \<exists>s'. flp2mnl_flp_reboot e s = Some s' \<and> fsm_inv n h s'"
  unfolding flp2mnl_flp_reboot_def set_client_set_clients by (rule fsm_stop_inv) (auto split: if_splits)

lemma hal_reset_off: "fsm_inv n h s \<Longrightarrow> set_client HAL (need_reset_ack_update (\<lambda>_. False)) s = s"
  by (rule set_client_id, rule ack_off) (auto simp: fsm_inv_def client_def)

lemma hal_delete_inv:
  assumes "fsm_inv n h s"
  shows "\<exists>s'. hal_gps_delete_aiding_data e f s = Some s' \<and> fsm_inv n h s'"
proof -
  let ?s1 = "emits [to_agps (G_delete_aiding_data f)] s"
  let ?s2 = "set_delete_flag (delete_aiding_flag (gps s) OR f) ?s1"
  have v: "fsm_view ?s1 = fsm_view s"
    by (rule fsm_view_emits) simp_all
  then have i: "fsm_inv n h ?s1" using assms by (auto elim!: fsm_inv_view)
  have "\<exists>s'. mnld_fsm e GPS_EVENT_RESET 0 ?s2 = Some s' \<and> fsm_inv n h s'"
    by (rule fsm_reset_inv [OF assms, of _ "delete_aiding_flag (gps s) OR f" "clients (gps s)"])
      (use v in \<open>simp_all add: fsm_view_def wakelocks_held_def engine_runs_def engine_stops_def set_delete_flag_def set_clients_def\<close>)
  then show ?thesis
    by (simp add: hal_gps_delete_aiding_data_def ksend_fixed hal_reset_off [OF assms] hal_reset_off [OF i] Let_def
        del: emits_simps set_client_emits)
qed


lemma fsm_inv_agps [simp]: "fsm_inv n h s \<Longrightarrow> fsm_inv n h (emits [to_agps g] s)"
  by (rule fsm_inv_emits) simp_all

lemma fsm_inv_epo_start [simp]: "fsm_inv n h s \<Longrightarrow> fsm_inv n h (emits [(MNLD_EPO_DOWNLOAD_SOCKET, d)] s)"
  by (rule fsm_inv_emits) (simp_all del: emits_simps)

lemma hal_network_inv:
  assumes "fsm_inv n h s" "m2a_fits (G_update_network_state c t r x)"
  shows "\<exists>s'. hal_update_network_state e c t r x s = Some s' \<and> fsm_inv n h s'
      \<and> agps_traffic s' = agps_traffic s @ [m2a_wire (G_update_network_state c t r x)]"
  using assms
  by (simp add: hal_update_network_state_def ksend_agps_str ksend_fixed Let_def split_beta
      del: emits_simps m2a_wire.simps)

text \<open>Every message of the HAL is handled, and the machine stays consistent.\<close>

lemma hal_dispatch_inv:
  assumes inv: "fsm_inv n h s" and fit: "relay_fits m"
  shows "\<exists>s'. h2m_dispatch (g_hal2mnl_interface e) m s = Some (0, s') \<and> fsm_inv n h s'"
proof -
  have ex: "\<exists>s'. map_option (Pair 0) (f s) = Some (0 :: int, s') \<and> fsm_inv n h s'"
    if "\<exists>s'. f s = Some s' \<and> fsm_inv n h s'" for f :: "mnld act"
    using that by auto
  have net: "\<exists>s'. hal_update_network_state e c t r x s = Some s' \<and> fsm_inv n h s'"
    if "m2a_fits (G_update_network_state c t r x)" for c t r x
    using hal_network_inv [OF inv that] by blast
  show ?thesis
    using inv fit
    by (cases m)
      (auto simp: g_hal2mnl_interface_def relay_fits_def relay_defs ksend_fixed ksend_agps_str ksend_agps_ni
        split: option.split simp del: emits_simps
        intro!: ex u_hal.start_inv u_hal.stop_inv hal_reboot_inv hal_delete_inv net)
qed


section \<open>The notification texts\<close>

lemma hex_digit_nonzero: "n < 16 \<Longrightarrow> hex_digit (word_of_nat n) \<noteq> 0"
proof -
  assume "n < 16"
  then have "n \<in> set [0..<16]" by simp
  moreover have "\<forall>n \<in> set [0..<16]. hex_digit (word_of_nat n) \<noteq> 0"
    by (simp add: hex_digit_def upt_rec)
  ultimately show ?thesis by blast
qed

lemma hex_text_no_nul: "0 \<notin> set (hex_text bs)"
proof (induction bs)
  case (Cons c bs)
  then show ?case
    using hex_digit_nonzero [of "unat c div 16"] hex_digit_nonzero [of "unat c mod 16"] byte_nibbles(1) [of c]
    by (auto simp: hex_pair_def)
qed simp

definition ni_hex :: "byte list \<Rightarrow> byte list" where
  "ni_hex t = hex_text (ucs2_text t)"

lemma ni_hex_length: "length (ni_hex t) = 4 + 4 * length t"
  by (simp add: ni_hex_def hex_text_length ucs2_text_length)

lemma ni_text_step:
  "(do { (n, u) \<leftarrow> asc_str_to_usc2_str (replicate 1024 0) (Some t);
         h \<leftarrow> raw_data_to_hex_string (replicate 1024 0) u n;
         g h }) = (if length t \<le> 254 then g (ni_hex t @ [0] @ replicate (1019 - 4 * length t) 0) else None)"
proof -
  have raw: "raw_data_to_hex_string (replicate 1024 0) (ucs2_text t @ z) (2 + 2 * int (length t)) =
      (if length t \<le> 254 then Some (ni_hex t @ [0] @ replicate (1019 - 4 * length t) 0) else None)" for z
    using raw_data_to_hex_string_eq [of "replicate 1024 0" "ucs2_text t" z]
    by (auto simp: ucs2_text_length ni_hex_def)
  show ?thesis
    by (simp add: asc_str_to_usc2_str_eq add.commute [of _ 2] raw)
qed

lemma agps_ni_notify_eq:
  "agps_ni_notify i t (Some r) (Some c) s =
     (if length r \<le> 254 \<and> length c \<le> 254
      then ksend (mnl2hal_request_ni_notify i t (Some (ni_hex r)) (Some (ni_hex c))
             NI_ENCODING_TYPE_UCS2 NI_ENCODING_TYPE_UCS2) s
      else None)"
proof -
  have str: "c_string (ni_hex x @ [0] @ z) = Some (ni_hex x)" for x z
    by (simp add: ni_hex_def hex_text_no_nul)
  show ?thesis
    unfolding agps_ni_notify_def ni_text_step str bind.simps by simp
qed


section \<open>Messages of the assisted-GPS daemon\<close>

text \<open>The notification texts must be present and short enough for the conversion arrays.\<close>

fun a2m_safe :: "agps2mnl_msg \<Rightarrow> bool" where
  "a2m_safe (A_ni_notify i t r c) = (r \<noteq> None \<and> c \<noteq> None \<and> cstr_len r \<le> 254 \<and> cstr_len c \<le> 254)"
| "a2m_safe _ = True"

lemma fsm_inv_hal [simp]:
  "m2h_cmd m \<noteq> MNL2HAL_REQUEST_WAKELOCK \<Longrightarrow> m2h_cmd m \<noteq> MNL2HAL_RELEASE_WAKELOCK \<Longrightarrow>
     fsm_inv n h s \<Longrightarrow> fsm_inv n h (emits [to_hal m] s)"
  by (rule fsm_inv_emits) simp_all

lemma fsm_inv_flp [simp]: "fsm_inv n h s \<Longrightarrow> fsm_inv n h (emits [to_flp d] s)"
  by (rule fsm_inv_emits) simp_all

lemma ksend_hal_notify:
  assumes "ok_string r" "ok_string c" "cstr_len r + cstr_len c \<le> 16000"
  shows "ksend (mnl2hal_request_ni_notify i t r c re ce) s = Some (emits [to_hal (M_request_ni_notify i t r c re ce)] s)"
proof -
  have "length (enc_string r) + length (enc_string c) \<le> 12 + 16000"
    using assms(3) enc_string_length_le [of r] enc_string_length_le [of c] by simp
  with assms show ?thesis
    by (intro ksend_hal) (simp_all add: m2h_fits_def m2h_head_def HAL_MNL_BUFF_SIZE_def)
qed

lemma ksend_hal_conn:
  "length a = sizeof_sockaddr_storage \<Longrightarrow>
     ksend (mnl2hal_request_data_conn a) s = Some (emits [to_hal (M_request_data_conn a)] s)"
  by (rule ksend_hal) (simp_all add: m2h_fits_def m2h_head_def HAL_MNL_BUFF_SIZE_def sizeof_defs)

lemma ksend_hal_location:
  "ksend (mnl2hal_location (gps_location_bytes l)) s = Some (emits [to_hal (M_location (gps_location_bytes l))] s)"
  by (rule ksend_hal) (simp_all add: m2h_fits_def m2h_head_def HAL_MNL_BUFF_SIZE_def sizeof_defs)

text \<open>The address a data connection is requested for: an IPv4 socket address in 128 zeroed bytes.\<close>

definition inet_storage :: "i32 \<Rightarrow> byte list" where
  "inet_storage ip = enc_short AF_INET @ [0, 0] @ enc_int ip @ replicate 120 0"

lemma agps_data_conn_req_eq:
  "agps_data_conn_req ip em s = Some (emits [to_hal (M_request_data_conn (inet_storage ip))] s)"
proof -
  have st: "store (replicate 128 0) 0 (enc_short AF_INET) = Some (enc_short AF_INET @ replicate 126 0)"
    by (simp add: store_def)
  have re: "replicate 126 0 = [0, 0] @ replicate (124 :: nat) (0 :: byte)"
    by (simp add: replicate_app_Cons_same numeral_eq_Suc)
  have "store (enc_short AF_INET @ replicate 126 0) 4 (enc_int ip) = Some (inet_storage ip)"
    unfolding re by (simp add: store_def inet_storage_def)
  with st show ?thesis
    using ksend_hal_conn [of "inet_storage ip"]
    by (simp add: agps_data_conn_req_def sizeof_defs inet_storage_def)
qed

lemma agps_reset_inv:
  assumes inv: "fsm_inv n h s"
  shows "\<exists>s'. agps_reset_gps_req e f s = Some s' \<and> fsm_inv n h s'"
proof (cases "f = 0")
  case True
  with inv show ?thesis by (simp add: agps_reset_gps_req_def ksend_fixed)
next
  case False
  let ?f = "delete_aiding_flag (gps s) OR f"
  let ?cl = "(clients (gps s))(AGPS := (clients (gps s) AGPS)\<lparr>need_reset_ack := True\<rparr>)"
  from False have "?f \<noteq> 0" by (metis or_eq_0_iff)
  then have "\<exists>s'. mnld_fsm e GPS_EVENT_RESET 0 (set_client AGPS (need_reset_ack_update (\<lambda>_. True)) (set_delete_flag ?f s))
      = Some s' \<and> fsm_inv n h s'"
    by (intro fsm_reset_inv [OF inv, of _ ?f ?cl])
      (simp_all add: fsm_view_def wakelocks_held_def engine_runs_def engine_stops_def set_delete_flag_def set_clients_def set_client_def)
  with False show ?thesis by (simp add: agps_reset_gps_req_def)
qed

lemma agps_dispatch_inv:
  assumes inv: "fsm_inv n h s" and fit: "a2m_fits m" and safe: "a2m_safe m"
  shows "\<exists>s'. a2m_dispatch (g_agps2mnl_interface e) m s = Some s' \<and> fsm_inv n h s'"
proof -
  have len: "length (a2m_wire m) \<le> 8192" using fit by (simp add: a2m_fits_def MNL_AGPS_MAX_BUFF_SIZE_def)
  have enc: "cstr_len x \<le> length (enc_string x)" for x by (cases x) simp_all
  show ?thesis
  proof (cases m)
    case (A_ni_notify i t r c)
    with safe obtain r' c' where "r = Some r'" "c = Some c'" "length r' \<le> 254" "length c' \<le> 254" by auto
    with A_ni_notify inv show ?thesis
      by (simp add: g_agps2mnl_interface_def agps_ni_notify_eq ksend_hal_notify ok_string_def ni_hex_def
          hex_text_no_nul ni_hex_length [unfolded ni_hex_def] del: emits_simps)
  next
    case (A_ni_notify2 i t r c re ce)
    with fit len enc [of r] enc [of c] inv show ?thesis
      by (simp add: g_agps2mnl_interface_def agps_ni_notify2_def ksend_hal_notify a2m_fits_def a2m_head_def
          del: emits_simps)
  qed (use inv fit in \<open>auto simp: g_agps2mnl_interface_def a2m_fits_def agps_session_done_def agps_data_conn_req_eq
        agps_data_conn_req2_def ksend_hal_conn agps_data_conn_release_def agps_set_id_req_def agps_ref_loc_req_def
        agps_rcv_pmtk_def agps_gpevt_def agps_location_def ksend_hal_location ksend_fixed Let_def
        split: option.split simp del: emits_simps
        intro!: u_agps.start_inv u_agps.stop_inv agps_reboot_inv agps_reset_inv\<close>)
qed


section \<open>Fused location, test and AT sockets\<close>

text \<open>These three sockets may deliver any datagram at all.\<close>

lemma safe_recvfrom_length: "safe_recvfrom rx b = (r, b') \<Longrightarrow> length b' = length b"
  by (auto simp: safe_recvfrom_def Let_def split: option.splits)

lemma flp_lpbk_eq:
  "length buf = 1024 \<Longrightarrow> flp2mnl_flp_lpbk buf 1024 s = Some (emits [to_flp buf] s)"
  unfolding flp2mnl_flp_lpbk_def to_flp_def
  by (rule ksend_Some) (simp add: mnl2flp_data_send_def mnld_sendto_flp_post)

lemma flp_dispatch_inv:
  assumes "fsm_inv n h s"
  shows "\<exists>s'. main_dispatch e junk (In_flp rx) s = Some s' \<and> fsm_inv n h s'"
proof -
  obtain r b where rx: "safe_recvfrom rx (replicate FLP_MNL_BUFF_SIZE 0) = (r, b)" by fastforce
  then have len: "length b = 1024" by (auto dest: safe_recvfrom_length simp: FLP_MNL_BUFF_SIZE_def)
  have i: "fsm_inv n h (s\<lparr>offload_enabled := v\<rparr>)" for v using assms by simp
  have ex: "\<exists>s'. map_option snd (map_option (Pair (0 :: int)) (f s)) = Some s' \<and> fsm_inv n h s'"
    if "\<exists>s'. f s = Some s' \<and> fsm_inv n h s'" for f :: "mnld act" and s
    using that by auto
  show ?thesis
    using assms len rx i
    by (auto simp: flp2mnl_hdlr_def g_flp2mnl_interface_def Let_def flp_lpbk_eq FLP_MNL_BUFF_SIZE_def
        flp2mnl_flp_data_def simp del: emits_simps split: option.split flp2mnl_cmd.split
        intro!: ex flp_reboot_inv u_flp.start_inv u_flp.stop_inv)
qed

lemma fsm_inv_lpbk [simp]:
  "fsm_inv n h ((leave x s)\<lparr>ofl := (ofl s)\<lparr>ofl_lpbk_tst_start := i\<rparr>\<rparr>) = fsm_inv n h s"
  using fsm_inv_simps(4) [where s = "leave x s"] by simp

lemma flp_test_dispatch_inv:
  assumes "fsm_inv n h s"
  shows "\<exists>s'. main_dispatch e junk (In_flp_test rx) s = Some s' \<and> fsm_inv n h s'"
proof -
  have sz: "ofl_lpbk_tst_size (ofl s) \<le> 1024" using assms by (simp add: fsm_inv_def)
  from u_flp_test.start_inv [OF assms, of e] u_flp_test.stop_inv [OF assms, of e] sz assms show ?thesis
    by (auto simp: flp_test2mnl_hdlr_def g_flp_test2mnl_interface_def Let_def flp_test2mnl_flp_lpbk_start_def
        flp_test2mnl_flp_lpbk_stop_def split: prod.split)
qed

lemma at_dispatch_inv:
  assumes "fsm_inv n h s"
  shows "\<exists>s'. main_dispatch e junk In_at_start s = Some s' \<and> fsm_inv n h s'"
    and "\<exists>s'. main_dispatch e junk In_at_stop s = Some s' \<and> fsm_inv n h s'"
  using u_at.start_inv [OF assms] u_at.stop_inv [OF assms] by simp_all


section \<open>Internal events\<close>

text \<open>What each internal event asks for.\<close>

definition first_location :: "mnld_env \<Rightarrow> gps_location \<Rightarrow> mnld \<Rightarrow> mnld" where
  "first_location e l s =
     (if wait_first_location (gps s)
      then (let s = s\<lparr>gps := (gps s)\<lparr>wait_first_location := False,
                 gps_ttff := get_tick (clock_now e) - gps_start_time (gps s)\<rparr>\<rparr>
            in if cmcc_log_enabled e then leave (Op01_log_gps_location (loc_lat l) (loc_lng l) (gps_ttff (gps s))) s else s)
      else s)"

definition restart_clients :: "mnld_env \<Rightarrow> mnld act" where
  "restart_clients e s = do {
     s \<leftarrow> mnld_fsm e GPS_EVENT_STOP 0 (mtk_gps_clear_gps_user s);
     Some (leave Mnl_set_status (emits [to_hal M_mnld_reboot, to_agps G_mnl_reboot, to_flp flp_reboot_msg] s)) }"

definition valid_accuracy :: "gps_location \<Rightarrow> f32" where
  "valid_accuracy l = (if loc_flags l AND GPS_LOCATION_HAS_ACCURACY \<noteq> 0 then loc_accuracy l else 0x44fa0000)"

primrec e_dispatch :: "mnld_env \<Rightarrow> main_msg \<Rightarrow> mnld act" where
  "e_dispatch e (E_start_done a) s = mnld_fsm e GPS_EVENT_START_DONE (of_bool a) s"
| "e_dispatch e E_stop_done s = mnld_fsm e GPS_EVENT_STOP_DONE 0 s"
| "e_dispatch e E_reset_done s = do_gps_reset_hdlr (ktimer (stop_timer (timer_reset (gps s))) s)"
| "e_dispatch e E_nmea_timeout s = (if mnld_is_gps_started_done s then restart_clients e s else Some s)"
| "e_dispatch e (E_update_location d) s =
     (let l = gps_location_of_bytes d
      in Some (first_location e l
           (emits [to_agps (G_location_sync (loc_lat l) (loc_lng l) (f32_to_int (valid_accuracy l)))] s)))"
| "e_dispatch e (E_epo_done r) s =
     (let s = s\<lparr>epo := (epo s)\<lparr>is_epo_downloading := False\<rparr>\<rparr>
      in Some (if mnld_is_gps_started_done s then leave Epo_update_file s else s))"
| "e_dispatch e (E_qepo_done r) s = Some (if mnld_is_gps_started_done s then leave (Qepo_update_file r) s else s)"

lemma main_wire_nonempty [simp]: "main_wire m \<noteq> []"
  by (cases m) (simp_all add: enc_int_def)

lemma main_wire_length: "main_fits m \<Longrightarrow> length (main_wire m) \<le> MNLD_INTERNAL_BUFF_SIZE"
  by (cases m) (simp_all add: MNLD_INTERNAL_BUFF_SIZE_def sizeof_defs)

lemma emits_3: "emits [x, y, z] s = emits [z] (emits [y] (emits [x] s))"
  by (simp add: emits_def)

lemma main_event_hdlr_refines:
  assumes "main_fits m" "recvfrom_loop rx 10 = Some (main_wire m)"
  shows "main_event_hdlr e junk rx s = map_option (Pair 0) (e_dispatch e m s)"
proof -
  let ?pad = "replicate (MNLD_INTERNAL_BUFF_SIZE - length (main_wire m)) 0"
  have rx: "safe_recvfrom rx (replicate MNLD_INTERNAL_BUFF_SIZE 0) = (int (length (main_wire m)), main_wire m @ ?pad)"
    using assms main_wire_length by (simp add: wire_get)
  have pos: "\<not> int (length (main_wire m)) \<le> 0" by simp
  show ?thesis
    using assms(1) unfolding main_event_hdlr_def rx Let_def prod.case if_not_P [OF pos] cursor_rd
    by (cases m)
      (auto simp: wire_get sizeof_defs restart_clients_def first_location_def valid_accuracy_def Let_def ksend_fixed emits_3
        simp del: main_event_code.simps replicate.simps split: option.split bind_splits)
qed


interpretation mn: channel MNLD_MAIN_SOCKET main_wire main_fits "\<lambda>_. True" "\<lambda>m. int (length (main_wire m))" main_send
    "\<lambda>rx. main_event_hdlr e junk rx" "\<lambda>m. ignoring_return (e_dispatch e m)" for e junk
  by unfold_locales
    (simp_all add: main_send_transmit transmit_alt main_event_hdlr_refines ignoring_return_def fun_eq_iff)

lemma clear_user_eq:
  "mtk_gps_clear_gps_user s = set_clients (\<lambda>c. (clients (gps s) c)\<lparr>gps_used := False\<rparr>) s"
proof -
  have "clear_used c t = set_client c (gps_used_update (\<lambda>_. False)) t" for c t
    by (simp add: clear_used_def set_client_id)
  then show ?thesis
    by (simp add: mtk_gps_clear_gps_user_def set_client_set_clients all_clients)
qed

lemma restart_inv:
  assumes inv: "fsm_inv n h s" and st: "mnld_is_gps_started_done s"
  shows "\<exists>s'. restart_clients e s = Some s' \<and> fsm_inv n h s'"
proof -
  have "\<not> wants_open s c" for c
    using inv st by (auto simp: fsm_inv_def mnld_is_gps_started_done_def)
  then have "\<exists>s'. mnld_fsm e GPS_EVENT_STOP 0 (mtk_gps_clear_gps_user s) = Some s' \<and> fsm_inv n h s'"
    by (intro fsm_stop_inv [OF inv, of _ "\<lambda>c. (clients (gps s) c)\<lparr>gps_used := False\<rparr>"]) (simp_all add: clear_user_eq)
  then show ?thesis
    by (auto simp: restart_clients_def emits_3 simp del: emits_simps)
qed

lemma reset_done_inv:
  assumes "fsm_inv n h s"
  shows "\<exists>s'. e_dispatch e E_reset_done s = Some s' \<and> fsm_inv n h s'"
  using assms by (simp add: do_gps_reset_hdlr_eq) (auto simp: inv_defs stop_timer_eq)

lemma first_location_inv [simp]: "fsm_inv n h (first_location e l s) = fsm_inv n h s"
  by (auto simp: first_location_def Let_def inv_defs)

lemma e_dispatch_inv:
  assumes "fsm_inv n h s" "m \<noteq> E_stop_done"
  shows "\<exists>s'. e_dispatch e m s = Some s' \<and> fsm_inv n h s'"
  using assms
  by (cases m)
    (auto simp: Let_def fsm_start_done_inv restart_inv simp del: emits_simps
      intro: reset_done_inv [simplified])

lemma e_dispatch_stop_inv:
  assumes "fsm_inv n h s" "state_of s = MNLD_GPS_STATE_STOPPING"
  shows "\<exists>s'. e_dispatch e E_stop_done s = Some s' \<and> fsm_inv (n + 1) h s'"
  using fsm_stop_done_inv [OF assms] by simp

end
