(* ===== verification/Gps_Controller.thy ===== *)
theory Gps_Controller
  imports Mnld
begin

text \<open>
  The GPS control thread of \<open>gps_controller.c\<close>: the requests start, stop and delete-aiding-data that the main
  thread sends it, what each asks of libmnl and of the driver attributes, and the acknowledgement it
  sends back. Calls out of the modelled part are logged in \<open>ctl_calls\<close>; what they return is a function \<open>ans\<close>
  of the call.
\<close>

section \<open>State\<close>

datatype restart_type =
    MTK_GPS_START_HOT | MTK_GPS_START_WARM | MTK_GPS_START_COLD | MTK_GPS_START_FULL
  | MTK_GPS_START_AGPS | MTK_GPS_START_D_EPH_ALM | MTK_GPS_START_D_TIME

datatype ctl_call =
    Write_pwrctl byte | Write_state byte | Load_property | Ofl_set_user i32 | Sys_init | Linux_gps_init
  | Setup_signal_handler | Get_gps_version | Mnl_stop | Dbglog_release | Sys_uninit | Close_fd int | Alarm_off
  | Set_param_restart restart_type

record gps_ctl =
  assist_data_bit_map :: i32
  dsp_fd :: int
  g_gpsdbglogThreadExit :: bool
  ctl_calls :: "ctl_call list"
  ctl_kern :: os

definition ctl_do :: "ctl_call \<Rightarrow> gps_ctl \<Rightarrow> gps_ctl" where
  "ctl_do x c = c\<lparr>ctl_calls := ctl_calls c @ [x]\<rparr>"

definition ctl_ksend :: "(os \<Rightarrow> (int \<times> os) option) \<Rightarrow> gps_ctl act" where
  "ctl_ksend f c = do { (r, k) \<leftarrow> f (ctl_kern c); Some (c\<lparr>ctl_kern := k\<rparr>) }"

definition GPS_PWRCTL_OFF :: byte where "GPS_PWRCTL_OFF = 0x00"
definition GPS_PWRCTL_RST :: byte where "GPS_PWRCTL_RST = 0x02"
definition GPS_PWRCTL_MAX :: byte where "GPS_PWRCTL_MAX = 0x05"
definition MNL_GPS_STATE_PWROFF :: byte where "MNL_GPS_STATE_PWROFF = 0x00"
definition MNL_GPS_STATE_START :: byte where "MNL_GPS_STATE_START = 0x02"
definition MNL_GPS_STATE_MAX :: byte where "MNL_GPS_STATE_MAX = 0x06"

definition GPS_DELETE_EPHEMERIS :: i32 where "GPS_DELETE_EPHEMERIS = 0x0001"
definition GPS_DELETE_ALMANAC :: i32 where "GPS_DELETE_ALMANAC = 0x0002"
definition GPS_DELETE_POSITION :: i32 where "GPS_DELETE_POSITION = 0x0004"
definition GPS_DELETE_TIME :: i32 where "GPS_DELETE_TIME = 0x0008"
definition GPS_DELETE_CLK :: i32 where "GPS_DELETE_CLK = 0x0800"
definition GPS_DELETE_ALL :: i32 where "GPS_DELETE_ALL = 0xFFFF"

definition FLAG_HOT_START :: i32 where "FLAG_HOT_START = 0x0"
definition FLAG_WARM_START :: i32 where "FLAG_WARM_START = GPS_DELETE_EPHEMERIS"
definition FLAG_COLD_START :: i32 where "FLAG_COLD_START = GPS_DELETE_EPHEMERIS OR GPS_DELETE_POSITION"
definition FLAG_FULL_START :: i32 where "FLAG_FULL_START = GPS_DELETE_ALL"
definition FLAG_AGPS_START :: i32 where "FLAG_AGPS_START = GPS_DELETE_ALL AND NOT GPS_DELETE_CLK"
definition FLAG_DELETE_EPH_ALM_START :: i32 where
  "FLAG_DELETE_EPH_ALM_START = GPS_DELETE_EPHEMERIS OR GPS_DELETE_ALMANAC"
definition FLAG_DELETE_TIME_START :: i32 where "FLAG_DELETE_TIME_START = GPS_DELETE_TIME"

section \<open>Operations\<close>

definition mnl_set_pwrctl :: "(ctl_call \<Rightarrow> int) \<Rightarrow> byte \<Rightarrow> gps_ctl \<Rightarrow> int \<times> gps_ctl" where
  "mnl_set_pwrctl ans pwrctl c =
     (if pwrctl < GPS_PWRCTL_MAX then (ans (Write_pwrctl pwrctl), ctl_do (Write_pwrctl pwrctl) c) else (-1, c))"

definition mnl_set_state :: "(ctl_call \<Rightarrow> int) \<Rightarrow> byte \<Rightarrow> gps_ctl \<Rightarrow> int \<times> gps_ctl" where
  "mnl_set_state ans state c =
     (if state < MNL_GPS_STATE_MAX then (ans (Write_state state), ctl_do (Write_state state) c) else (-1, c))"

definition mnld_gps_stop_impl :: "(ctl_call \<Rightarrow> int) \<Rightarrow> gps_ctl \<Rightarrow> int \<times> gps_ctl" where
  "mnld_gps_stop_impl ans c =
     (let c = ctl_do Mnl_stop c;
          c = (if \<not> g_gpsdbglogThreadExit c then ctl_do Dbglog_release c else c);
          err = ans Sys_uninit;
          c = ctl_do Sys_uninit c;
          c = (if 0 \<le> dsp_fd c then (ctl_do (Close_fd (dsp_fd c)) c)\<lparr>dsp_fd := -1\<rparr> else c)
      in (err, ctl_do Alarm_off c))"

definition mnld_gps_start_impl :: "(ctl_call \<Rightarrow> int) \<Rightarrow> i32 \<Rightarrow> gps_ctl \<Rightarrow> int \<times> gps_ctl" where
  "mnld_gps_start_impl ans gps_user c =
     (let c = ctl_do Sys_init (ctl_do (Ofl_set_user gps_user) (ctl_do Load_property c));
          c = ctl_do Linux_gps_init c
      in if ans Linux_gps_init \<noteq> 0 then (ans Linux_gps_init, snd (mnld_gps_stop_impl ans c))
         else let c = ctl_do Setup_signal_handler c
              in if ans Setup_signal_handler \<noteq> 0
                 then (ans Setup_signal_handler, snd (mnld_gps_stop_impl ans c))
                 else (0, ctl_do Get_gps_version c))"

definition mnld_gps_start :: "(ctl_call \<Rightarrow> int) \<Rightarrow> i32 \<Rightarrow> i32 \<Rightarrow> gps_ctl \<Rightarrow> int \<times> gps_ctl" where
  "mnld_gps_start ans gps_user delete_aiding_data_flags c =
     (let c = c\<lparr>assist_data_bit_map := delete_aiding_data_flags\<rparr>;
          (ret, c) = mnl_set_pwrctl ans GPS_PWRCTL_RST c
      in if ret \<noteq> 0 then (ret, c)
         else let (ret, c) = mnld_gps_start_impl ans gps_user c
              in if ret \<noteq> 0 then (ret, c)
                 else let (ret, c) = mnl_set_state ans MNL_GPS_STATE_START c in (0, c))"

definition mnld_gps_stop :: "(ctl_call \<Rightarrow> int) \<Rightarrow> mnld \<times> gps_ctl \<Rightarrow> (int \<times> mnld \<times> gps_ctl) option" where
  "mnld_gps_stop ans sc =
     (let (s, c) = sc;
          s = mnld_gps_stop_nmea_monitor s;
          (err, c) = mnld_gps_stop_impl ans c
      in if err \<noteq> 0 then Some (err, s, c)
         else do {
           let c = snd (mnl_set_pwrctl ans GPS_PWRCTL_OFF c);
           let c = snd (mnl_set_state ans MNL_GPS_STATE_PWROFF c);
           c \<leftarrow> ctl_ksend mnld_gps_stop_done c;
           Some (0, s, c) })"

definition restart_type_of :: "i32 \<Rightarrow> restart_type" where
  "restart_type_of f =
     (if f = FLAG_HOT_START then MTK_GPS_START_HOT
      else if f = FLAG_WARM_START then MTK_GPS_START_WARM
      else if f = FLAG_COLD_START then MTK_GPS_START_COLD
      else if f = FLAG_FULL_START then MTK_GPS_START_FULL
      else if f = FLAG_AGPS_START then MTK_GPS_START_AGPS
      else if f = FLAG_DELETE_EPH_ALM_START then MTK_GPS_START_D_EPH_ALM
      else if f = FLAG_DELETE_TIME_START then MTK_GPS_START_D_TIME
      else MTK_GPS_START_HOT)"

definition mnld_gps_delete_aiding_data :: "i32 \<Rightarrow> gps_ctl \<Rightarrow> (int \<times> gps_ctl) option" where
  "mnld_gps_delete_aiding_data delete_aiding_data_flags c = do {
     let c = ctl_do (Set_param_restart (restart_type_of delete_aiding_data_flags)) c;
     c \<leftarrow> ctl_ksend mnld_gps_reset_done c;
     Some (0, c) }"

text \<open>
  \<open>quiet\<close> is the bit \<open>MNL_NMEA_DISABLE_NOTIFY\<close> of the configuration. This runs in a thread of libmnl.
\<close>

definition send_active_notify :: "bool \<Rightarrow> mnld \<Rightarrow> gps_ctl \<Rightarrow> (int \<times> gps_ctl) option" where
  "send_active_notify quiet s c =
     (let gps_user = mtk_gps_get_gps_user s
      in if (gps_user AND (GPS_USER_FLP OR GPS_USER_OFL_TEST)) = gps_user \<and> offload_enabled s then Some (-1, c)
         else if \<not> quiet then do {
           b \<leftarrow> put_int (main2gps_code GPS2GPS_NMEA_DATA_TIMEOUT) (fresh 1024);
           (r, k) \<leftarrow> safe_sendto MNLD_GPS_CONTROL_SOCKET (buff b) (offset b) (ctl_kern c);
           Some (r, c\<lparr>ctl_kern := k\<rparr>) }
         else Some (-1, c))"

definition gps_control_event_hdlr ::
  "(ctl_call \<Rightarrow> int) \<Rightarrow> mnld_env \<Rightarrow> rx_ans list \<Rightarrow> mnld \<times> gps_ctl \<Rightarrow> (int \<times> mnld \<times> gps_ctl) option" where
  "gps_control_event_hdlr ans e rx sc =
    (let (s, c) = sc;
         (read_len, mem) = safe_recvfrom rx (replicate MNLD_INTERNAL_BUFF_SIZE 0)
     in if read_len \<le> 0 then Some (-1, s, c)
     else do {
       (cmd, b) \<leftarrow> get_int (cursor mem);
       (case main2gps_event_of cmd of
          Some MAIN2GPS_EVENT_START \<Rightarrow> do {
            (flags, b) \<leftarrow> get_int b;
            Some (0, s, snd (mnld_gps_start ans (mtk_gps_get_gps_user s) flags c)) }
        | Some MAIN2GPS_EVENT_STOP \<Rightarrow> do {
            (r, s, c) \<leftarrow> mnld_gps_stop ans (s, c);
            Some (0, s, c) }
        | Some MAIN2GPS_DELETE_AIDING_DATA \<Rightarrow> do {
            (flags, b) \<leftarrow> get_int b;
            (r, c) \<leftarrow> mnld_gps_delete_aiding_data flags c;
            Some (0, s, c) }
        | Some GPS2GPS_NMEA_DATA_TIMEOUT \<Rightarrow> Some (0, mnld_gps_controller_mnl_nmea_timeout e s, c)
        | None \<Rightarrow> Some (-1, s, c)) })"

section \<open>What the thread does with a request\<close>

lemma ctl_kern_simps [simp]:
  "ctl_kern (ctl_do x c) = ctl_kern c"
  "ctl_kern (snd (mnl_set_pwrctl ans b c)) = ctl_kern c"
  "ctl_kern (snd (mnl_set_state ans b c)) = ctl_kern c"
  "ctl_kern (snd (mnld_gps_stop_impl ans c)) = ctl_kern c"
  "ctl_kern (snd (mnld_gps_start_impl ans u c)) = ctl_kern c"
  by (simp_all add: ctl_do_def mnl_set_pwrctl_def mnl_set_state_def mnld_gps_stop_impl_def mnld_gps_start_impl_def Let_def)

lemma ctl_kern_start [simp]: "ctl_kern (snd (mnld_gps_start ans u f c)) = ctl_kern c"
  by (simp add: mnld_gps_start_def Let_def case_prod_beta)

lemma stop_impl_err [simp]: "fst (mnld_gps_stop_impl ans c) = ans Sys_uninit"
  by (simp add: mnld_gps_stop_impl_def Let_def)

lemma ctl_ksend_main:
  "main_fits m \<Longrightarrow> (\<And>k. f k = main_send m k) \<Longrightarrow>
     ctl_ksend f c = Some (c\<lparr>ctl_kern := sent MNLD_MAIN_SOCKET (main_wire m) (ctl_kern c)\<rparr>)"
  by (simp add: ctl_ksend_def main_send_transmit transmit_alt)

lemma ctl_ksend_fixed:
  "ctl_ksend mnld_gps_stop_done c = Some (c\<lparr>ctl_kern := sent MNLD_MAIN_SOCKET (main_wire E_stop_done) (ctl_kern c)\<rparr>)"
  "ctl_ksend mnld_gps_reset_done c = Some (c\<lparr>ctl_kern := sent MNLD_MAIN_SOCKET (main_wire E_reset_done) (ctl_kern c)\<rparr>)"
  by (rule ctl_ksend_main; simp)+

text \<open>The state of the thread after a stop: the acknowledgement is sent when libmnl shut down cleanly.\<close>

definition stopped_ctl :: "(ctl_call \<Rightarrow> int) \<Rightarrow> gps_ctl \<Rightarrow> gps_ctl" where
  "stopped_ctl ans c =
     (let c = snd (mnld_gps_stop_impl ans c)
      in if ans Sys_uninit \<noteq> 0 then c
         else let c = snd (mnl_set_state ans MNL_GPS_STATE_PWROFF (snd (mnl_set_pwrctl ans GPS_PWRCTL_OFF c)))
              in c\<lparr>ctl_kern := sent MNLD_MAIN_SOCKET (main_wire E_stop_done) (ctl_kern c)\<rparr>)"

definition reset_ctl :: "i32 \<Rightarrow> gps_ctl \<Rightarrow> gps_ctl" where
  "reset_ctl f c =
     (let c = ctl_do (Set_param_restart (restart_type_of f)) c
      in c\<lparr>ctl_kern := sent MNLD_MAIN_SOCKET (main_wire E_reset_done) (ctl_kern c)\<rparr>)"

lemma mnld_gps_stop_eq:
  "mnld_gps_stop ans (s, c) = Some (ans Sys_uninit, mnld_gps_stop_nmea_monitor s, stopped_ctl ans c)"
  by (simp add: mnld_gps_stop_def stopped_ctl_def Let_def ctl_ksend_fixed case_prod_beta del: main_wire.simps)

lemma mnld_gps_delete_aiding_data_eq: "mnld_gps_delete_aiding_data f c = Some (0, reset_ctl f c)"
  by (simp add: mnld_gps_delete_aiding_data_def reset_ctl_def Let_def ctl_ksend_fixed)

lemma ctl_kern_ack:
  "ctl_kern (stopped_ctl ans c)
     = (if ans Sys_uninit \<noteq> 0 then ctl_kern c else sent MNLD_MAIN_SOCKET (main_wire E_stop_done) (ctl_kern c))"
  "ctl_kern (reset_ctl f c) = sent MNLD_MAIN_SOCKET (main_wire E_reset_done) (ctl_kern c)"
  by (simp_all add: stopped_ctl_def reset_ctl_def Let_def)

primrec c_dispatch :: "(ctl_call \<Rightarrow> int) \<Rightarrow> ctl_msg \<Rightarrow> mnld \<times> gps_ctl \<Rightarrow> (int \<times> mnld \<times> gps_ctl) option" where
  "c_dispatch ans (C_start f) = (\<lambda>(s, c). Some (0, s, snd (mnld_gps_start ans (mtk_gps_get_gps_user s) f c)))"
| "c_dispatch ans C_stop = (\<lambda>(s, c). Some (0, mnld_gps_stop_nmea_monitor s, stopped_ctl ans c))"
| "c_dispatch ans (C_reset f) = (\<lambda>(s, c). Some (0, s, reset_ctl f c))"

lemma ctl_wire_length: "length (ctl_wire m) \<le> 8" "ctl_wire m \<noteq> []"
  by (cases m; simp add: enc_int_def)+

lemma gps_control_event_hdlr_refines:
  assumes "recvfrom_loop rx 10 = Some (ctl_wire m)"
  shows "gps_control_event_hdlr ans e rx sc = c_dispatch ans m sc"
proof -
  let ?pad = "replicate (MNLD_INTERNAL_BUFF_SIZE - length (ctl_wire m)) 0"
  have rx: "safe_recvfrom rx (replicate MNLD_INTERNAL_BUFF_SIZE 0) = (int (length (ctl_wire m)), ctl_wire m @ ?pad)"
    using assms ctl_wire_length [of m] by (simp add: wire_get MNLD_INTERNAL_BUFF_SIZE_def)
  have pos: "\<not> int (length (ctl_wire m)) \<le> 0" using ctl_wire_length [of m] by simp
  show ?thesis
    unfolding gps_control_event_hdlr_def rx Let_def prod.case if_not_P [OF pos] cursor_rd
    by (cases m)
      (auto simp: wire_get mnld_gps_stop_eq mnld_gps_delete_aiding_data_eq split: prod.split
        simp del: main2gps_code.simps replicate.simps)
qed

interpretation ct: channel MNLD_GPS_CONTROL_SOCKET ctl_wire "\<lambda>_. True" "\<lambda>_. True" "\<lambda>m. int (length (ctl_wire m))"
    ctl_send "\<lambda>rx. gps_control_event_hdlr ans e rx" "c_dispatch ans" for ans e
  by unfold_locales (simp_all add: ctl_send_transmit transmit_alt gps_control_event_hdlr_refines)

end
