(* ===== verification/Mnld_System.thy ===== *)
theory Mnld_System
  imports Mnld_Dispatch Gps_Controller
begin

text \<open>
  The daemon as a whole: the main thread, the GPS control thread, and the threads of libmnl and of the
  downloaders, which only post events. Each side has its own view of the kernel (\<open>kern\<close> of the main
  thread, \<open>ctl_kern\<close> of all others); what one side got delivered to a socket is the queue of the other,
  read in order. \<open>sys_step\<close> is one step of any participant, \<open>reachable\<close> the states after start-up and any
  interleaving of steps, and the invariant ties the two queues to the state machine: an unread
  acknowledgement of a stop exists only while the machine waits for it.
\<close>

section \<open>The control thread and any datagram\<close>

lemma recv_any:
  assumes "8 \<le> N"
  obtains mem where "safe_recvfrom [Datagram d] (replicate N 0) = (int (min N (length d)), mem)"
    "length mem = N" "field_int (take 4 mem) 0 = head_int d"
proof -
  let ?mem = "take N d @ drop (min (length d) N) (replicate N 0)"
  have "take 4 ?mem = take 4 (d @ replicate 4 0)"
    using assms by (cases "length d \<le> 4") (simp_all add: min_def)
  then have "field_int (take 4 ?mem) 0 = head_int d"
    unfolding head_int_def by (subst (2) field_int_take) simp_all
  moreover have "safe_recvfrom [Datagram d] (replicate N 0) = (int (min N (length d)), ?mem)"
    by (simp add: safe_recvfrom_def Let_def min.commute)
  moreover have "length ?mem = N" by simp
  ultimately show thesis using that by blast
qed

lemma nmea_monitor_inv:
  assumes "fsm_inv n h s"
  shows "fsm_inv n h (mnld_gps_stop_nmea_monitor s)" "fsm_inv n h (mnld_gps_controller_mnl_nmea_timeout e s)"
  using assms
  by (auto simp: mnld_gps_stop_nmea_monitor_def mnld_gps_controller_mnl_nmea_timeout_def inv_defs stop_timer_def
      start_timer_other)

lemma nmea_monitor_slog [simp]:
  "slog (kern (mnld_gps_stop_nmea_monitor s)) = slog (kern s)"
  "slog (kern (mnld_gps_controller_mnl_nmea_timeout e s)) = slog (kern s)"
  by (simp_all add: mnld_gps_stop_nmea_monitor_def mnld_gps_controller_mnl_nmea_timeout_def)

definition ctl_acks :: "byte list \<Rightarrow> main_msg list" where
  "ctl_acks d = (if main2gps_event_of (head_int d) = Some MAIN2GPS_EVENT_STOP then [E_stop_done, E_reset_done] else [E_reset_done])"

lemma ctl_hdlr_any:
  "\<exists>r s' c'. gps_control_event_hdlr ans e [Datagram d] (s, c) = Some (r, s', c')
     \<and> (fsm_inv n h s \<longrightarrow> fsm_inv n h s') \<and> slog (kern s') = slog (kern s)
     \<and> (ctl_kern c' = ctl_kern c
        \<or> (\<exists>m \<in> set (ctl_acks d). ctl_kern c' = sent MNLD_MAIN_SOCKET (main_wire m) (ctl_kern c)))"
proof -
  obtain mem where rx: "safe_recvfrom [Datagram d] (replicate MNLD_INTERNAL_BUFF_SIZE 0)
      = (int (min MNLD_INTERNAL_BUFF_SIZE (length d)), mem)"
    and len: "length mem = MNLD_INTERNAL_BUFF_SIZE" and hd: "field_int (take 4 mem) 0 = head_int d"
    using recv_any [of MNLD_INTERNAL_BUFF_SIZE d] by (auto simp: MNLD_INTERNAL_BUFF_SIZE_def)
  have g: "get_int (cursor mem) = Some (head_int d, rd (take 4 mem) (drop 4 mem))"
    using len hd by (simp add: cursor_rd get_int_take MNLD_INTERNAL_BUFF_SIZE_def)
  have g2: "\<exists>v b. get_int (rd (take 4 mem) (drop 4 mem)) = Some (v, b)"
    using len by (simp add: get_int_take MNLD_INTERNAL_BUFF_SIZE_def)
  show ?thesis
  proof (cases "length d = 0")
    case True
    with rx show ?thesis by (simp add: gps_control_event_hdlr_def)
  next
    case False
    then have pos: "\<not> int (min MNLD_INTERNAL_BUFF_SIZE (length d)) \<le> 0"
      by (simp add: MNLD_INTERNAL_BUFF_SIZE_def)
    show ?thesis
      using g2 nmea_monitor_inv [of n h s]
      unfolding gps_control_event_hdlr_def Let_def prod.case rx if_not_P [OF pos] g
      by (auto simp: mnld_gps_stop_eq mnld_gps_delete_aiding_data_eq ctl_acks_def ctl_kern_ack
          simp del: main_wire.simps split: option.split main2gps_event.split)
  qed
qed


section \<open>The composed daemon\<close>

record daemon =
  main :: mnld
  ctl :: gps_ctl
  main_read :: nat
  ctl_read :: nat
  notify_read :: nat

definition main_inbox :: "daemon \<Rightarrow> byte list list" where
  "main_inbox d = inbox MNLD_MAIN_SOCKET (ctl_kern (ctl d))"

definition ctl_inbox :: "daemon \<Rightarrow> byte list list" where
  "ctl_inbox d = inbox MNLD_GPS_CONTROL_SOCKET (kern (main d))"

definition notify_inbox :: "daemon \<Rightarrow> byte list list" where
  "notify_inbox d = inbox MNLD_GPS_CONTROL_SOCKET (ctl_kern (ctl d))"

datatype sys_event =
    Hal_says hal2mnl_msg | Agps_says agps2mnl_msg | Flp_says "rx_ans list" | Flp_test_says "rx_ans list"
  | At_start | At_stop | Main_reads | Ctl_reads | Ctl_reads_notify | Posts main_msg | Engine_notifies bool

primrec sys_step :: "mnld_env \<Rightarrow> (nat \<Rightarrow> byte) \<Rightarrow> (ctl_call \<Rightarrow> int) \<Rightarrow> sys_event \<Rightarrow> daemon \<Rightarrow> daemon option" where
  "sys_step e junk ans (Hal_says m) d =
     map_option (\<lambda>s. d\<lparr>main := s\<rparr>) (main_dispatch e junk (In_hal [Datagram (h2m_wire m)]) (main d))"
| "sys_step e junk ans (Agps_says m) d =
     map_option (\<lambda>s. d\<lparr>main := s\<rparr>) (main_dispatch e junk (In_agps [Datagram (a2m_wire m)]) (main d))"
| "sys_step e junk ans (Flp_says rx) d = map_option (\<lambda>s. d\<lparr>main := s\<rparr>) (main_dispatch e junk (In_flp rx) (main d))"
| "sys_step e junk ans (Flp_test_says rx) d =
     map_option (\<lambda>s. d\<lparr>main := s\<rparr>) (main_dispatch e junk (In_flp_test rx) (main d))"
| "sys_step e junk ans At_start d = map_option (\<lambda>s. d\<lparr>main := s\<rparr>) (main_dispatch e junk In_at_start (main d))"
| "sys_step e junk ans At_stop d = map_option (\<lambda>s. d\<lparr>main := s\<rparr>) (main_dispatch e junk In_at_stop (main d))"
| "sys_step e junk ans Main_reads d =
     (if main_read d < length (main_inbox d)
      then map_option (\<lambda>s. d\<lparr>main := s, main_read := Suc (main_read d)\<rparr>)
             (main_dispatch e junk (In_int [Datagram (main_inbox d ! main_read d)]) (main d))
      else Some d)"
| "sys_step e junk ans Ctl_reads d =
     (if ctl_read d < length (ctl_inbox d)
      then map_option (\<lambda>(r, s, c). d\<lparr>main := s, ctl := c, ctl_read := Suc (ctl_read d)\<rparr>)
             (gps_control_event_hdlr ans e [Datagram (ctl_inbox d ! ctl_read d)] (main d, ctl d))
      else Some d)"
| "sys_step e junk ans Ctl_reads_notify d =
     (if notify_read d < length (notify_inbox d)
      then map_option (\<lambda>(r, s, c). d\<lparr>main := s, ctl := c, notify_read := Suc (notify_read d)\<rparr>)
             (gps_control_event_hdlr ans e [Datagram (notify_inbox d ! notify_read d)] (main d, ctl d))
      else Some d)"
| "sys_step e junk ans (Posts m) d = map_option (\<lambda>c. d\<lparr>ctl := c\<rparr>) (ctl_ksend (main_send m) (ctl d))"
| "sys_step e junk ans (Engine_notifies quiet) d =
     map_option (\<lambda>(r, c). d\<lparr>ctl := c\<rparr>) (send_active_notify quiet (main d) (ctl d))"

fun admissible :: "sys_event \<Rightarrow> bool" where
  "admissible (Hal_says m) = (h2m_fits m \<and> h2m_safe m \<and> relay_fits m)"
| "admissible (Agps_says m) = (a2m_fits m \<and> a2m_safe m)"
| "admissible (Posts m) = (main_fits m \<and> m \<noteq> E_stop_done)"
| "admissible _ = True"

definition dones :: "byte list list \<Rightarrow> int" where
  "dones l = int (length (filter (\<lambda>x. x = main_wire E_stop_done) l))"

definition stops :: "byte list list \<Rightarrow> int" where
  "stops l = int (length (filter (\<lambda>x. main2gps_event_of (head_int x) = Some MAIN2GPS_EVENT_STOP) l))"

definition queue_inv :: "int \<Rightarrow> daemon \<Rightarrow> bool" where
  "queue_inv n d =
     (main_read d \<le> length (main_inbox d) \<and> ctl_read d \<le> length (ctl_inbox d)
      \<and> (\<forall>x \<in> set (main_inbox d). \<exists>m. main_fits m \<and> x = main_wire m)
      \<and> (\<forall>x \<in> set (notify_inbox d). main2gps_event_of (head_int x) \<noteq> Some MAIN2GPS_EVENT_STOP)
      \<and> n = dones (take (main_read d) (main_inbox d))
      \<and> dones (main_inbox d) \<le> stops (take (ctl_read d) (ctl_inbox d)))"

definition sys_inv :: "daemon \<Rightarrow> bool" where
  "sys_inv d = (\<exists>n. fsm_inv n [] (main d) \<and> queue_inv n d)"

lemma dones_simps [simp]: "dones [] = 0" "dones (x # l) = of_bool (x = main_wire E_stop_done) + dones l"
  "dones (l @ l') = dones l + dones l'" "0 \<le> dones l"
  by (simp_all add: dones_def del: main_wire.simps)

lemma stops_simps [simp]: "stops [] = 0" "stops (l @ l') = stops l + stops l'" "0 \<le> stops l"
  "stops (x # l) = of_bool (main2gps_event_of (head_int x) = Some MAIN2GPS_EVENT_STOP) + stops l"
  by (simp_all add: stops_def)

lemma stops_take_le: "stops (take i l) \<le> stops l"
  using stops_simps(2) [of "take i l" "drop i l"] by simp

lemma dones_take_le: "dones (take i l) \<le> dones l"
  using dones_simps(3) [of "take i l" "drop i l"] by simp

lemma stops_sent: "stops (inbox MNLD_GPS_CONTROL_SOCKET k) \<le> ctl_count MAIN2GPS_EVENT_STOP (sends k)"
proof -
  have "stops (map snd (filter (\<lambda>(p, d). p = MNLD_GPS_CONTROL_SOCKET) (map (\<lambda>(p, d, a). (p, d)) (filter (\<lambda>(p, d, a). a) l))))
     \<le> ctl_count MAIN2GPS_EVENT_STOP (map (\<lambda>(p, d, a). (p, d)) l)" for l
    by (induction l) (auto simp: ctl_count_def)
  then show ?thesis by (simp add: inbox_def delivered_def sends_def)
qed

lemma prefix_inbox: "prefix (slog k) (slog k') \<Longrightarrow> prefix (inbox p k) (inbox p k')"
  by (auto simp: prefix_def inbox_def delivered_def)

lemma sys_main_step:
  assumes inv: "sys_inv d"
    and f: "\<And>n h. fsm_inv n h (main d) \<Longrightarrow> \<exists>s'. r = Some s' \<and> fsm_inv n h s'"
  shows "\<exists>d'. map_option (\<lambda>s. d\<lparr>main := s\<rparr>) (r) = Some d' \<and> sys_inv d'"
proof -
  from inv obtain n where n: "fsm_inv n [] (main d)" and q: "queue_inv n d" by (auto simp: sys_inv_def)
  then have "fsm_inv n (slog (kern (main d))) (main d)" by (simp add: fsm_inv_def)
  from f [OF this] obtain s' where s': "r = Some s'" "fsm_inv n (slog (kern (main d))) s'" by blast
  then have "fsm_inv n [] s'" and "prefix (slog (kern (main d))) (slog (kern s'))" by (auto simp: fsm_inv_def)
  moreover from this(2) obtain x where "inbox MNLD_GPS_CONTROL_SOCKET (kern s') = ctl_inbox d @ x"
    using prefix_inbox unfolding ctl_inbox_def prefix_def by meson
  with q have "queue_inv n (d\<lparr>main := s'\<rparr>)"
    by (auto simp: queue_inv_def main_inbox_def ctl_inbox_def notify_inbox_def)
  ultimately show ?thesis using s' by (auto simp: sys_inv_def)
qed

lemma take_Suc_nth: "i < length l \<Longrightarrow> take (Suc i) l = take i l @ [l ! i]"
  by (rule take_Suc_conv_app_nth)

lemma stop_done_expected:
  assumes "fsm_inv n [] (main d)" "queue_inv n d" "main_read d < length (main_inbox d)"
    and "main_inbox d ! main_read d = main_wire E_stop_done"
  shows "state_of (main d) = MNLD_GPS_STATE_STOPPING"
proof -
  have "n + 1 = dones (take (Suc (main_read d)) (main_inbox d))"
    using assms by (simp add: queue_inv_def take_Suc_nth del: main_wire.simps)
  also have "\<dots> \<le> stops (take (ctl_read d) (ctl_inbox d))"
    using assms(2) dones_take_le [of "Suc (main_read d)" "main_inbox d"] by (simp add: queue_inv_def)
  also have "\<dots> \<le> engine_stops (main d)"
    using stops_take_le [of "ctl_read d" "ctl_inbox d"] stops_sent [of "kern (main d)"]
    by (simp add: ctl_inbox_def engine_stops_def)
  finally show ?thesis using assms(1)
    by (cases "state_of (main d) = MNLD_GPS_STATE_STOPPING") (simp_all add: fsm_inv_def)
qed

lemma sys_main_reads:
  assumes inv: "sys_inv d"
  shows "\<exists>d'. sys_step e junk ans Main_reads d = Some d' \<and> sys_inv d'"
proof (cases "main_read d < length (main_inbox d)")
  case False
  then show ?thesis using inv by simp
next
  case True
  from inv obtain n where n: "fsm_inv n [] (main d)" and q: "queue_inv n d" by (auto simp: sys_inv_def)
  from q True obtain m where m: "main_fits m" "main_inbox d ! main_read d = main_wire m"
    unfolding queue_inv_def using nth_mem by blast
  let ?n = "n + of_bool (m = E_stop_done)"
  from n have n': "fsm_inv n (slog (kern (main d))) (main d)" by (simp add: fsm_inv_def)
  have "\<exists>s'. e_dispatch e m (main d) = Some s' \<and> fsm_inv ?n (slog (kern (main d))) s'"
  proof (cases "m = E_stop_done")
    case True
    with stop_done_expected [OF n q \<open>main_read d < _\<close>] m e_dispatch_stop_inv [OF n'] show ?thesis by simp
  next
    case False
    with e_dispatch_inv [OF n'] show ?thesis by simp
  qed
  then obtain s' where s': "e_dispatch e m (main d) = Some s'" "fsm_inv ?n (slog (kern (main d))) s'" by blast
  then have i: "fsm_inv ?n [] s'" and "prefix (slog (kern (main d))) (slog (kern s'))" by (auto simp: fsm_inv_def)
  from this(2) obtain x where "inbox MNLD_GPS_CONTROL_SOCKET (kern s') = ctl_inbox d @ x"
    using prefix_inbox unfolding ctl_inbox_def prefix_def by meson
  with q True m have "queue_inv ?n (d\<lparr>main := s', main_read := Suc (main_read d)\<rparr>)"
    by (simp add: queue_inv_def main_inbox_def ctl_inbox_def notify_inbox_def take_Suc_nth main_wire_stop
        del: main_wire.simps)
  with i s' m True show ?thesis
    by (auto simp: sys_inv_def main_event_hdlr_refines)
qed

lemma inbox_sent_main:
  "inbox MNLD_MAIN_SOCKET (sent MNLD_MAIN_SOCKET x k) = inbox MNLD_MAIN_SOCKET k \<or>
   inbox MNLD_MAIN_SOCKET (sent MNLD_MAIN_SOCKET x k) = inbox MNLD_MAIN_SOCKET k @ [x]"
  by simp

text \<open>A message of another thread reaches the main socket or is lost.\<close>

lemma queue_inv_post:
  assumes q: "queue_inv n d" and m: "main_fits m" "m \<noteq> E_stop_done"
    and c: "ctl_kern c = ctl_kern (ctl d) \<or> ctl_kern c = sent MNLD_MAIN_SOCKET (main_wire m) (ctl_kern (ctl d))"
  shows "queue_inv n (d\<lparr>ctl := c\<rparr>)"
  using c
proof
  assume "ctl_kern c = ctl_kern (ctl d)"
  with q show ?thesis by (simp add: queue_inv_def main_inbox_def ctl_inbox_def notify_inbox_def)
next
  assume "ctl_kern c = sent MNLD_MAIN_SOCKET (main_wire m) (ctl_kern (ctl d))"
  with q m show ?thesis
    by (auto simp: queue_inv_def main_inbox_def ctl_inbox_def notify_inbox_def main_wire_stop simp del: main_wire.simps)
qed

lemma ctl_step_queue:
  assumes q: "queue_inv n d" and s: "slog (kern s) = slog (kern (main d))"
    and c: "ctl_kern c = ctl_kern (ctl d)
        \<or> (\<exists>m \<in> set (ctl_acks x). ctl_kern c = sent MNLD_MAIN_SOCKET (main_wire m) (ctl_kern (ctl d)))"
    and r: "r \<le> length (ctl_inbox d)"
      "stops (take (ctl_read d) (ctl_inbox d)) + of_bool (main2gps_event_of (head_int x) = Some MAIN2GPS_EVENT_STOP)
         \<le> stops (take r (ctl_inbox d))"
  shows "queue_inv n (d\<lparr>main := s, ctl := c, ctl_read := r, notify_read := v\<rparr>)"
proof -
  from s have i: "inbox p (kern s) = inbox p (kern (main d))" for p by (simp add: inbox_def delivered_def)
  let ?n = "stops (take (ctl_read d) (ctl_inbox d))" and ?n' = "stops (take r (ctl_inbox d))"
  have le: "?n \<le> ?n'" and lt: "main2gps_event_of (head_int x) = Some MAIN2GPS_EVENT_STOP \<Longrightarrow> ?n + 1 \<le> ?n'"
    using r(2) by (auto simp: of_bool_def split: if_splits)
  have *: "main2gps_event_of (head_int x) = Some MAIN2GPS_EVENT_STOP" if "E_stop_done \<in> set (ctl_acks x)"
    using that by (simp add: ctl_acks_def split: if_splits)
  have "m = E_stop_done \<or> m = E_reset_done" if "m \<in> set (ctl_acks x)" for m
    using that by (auto simp: ctl_acks_def split: if_splits)
  with c consider (same) "ctl_kern c = ctl_kern (ctl d)"
    | (reset) "ctl_kern c = sent MNLD_MAIN_SOCKET (main_wire E_reset_done) (ctl_kern (ctl d))"
    | (stop) "ctl_kern c = sent MNLD_MAIN_SOCKET (main_wire E_stop_done) (ctl_kern (ctl d))"
        "main2gps_event_of (head_int x) = Some MAIN2GPS_EVENT_STOP"
    using * by blast
  then show ?thesis
  proof cases
    case same
    with q r(1) le show ?thesis by (simp add: queue_inv_def main_inbox_def ctl_inbox_def notify_inbox_def i)
  next
    case reset
    with q r(1) le show ?thesis
      by (auto simp: queue_inv_def main_inbox_def ctl_inbox_def notify_inbox_def i main_wire_stop
          intro!: exI [of _ E_reset_done] simp del: main_wire.simps)
  next
    case stop
    with q r(1) lt show ?thesis
      by (auto simp: queue_inv_def main_inbox_def ctl_inbox_def notify_inbox_def i
          intro!: exI [of _ E_stop_done] simp del: main_wire.simps)
  qed
qed

lemma sys_ctl_reads:
  assumes inv: "sys_inv d"
  shows "\<exists>d'. sys_step e junk ans Ctl_reads d = Some d' \<and> sys_inv d'"
proof (cases "ctl_read d < length (ctl_inbox d)")
  case False
  then show ?thesis using inv by simp
next
  case True
  let ?x = "ctl_inbox d ! ctl_read d"
  from inv obtain n where n: "fsm_inv n [] (main d)" and q: "queue_inv n d" by (auto simp: sys_inv_def)
  from ctl_hdlr_any [of ans e ?x "main d" "ctl d" n "[]"] obtain r s c where
    h: "gps_control_event_hdlr ans e [Datagram ?x] (main d, ctl d) = Some (r, s, c)"
      "fsm_inv n [] s" "slog (kern s) = slog (kern (main d))"
      "ctl_kern c = ctl_kern (ctl d)
        \<or> (\<exists>m \<in> set (ctl_acks ?x). ctl_kern c = sent MNLD_MAIN_SOCKET (main_wire m) (ctl_kern (ctl d)))"
    using n by blast
  have "queue_inv n (d\<lparr>main := s, ctl := c, ctl_read := Suc (ctl_read d), notify_read := notify_read d\<rparr>)"
    by (rule ctl_step_queue [OF q h(3,4)]) (use True in \<open>simp_all add: take_Suc_nth\<close>)
  with h True show ?thesis by (auto simp: sys_inv_def)
qed

lemma sys_ctl_reads_notify:
  assumes inv: "sys_inv d"
  shows "\<exists>d'. sys_step e junk ans Ctl_reads_notify d = Some d' \<and> sys_inv d'"
proof (cases "notify_read d < length (notify_inbox d)")
  case False
  then show ?thesis using inv by simp
next
  case True
  let ?x = "notify_inbox d ! notify_read d"
  from inv obtain n where n: "fsm_inv n [] (main d)" and q: "queue_inv n d" by (auto simp: sys_inv_def)
  then have x: "main2gps_event_of (head_int ?x) \<noteq> Some MAIN2GPS_EVENT_STOP"
    using True by (simp add: queue_inv_def)
  from ctl_hdlr_any [of ans e ?x "main d" "ctl d" n "[]"] obtain r s c where
    h: "gps_control_event_hdlr ans e [Datagram ?x] (main d, ctl d) = Some (r, s, c)"
      "fsm_inv n [] s" "slog (kern s) = slog (kern (main d))"
      "ctl_kern c = ctl_kern (ctl d)
        \<or> (\<exists>m \<in> set (ctl_acks ?x). ctl_kern c = sent MNLD_MAIN_SOCKET (main_wire m) (ctl_kern (ctl d)))"
    using n by blast
  have "queue_inv n (d\<lparr>main := s, ctl := c, ctl_read := ctl_read d, notify_read := Suc (notify_read d)\<rparr>)"
    by (rule ctl_step_queue [OF q h(3,4)]) (use q x in \<open>simp_all add: queue_inv_def\<close>)
  with h True show ?thesis by (auto simp: sys_inv_def)
qed

lemma sys_posts:
  assumes "sys_inv d" "main_fits m" "m \<noteq> E_stop_done"
  shows "\<exists>d'. sys_step e junk ans (Posts m) d = Some d' \<and> sys_inv d'"
proof -
  let ?c = "(ctl d)\<lparr>ctl_kern := sent MNLD_MAIN_SOCKET (main_wire m) (ctl_kern (ctl d))\<rparr>"
  have "ctl_ksend (main_send m) (ctl d) = Some ?c" by (rule ctl_ksend_main [OF assms(2)]) simp
  moreover have "queue_inv n d \<Longrightarrow> queue_inv n (d\<lparr>ctl := ?c\<rparr>)" for n
    by (erule queue_inv_post [OF _ assms(2,3)]) simp
  ultimately show ?thesis using assms(1) by (auto simp: sys_inv_def)
qed

lemma send_active_notify_eq:
  "\<exists>r c'. send_active_notify quiet s c = Some (r, c') \<and>
     (c' = c \<or> c' = c\<lparr>ctl_kern := sent MNLD_GPS_CONTROL_SOCKET (enc_int (main2gps_code GPS2GPS_NMEA_DATA_TIMEOUT)) (ctl_kern c)\<rparr>)"
  by (auto simp: send_active_notify_def Let_def fresh_wr wire_put transmit_alt simp del: main2gps_code.simps)

lemma sys_notifies:
  assumes "sys_inv d"
  shows "\<exists>d'. sys_step e junk ans (Engine_notifies quiet) d = Some d' \<and> sys_inv d'"
proof -
  let ?c = "(ctl d)\<lparr>ctl_kern := sent MNLD_GPS_CONTROL_SOCKET (enc_int (main2gps_code GPS2GPS_NMEA_DATA_TIMEOUT)) (ctl_kern (ctl d))\<rparr>"
  have "queue_inv n d \<Longrightarrow> queue_inv n (d\<lparr>ctl := ?c\<rparr>)" for n
    by (auto simp: queue_inv_def main_inbox_def ctl_inbox_def notify_inbox_def simp del: main2gps_code.simps)
  then have "sys_inv (d\<lparr>ctl := ?c\<rparr>)" using assms by (auto simp: sys_inv_def simp del: main2gps_code.simps)
  then show ?thesis
    using assms send_active_notify_eq [of quiet "main d" "ctl d"] by (auto simp del: main2gps_code.simps)
qed

lemma sys_step_inv:
  assumes "sys_inv d" "admissible ev"
  shows "\<exists>d'. sys_step e junk ans ev d = Some d' \<and> sys_inv d'"
proof (cases ev)
  case (Hal_says m)
  with assms(2) have m: "h2m_fits m" "h2m_safe m" "relay_fits m" by simp_all
  have "\<exists>s'. main_dispatch e junk (In_hal [Datagram (h2m_wire m)]) (main d) = Some s' \<and> fsm_inv n h s'"
    if "fsm_inv n h (main d)" for n h
    using hal_dispatch_inv [OF that m(3), of e] m by (auto simp: hal2mnl_hdlr_refines)
  from sys_main_step [OF assms(1) this] Hal_says show ?thesis by simp
next
  case (Agps_says m)
  with assms(2) have m: "a2m_fits m" "a2m_safe m" by simp_all
  have "\<exists>s'. main_dispatch e junk (In_agps [Datagram (a2m_wire m)]) (main d) = Some s' \<and> fsm_inv n h s'"
    if "fsm_inv n h (main d)" for n h
    using agps_dispatch_inv [OF that m, of e] m by (simp add: agps2mnl_hdlr_refines)
  from sys_main_step [OF assms(1) this] Agps_says show ?thesis by simp
next
  case (Flp_says rx)
  from sys_main_step [OF assms(1) flp_dispatch_inv] Flp_says show ?thesis by simp
next
  case (Flp_test_says rx)
  from sys_main_step [OF assms(1) flp_test_dispatch_inv] Flp_test_says show ?thesis by simp
next
  case At_start
  from sys_main_step [OF assms(1) at_dispatch_inv(1)] At_start show ?thesis by simp
next
  case At_stop
  from sys_main_step [OF assms(1) at_dispatch_inv(2)] At_stop show ?thesis by simp
qed (use assms sys_main_reads sys_ctl_reads sys_ctl_reads_notify sys_posts sys_notifies in auto)

lemma mnld_init_eq:
  assumes "mnld_init new t1 t2 t3 t4 (mnld_zero k) = Some (0, s)"
  shows "\<exists>f. s = emits [to_hal M_mnld_reboot, to_agps G_mnl_reboot, to_flp flp_reboot_msg]
     ((mnld_zero k)\<lparr>fds := f, gps := (gps (mnld_zero k))\<lparr>timer_start := t1, timer_stop := t2, timer_reset := t3,
        timer_nmea_monitor := t4\<rparr>\<rparr>)"
  using assms by (auto simp: mnld_init_def Let_def ksend_fixed emits_3 simp del: emits_simps split: if_splits)

lemma mnld_init_inv:
  assumes "mnld_init new t1 t2 t3 t4 (mnld_zero k) = Some (0, s)" "distinct [t1, t2, t3, t4]"
    and "sends k = []" "timers k = (\<lambda>_. None)"
  shows "fsm_inv 0 [] s"
proof -
  from mnld_init_eq [OF assms(1)] obtain f where
    s: "s = emits [to_hal M_mnld_reboot, to_agps G_mnl_reboot, to_flp flp_reboot_msg]
     ((mnld_zero k)\<lparr>fds := f, gps := (gps (mnld_zero k))\<lparr>timer_start := t1, timer_stop := t2, timer_reset := t3,
        timer_nmea_monitor := t4\<rparr>\<rparr>)" by blast
  show ?thesis
    unfolding s by (rule fsm_inv_emits)
      (use assms(2-4) in \<open>auto simp: inv_defs mnld_zero_def ofl_statics_init_def\<close>)
qed

inductive reachable :: "daemon \<Rightarrow> bool" where
  start: "reachable \<lparr>main = s, ctl = c, main_read = 0, ctl_read = 0, notify_read = 0\<rparr>"
    if "mnld_init new t1 t2 t3 t4 (mnld_zero k) = Some (0, s)" "distinct [t1, t2, t3, t4]"
      "sends k = []" "timers k = (\<lambda>_. None)" "sends (ctl_kern c) = []"
| step: "reachable d'" if "reachable d" "admissible ev" "sys_step e junk ans ev d = Some d'"

lemma inbox_empty: "sends k = [] \<Longrightarrow> inbox p k = []"
  by (simp add: sends_def inbox_def delivered_def)

lemma reachable_inv: "reachable d \<Longrightarrow> sys_inv d"
proof (induction rule: reachable.induct)
  case (start new t1 t2 t3 t4 k s c)
  then show ?case
    using mnld_init_inv [OF start(1-4)] inbox_empty [OF start(5)]
    by (auto simp: sys_inv_def queue_inv_def main_inbox_def notify_inbox_def intro!: exI [of _ 0])
next
  case (step d ev e junk ans d')
  then show ?case using sys_step_inv [of d ev e junk ans] by auto
qed

end
