(* ===== verification/Hal_Link.thy ===== *)
theory Hal_Link
  imports Hal_Worker Mnld_System
begin

text \<open>
  The HAL module and the daemon together, through the commands of the framework and through restarts of the
  daemon: a specification of what the two agree on, and the proof that they implement it.
\<close>

section \<open>The pair\<close>

text \<open>
  A command of the framework, or a new daemon process that announces itself. What the HAL hands over is handled by the
  daemon before the next event.
\<close>

datatype link_event =
    Fw_init cbs | Fw_start | Fw_stop | Fw_cleanup | Restart mnld_fds int int int int os

definition handed_over :: "(os \<Rightarrow> byte list list) \<Rightarrow> os \<Rightarrow> os \<Rightarrow> byte list list" where
  "handed_over box k k' = drop (length (box k)) (box k')"

definition pass_on :: "mnld_env \<Rightarrow> hal act \<Rightarrow> hal \<times> mnld \<Rightarrow> (hal \<times> mnld) option" where
  "pass_on de f p = do {
     h \<leftarrow> f (fst p);
     d \<leftarrow> run_all (\<lambda>rx. hal2mnl_hdlr rx (g_hal2mnl_interface de))
       (map (\<lambda>x. [Datagram x]) (handed_over (inbox MTK_HAL2MNL) (hker (fst p)) (hker h))) (snd p);
     Some (h, d) }"

primrec link_step :: "hal_env \<Rightarrow> mnld_env \<Rightarrow> link_event \<Rightarrow> hal \<times> mnld \<Rightarrow> (hal \<times> mnld) option" where
  "link_step he de (Fw_init c) = pass_on de (\<lambda>h. map_option snd (gpsinf_init he c h))"
| "link_step he de Fw_start = pass_on de gpsinf_start"
| "link_step he de Fw_stop = pass_on de gpsinf_stop"
| "link_step he de Fw_cleanup = pass_on de gpsinf_cleanup"
| "link_step he de (Restart new t1 t2 t3 t4 k) = (\<lambda>(h, d). do {
     (ret, d) \<leftarrow> mnld_init new t1 t2 t3 t4 (mnld_zero k);
     pass_on de (\<lambda>h. gpshal_worker_thread he (map (arrives h) (inbox MTK_MNL2HAL (kern d))) h) (h, d) })"

primrec link_run :: "hal_env \<Rightarrow> mnld_env \<Rightarrow> link_event list \<Rightarrow> hal \<times> mnld \<Rightarrow> (hal \<times> mnld) option" where
  "link_run he de [] p = Some p"
| "link_run he de (ev # evs) p = do { p \<leftarrow> link_step he de ev p; link_run he de evs p }"

section \<open>What they agree on\<close>

record session =
  wish :: gpshal_state
  serving :: bool
  prepared :: bool

primrec session_step :: "link_event \<Rightarrow> session \<Rightarrow> session" where
  "session_step (Fw_init c) a = \<lparr>wish = GPSHAL_STATE_INIT, serving = serving a, prepared = True\<rparr>"
| "session_step Fw_start a = \<lparr>wish = GPSHAL_STATE_START, serving = True, prepared = prepared a\<rparr>"
| "session_step Fw_stop a = \<lparr>wish = GPSHAL_STATE_STOP, serving = False, prepared = prepared a\<rparr>"
| "session_step Fw_cleanup a = \<lparr>wish = GPSHAL_STATE_CLEANUP, serving = serving a, prepared = False\<rparr>"
| "session_step (Restart new t1 t2 t3 t4 k) a =
     \<lparr>wish = wish a, serving = (wish a = GPSHAL_STATE_START), prepared = (wish a \<in> {GPSHAL_STATE_INIT, GPSHAL_STATE_STOP, GPSHAL_STATE_START})\<rparr>"

definition session_of :: "hal \<times> mnld \<Rightarrow> session" where
  "session_of p = \<lparr>wish = gps_state_intent (ctx (fst p)), serving = used (snd p) HAL, prepared = is_gps_init (gps (snd p))\<rparr>"

text \<open>The events considered: callbacks of the right size, and daemons that start on a kernel without backlog.\<close>

primrec sound_event :: "hal_env \<Rightarrow> link_event \<Rightarrow> bool" where
  "sound_event he (Fw_init c) = (c = Some (sizeof_GpsCallbacks (gh he)))"
| "sound_event he Fw_start = True"
| "sound_event he Fw_stop = True"
| "sound_event he Fw_cleanup = True"
| "sound_event he (Restart new t1 t2 t3 t4 k) =
     (list_all (\<lambda>fd. 0 \<le> fd new) [fd_agps, fd_hal, fd_flp, fd_flp_test, fd_at_cmd, fd_int, fd_mtklogger]
      \<and> list_all (\<lambda>t. t \<noteq> -1) [t1, t2, t3, t4] \<and> distinct [t1, t2, t3, t4]
      \<and> answers k = [] \<and> slog k = [] \<and> timers k = (\<lambda>_. None))"

definition sane_daemon :: "mnld \<Rightarrow> bool" where
  "sane_daemon d = (\<exists>n l. fsm_inv n l d)"

definition link_inv :: "hal \<times> mnld \<Rightarrow> bool" where
  "link_inv p = (case p of (h, d) \<Rightarrow>
     answers (hker h) = [] \<and> GPSHAL_STATE_RESOURCE \<le> gpshal_context_t.gps_state (ctx h) \<and> gps_state_intent (ctx h) \<noteq> GPSHAL_STATE_UNKNOWN
     \<and> gps_cbs (ctx h) \<noteq> None \<and> sane_daemon d
     \<and> (gpshal_context_t.gps_state (ctx h) = gps_state_intent (ctx h)
        \<or> gpshal_context_t.gps_state (ctx h) = GPSHAL_STATE_INIT \<and> gps_state_intent (ctx h) = GPSHAL_STATE_STOP))"

section \<open>The daemon's part\<close>

context gps_user
begin

lemma start_keeps_init:
  assumes "start e s = Some s'"
  shows "is_gps_init (gps s') = is_gps_init (gps s)"
proof -
  let ?s = "prep e (set_client who (\<lambda>x. x\<lparr>gps_used := True, need_open_ack := ack, need_close_ack := False\<rparr>) s)"
  have g: "gps ?s = (gps s)\<lparr>clients := (clients (gps s))(who := (clients (gps s) who)
      \<lparr>gps_used := True, need_open_ack := ack, need_close_ack := False\<rparr>)\<rparr>"
    by (simp add: prep_gps set_client_def)
  from assms have "mnld_fsm e GPS_EVENT_START 0 ?s = Some s'"
    by (simp add: start_eq)
  with g show ?thesis
    by (cases "state_of s") (auto simp: fsm_defs ksend_fixed do_gps_started_hdlr_eq Let_def)
qed

lemma stop_keeps_init:
  assumes "stop e s = Some s'"
  shows "is_gps_init (gps s') = is_gps_init (gps s)"
proof -
  let ?s = "set_client who (\<lambda>x. x\<lparr>gps_used := False, need_open_ack := False, need_close_ack := ack\<rparr>) s"
  have g: "gps ?s = (gps s)\<lparr>clients := (clients (gps s))(who := (clients (gps s) who)
      \<lparr>gps_used := False, need_open_ack := False, need_close_ack := ack\<rparr>)\<rparr>"
    by (simp add: set_client_def)
  from assms have "mnld_fsm e GPS_EVENT_STOP 0 ?s = Some s'"
    by (simp add: stop_eq)
  with g show ?thesis
    by (cases "state_of s") (auto simp: fsm_defs ksend_fixed do_gps_stopped_hdlr_eq Let_def split: if_splits)
qed

end

definition daemon_view :: "mnld \<Rightarrow> bool \<times> bool" where
  "daemon_view d = (used d HAL, is_gps_init (gps d))"

lemma daemon_steps:
  assumes "sane_daemon d"
  shows "\<exists>d'. h2m_dispatch (g_hal2mnl_interface e) H_gps_init d = Some (0, d') \<and> sane_daemon d' \<and> daemon_view d' = (used d HAL, True)"
    "\<exists>d'. h2m_dispatch (g_hal2mnl_interface e) H_gps_start d = Some (0, d') \<and> sane_daemon d' \<and> daemon_view d' = (True, is_gps_init (gps d))"
    "\<exists>d'. h2m_dispatch (g_hal2mnl_interface e) H_gps_stop d = Some (0, d') \<and> sane_daemon d' \<and> daemon_view d' = (False, is_gps_init (gps d))"
    "\<exists>d'. h2m_dispatch (g_hal2mnl_interface e) H_gps_cleanup d = Some (0, d') \<and> sane_daemon d' \<and> daemon_view d' = (used d HAL, False)"
proof -
  from assms obtain n l where inv: "fsm_inv n l d" by (auto simp: sane_daemon_def)
  have "relay_fits H_gps_init" "relay_fits H_gps_cleanup"
    by (simp_all add: relay_fits_def m2a_fits_def agps_head_def MNL_AGPS_MAX_BUFF_SIZE_def)
  then obtain d1 d2 where d: "h2m_dispatch (g_hal2mnl_interface e) H_gps_init d = Some (0, d1)" "sane_daemon d1"
    "h2m_dispatch (g_hal2mnl_interface e) H_gps_cleanup d = Some (0, d2)" "sane_daemon d2"
    using hal_dispatch_inv [OF inv, of H_gps_init e] hal_dispatch_inv [OF inv, of H_gps_cleanup e] unfolding sane_daemon_def by blast
  then have "daemon_view d1 = (used d HAL, True)" "daemon_view d2 = (used d HAL, False)"
    by (auto simp: g_hal2mnl_interface_def daemon_view_def hal_gps_init_def hal_gps_cleanup_def ksend_fixed)
  with d show "\<exists>d'. h2m_dispatch (g_hal2mnl_interface e) H_gps_init d = Some (0, d') \<and> sane_daemon d' \<and> daemon_view d' = (used d HAL, True)"
    "\<exists>d'. h2m_dispatch (g_hal2mnl_interface e) H_gps_cleanup d = Some (0, d') \<and> sane_daemon d' \<and> daemon_view d' = (used d HAL, False)"
    by blast+
  show "\<exists>d'. h2m_dispatch (g_hal2mnl_interface e) H_gps_start d = Some (0, d') \<and> sane_daemon d' \<and> daemon_view d' = (True, is_gps_init (gps d))"
    using u_hal.start_inv [OF inv, of e] u_hal.start_state [of e d] u_hal.start_keeps_init [of e d]
    by (auto simp: g_hal2mnl_interface_def daemon_view_def sane_daemon_def)
  show "\<exists>d'. h2m_dispatch (g_hal2mnl_interface e) H_gps_stop d = Some (0, d') \<and> sane_daemon d' \<and> daemon_view d' = (False, is_gps_init (gps d))"
    using u_hal.stop_inv [OF inv, of e] u_hal.stop_state [of e d] u_hal.stop_keeps_init [of e d]
    by (auto simp: g_hal2mnl_interface_def daemon_view_def sane_daemon_def)
qed

section \<open>The part of the HAL\<close>

lemma to_mnl_healthy:
  assumes "answers (hker s) = []" "GPSHAL_STATE_RESOURCE \<le> gpshal_context_t.gps_state (ctx s)"
    and "f (hker s) = Some (transmit MTK_HAL2MNL d (hker s))" "d \<noteq> []"
  shows "to_mnl f st s = Some (gpshal_set_gps_state st (s\<lparr>hker := sent MTK_HAL2MNL d (hker s)\<rparr>))"
  using assms by (simp add: to_mnl_def hsend_def transmit_alt post_healthy)

lemma command_fits: "list_all h2m_fits [H_gps_init, H_gps_start, H_gps_stop, H_gps_cleanup]"
  by (simp add: h2m_fits_def HAL_MNL_BUFF_SIZE_def h2m_head_def)

text \<open>What the HAL hands over when its commands \<open>ms\<close> are all accepted is what the daemon handles.\<close>

lemma pass_on_commands:
  assumes "f h = Some h'" "inbox MTK_HAL2MNL (hker h') = inbox MTK_HAL2MNL (hker h) @ map h2m_wire ms"
    and "set ms \<subseteq> {H_gps_init, H_gps_start, H_gps_stop, H_gps_cleanup}"
  shows "pass_on de f (h, d) = map_option (Pair h') (run_all (h2m_dispatch (g_hal2mnl_interface de)) ms d)"
proof -
  have "list_all h2m_fits ms" "list_all h2m_safe ms"
    using command_fits assms(3) by (auto simp: list_all_iff)
  from h2m.run_all_ok [OF this, of "g_hal2mnl_interface de" d] assms(1,2) show ?thesis
    by (cases "run_all (h2m_dispatch (g_hal2mnl_interface de)) ms d")
      (simp_all add: pass_on_def handed_over_def comp_def)
qed

text \<open>A command of the framework: the wish is noted, the message handed over, the state follows.\<close>

definition told :: "gpshal_state \<Rightarrow> hal2mnl_msg \<Rightarrow> hal \<Rightarrow> hal" where
  "told st m h = gpshal_set_gps_state st (h\<lparr>hker := sent MTK_HAL2MNL (h2m_wire m) (hker h)\<rparr>)"

lemma told_simps [simp]:
  "answers (hker h) = [] \<Longrightarrow> answers (hker (told st m h)) = []"
  "ctx (told st m h) = (ctx h)\<lparr>gpshal_context_t.gps_state := st\<rparr>"
  "answers (hker h) = [] \<Longrightarrow> inbox MTK_HAL2MNL (hker (told st m h)) = inbox MTK_HAL2MNL (hker h) @ [h2m_wire m]"
  by (simp_all add: told_def gpshal_set_gps_state_def answers_healthy post_healthy)

lemma commands_told:
  assumes "answers (hker h) = []" "GPSHAL_STATE_RESOURCE \<le> gpshal_context_t.gps_state (ctx h)"
  shows "gpshal2mnl_gps_init h = Some (told GPSHAL_STATE_INIT H_gps_init h)"
    "gpshal2mnl_gps_start h = Some (told GPSHAL_STATE_START H_gps_start h)"
    "gpshal2mnl_gps_stop h = Some (told GPSHAL_STATE_STOP H_gps_stop h)"
    "gpshal2mnl_gps_cleanup h = Some (told GPSHAL_STATE_CLEANUP H_gps_cleanup h)"
  unfolding told_def gpshal2mnl_gps_init_def gpshal2mnl_gps_start_def gpshal2mnl_gps_stop_def gpshal2mnl_gps_cleanup_def
  by (rule to_mnl_healthy [OF assms]; simp add: hal2mnl_fixed del: h2m_wire.simps)+

lemma intent_simps [simp]:
  "ctx (gpshal_set_gps_state_intent st h) = (ctx h)\<lparr>gps_state_intent := st\<rparr>"
  "hker (gpshal_set_gps_state_intent st h) = hker h"
  by (simp_all add: gpshal_set_gps_state_intent_def)

lemma state_order [simp]:
  "GPSHAL_STATE_RESOURCE \<le> GPSHAL_STATE_INIT" "GPSHAL_STATE_RESOURCE \<le> GPSHAL_STATE_START"
  "GPSHAL_STATE_RESOURCE \<le> GPSHAL_STATE_STOP" "GPSHAL_STATE_RESOURCE \<le> GPSHAL_STATE_CLEANUP"
  by (simp_all add: less_eq_gpshal_state_def)

lemma command_step:
  assumes "link_inv (h, d)" "ev \<in> {Fw_start, Fw_stop, Fw_cleanup}"
  shows "\<exists>p. link_step he de ev (h, d) = Some p \<and> link_inv p \<and> session_of p = session_step ev (session_of (h, d))"
proof -
  from assms have inv: "sane_daemon d" "answers (hker h) = []" "GPSHAL_STATE_RESOURCE \<le> gpshal_context_t.gps_state (ctx h)"
    by (auto simp: link_inv_def)
  let ?h = "\<lambda>st m. told st m (gpshal_set_gps_state_intent st h)"
  have pass: "pass_on de f (h, d) = map_option (Pair (?h st m)) (run_all (h2m_dispatch (g_hal2mnl_interface de)) [m] d)"
    if "f h = Some (?h st m)" "m \<in> {H_gps_init, H_gps_start, H_gps_stop, H_gps_cleanup}" for f st m
    by (rule pass_on_commands) (use inv that in simp_all)
  from assms(2) consider "ev = Fw_start" | "ev = Fw_stop" | "ev = Fw_cleanup" by blast
  then show ?thesis
  proof cases
    case 1
    with pass [of gpsinf_start GPSHAL_STATE_START H_gps_start] daemon_steps(2) [OF inv(1), of de] inv assms(1) show ?thesis
      by (auto simp: gpsinf_start_def commands_told link_inv_def session_of_def daemon_view_def simp del: h2m_dispatch.simps)
  next
    case 2
    with pass [of gpsinf_stop GPSHAL_STATE_STOP H_gps_stop] daemon_steps(3) [OF inv(1), of de] inv assms(1) show ?thesis
      by (auto simp: gpsinf_stop_def commands_told link_inv_def session_of_def daemon_view_def simp del: h2m_dispatch.simps)
  next
    case 3
    with pass [of gpsinf_cleanup GPSHAL_STATE_CLEANUP H_gps_cleanup] daemon_steps(4) [OF inv(1), of de] inv assms(1) show ?thesis
      by (auto simp: gpsinf_cleanup_def commands_told link_inv_def session_of_def daemon_view_def simp del: h2m_dispatch.simps)
  qed
qed

text \<open>The first initialisation opens the socket and starts the worker; a later one only saves the callbacks.\<close>

definition sockets_ok :: "hal_env \<Rightarrow> bool" where
  "sockets_ok he = (bind_fd he \<noteq> -1 \<and> epoll_fd he \<noteq> -1 \<and> epoll_add_ok he \<and> thread_ok he)"

lemma init_pass:
  assumes "gpshal_resource_init he (Some (sizeof_GpsCallbacks (gh he))) h = Some h1" "answers (hker h1) = []" "hker h1 = hker h"
    and "GPSHAL_STATE_RESOURCE \<le> gpshal_context_t.gps_state (ctx h1)" "gps_cbs (ctx h1) \<noteq> None" "sane_daemon d"
  shows "\<exists>p. link_step he de (Fw_init (Some (sizeof_GpsCallbacks (gh he)))) (h, d) = Some p \<and> link_inv p
    \<and> session_of p = \<lparr>wish = GPSHAL_STATE_INIT, serving = used d HAL, prepared = True\<rparr>"
proof -
  let ?c = "Some (sizeof_GpsCallbacks (gh he))"
  let ?h = "told GPSHAL_STATE_INIT H_gps_init (gpshal_set_gps_state_intent GPSHAL_STATE_INIT h1)"
  have "map_option snd (gpsinf_init he ?c h) = Some ?h"
    using assms by (simp add: gpsinf_init_def gpshal_gpscbs_save_def commands_told)
  then have "pass_on de (\<lambda>h. map_option snd (gpsinf_init he ?c h)) (h, d)
      = map_option (Pair ?h) (run_all (h2m_dispatch (g_hal2mnl_interface de)) [H_gps_init] d)"
    by (rule pass_on_commands) (use assms in simp_all)
  with daemon_steps(1) [OF assms(6), of de] assms show ?thesis
    by (auto simp: link_inv_def session_of_def daemon_view_def simp del: h2m_dispatch.simps)
qed

lemma init_step:
  assumes "link_inv (h, d)"
  shows "\<exists>p. link_step he de (Fw_init (Some (sizeof_GpsCallbacks (gh he)))) (h, d) = Some p \<and> link_inv p
    \<and> session_of p = \<lparr>wish = GPSHAL_STATE_INIT, serving = used d HAL, prepared = True\<rparr>"
  by (rule init_pass [where ?h1.0 = "h\<lparr>ctx := (ctx h)\<lparr>gps_cbs := Some (sizeof_GpsCallbacks (gh he))\<rparr>\<rparr>"]) (use assms in \<open>auto simp: gpshal_resource_init_def link_inv_def Let_def\<close>)

lemma first_init:
  assumes "ctx h = g_gpshal_ctx" "answers (hker h) = []" "sockets_ok he" "sane_daemon d"
  shows "\<exists>p. link_step he de (Fw_init (Some (sizeof_GpsCallbacks (gh he)))) (h, d) = Some p \<and> link_inv p
    \<and> session_of p = \<lparr>wish = GPSHAL_STATE_INIT, serving = used d HAL, prepared = True\<rparr>"
proof -
  obtain h1 where h1: "gpshal_resource_init he (Some (sizeof_GpsCallbacks (gh he))) h = Some h1" "hker h1 = hker h"
    "gpshal_context_t.gps_state (ctx h1) = GPSHAL_STATE_RESOURCE" "gps_cbs (ctx h1) = Some (sizeof_GpsCallbacks (gh he))"
    using assms by (simp add: gpshal_resource_init_def sockets_ok_def g_gpshal_ctx_def tell_def gpshal_set_gps_state_def)
  show ?thesis by (rule init_pass [OF h1(1)]) (use h1 assms in simp_all)
qed

text \<open>A daemon that starts announces itself, and the HAL brings it to where its predecessor was.\<close>

lemma fresh_daemon:
  assumes "sound_event he (Restart new t1 t2 t3 t4 k)"
  shows "\<exists>d. mnld_init new t1 t2 t3 t4 (mnld_zero k) = Some (0, d) \<and> sane_daemon d \<and> daemon_view d = (False, False)
    \<and> inbox MTK_MNL2HAL (kern d) = [m2h_wire M_mnld_reboot]"
proof -
  from assms obtain d where d: "mnld_init new t1 t2 t3 t4 (mnld_zero k) = Some (0, d)"
    by (simp add: mnld_init_def Let_def ksend_fixed del: emits_simps)
  from mnld_init_eq [OF d] obtain f where eq: "d = emits [to_hal M_mnld_reboot, to_agps G_mnl_reboot, to_flp flp_reboot_msg]
     ((mnld_zero k)\<lparr>fds := f, gps := (gps (mnld_zero k))\<lparr>timer_start := t1, timer_stop := t2, timer_reset := t3,
        timer_nmea_monitor := t4\<rparr>\<rparr>)" by blast
  have "sane_daemon d" using mnld_init_inv [OF d] assms by (auto simp: sane_daemon_def sends_def)
  moreover have "daemon_view d = (False, False)" by (simp add: eq daemon_view_def mnld_zero_def)
  moreover have "inbox MTK_MNL2HAL (kern d) = [m2h_wire M_mnld_reboot]"
    using assms unfolding eq to_hal_def to_agps_def to_flp_def
    by (simp add: emit_def mnld_zero_def post_healthy inbox_empty sends_def MTK_MNL2HAL_def MNL_TO_AGPS_def MTK_MNL2FLP_def
      del: m2h_wire.simps)
  ultimately show ?thesis using d by blast
qed

lemma reboot_fits: "m2h_fits M_mnld_reboot"
  by (simp add: m2h_fits_def m2h_head_def HAL_MNL_BUFF_SIZE_def)

definition replies :: "gpshal_state \<Rightarrow> hal2mnl_msg list" where
  "replies i = (if i = GPSHAL_STATE_START then [H_gps_init, H_gps_start]
     else if i \<in> {GPSHAL_STATE_INIT, GPSHAL_STATE_STOP} then [H_gps_init] else [])"

lemma replies_commands: "set (replies i) \<subseteq> {H_gps_init, H_gps_start, H_gps_stop, H_gps_cleanup}"
  by (auto simp: replies_def)

lemma reboot_healthy:
  assumes "answers (hker h) = []" "GPSHAL_STATE_RESOURCE \<le> gpshal_context_t.gps_state (ctx h)"
  shows "\<exists>h'. gpshal_worker_thread he [arrives h (m2h_wire M_mnld_reboot)] h = Some h' \<and> answers (hker h') = []
    \<and> inbox MTK_HAL2MNL (hker h') = inbox MTK_HAL2MNL (hker h) @ map h2m_wire (replies (gps_state_intent (ctx h)))
    \<and> ctx h' = (ctx h)\<lparr>gpshal_context_t.gps_state :=
        (case gps_state_intent (ctx h) of GPSHAL_STATE_START \<Rightarrow> GPSHAL_STATE_START | GPSHAL_STATE_INIT \<Rightarrow> GPSHAL_STATE_INIT
         | GPSHAL_STATE_STOP \<Rightarrow> GPSHAL_STATE_INIT | _ \<Rightarrow> gpshal_context_t.gps_state (ctx h))\<rparr>"
proof -
  have "hst h' = hst h \<Longrightarrow> h'\<lparr>hst := hst h\<rparr> = h'" for h' by simp
  moreover have "hst (told st m h) = hst h" for st m h by (simp add: told_def gpshal_set_gps_state_def)
  ultimately show ?thesis
    using assms unfolding worker_arrives [OF reboot_fits]
    by (cases "gps_state_intent (ctx h)")
      (simp_all add: from_mnl_def gpshal_mnl2hal_interface_def update_mnld_reboot_def keep_def commands_told replies_def
        del: h2m_wire.simps)
qed

lemma replies_view:
  assumes "sane_daemon d" "daemon_view d = (False, False)"
  shows "\<exists>d'. run_all (h2m_dispatch (g_hal2mnl_interface e)) (replies i) d = Some d' \<and> sane_daemon d' \<and>
    daemon_view d' = (i = GPSHAL_STATE_START, i \<in> {GPSHAL_STATE_INIT, GPSHAL_STATE_STOP, GPSHAL_STATE_START})"
proof -
  obtain d1 where d1: "h2m_dispatch (g_hal2mnl_interface e) H_gps_init d = Some (0, d1)" "sane_daemon d1" "daemon_view d1 = (False, True)"
    using daemon_steps(1) [OF assms(1), of e] assms(2) by (auto simp: daemon_view_def)
  then obtain d2 where "h2m_dispatch (g_hal2mnl_interface e) H_gps_start d1 = Some (0, d2)" "sane_daemon d2" "daemon_view d2 = (True, True)"
    using daemon_steps(2) [OF d1(2), of e] by (auto simp: daemon_view_def)
  with d1 assms show ?thesis by (auto simp: replies_def simp del: h2m_dispatch.simps)
qed

lemma restart_step:
  assumes "link_inv (h, d)" "sound_event he (Restart new t1 t2 t3 t4 k)"
  shows "\<exists>p. link_step he de (Restart new t1 t2 t3 t4 k) (h, d) = Some p \<and> link_inv p
    \<and> session_of p = session_step (Restart new t1 t2 t3 t4 k) (session_of (h, d))"
proof -
  from fresh_daemon [OF assms(2)] obtain d0 where d0: "mnld_init new t1 t2 t3 t4 (mnld_zero k) = Some (0, d0)" "sane_daemon d0"
    "daemon_view d0 = (False, False)" "inbox MTK_MNL2HAL (kern d0) = [m2h_wire M_mnld_reboot]" by blast
  let ?f = "\<lambda>h. gpshal_worker_thread he (map (arrives h) (inbox MTK_MNL2HAL (kern d0))) h"
  from assms(1) have h: "answers (hker h) = []" "GPSHAL_STATE_RESOURCE \<le> gpshal_context_t.gps_state (ctx h)"
    by (simp_all add: link_inv_def)
  from reboot_healthy [OF h, of he] d0(4) obtain h' where h': "?f h = Some h'" "answers (hker h') = []"
    "inbox MTK_HAL2MNL (hker h') = inbox MTK_HAL2MNL (hker h) @ map h2m_wire (replies (gps_state_intent (ctx h)))"
    "ctx h' = (ctx h)\<lparr>gpshal_context_t.gps_state :=
        (case gps_state_intent (ctx h) of GPSHAL_STATE_START \<Rightarrow> GPSHAL_STATE_START | GPSHAL_STATE_INIT \<Rightarrow> GPSHAL_STATE_INIT
         | GPSHAL_STATE_STOP \<Rightarrow> GPSHAL_STATE_INIT | _ \<Rightarrow> gpshal_context_t.gps_state (ctx h))\<rparr>"
    by (auto simp del: m2h_wire.simps)
  obtain d' where d': "run_all (h2m_dispatch (g_hal2mnl_interface de)) (replies (gps_state_intent (ctx h))) d0 = Some d'" "sane_daemon d'"
    "daemon_view d' = (gps_state_intent (ctx h) = GPSHAL_STATE_START,
       gps_state_intent (ctx h) \<in> {GPSHAL_STATE_INIT, GPSHAL_STATE_STOP, GPSHAL_STATE_START})"
    using replies_view [OF d0(2,3), of de "gps_state_intent (ctx h)"] by blast
  have "pass_on de ?f (h, d0) = Some (h', d')"
    using pass_on_commands [of ?f h h', OF h'(1,3), of de d0] d'(1) replies_commands by simp
  moreover have "link_inv (h', d')"
    using assms(1) h'(2,4) d'(2) by (cases "gps_state_intent (ctx h)") (auto simp: link_inv_def)
  ultimately show ?thesis using d0(1) d'(3) h'(4) by (simp add: session_of_def daemon_view_def)
qed

lemma link_run_refines:
  assumes "link_inv p" "list_all (sound_event he) evs"
  shows "\<exists>p'. link_run he de evs p = Some p' \<and> link_inv p' \<and> session_of p' = fold session_step evs (session_of p)"
  using assms
proof (induction evs arbitrary: p)
  case Nil
  then show ?case by simp
next
  case (Cons ev evs)
  obtain h d where p: "p = (h, d)" by (cases p)
  have "\<exists>p'. link_step he de ev (h, d) = Some p' \<and> link_inv p' \<and> session_of p' = session_step ev (session_of (h, d))"
    using init_step [of h d he de] command_step [of h d ev he de] restart_step [of h d he _ _ _ _ _ _ de] Cons.prems p
    by (cases ev) (auto simp: session_of_def simp del: link_step.simps)
  then obtain p' where "link_step he de ev p = Some p'" "link_inv p'" "session_of p' = session_step ev (session_of p)"
    using p by blast
  with Cons.IH [of p'] Cons.prems show ?case by simp
qed

end
