(* ===== verification/C_Text.thy ===== *)
theory C_Text
  imports Prelude "HOL-Library.Signed_Division"
begin

text \<open>
  Text as the C sources handle it: string literals, character classes, \<open>%d\<close> of \<open>sprintf\<close>, \<open>strtoul\<close> in
  base ten, and the integer part of a square root.
\<close>

section \<open>Literals and buffers\<close>

definition ascii :: "string \<Rightarrow> byte list" where "ascii s = map of_char s"

text \<open>\<open>char buff[] = "..."\<close>: the array has the terminator.\<close>

definition lit :: "string \<Rightarrow> byte list" where "lit s = ascii s @ [0]"

text \<open>
  \<open>sprintf\<close> of a text into an array: the rest of the array keeps what it held, and a text that does not
  fit with its terminator is written past the end.
\<close>

definition printed :: "byte list \<Rightarrow> byte list \<Rightarrow> byte list option" where
  "printed mem txt = store mem 0 (txt @ [0])"

section \<open>Characters and digits\<close>

definition is_digit :: "byte \<Rightarrow> bool" where "is_digit c = (48 \<le> c \<and> c \<le> 57)"

definition digit_val :: "byte \<Rightarrow> int" where "digit_val c = uint c - 48"

definition is_xdigit :: "byte \<Rightarrow> bool" where
  "is_xdigit c = (is_digit c \<or> 65 \<le> c \<and> c \<le> 70 \<or> 97 \<le> c \<and> c \<le> 102)"

definition xdigit_val :: "byte \<Rightarrow> int" where
  "xdigit_val c = (if is_digit c then uint c - 48 else if c \<le> 70 then uint c - 55 else uint c - 87)"

definition is_space :: "byte \<Rightarrow> bool" where "is_space c = (c = 32 \<or> 9 \<le> c \<and> c \<le> 13)"

definition to_lower :: "byte \<Rightarrow> byte" where "to_lower c = (if 65 \<le> c \<and> c \<le> 90 then c + 32 else c)"

primrec base_val :: "int \<Rightarrow> (byte \<Rightarrow> int) \<Rightarrow> byte list \<Rightarrow> int \<Rightarrow> int" where
  "base_val b f [] acc = acc"
| "base_val b f (c # cs) acc = base_val b f cs (acc * b + f c)"

text \<open>An optional sign and the rest.\<close>

definition split_sign :: "byte list \<Rightarrow> bool \<times> byte list" where
  "split_sign t = (case t of [] \<Rightarrow> (False, []) | c # cs \<Rightarrow> if c = 45 then (True, cs) else if c = 43 then (False, cs) else (False, t))"

fun show_nat :: "nat \<Rightarrow> byte list" where
  "show_nat n = (if n < 10 then [48 + word_of_nat n] else show_nat (n div 10) @ [48 + word_of_nat (n mod 10)])"

declare show_nat.simps [simp del]

definition show_int :: "int \<Rightarrow> byte list" where
  "show_int i = (if i < 0 then 45 # show_nat (nat (- i)) else show_nat (nat i))"

text \<open>
  \<open>strtoul\<close> on a 32-bit \<open>unsigned long\<close>: the value, and the text behind the number. A value out of range
  gives the largest one, a minus sign negates modulo \<open>2^32\<close>, and a text without a number is left as it is.
\<close>

definition strtoul :: "byte list \<Rightarrow> i32 \<times> byte list" where
  "strtoul t =
     (let (s, u) = split_sign (dropWhile is_space t); ds = takeWhile is_digit u; v = base_val 10 digit_val ds 0
      in if ds = [] then (0, t)
         else (if 2 ^ 32 \<le> v then -1 else if s then - word_of_int v else word_of_int v, dropWhile is_digit u))"

text \<open>\<open>(int)sqrt(n)\<close> of an \<open>int\<close>: exact on the range, and zero for a negative number, whose root is no number.\<close>

function isqrt_from :: "int \<Rightarrow> int \<Rightarrow> int" where
  "isqrt_from n k = (if 0 \<le> k \<and> (k + 1) * (k + 1) \<le> n then isqrt_from n (k + 1) else k)"
  by auto
termination
  by (relation "measure (\<lambda>(n, k). nat (n - k * k))") (auto simp: algebra_simps)

declare isqrt_from.simps [simp del]

definition isqrt :: "int \<Rightarrow> int" where "isqrt n = isqrt_from n 0"

section \<open>Facts\<close>

lemma base_val_append: "base_val b f (xs @ ys) acc = base_val b f ys (base_val b f xs acc)"
  by (induction xs arbitrary: acc) simp_all

lemma digit_facts:
  assumes "n < 10"
  shows "is_digit (48 + word_of_nat n)" "digit_val (48 + word_of_nat n) = int n"
proof -
  have "n \<in> {0, 1, 2, 3, 4, 5, 6, 7, 8, 9}" using assms by auto
  then show "is_digit (48 + word_of_nat n)" "digit_val (48 + word_of_nat n) = int n"
    by (auto simp: is_digit_def digit_val_def)
qed

text \<open>Printing and reading a number are inverse.\<close>

lemma show_nat_digits: "list_all is_digit (show_nat n) \<and> show_nat n \<noteq> [] \<and> base_val 10 digit_val (show_nat n) 0 = int n"
proof (induction n rule: show_nat.induct)
  case (1 n)
  have "int (n div 10) * 10 + int (n mod 10) = int n"
    by (metis div_mult_mod_eq of_nat_add of_nat_mult of_nat_numeral)
  with 1 show ?case
    by (cases "n < 10") (simp_all add: show_nat.simps [of n] base_val_append digit_facts)
qed

lemma strtoul_show:
  assumes "n < 2 ^ 32"
  shows "strtoul (show_nat n) = (word_of_nat n, [])"
proof -
  have d: "list_all is_digit (show_nat n)" "show_nat n \<noteq> []" "base_val 10 digit_val (show_nat n) 0 = int n"
    using show_nat_digits [of n] by simp_all
  obtain c cs where c: "show_nat n = c # cs" "is_digit c" using d(1,2) by (cases "show_nat n") auto
  have "\<not> is_space c" "c \<noteq> 45" "c \<noteq> 43"
    using c(2) by (auto simp: is_space_def is_digit_def word_le_nat_alt)
  then have sp: "split_sign (dropWhile is_space (show_nat n)) = (False, show_nat n)"
    by (simp add: c split_sign_def)
  have t: "takeWhile is_digit (show_nat n) = show_nat n" "dropWhile is_digit (show_nat n) = []"
    using d(1) by (simp_all add: takeWhile_eq_all_conv dropWhile_eq_Nil_conv list_all_iff)
  then show ?thesis
    using assms d by (simp add: strtoul_def Let_def t sp)
qed

lemma isqrt_from_ok: "0 \<le> k \<Longrightarrow> k * k \<le> n \<Longrightarrow>
    0 \<le> isqrt_from n k \<and> isqrt_from n k * isqrt_from n k \<le> n \<and> n < (isqrt_from n k + 1) * (isqrt_from n k + 1)"
proof (induction n k rule: isqrt_from.induct)
  case (1 n k)
  then show ?case
    by (cases "(k + 1) * (k + 1) \<le> n") (simp_all add: isqrt_from.simps [of n k])
qed

lemma isqrt_ok: "0 \<le> n \<Longrightarrow> isqrt n * isqrt n \<le> n \<and> n < (isqrt n + 1) * (isqrt n + 1)"
  using isqrt_from_ok [of 0 n] by (simp add: isqrt_def)

end
