(* ===== verification/Ieee754.thy ===== *)
theory Ieee754
  imports Float32 C_Text
begin

text \<open>
  Binary floating point as the C sources use it (\<open>double\<close> and \<open>float\<close>): a number is decoded from its
  bit pattern into an exact rational, the operation is done exactly, and the result is rounded to
  nearest, ties to even, and encoded again. \<open>strtod\<close> is the library function on the text in front of
  the terminator.
\<close>

section \<open>Formats\<close>

text \<open>
  Precision \<open>p\<close> (hidden bit included) and least normal exponent \<open>emin\<close>: \<open>double\<close> is 53 and -1022, \<open>float\<close>
  is 24 and -126.
\<close>

datatype fpv = Num bool rat | Infty bool | NotNum

definition ilog2 :: "rat \<Rightarrow> int" where
  "ilog2 q = (if 1 \<le> q then bitlen \<lfloor>q\<rfloor> - 1 else - bitlen (\<lceil>1 / q\<rceil> - 1))"

definition inf_mag :: "nat \<Rightarrow> int \<Rightarrow> int" where
  "inf_mag p emin = (3 - 2 * emin) * 2 ^ (p - 1)"

text \<open>
  The pattern of a magnitude, without the sign bit. The exponent field and the hidden bit add up, so
  that a significand that rounds up to the next power of two carries into the exponent by itself.
\<close>

definition ieee_mag :: "nat \<Rightarrow> int \<Rightarrow> rat \<Rightarrow> int" where
  "ieee_mag p emin q =
     (if q = 0 then 0
      else let e = max (ilog2 q) emin
           in min ((e - emin) * 2 ^ (p - 1) + round_even (q * 2 powi (int p - 1 - e))) (inf_mag p emin))"

definition ieee_val :: "nat \<Rightarrow> int \<Rightarrow> bool \<Rightarrow> int \<Rightarrow> fpv" where
  "ieee_val p emin s n =
     (let ex = n div 2 ^ (p - 1); man = n mod 2 ^ (p - 1)
      in if ex = 3 - 2 * emin then (if man = 0 then Infty s else NotNum)
         else if ex = 0 then Num s (of_int man * 2 powi (emin - int p + 1))
         else Num s (of_int (man + 2 ^ (p - 1)) * 2 powi (ex + emin - int p)))"

definition f64_of :: "fpv \<Rightarrow> f64" where
  "f64_of v =
     (case v of
        Num s q \<Rightarrow> word_of_int (ieee_mag 53 (-1022) q + (if s then 2 ^ 63 else 0))
      | Infty s \<Rightarrow> word_of_int (inf_mag 53 (-1022) + (if s then 2 ^ 63 else 0))
      | NotNum \<Rightarrow> 0x7ff8000000000000)"

definition f64_val :: "f64 \<Rightarrow> fpv" where
  "f64_val x = ieee_val 53 (-1022) (2 ^ 63 \<le> uint x) (uint x mod 2 ^ 63)"

definition f32_of :: "fpv \<Rightarrow> f32" where
  "f32_of v =
     (case v of
        Num s q \<Rightarrow> word_of_int (ieee_mag 24 (-126) q + (if s then 2 ^ 31 else 0))
      | Infty s \<Rightarrow> word_of_int (inf_mag 24 (-126) + (if s then 2 ^ 31 else 0))
      | NotNum \<Rightarrow> 0x7fc00000)"

definition f32_val :: "f32 \<Rightarrow> fpv" where
  "f32_val x = ieee_val 24 (-126) (2 ^ 31 \<le> uint x) (uint x mod 2 ^ 31)"

section \<open>Operations\<close>

definition signed_mag :: "bool \<Rightarrow> rat \<Rightarrow> rat" where
  "signed_mag s a = (if s then - a else a)"

definition num_of :: "rat \<Rightarrow> fpv" where
  "num_of q = Num (q < 0) \<bar>q\<bar>"

primrec fp_neg :: "fpv \<Rightarrow> fpv" where
  "fp_neg (Num s a) = Num (\<not> s) a"
| "fp_neg (Infty s) = Infty (\<not> s)"
| "fp_neg NotNum = NotNum"

fun fp_add :: "fpv \<Rightarrow> fpv \<Rightarrow> fpv" where
  "fp_add (Num s a) (Num t b) =
     (let v = signed_mag s a + signed_mag t b in if v = 0 then Num (s \<and> t) 0 else num_of v)"
| "fp_add (Infty s) (Infty t) = (if s = t then Infty s else NotNum)"
| "fp_add (Infty s) (Num _ _) = Infty s"
| "fp_add (Num _ _) (Infty t) = Infty t"
| "fp_add _ _ = NotNum"

fun fp_mul :: "fpv \<Rightarrow> fpv \<Rightarrow> fpv" where
  "fp_mul (Num s a) (Num t b) = Num (s \<noteq> t) (a * b)"
| "fp_mul (Infty s) (Infty t) = Infty (s \<noteq> t)"
| "fp_mul (Infty s) (Num t b) = (if b = 0 then NotNum else Infty (s \<noteq> t))"
| "fp_mul (Num s a) (Infty t) = (if a = 0 then NotNum else Infty (s \<noteq> t))"
| "fp_mul _ _ = NotNum"

fun fp_div :: "fpv \<Rightarrow> fpv \<Rightarrow> fpv" where
  "fp_div (Num s a) (Num t b) =
     (if b = 0 then (if a = 0 then NotNum else Infty (s \<noteq> t)) else Num (s \<noteq> t) (a / b))"
| "fp_div (Infty s) (Num t b) = Infty (s \<noteq> t)"
| "fp_div (Num s a) (Infty t) = Num (s \<noteq> t) 0"
| "fp_div _ _ = NotNum"

primrec fp_floor :: "fpv \<Rightarrow> fpv" where
  "fp_floor (Num s a) = Num s (of_int \<bar>\<lfloor>signed_mag s a\<rfloor>\<bar>)"
| "fp_floor (Infty s) = Infty s"
| "fp_floor NotNum = NotNum"

text \<open>
  Conversion to \<open>int\<close> drops the fraction; outside the range of \<open>int\<close>, where C leaves the result open,
  it saturates as the conversion instruction of the ARM targets does.
\<close>

primrec fp_to_int :: "fpv \<Rightarrow> i32" where
  "fp_to_int (Num s a) = word_of_int (max (- (2 ^ 31)) (min (2 ^ 31 - 1) (if s then - \<lfloor>a\<rfloor> else \<lfloor>a\<rfloor>)))"
| "fp_to_int (Infty s) = word_of_int (if s then - (2 ^ 31) else 2 ^ 31 - 1)"
| "fp_to_int NotNum = 0"

definition f64_add :: "f64 \<Rightarrow> f64 \<Rightarrow> f64" where "f64_add x y = f64_of (fp_add (f64_val x) (f64_val y))"
definition f64_sub :: "f64 \<Rightarrow> f64 \<Rightarrow> f64" where "f64_sub x y = f64_of (fp_add (f64_val x) (fp_neg (f64_val y)))"
definition f64_mul :: "f64 \<Rightarrow> f64 \<Rightarrow> f64" where "f64_mul x y = f64_of (fp_mul (f64_val x) (f64_val y))"
definition f64_div :: "f64 \<Rightarrow> f64 \<Rightarrow> f64" where "f64_div x y = f64_of (fp_div (f64_val x) (f64_val y))"
definition f64_neg :: "f64 \<Rightarrow> f64" where "f64_neg x = x XOR 0x8000000000000000"
definition f64_floor :: "f64 \<Rightarrow> f64" where "f64_floor x = f64_of (fp_floor (f64_val x))"
definition f64_to_int :: "f64 \<Rightarrow> i32" where "f64_to_int x = fp_to_int (f64_val x)"
definition f64_of_int :: "i32 \<Rightarrow> f64" where "f64_of_int n = f64_of (num_of (of_int (sint n)))"
definition f64_to_f32 :: "f64 \<Rightarrow> f32" where "f64_to_f32 x = f32_of (f64_val x)"
definition f32_of_int :: "i32 \<Rightarrow> f32" where "f32_of_int n = f32_of (num_of (of_int (sint n)))"

section \<open>Reading a number\<close>

text \<open>
  The exponent behind the letter \<open>e\<close> (or \<open>p\<close>); without digits the letter is not part of the number.
\<close>

definition exp_part :: "byte \<Rightarrow> byte list \<Rightarrow> int" where
  "exp_part l t =
     (case t of [] \<Rightarrow> 0
      | c # cs \<Rightarrow> if to_lower c \<noteq> l then 0
          else let (s, ds) = split_sign cs; v = base_val 10 digit_val (takeWhile is_digit ds) 0
               in if s then - v else v)"

definition scan_mantissa :: "(byte \<Rightarrow> bool) \<Rightarrow> byte list \<Rightarrow> byte list \<times> byte list \<times> byte list" where
  "scan_mantissa d t =
     (let ip = takeWhile d t; r = dropWhile d t
      in case r of [] \<Rightarrow> (ip, [], [])
         | c # cs \<Rightarrow> if c = 46 then (ip, takeWhile d cs, dropWhile d cs) else (ip, [], r))"

definition strtod_dec :: "byte list \<Rightarrow> rat option" where
  "strtod_dec t =
     (let (ip, fp, r) = scan_mantissa is_digit t
      in if ip @ fp = [] then None
         else Some (of_int (base_val 10 digit_val (ip @ fp) 0) / 10 ^ length fp * 10 powi exp_part 101 r))"

definition strtod_hex :: "byte list \<Rightarrow> rat option" where
  "strtod_hex t =
     (let (ip, fp, r) = scan_mantissa is_xdigit t
      in if ip @ fp = [] then None
         else Some (of_int (base_val 16 xdigit_val (ip @ fp) 0) / 16 ^ length fp * 2 powi exp_part 112 r))"

definition strtod :: "byte list \<Rightarrow> f64" where
  "strtod t =
     (let (s, u) = split_sign (dropWhile is_space t); l = map to_lower u
      in if take 3 l = [105, 110, 102] then f64_of (Infty s)
         else if take 3 l = [110, 97, 110] then f64_of NotNum
         else case (if take 2 l = [48, 120] then strtod_hex (drop 2 u) else None) of
             Some q \<Rightarrow> f64_of (Num s q)
           | None \<Rightarrow> (case strtod_dec u of Some q \<Rightarrow> f64_of (Num s q) | None \<Rightarrow> 0))"


section \<open>Rounding\<close>

lemma bitlen_rat_bounds:
  assumes "0 < n"
  shows "(2 ^ nat (bitlen n - 1) :: rat) \<le> of_int n" "of_int n + 1 \<le> (2 ^ nat (bitlen n) :: rat)" "0 < bitlen n"
proof -
  have b: "2 ^ nat (bitlen n - 1) \<le> n" "n < 2 ^ nat (bitlen n)"
    using bitlen_bounds [OF assms] by simp_all
  from b(1) have "(of_int (2 ^ nat (bitlen n - 1)) :: rat) \<le> of_int n" by (simp only: of_int_le_iff)
  then show "(2 ^ nat (bitlen n - 1) :: rat) \<le> of_int n" by simp
  from b(2) have "(of_int (n + 1) :: rat) \<le> of_int (2 ^ nat (bitlen n))" by (simp only: of_int_le_iff)
  then show "of_int n + 1 \<le> (2 ^ nat (bitlen n) :: rat)" by simp
  show "0 < bitlen n" using b(2) assms by (cases "0 < bitlen n") auto
qed

lemma ilog2_bounds:
  assumes "0 < q"
  shows "2 powi ilog2 q \<le> q" "q < 2 powi (ilog2 q + 1)"
proof -
  have "2 powi ilog2 q \<le> q \<and> q < 2 powi (ilog2 q + 1)"
  proof (cases "1 \<le> q")
    case True
    define n where "n = \<lfloor>q\<rfloor>"
    have n: "0 < n" using True by (simp add: n_def)
    note b = bitlen_rat_bounds [OF n]
    have "of_int n \<le> q" "q < of_int n + 1" unfolding n_def by linarith+
    with b(1,2) have "2 ^ nat (bitlen n - 1) \<le> q" "q < 2 ^ nat (bitlen n)" by linarith+
    then show ?thesis using True b(3)
      by (simp add: ilog2_def n_def [symmetric] power_int_def)
  next
    case False
    define n where "n = \<lceil>1 / q\<rceil> - 1"
    have q1: "1 < 1 / q" using False assms by simp
    have n: "0 < n" using q1 by (simp add: n_def less_ceiling_iff)
    note b = bitlen_rat_bounds [OF n]
    have c: "of_int n < 1 / q" "1 / q \<le> of_int n + 1"
      unfolding n_def using ceiling_correct [of "1 / q"] by simp_all
    have "1 / q \<le> 2 ^ nat (bitlen n)" "2 ^ nat (bitlen n - 1) < 1 / q" using b(1,2) c by linarith+
    then have "1 / 2 ^ nat (bitlen n) \<le> q" "q < 1 / 2 ^ nat (bitlen n - 1)"
      using assms by (simp_all add: field_simps)
    moreover have p: "(2 :: rat) powi (- k) = 1 / 2 ^ nat k" if "0 \<le> k" for k
      using that zero_le_imp_eq_int [OF that] by (auto simp: power_int_minus divide_inverse)
    have "2 powi ilog2 q = (1 :: rat) / 2 ^ nat (bitlen n)" "2 powi (ilog2 q + 1) = (1 :: rat) / 2 ^ nat (bitlen n - 1)"
      using False b(3) p [of "bitlen n"] p [of "bitlen n - 1"] by (simp_all add: ilog2_def n_def)
    ultimately show ?thesis by simp
  qed
  then show "2 powi ilog2 q \<le> q" "q < 2 powi (ilog2 q + 1)" by simp_all
qed

lemma round_even_err: "\<bar>of_int (round_even q) - q\<bar> \<le> 1 / 2"
  by (auto simp: round_even_def Let_def abs_if) (use floor_correct [of q] in linarith)+

lemma round_even_mono_int:
  "of_int a \<le> q \<Longrightarrow> a \<le> round_even q" "q \<le> of_int b \<Longrightarrow> round_even q \<le> b"
  using round_even_err [of q] by (auto simp: round_even_def Let_def le_floor_iff floor_le_iff split: if_splits) linarith+

text \<open>The significand of a rounded magnitude.\<close>

definition ieee_exp :: "int \<Rightarrow> rat \<Rightarrow> int" where
  "ieee_exp emin q = max (ilog2 q) emin"

definition ieee_sig :: "nat \<Rightarrow> int \<Rightarrow> rat \<Rightarrow> int" where
  "ieee_sig p emin q = round_even (q * 2 powi (int p - 1 - ieee_exp emin q))"

lemma powi_split: "(2 :: rat) powi (a + b) = 2 powi a * 2 powi b"
  by (simp add: power_int_add)

lemma ieee_sig_bounds:
  assumes "0 < q" "1 \<le> p"
  shows "0 \<le> ieee_sig p emin q" "ieee_sig p emin q \<le> 2 ^ p" "emin < ieee_exp emin q \<Longrightarrow> 2 ^ (p - 1) \<le> ieee_sig p emin q"
proof -
  let ?e = "ieee_exp emin q" and ?x = "q * 2 powi (int p - 1 - ieee_exp emin q)"
  have pos: "(0 :: rat) < 2 powi k" for k by simp
  have "ilog2 q \<le> ?e" by (simp add: ieee_exp_def)
  have "q < 2 powi (ilog2 q + 1)" by (rule ilog2_bounds [OF assms(1)])
  also have "\<dots> \<le> 2 powi (?e + 1)" by (rule power_int_increasing) (simp_all add: ieee_exp_def)
  finally have "?x \<le> 2 powi (?e + 1) * 2 powi (int p - 1 - ?e)"
    by (simp add: mult_right_mono)
  also have "\<dots> = of_int (2 ^ p)"
    by (simp flip: power_int_add)
  finally show "ieee_sig p emin q \<le> 2 ^ p"
    unfolding ieee_sig_def by (rule round_even_mono_int(2))
  have "of_int 0 \<le> ?x" using assms(1) by simp
  then show "0 \<le> ieee_sig p emin q" unfolding ieee_sig_def by (rule round_even_mono_int(1))
  show "2 ^ (p - 1) \<le> ieee_sig p emin q" if "emin < ?e"
  proof -
    have e: "?e = ilog2 q" using that by (simp add: ieee_exp_def)
    have "of_int (2 ^ (p - 1)) = (2 :: rat) powi ilog2 q * 2 powi (int p - 1 - ?e)"
      using assms(2) power_int_of_nat [of "2 :: rat" "p - 1"] by (simp add: e of_nat_diff flip: power_int_add)
    also have "\<dots> \<le> ?x" using ilog2_bounds(1) [OF assms(1)] by (simp add: mult_right_mono)
    finally show ?thesis unfolding ieee_sig_def by (rule round_even_mono_int(1))
  qed
qed

lemma ieee_roundtrip:
  assumes "0 < q" "1 \<le> p" "ieee_exp emin q \<le> - emin"
  shows "ieee_val p emin s (ieee_mag p emin q)
    = Num s (of_int (ieee_sig p emin q) * 2 powi (ieee_exp emin q - int p + 1))"
    "0 \<le> ieee_mag p emin q" "ieee_mag p emin q < inf_mag p emin"
proof -
  define e m h where "e = ieee_exp emin q" and "m = ieee_sig p emin q" and "h = (2 :: int) ^ (p - 1)"
  have h: "0 < h" "2 ^ p = 2 * h" using assms(2) by (cases p; simp add: h_def)+
  have m: "0 \<le> m" "m \<le> 2 * h" "emin < e \<Longrightarrow> h \<le> m"
    using ieee_sig_bounds [OF assms(1,2), of emin] unfolding e_def m_def h(2) h_def by blast+
  have e: "emin \<le> e" "e \<le> - emin" using assms(3) by (simp_all add: e_def ieee_exp_def)
  have "(e - emin) * h + m \<le> (e - emin + 2) * h" using m(2) by (simp add: algebra_simps)
  also have "\<dots> < inf_mag p emin" unfolding inf_mag_def h_def [symmetric]
    using h(1) e by (intro mult_strict_right_mono) auto
  finally have lt: "(e - emin) * h + m < inf_mag p emin" .
  have mag: "ieee_mag p emin q = (e - emin) * h + m"
    using assms(1) lt by (simp add: ieee_mag_def Let_def e_def m_def h_def ieee_exp_def ieee_sig_def)
  show "0 \<le> ieee_mag p emin q" "ieee_mag p emin q < inf_mag p emin"
    using lt mag e(1) m(1) h(1) by simp_all
  consider "m < h" "e = emin" | "h \<le> m" "m < 2 * h" | "m = 2 * h"
    using m e(1) by linarith
  then show "ieee_val p emin s (ieee_mag p emin q) = Num s (of_int m * 2 powi (e - int p + 1))"
  proof cases
    case 1
    then have "m div h = 0" "m mod h = m" using m(1) by simp_all
    moreover have "emin - int p + 1 = e - int p + 1" using 1 by simp
    ultimately show ?thesis using e 1 unfolding mag ieee_val_def h_def [symmetric] Let_def by simp
  next
    case 2
    have "(m - h) mod h = m - h" using 2 by (intro mod_pos_pos_trivial) simp_all
    then have "m div h = 1" "m mod h = m - h"
      using 2 div_pos_geq [OF h(1) 2(1)] by simp_all
    then have "((e - emin) * h + m) div h = e - emin + 1" "((e - emin) * h + m) mod h = m - h"
      using h(1) by simp_all
    moreover have "(2 :: rat) powi (e + 1 - int p) = 2 powi (e - int p + 1)" by (simp add: algebra_simps)
    ultimately show ?thesis using e unfolding mag ieee_val_def h_def [symmetric] Let_def by simp
  next
    case 3
    have "(e - emin) * h + m = (e - emin + 2) * h" using 3 by (simp add: algebra_simps)
    then have "((e - emin) * h + m) div h = e - emin + 2" "((e - emin) * h + m) mod h = 0"
      using h(1) by simp_all
    moreover have "(2 :: rat) powi (e - emin + 2 + emin - int p) = 2 * 2 powi (e - int p + 1)"
      using powi_split [of 1 "e - int p + 1"] by (simp add: algebra_simps)
    ultimately show ?thesis using e 3 unfolding mag ieee_val_def h_def [symmetric] Let_def by simp
  qed
qed

lemma ieee_err:
  assumes "0 < q" "1 \<le> p" "2 powi emin \<le> q" "ilog2 q \<le> - emin"
  shows "\<bar>of_int (ieee_sig p emin q) * 2 powi (ieee_exp emin q - int p + 1) - q\<bar> \<le> q * 2 powi (- int p)"
proof -
  let ?k = "ieee_exp emin q - int p + 1"
  have "2 powi emin < (2 :: rat) powi (ilog2 q + 1)"
    using assms(3) ilog2_bounds(2) [OF assms(1)] by (rule le_less_trans)
  then have "emin \<le> ilog2 q"
    using power_int_increasing [of "ilog2 q + 1" emin "2 :: rat"] by (cases "ilog2 q + 1 \<le> emin") simp_all
  then have e: "ieee_exp emin q = ilog2 q" by (simp add: ieee_exp_def)
  have "q = q * 2 powi (- ?k) * 2 powi ?k" by (simp flip: power_int_add)
  then have "of_int (ieee_sig p emin q) * 2 powi ?k - q
      = (of_int (ieee_sig p emin q) - q * 2 powi (- ?k)) * 2 powi ?k"
    by (simp only: left_diff_distrib)
  moreover have "- ?k = int p - 1 - ieee_exp emin q" by simp
  then have "\<bar>of_int (ieee_sig p emin q) - q * 2 powi (- ?k)\<bar> \<le> 1 / 2"
    unfolding ieee_sig_def using round_even_err by metis
  ultimately have "\<bar>of_int (ieee_sig p emin q) * 2 powi ?k - q\<bar> \<le> 1 / 2 * 2 powi ?k"
    by (simp add: abs_mult mult_right_mono)
  also have "1 / 2 * 2 powi ?k = (2 :: rat) powi ilog2 q * 2 powi (- int p)"
    using powi_split [of "-1" ?k] by (simp add: e algebra_simps flip: power_int_add)
  also have "\<dots> \<le> q * 2 powi (- int p)"
    using ilog2_bounds(1) [OF assms(1)] by (simp add: mult_right_mono)
  finally show ?thesis .
qed

lemma ilog2_less:
  assumes "0 < q" "q < 2 powi k"
  shows "ilog2 q < k"
proof (rule ccontr)
  assume "\<not> ?thesis"
  then have "(2 :: rat) powi k \<le> 2 powi ilog2 q" by (intro power_int_increasing) simp_all
  with ilog2_bounds(1) [OF assms(1)] assms(2) show False by linarith
qed

lemma f64_val_of:
  assumes "0 < q" "q < 2 powi 1000"
  shows "f64_val (f64_of (Num s q))
    = Num s (of_int (ieee_sig 53 (-1022) q) * 2 powi (ieee_exp (-1022) q - 52))"
proof -
  let ?n = "ieee_mag 53 (-1022) q"
  have "ieee_exp (-1022) q \<le> 1022"
    using ilog2_less [OF assms] by (simp add: ieee_exp_def)
  then have r: "ieee_val 53 (-1022) s ?n = Num s (of_int (ieee_sig 53 (-1022) q) * 2 powi (ieee_exp (-1022) q - 52))"
    and n: "0 \<le> ?n" "?n < inf_mag 53 (-1022)"
    using ieee_roundtrip(1) [OF assms(1), of 53 "-1022" s] ieee_roundtrip(2,3) [OF assms(1), of 53 "-1022"] by simp_all
  from n(2) have u: "?n < 2 ^ 63" by (simp add: inf_mag_def)
  have "uint (word_of_int k :: f64) = k" if "0 \<le> k" "k < 2 ^ 64" for k
    using that by (simp add: uint_word_of_int)
  from this [of "?n + (if s then 2 ^ 63 else 0)"]
  have "uint (word_of_int (?n + (if s then 2 ^ 63 else 0)) :: f64) = ?n + (if s then 2 ^ 63 else 0)"
    using n(1) u by simp
  with n(1) u r show ?thesis
    by (cases s) (simp_all add: f64_val_def f64_of_def del: of_int_add)
qed

lemma f64_zero [simp]: "f64_val (f64_of (Num s 0)) = Num s 0"
  by (simp add: f64_val_def f64_of_def ieee_mag_def ieee_val_def uint_word_of_int)

text \<open>The error of one rounding in the normal range, and exact integers.\<close>

lemma f64_near:
  assumes "0 < q" "2 powi (-1022) \<le> q" "q < 2 powi 1000"
  obtains r where "f64_val (f64_of (Num s q)) = Num s r" "\<bar>r - q\<bar> \<le> q / 2 ^ 53"
proof -
  have "ilog2 q \<le> 1022" using ilog2_less [OF assms(1,3)] by simp
  then have "\<bar>of_int (ieee_sig 53 (-1022) q) * 2 powi (ieee_exp (-1022) q - 52) - q\<bar> \<le> q * 2 powi (- int 53)"
    using ieee_err [OF assms(1) _ assms(2), of 53] by simp
  moreover have "(2 :: rat) powi (- int 53) = 1 / 2 ^ 53"
    by (simp only: power_int_minus power_int_of_nat inverse_eq_divide)
  ultimately show thesis
    by (intro that [OF f64_val_of [OF assms(1,3)]]) simp
qed

lemma f64_exact:
  assumes "0 \<le> n" "n < 2 ^ 53"
  shows "f64_val (f64_of (Num s (of_int n))) = Num s (of_int n)"
proof (cases "n = 0")
  case False
  with assms(1) have n: "0 < (of_int n :: rat)" by simp
  have l: "(of_int n :: rat) < of_int (2 ^ 53)" using assms(2) by (simp only: of_int_less_iff)
  then have e: "ilog2 (of_int n) < 53" by (intro ilog2_less [OF n]) simp
  have "1 \<le> n" using False assms(1) by simp
  then have e0: "0 \<le> ilog2 (of_int n)"
    using bitlen_rat_bounds(3) [of n] by (simp add: ilog2_def)
  let ?k = "52 - ilog2 (of_int n)"
  have p: "(2 :: rat) powi ?k = 2 ^ nat ?k"
    using e by (simp flip: power_int_of_nat)
  then have "of_int n * (2 :: rat) powi ?k = of_int (n * 2 ^ nat ?k)" by simp
  with e0 have s: "ieee_sig 53 (-1022) (of_int n) = n * 2 ^ nat ?k" and x: "ieee_exp (-1022) (of_int n) = ilog2 (of_int n)"
    by (simp_all add: ieee_sig_def ieee_exp_def del: of_int_mult of_int_power)
  have "(2 :: rat) ^ nat ?k * 2 powi (ilog2 (of_int n) - 52) = 2 powi ?k * 2 powi (- ?k)"
    by (simp add: p)
  also have "\<dots> = 1" by (simp flip: power_int_add)
  finally have "of_int (n * 2 ^ nat ?k) * (2 :: rat) powi (ilog2 (of_int n) - 52) = of_int n"
    by (simp add: mult.assoc)
  moreover have "(of_int n :: rat) < 2 powi 1000" using l by simp
  ultimately show ?thesis
    using f64_val_of [OF n, of s] by (simp add: s x)
qed simp
end
