(* ===== verification/Calendar.thy ===== *)
theory Calendar
  imports Prelude
begin

text \<open>
  The C library's calendar functions as the GPS sources use them: \<open>gmtime_r\<close>, \<open>localtime_r\<close> and
  \<open>mktime\<close> on a 32-bit \<open>time_t\<close>, for the proleptic Gregorian calendar. The time zone of the process is a
  parameter: its standard offset from UTC, the extra offset of summer time, and the instants at which
  summer time is in force.
\<close>

record tm =
  tm_sec :: int
  tm_min :: int
  tm_hour :: int
  tm_mday :: int
  tm_mon :: int
  tm_year :: int
  tm_isdst :: int

record zone =
  std_offset :: int
  dst_save :: int
  dst_on :: "int \<Rightarrow> bool"

section \<open>Days\<close>

definition leap_year :: "int \<Rightarrow> bool" where
  "leap_year y = (4 dvd y \<and> (\<not> 100 dvd y \<or> 400 dvd y))"

text \<open>Days from 1 January 1970 to 1 January of a year, and from there to the first of a month.\<close>

definition days_to_year :: "int \<Rightarrow> int" where
  "days_to_year y = 365 * (y - 1970) + ((y - 1) div 4 - (y - 1) div 100 + (y - 1) div 400 - 477)"

definition month_days :: "bool \<Rightarrow> int list" where
  "month_days l = [31, if l then 29 else 28, 31, 30, 31, 30, 31, 31, 30, 31, 30, 31]"

definition days_to_month :: "bool \<Rightarrow> int \<Rightarrow> int" where
  "days_to_month l m = sum_list (take (nat m) (month_days l))"

text \<open>Fields outside their usual range carry over, as \<open>mktime\<close> demands.\<close>

definition timegm :: "tm \<Rightarrow> int" where
  "timegm t =
     (let y = tm_year t + 1900 + tm_mon t div 12
      in (days_to_year y + days_to_month (leap_year y) (tm_mon t mod 12) + tm_mday t - 1) * 86400
         + tm_hour t * 3600 + tm_min t * 60 + tm_sec t)"

lemma div_pred:
  fixes k y :: int
  assumes "0 < k"
  shows "y div k = (y - 1) div k + (if k dvd y then 1 else 0)"
proof -
  have y: "y = k * (y div k) + y mod k" and r: "0 \<le> y mod k" "y mod k < k" using assms by simp_all
  show ?thesis
  proof (cases "k dvd y")
    case True
    then have "y mod k = 0" by simp
    with y have "y - 1 = k * (y div k - 1) + (k - 1)" by (simp add: algebra_simps)
    then have "(y - 1) div k = y div k - 1" by (rule int_div_pos_eq) (use assms in simp_all)
    with True show ?thesis by simp
  next
    case False
    then have "y mod k \<noteq> 0" by (simp add: dvd_eq_mod_eq_0)
    moreover from y have "y - 1 = k * (y div k) + (y mod k - 1)" by simp
    ultimately have "(y - 1) div k = y div k"
      using r by (intro int_div_pos_eq [of _ _ _ "y mod k - 1"]) linarith+
    with False show ?thesis by simp
  qed
qed

lemma days_to_year_Suc: "days_to_year (y + 1) = days_to_year y + (if leap_year y then 366 else 365)"
proof -
  have i: "100 dvd y \<longrightarrow> 4 dvd y" "400 dvd y \<longrightarrow> 100 dvd y"
    using dvd_trans [of 4 100 y] dvd_trans [of 100 400 y] by simp_all
  obtain a b c where d: "(y - 1) div 4 = a" "(y - 1) div 100 = b" "(y - 1) div 400 = c" by blast
  then have "y div 4 = a + (if 4 dvd y then 1 else 0)" "y div 100 = b + (if 100 dvd y then 1 else 0)"
    "y div 400 = c + (if 400 dvd y then 1 else 0)"
    using div_pred [of _ y] by simp_all
  then have "days_to_year (y + 1) = 365 * (y + 1 - 1970) + (a + (if 4 dvd y then 1 else 0)
      - (b + (if 100 dvd y then 1 else 0)) + (c + (if 400 dvd y then 1 else 0)) - 477)"
    by (simp only: days_to_year_def add_diff_cancel_right')
  moreover have "days_to_year y = 365 * (y - 1970) + (a - b + c - 477)"
    by (simp only: days_to_year_def d)
  ultimately show ?thesis
    using i unfolding leap_year_def
    by (cases "4 dvd y"; cases "100 dvd y"; cases "400 dvd y"; simp)
qed

lemma days_to_year_bounds:
  "0 \<le> k \<Longrightarrow> days_to_year (1970 + k) \<le> 366 * k" "k \<le> 0 \<Longrightarrow> days_to_year (1970 + k) \<le> 365 * k"
proof -
  have z: "days_to_year 1970 = 0" by (simp add: days_to_year_def)
  show "0 \<le> k \<Longrightarrow> days_to_year (1970 + k) \<le> 366 * k"
    by (induction k rule: int_ge_induct)
      (use days_to_year_Suc [of "1970 + _"] in \<open>simp_all add: z add.assoc [symmetric]\<close>)
  show "k \<le> 0 \<Longrightarrow> days_to_year (1970 + k) \<le> 365 * k"
  proof (induction k rule: int_le_induct)
    case (step k)
    have "days_to_year (1970 + k) = days_to_year (1970 + (k - 1)) + (if leap_year (1970 + (k - 1)) then 366 else 365)"
      using days_to_year_Suc [of "1970 + (k - 1)"] by simp
    with step show ?case by (simp split: if_splits)
  qed (simp add: z)
qed

function year_from :: "int \<Rightarrow> int \<Rightarrow> int" where
  "year_from d y = (if d < days_to_year (y + 1) then y else year_from d (y + 1))"
  by auto
termination
  by (relation "measure (\<lambda>(d, y). nat (d - days_to_year y))") (auto simp: days_to_year_Suc split: if_splits)

declare year_from.simps [simp del]

definition year_of :: "int \<Rightarrow> int" where
  "year_of d = year_from d (1970 + (if 0 \<le> d then d div 366 else d div 365))"

definition month_of :: "bool \<Rightarrow> int \<Rightarrow> int" where
  "month_of l d = int (length (filter (\<lambda>m. days_to_month l m \<le> d) [1..11]))"

definition gmtime :: "int \<Rightarrow> tm" where
  "gmtime t =
     (let d = t div 86400; r = t mod 86400; y = year_of d; yd = d - days_to_year y;
          m = month_of (leap_year y) yd
      in \<lparr>tm_sec = r mod 60, tm_min = r div 60 mod 60, tm_hour = r div 3600,
          tm_mday = yd - days_to_month (leap_year y) m + 1, tm_mon = m, tm_year = y - 1900, tm_isdst = 0\<rparr>)"

definition localtime :: "zone \<Rightarrow> int \<Rightarrow> tm" where
  "localtime z t =
     (let d = dst_on z t
      in (gmtime (t + std_offset z + (if d then dst_save z else 0)))\<lparr>tm_isdst := if d then 1 else 0\<rparr>)"

text \<open>
  \<open>mktime\<close> returns the time, -1 when a 32-bit \<open>time_t\<close> cannot hold it, and normalises its argument. With
  a negative \<open>tm_isdst\<close> the zone decides whether summer time is in force.
\<close>

definition mktime :: "zone \<Rightarrow> tm \<Rightarrow> int \<times> tm" where
  "mktime z t =
     (let g = timegm t; summer = g - std_offset z - dst_save z; winter = g - std_offset z;
          r = (if tm_isdst t = 0 then winter else if 0 < tm_isdst t then summer
               else if dst_on z summer then summer else winter)
      in if - (2 ^ 31) \<le> r \<and> r < 2 ^ 31 then (r, localtime z r) else (-1, t))"

section \<open>Conversions are inverse\<close>

lemma year_from_ok:
  "days_to_year y \<le> d \<Longrightarrow> days_to_year (year_from d y) \<le> d \<and> d < days_to_year (year_from d y + 1)"
proof (induction d y rule: year_from.induct)
  case (1 d y)
  then show ?case
    by (cases "d < days_to_year (y + 1)") (simp_all add: year_from.simps [of d y])
qed

lemma year_of_ok: "days_to_year (year_of d) \<le> d" "d < days_to_year (year_of d + 1)"
proof -
  have "days_to_year (1970 + (if 0 \<le> d then d div 366 else d div 365)) \<le> d"
  proof (cases "0 \<le> d")
    case True
    have "366 * (d div 366) \<le> d" by simp
    with True days_to_year_bounds(1) [of "d div 366"] show ?thesis by (simp add: pos_imp_zdiv_nonneg_iff)
  next
    case False
    have "365 * (d div 365) \<le> d" by simp
    with False days_to_year_bounds(2) [of "d div 365"] show ?thesis by (simp add: div_nonpos_pos_le0)
  qed
  from year_from_ok [OF this] show "days_to_year (year_of d) \<le> d" "d < days_to_year (year_of d + 1)"
    by (simp_all add: year_of_def)
qed

lemma month_of_range: "0 \<le> month_of l d" "month_of l d < 12"
  using length_filter_le [of "\<lambda>m. days_to_month l m \<le> d" "[1..11]"] by (simp_all add: month_of_def)

lemma hms_split: "r div 3600 * 3600 + r div 60 mod 60 * 60 + r mod 60 = r" for r :: int
proof -
  have "r div 60 = r div 3600 * 60 + r div 60 mod 60"
    using div_mult_mod_eq [of "r div 60" 60] zdiv_zmult2_eq [of 60 r 60] by simp
  then have "r div 60 * 60 = r div 3600 * 3600 + r div 60 mod 60 * 60" by simp
  with div_mult_mod_eq [of r 60] show ?thesis by simp
qed

lemma timegm_isdst [simp]: "timegm (t\<lparr>tm_isdst := x\<rparr>) = timegm t"
  by (simp add: timegm_def)

lemma timegm_gmtime [simp]: "timegm (gmtime t) = t"
proof -
  define d y where "d = t div 86400" and "y = year_of d"
  define m where "m = month_of (leap_year y) (d - days_to_year y)"
  have "0 \<le> m" "m < 12" by (simp_all add: m_def month_of_range)
  then have m: "m div 12 = 0" "m mod 12 = m" by simp_all
  have "timegm (gmtime t) = d * 86400 + (t mod 86400 div 3600 * 3600 + t mod 86400 div 60 mod 60 * 60 + t mod 86400 mod 60)"
    by (simp add: timegm_def gmtime_def Let_def m flip: d_def y_def m_def)
  then show ?thesis
    unfolding hms_split d_def by simp
qed

end
