(* ===== verification/At_Command.thy ===== *)
theory At_Command
  imports C_Text Mnld_Handlers
begin

text \<open>
  \<open>mnl_at_interface.c\<close>: the factory test that a tester drives with \<open>AT%GPS\<close> and \<open>AT%GNSS\<close> commands over a
  local socket. A test measures the signal of one satellite: it starts the engine through
  \<open>at_test2mnl_gps_start\<close>, the NMEA parser reports every complete set of satellites to
  \<open>gps_at_command_test_proc\<close> and looks at the progress in \<open>nmea_parser_at_cmd_pre\<close>, and the tester asks for
  the averages.

  The statics of the file are the record \<open>at_ctx\<close>; the flags that only ever hold 0 and 1 are Booleans.
  \<open>dm\<close> is the state of the daemon the two engine calls change, \<open>acks\<close> the answers sent to the tester.
  \<open>Dev_CNr\<close> points to a heap block of samples: \<open>No_block\<close> is \<open>NULL\<close>, \<open>Freed\<close> a pointer to a block
  that was given back. \<open>alarm\<close> and the log have no effect on this state.
\<close>

section \<open>State\<close>

datatype at_state =
    MNL_AT_TEST_UNKNOWN | MNL_AT_TEST_START | MNL_AT_TEST_STOP | MNL_AT_TEST_INPROGRESS | MNL_AT_TEST_DONE
  | MNL_AT_TEST_RESULT_DONE

datatype heap_ptr = No_block | Freed | Block "i32 list"

record HAL_AT_TEST_T =
  at_test_num :: i32
  at_prn_num :: i32
  at_time_delay :: i32

record at_ctx =
  MNL_AT_TEST_FLAG :: bool
  MNL_AT_SIGNAL_MODE :: bool
  MNL_AT_SIGNAL_TEST_BEGIN :: bool
  MNL_AT_SET_ALARM :: bool
  MNL_AT_CANCEL_ALARM :: bool
  MNL_AT_TEST_STATE :: at_state
  hal_test_data :: HAL_AT_TEST_T
  Dev_CNr :: heap_ptr
  at_prn :: "i32 list"
  at_snr :: "i32 list"
  at_cn :: i32
  at_result :: "i32 list"
  at_test_count :: i32
  CNo :: i32
  DCNo :: i32
  Avg_CNo :: i32
  Dev_CNo :: i32
  Completed_Num :: i32
  Success_Num :: i32
  Failure_Num :: i32
  Wait_Num :: i32
  sig_suc_num :: i32
  Err_Code :: i32
  test_mode_flag :: bool
  fd_at_test :: int
  at_start_time :: i32
  prev_success_num :: i32
  dm :: mnld
  acks :: "byte list list"

definition at_ctx_init :: "mnld \<Rightarrow> at_ctx" where
  "at_ctx_init s =
     \<lparr>MNL_AT_TEST_FLAG = False, MNL_AT_SIGNAL_MODE = False, MNL_AT_SIGNAL_TEST_BEGIN = False, MNL_AT_SET_ALARM = False,
      MNL_AT_CANCEL_ALARM = False, MNL_AT_TEST_STATE = MNL_AT_TEST_UNKNOWN,
      hal_test_data = \<lparr>at_test_num = 0, at_prn_num = 0, at_time_delay = 0\<rparr>,
      Dev_CNr = No_block, at_prn = replicate 32 0, at_snr = replicate 32 0, at_cn = 0,
      at_result = [1, 0, 0, 0, 0, 0, 0, 0], at_test_count = 0, CNo = 0, DCNo = 0, Avg_CNo = 0, Dev_CNo = 0,
      Completed_Num = 0, Success_Num = 0, Failure_Num = 0, Wait_Num = 0, sig_suc_num = 0, Err_Code = 1,
      test_mode_flag = True, fd_at_test = 0, at_start_time = 0, prev_success_num = 0, dm = s, acks = []\<rparr>"

text \<open>
  What a call sees of its surroundings: the clock, the heap, the daemon's settings, and what an
  uninitialised array holds.
\<close>

record at_env =
  at_now :: i32
  malloc_ok :: "nat \<Rightarrow> bool"
  at_mnld :: mnld_env
  at_junk :: "nat \<Rightarrow> byte"

definition GPS_TEST_PRN :: i32 where "GPS_TEST_PRN = 1"
definition MAX_VALID_STATUS_WAIT_COUNT :: i32 where "MAX_VALID_STATUS_WAIT_COUNT = 20"
definition GPS_AT_ACK_SIZE :: nat where "GPS_AT_ACK_SIZE = 60"
definition GPS_OP :: "byte list" where "GPS_OP = ascii ''AT%GPS''"
definition GNSS_OP :: "byte list" where "GNSS_OP = ascii ''AT%GNSS''"

section \<open>Start and stop of a test\<close>

text \<open>\<open>malloc(n)\<close> followed by \<open>memset(p, 0, n)\<close>, and \<open>free\<close>.\<close>

definition calloc_ints :: "at_env \<Rightarrow> i32 \<Rightarrow> heap_ptr option" where
  "calloc_ints e num =
     (let n = nat (uint (4 * num))
      in if malloc_ok e n then Some (Block (replicate (n div 4) 0)) else if n = 0 then Some No_block else None)"

primrec free_block :: "heap_ptr \<Rightarrow> heap_ptr option" where
  "free_block No_block = Some No_block"
| "free_block Freed = None"
| "free_block (Block _) = Some Freed"

definition gpsinf_mtk_gps_test_stop :: "at_env \<Rightarrow> at_ctx \<Rightarrow> (i32 \<times> at_ctx) option" where
  "gpsinf_mtk_gps_test_stop e s = do {
     let s = s\<lparr>test_mode_flag := True\<rparr>;
     d \<leftarrow> at_test2mnl_gps_stop (at_mnld e) (dm s);
     let s = s\<lparr>dm := d, hal_test_data := \<lparr>at_test_num = 0, at_prn_num = 0, at_time_delay = 0\<rparr>\<rparr>;
     let s = s\<lparr>MNL_AT_TEST_FLAG := False, MNL_AT_SIGNAL_MODE := False, MNL_AT_TEST_STATE := MNL_AT_TEST_UNKNOWN,
               MNL_AT_SET_ALARM := False, MNL_AT_CANCEL_ALARM := False, MNL_AT_SIGNAL_TEST_BEGIN := False\<rparr>;
     let s = s\<lparr>Success_Num := 0, Completed_Num := 0, Wait_Num := 0, CNo := 0, DCNo := 0, Dev_CNo := 0, Err_Code := 1,
               at_test_count := 0\<rparr>;
     p \<leftarrow> free_block (Dev_CNr s);
     Some (0, s\<lparr>Dev_CNr := p\<rparr>) }"

definition gpsinf_mtk_gps_test_start :: "at_env \<Rightarrow> i32 \<Rightarrow> i32 \<Rightarrow> i32 \<Rightarrow> i32 \<Rightarrow> at_ctx \<Rightarrow> (i32 \<times> at_ctx) option" where
  "gpsinf_mtk_gps_test_start e test_num prn_num time_delay test_mode s = do {
     s \<leftarrow> (if MNL_AT_TEST_STATE s \<noteq> MNL_AT_TEST_UNKNOWN \<and> test_mode_flag s
           then map_option snd (gpsinf_mtk_gps_test_stop e s) else Some s);
     let s = s\<lparr>hal_test_data := \<lparr>at_test_num = test_num, at_prn_num = prn_num, at_time_delay = time_delay\<rparr>,
               at_start_time := at_now e, Avg_CNo := 0\<rparr>;
     p \<leftarrow> calloc_ints e test_num;
     let s = s\<lparr>Dev_CNr := p\<rparr>;
     (if test_num = 0 \<and> test_mode = 0 then Some (-1, s)
      else do {
        let s = (if test_mode = 1 then s\<lparr>MNL_AT_SIGNAL_MODE := True\<rparr> else s\<lparr>MNL_AT_TEST_FLAG := True\<rparr>);
        let s = s\<lparr>MNL_AT_TEST_STATE := MNL_AT_TEST_INPROGRESS\<rparr>;
        d \<leftarrow> at_test2mnl_gps_start (at_mnld e) (dm s);
        Some (0, s\<lparr>dm := d\<rparr>) }) }"

definition gpsinf_mtk_gps_test_inprogress :: "at_ctx \<Rightarrow> at_state" where
  "gpsinf_mtk_gps_test_inprogress s =
     (if MNL_AT_TEST_STATE s = MNL_AT_TEST_DONE \<or> MNL_AT_TEST_STATE s = MNL_AT_TEST_RESULT_DONE then MNL_AT_TEST_DONE
      else if MNL_AT_TEST_STATE s = MNL_AT_TEST_INPROGRESS then MNL_AT_TEST_INPROGRESS
      else MNL_AT_TEST_UNKNOWN)"

section \<open>Answers\<close>

definition at_command_send_ack :: "byte list \<Rightarrow> at_ctx \<Rightarrow> at_ctx" where
  "at_command_send_ack ack s = (if fd_at_test s \<noteq> 0 then s\<lparr>acks := acks s @ [ack]\<rparr> else s)"

definition at_command_send_cno :: "at_env \<Rightarrow> byte list \<Rightarrow> at_ctx act" where
  "at_command_send_cno e command s =
     (if gpsinf_mtk_gps_test_inprogress s = MNL_AT_TEST_INPROGRESS
      then Some (at_command_send_ack (lit ''GNSS Test In Progress'') s)
      else let v = (if MNL_AT_SIGNAL_MODE s then at_cn s else Avg_CNo s)
           in if v = 0 then Some (at_command_send_ack (lit ''0, NA'') s)
              else do {
                let t = show_int (sint v sdiv 10) @ (if take 7 command = GNSS_OP then ascii '', NA'' else []);
                buff \<leftarrow> printed (uninit (at_junk e) 10) t;
                Some (at_command_send_ack buff s) })"

text \<open>The eight results, as \<open>sprintf\<close> prints them.\<close>

definition result_list :: "at_ctx \<Rightarrow> byte list" where
  "result_list s = concat (map (\<lambda>i. (if i = 0 then [] else ascii '', '') @ show_int (sint (at_result s ! i))) [0..<8])"

definition send_bracketed :: "(nat \<Rightarrow> byte) \<Rightarrow> at_ctx act" where
  "send_bracketed junk s = do {
     buff \<leftarrow> printed (uninit junk GPS_AT_ACK_SIZE)
       (ascii ''['' @ result_list s @ ascii ''][0, 0, 0, 0, 0, 0, 0, 0]'');
     Some (at_command_send_ack buff s) }"

definition at_command_send_test_result :: "at_env \<Rightarrow> at_ctx act" where
  "at_command_send_test_result e s =
     (let ret = gpsinf_mtk_gps_test_inprogress s
      in if ret = MNL_AT_TEST_INPROGRESS then Some (at_command_send_ack (lit ''GNSS Test In Progress'') s)
         else if ret = MNL_AT_TEST_DONE \<or> ret = MNL_AT_TEST_RESULT_DONE then send_bracketed (at_junk e) s
         else if at_result s ! 0 \<noteq> 0 then send_bracketed (\<lambda>_. 0) s
         else if at_result s ! 5 \<noteq> 0 \<and> \<not> (MNL_AT_SIGNAL_MODE s \<or> MNL_AT_SIGNAL_TEST_BEGIN s)
         then send_bracketed (\<lambda>_. 0) s
         else Some (at_command_send_ack (lit ''[0, 0, 0, 0, 0, 0, 0, 0][0, 0, 0, 0, 0, 0, 0, 0]'') s))"

section \<open>Commands\<close>

text \<open>The place for the end pointer is allocated, and read only behind a number that is not zero.\<close>

definition at_command_parse_test_num :: "at_env \<Rightarrow> byte list \<Rightarrow> i32 option" where
  "at_command_parse_test_num e command = do {
     line \<leftarrow> c_string command;
     t \<leftarrow> c_string (drop (if take 7 command = GNSS_OP then 8 else 7) command);
     let (res, rest) = strtoul t;
     (if res = 0 then Some (-1)
      else if malloc_ok e (length line) then Some (if rest = [] then res else -1)
      else None) }"

text \<open>\<open>at_is\<close> is the test \<open>!memcmp(command+i, "c", 1)\<close>.\<close>

definition at_is :: "byte list \<Rightarrow> nat \<Rightarrow> byte \<Rightarrow> bool" where "at_is command i c = (command ! i = c)"

definition at_gps_command_parser :: "at_env \<Rightarrow> byte list \<Rightarrow> at_ctx act" where
  "at_gps_command_parser e command s =
     (let s = s\<lparr>test_mode_flag := False\<rparr>
      in if at_is command 6 61 then
           (if at_is command 7 63 \<and> at_is command 8 0 then at_command_send_cno e command s
            else if (at_is command 7 69 \<or> at_is command 7 101) \<and> at_is command 8 0 then Some s
            else if (at_is command 7 68 \<or> at_is command 7 100) \<and> at_is command 8 0 then Some s
            else do {
              test_num \<leftarrow> at_command_parse_test_num e command;
              (if 0 \<le> sint test_num then do {
                 (ret, s) \<leftarrow> gpsinf_mtk_gps_test_start e test_num GPS_TEST_PRN 2 0 s;
                 Some (at_command_send_ack (lit (if ret = 0 then ''GPS TEST START OK'' else ''GPS ERROR'')) s) }
               else Some (at_command_send_ack (lit ''Invalid Test Num =0'') s)) })
         else if at_is command 6 63 \<and> at_is command 7 0 then
           (let ret = gpsinf_mtk_gps_test_inprogress s
            in if ret = MNL_AT_TEST_INPROGRESS then Some (at_command_send_ack (lit ''GPS Test In Progress'') s)
               else if ret = MNL_AT_TEST_DONE then do {
                 buff \<leftarrow> printed (uninit (at_junk e) GPS_AT_ACK_SIZE) (ascii ''<'' @ result_list s @ ascii ''>'');
                 Some (at_command_send_ack buff s) }
               else Some (at_command_send_ack (lit ''ERROR'') s))
         else if at_is command 6 0 then at_command_send_cno e command s
         else Some (at_command_send_ack (lit ''GPS ERROR'') s))"

text \<open>The branches of \<open>AT%GNSS=\<close>: \<open>S\<close>, \<open>E\<close> and a number.\<close>

definition gnss_signal :: "at_env \<Rightarrow> at_ctx act" where
  "gnss_signal e s = do {
     (ret, s) \<leftarrow>
       (if \<not> MNL_AT_TEST_FLAG s then gpsinf_mtk_gps_test_start e 0 1 2 1 s
        else let s = s\<lparr>MNL_AT_SIGNAL_MODE := True, MNL_AT_TEST_FLAG := False\<rparr>
             in Some (0, if \<not> MNL_AT_CANCEL_ALARM s then s\<lparr>MNL_AT_CANCEL_ALARM := False, MNL_AT_SET_ALARM := False\<rparr> else s));
     Some (at_command_send_ack (lit (if ret = 0 then ''GNSS START START OK'' else ''GNSS START START FAIL'')) s) }"

definition gnss_end :: "at_env \<Rightarrow> at_ctx act" where
  "gnss_end e s =
     (if MNL_AT_TEST_STATE s = MNL_AT_TEST_UNKNOWN then Some (at_command_send_ack (lit ''GNSS Test is Not In Progress'') s)
      else do {
        (ret, s) \<leftarrow> gpsinf_mtk_gps_test_stop e s;
        Some (at_command_send_ack (lit (if ret = 0 then ''GNSS TEST END OK'' else ''GNSS TEST END FAIL'')) s) })"

definition gnss_number :: "at_env \<Rightarrow> byte list \<Rightarrow> at_ctx act" where
  "gnss_number e command s = do {
     test_num \<leftarrow> at_command_parse_test_num e command;
     let s = s\<lparr>at_result := [1, 0, 0, 0, 0, 0, 0, 0], Avg_CNo := 0, Success_Num := 0, Completed_Num := 0, CNo := 0,
               DCNo := 0, Dev_CNo := 0, at_cn := 0\<rparr>;
     (if MNL_AT_SIGNAL_MODE s then
        (if sint test_num \<le> 0 then do {
           let s = at_command_send_ack (lit ''Invalid Test Num = 0'') s;
           (if MNL_AT_TEST_STATE s \<noteq> MNL_AT_TEST_UNKNOWN then map_option snd (gpsinf_mtk_gps_test_stop e s) else Some s) }
         else
           (let s = s\<lparr>MNL_AT_SIGNAL_TEST_BEGIN := True, MNL_AT_TEST_STATE := MNL_AT_TEST_INPROGRESS\<rparr>;
                s = at_command_send_ack (lit ''GNSS TEST START OK'') s
            in Some (s\<lparr>at_start_time := at_now e\<rparr>)))
      else if 0 \<le> sint test_num then do {
        (ret, s) \<leftarrow> gpsinf_mtk_gps_test_start e test_num GPS_TEST_PRN 2 0 s;
        Some (at_command_send_ack (lit (if ret = 0 then ''GNSS TEST START OK'' else ''GNSS ERROR'')) s) }
      else Some (at_command_send_ack (lit ''Invalid Test Num =0'') s)) }"

definition at_gnss_command_parser :: "at_env \<Rightarrow> byte list \<Rightarrow> at_ctx act" where
  "at_gnss_command_parser e command s =
     (let s = s\<lparr>test_mode_flag := False\<rparr>
      in if at_is command 7 61 then
           (if at_is command 8 63 \<and> at_is command 9 0 then at_command_send_test_result e s
            else if (at_is command 8 83 \<or> at_is command 8 115) \<and> at_is command 9 0 then gnss_signal e s
            else if (at_is command 8 69 \<or> at_is command 8 101) \<and> at_is command 9 0 then gnss_end e s
            else gnss_number e command s)
         else if at_is command 7 63 \<and> at_is command 8 0 then at_command_send_test_result e s
         else if at_is command 7 0 then at_command_send_cno e command s
         else Some (at_command_send_ack (lit ''GNSS ERROR'') s))"

definition at_command_parser :: "at_env \<Rightarrow> byte list \<Rightarrow> at_ctx act" where
  "at_command_parser e command s =
     (if take 6 command = GPS_OP then at_gps_command_parser e command s
      else if take 7 command = GNSS_OP then at_gnss_command_parser e command s
      else Some (at_command_send_ack (lit ''GPS ERROR'') s))"

text \<open>
  The receive loop: \<open>cmd\<close> is the 20-byte array, kept over the rounds; the terminator is written behind the
  received bytes, also when they fill the array.
\<close>

fun at_cmd_loop :: "at_env \<Rightarrow> rx_ans list \<Rightarrow> byte list \<Rightarrow> at_ctx act" where
  "at_cmd_loop e [] cmd s = Some s"
| "at_cmd_loop e (RErr EINTR # rx) cmd s = at_cmd_loop e rx cmd s"
| "at_cmd_loop e (RErr err # rx) cmd s = Some s"
| "at_cmd_loop e (Datagram d # rx) cmd s = do {
     let d = take (length cmd) d;
     cmd \<leftarrow> store (d @ drop (length d) cmd) (int (length d)) [0];
     s \<leftarrow> at_command_parser e cmd s;
     at_cmd_loop e rx cmd s }"

definition at_cmd2mnl_hdlr :: "at_env \<Rightarrow> int \<Rightarrow> rx_ans list \<Rightarrow> at_ctx act" where
  "at_cmd2mnl_hdlr e fd rx s = at_cmd_loop e rx (uninit (at_junk e) 20) (s\<lparr>fd_at_test := fd\<rparr>)"

section \<open>Progress, called from the NMEA parser\<close>

text \<open>Whether the test is over, by the number of good reports or by waiting in vain; and its end.\<close>

definition at_progress :: "at_ctx \<Rightarrow> bool \<times> at_ctx" where
  "at_progress s =
     (if 0 <s Success_Num s then
        (let s = (if prev_success_num s = Success_Num s then s\<lparr>Failure_Num := Failure_Num s + 1\<rparr> else s);
             s = s\<lparr>Completed_Num := Success_Num s + Failure_Num s\<rparr>
         in (Completed_Num s = at_test_num (hal_test_data s), s))
      else
        (let s = s\<lparr>Wait_Num := Wait_Num s + 1\<rparr>
         in if Wait_Num s = MAX_VALID_STATUS_WAIT_COUNT then (True, s\<lparr>Err_Code := 32, Completed_Num := 1\<rparr>) else (False, s)))"

definition at_finish :: "at_env \<Rightarrow> at_ctx act" where
  "at_finish e s =
     (let s = s\<lparr>at_result := (at_result s)[0 := Err_Code s, 3 := Success_Num s, 4 := Completed_Num s,
                  5 := Avg_CNo s, 6 := Dev_CNo s],
                Wait_Num := 0, MNL_AT_TEST_STATE := MNL_AT_TEST_DONE, Err_Code := 1\<rparr>
      in if MNL_AT_TEST_FLAG s then do {
           (ret, s) \<leftarrow> gpsinf_mtk_gps_test_stop e s;
           Some (s\<lparr>Failure_Num := 0, prev_success_num := 0\<rparr>) }
         else Some s)"

definition nmea_parser_at_cmd_pre :: "at_env \<Rightarrow> bool \<Rightarrow> at_ctx act" where
  "nmea_parser_at_cmd_pre e gps_nmea_end_tag s =
     (if (MNL_AT_TEST_FLAG s \<or> MNL_AT_SIGNAL_TEST_BEGIN s)
         \<and> at_time_delay (hal_test_data s) \<le>s at_now e - at_start_time s \<and> gps_nmea_end_tag
      then
        (let (test_stopped, s) = at_progress s; s = s\<lparr>prev_success_num := Success_Num s\<rparr>
         in if test_stopped then at_finish e s else Some s)
      else Some s)"

text \<open>\<open>Dev_CNr[i] = v\<close> and the sum of the squared deviations of the first \<open>n\<close> samples.\<close>

definition set_sample :: "i32 \<Rightarrow> i32 \<Rightarrow> heap_ptr \<Rightarrow> heap_ptr option" where
  "set_sample i v p =
     (case p of Block xs \<Rightarrow> if 0 \<le> sint i \<and> sint i < int (length xs) then Some (Block (xs[nat (sint i) := v])) else None
      | _ \<Rightarrow> None)"

primrec sum_dev :: "nat \<Rightarrow> i32 \<Rightarrow> heap_ptr \<Rightarrow> i32 \<Rightarrow> i32 option" where
  "sum_dev 0 avg p acc = Some acc"
| "sum_dev (Suc n) avg p acc = do {
     acc \<leftarrow> sum_dev n avg p acc;
     (case p of Block xs \<Rightarrow> if n < length xs then Some (acc + (xs ! n - avg) * (xs ! n - avg)) else None | _ \<Rightarrow> None) }"

definition at_satellite_found :: "i32 \<Rightarrow> at_ctx act" where
  "at_satellite_found snr s = do {
     s \<leftarrow>
       (if snr \<noteq> 0 then do {
          let s = (if MNL_AT_SIGNAL_MODE s \<and> \<not> MNL_AT_SIGNAL_TEST_BEGIN s
                   then s\<lparr>MNL_AT_TEST_STATE := MNL_AT_TEST_INPROGRESS\<rparr> else s);
          let s = (if MNL_AT_SIGNAL_MODE s \<and> MNL_AT_SIGNAL_TEST_BEGIN s
                   then s\<lparr>MNL_AT_TEST_STATE := MNL_AT_TEST_RESULT_DONE, sig_suc_num := 1\<rparr> else s);
          s \<leftarrow> (if MNL_AT_TEST_FLAG s then do {
                  let s = s\<lparr>Err_Code := 0, CNo := CNo s + snr * 10\<rparr>;
                  p \<leftarrow> set_sample (Success_Num s) (snr * 10) (Dev_CNr s);
                  let s = s\<lparr>Dev_CNr := p, Success_Num := Success_Num s + 1\<rparr>;
                  Some (s\<lparr>Avg_CNo := word_of_int (sint (CNo s) sdiv sint (Success_Num s))\<rparr>) }
                else Some s);
          Some (s\<lparr>at_cn := snr * 10\<rparr>) }
        else
          (let s = (if MNL_AT_CANCEL_ALARM s \<and> MNL_AT_TEST_FLAG s then s\<lparr>at_test_count := at_test_count s + 1\<rparr> else s)
           in Some (s\<lparr>sig_suc_num := 0\<rparr>)));
     (if Success_Num s \<noteq> 0 then do {
        v \<leftarrow> sum_dev (nat (sint (Success_Num s))) (Avg_CNo s) (Dev_CNr s) (DCNo s);
        let q = sint v sdiv sint (Success_Num s);
        Some (s\<lparr>DCNo := 0, Dev_CNo := word_of_int (isqrt q)\<rparr>) }
      else Some s) }"

primrec at_search_from :: "nat \<Rightarrow> nat \<Rightarrow> at_ctx act" where
  "at_search_from 0 i s = Some s"
| "at_search_from (Suc n) i s =
     (if length (at_prn s) \<le> i then None
      else if at_prn s ! i = at_prn_num (hal_test_data s) then at_satellite_found (at_snr s ! i) s
      else at_search_from n (i + 1) s)"

definition gps_at_command_search_satellite :: "i32 \<Rightarrow> at_ctx act" where
  "gps_at_command_search_satellite sv_count s = at_search_from (nat (sint sv_count)) 0 s"

definition gps_at_command_test_proc :: "i32 \<Rightarrow> at_ctx act" where
  "gps_at_command_test_proc sv_count s =
     (if MNL_AT_TEST_STATE s \<noteq> MNL_AT_TEST_DONE then
        (if MNL_AT_SIGNAL_MODE s then
           (if MNL_AT_SIGNAL_TEST_BEGIN s then do {
              s \<leftarrow> gps_at_command_search_satellite sv_count s;
              Some (s\<lparr>at_result := (at_result s)[0 := 0, 3 := sig_suc_num s, 4 := 1, 5 := at_cn s, 6 := 0]\<rparr>) }
            else Some s)
         else gps_at_command_search_satellite sv_count s)
      else Some s)"

end
