(* ===== verification/Nmea_Parser.thy ===== *)
theory Nmea_Parser
  imports Ieee754 Calendar At_Command C_Struct
begin

text \<open>
  \<open>nmea_parser.c\<close>: the engine hands over a burst of NMEA text; the parser cuts it into sentences, reads
  position, date, satellites and accuracy out of them, and sends to the HAL each sentence and, at the end
  of the burst, the position and the satellites.

  The reader is on the stack of \<open>mtk_mnl_nmea_parser_process\<close>. \<open>pos\<close>, \<open>sv_count\<close> and \<open>num_svs\<close> never become
  negative and are natural numbers. A token is a range of the reader's line buffer, or the empty dummy.
  The \<open>int\<close> results of the \<open>nmea_reader_update\<close> functions are ignored by every caller and left out.
\<close>

section \<open>State\<close>

datatype SV_TYPE = UNKNOWN_SV | GPS_SV | SBAS_SV | GLONASS_SV | QZSS_SV | BDS_SV | GALILEO_SV

primrec sv_type_code :: "SV_TYPE \<Rightarrow> byte" where
  "sv_type_code UNKNOWN_SV = 0" | "sv_type_code GPS_SV = 1" | "sv_type_code SBAS_SV = 2" | "sv_type_code GLONASS_SV = 3"
| "sv_type_code QZSS_SV = 4" | "sv_type_code BDS_SV = 5" | "sv_type_code GALILEO_SV = 6"

definition NMEA_MAX_SIZE :: nat where "NMEA_MAX_SIZE = 255"
definition NMEA_MAX_SV_INFO :: int where "NMEA_MAX_SV_INFO = 4"
definition MAX_NMEA_TOKENS :: nat where "MAX_NMEA_TOKENS = 24"
definition GNSS_MAX_SVS :: nat where "GNSS_MAX_SVS = 64"

record NmeaReader =
  pos :: nat
  overflow :: bool
  utc_year :: i32
  utc_mon :: i32
  utc_day :: i32
  utc_diff :: i32
  fix_loc :: gps_location
  fix_mode :: i32
  sv_count :: nat
  num_svs :: nat
  sv_list :: "gnss_sv list"
  in_buf :: "byte list"

definition LOC_FIXED :: "NmeaReader \<Rightarrow> bool" where
  "LOC_FIXED r = (fix_mode r = 2 \<or> fix_mode r = 3)"

text \<open>The \<open>gnss_sv_info\<close> struct that is sent.\<close>

definition sv_status_bytes :: "NmeaReader \<Rightarrow> byte list" where
  "sv_status_bytes r = enc_int (word_of_nat (num_svs r)) @ concat (map gnss_sv_bytes (sv_list r))"

record nmea_ctx =
  rdr :: NmeaReader
  gps_nmea_end_tag :: bool
  gnss_sv_used_in_fix :: "(i32 \<times> bool) list"
  tst :: at_ctx

record nmea_env =
  ne_zone :: zone
  ne_at :: at_env

section \<open>The time\<close>

definition nmea_reader_update_utc_diff :: "nmea_env \<Rightarrow> NmeaReader \<Rightarrow> NmeaReader" where
  "nmea_reader_update_utc_diff e r =
     (let now = sint (at_now (ne_at e));
          tm_utc = gmtime now; tm_local = localtime (ne_zone e) now;
          time_local = fst (mktime (ne_zone e) tm_local); time_utc = fst (mktime (ne_zone e) tm_utc)
      in r\<lparr>utc_diff := word_of_int time_utc - word_of_int time_local\<rparr>)"

definition nmea_reader_init :: "nmea_env \<Rightarrow> NmeaReader" where
  "nmea_reader_init e =
     nmea_reader_update_utc_diff e
       \<lparr>pos = 0, overflow = False, utc_year = -1, utc_mon = -1, utc_day = -1, utc_diff = 0,
        fix_loc = zero_location, fix_mode = 0, sv_count = 0, num_svs = 0,
        sv_list = replicate GNSS_MAX_SVS gnss_sv_zero, in_buf = replicate (NMEA_MAX_SIZE + 1) 0\<rparr>"

section \<open>Tokens\<close>

datatype token = Tok nat nat | Dummy

definition tok_text :: "byte list \<Rightarrow> token \<Rightarrow> byte list" where
  "tok_text mem t = (case t of Tok p q \<Rightarrow> take (q - p) (drop p mem) | Dummy \<Rightarrow> [])"

definition tok_len :: "token \<Rightarrow> nat" where
  "tok_len t = (case t of Tok p q \<Rightarrow> q - p | Dummy \<Rightarrow> 0)"

text \<open>\<open>tok.p[0]\<close>: for an empty token the character behind it, for the dummy its terminator.\<close>

definition tok_char :: "byte list \<Rightarrow> token \<Rightarrow> byte" where
  "tok_char mem t = (case t of Tok p q \<Rightarrow> mem ! p | Dummy \<Rightarrow> 0)"

text \<open>\<open>memchr(p, ',', end-p)\<close>, or the end.\<close>

definition next_comma :: "byte list \<Rightarrow> nat \<Rightarrow> nat \<Rightarrow> nat" where
  "next_comma mem p q = p + length (takeWhile (\<lambda>c. c \<noteq> 44) (take (q - p) (drop p mem)))"

lemma next_comma_bounds: "p \<le> next_comma mem p q" "p \<le> q \<Longrightarrow> next_comma mem p q \<le> q"
  using length_takeWhile_le [of "\<lambda>c. c \<noteq> 44" "take (q - p) (drop p mem)"] by (auto simp: next_comma_def)

function nmea_tokens :: "byte list \<Rightarrow> nat \<Rightarrow> nat \<Rightarrow> token list \<Rightarrow> token list" where
  "nmea_tokens mem p q acc =
     (if p < q then
        (let c = next_comma mem p q;
             acc = (if length acc < MAX_NMEA_TOKENS then acc @ [Tok p c] else acc)
         in nmea_tokens mem (if c < q then c + 1 else c) q acc)
      else acc)"
  by auto
termination
proof (relation "measure (\<lambda>(mem, p, q, acc). q - p)", goal_cases)
  case (2 mem p q acc c acc')
  then show ?case using next_comma_bounds [where mem = mem and p = p and q = q] by auto
qed simp

declare nmea_tokens.simps [simp del]

definition nmea_tokenizer_init :: "byte list \<Rightarrow> nat \<Rightarrow> token list" where
  "nmea_tokenizer_init mem q =
     (let p = (if 0 < q \<and> mem ! 0 = 36 then 1 else 0);
          q = (if p < q \<and> mem ! (q - 1) = 10
               then (let q = q - 1 in if p < q \<and> mem ! (q - 1) = 13 then q - 1 else q) else q);
          q = (if p + 3 \<le> q \<and> mem ! (q - 3) = 42 then q - 3 else q)
      in nmea_tokens mem p q [])"

definition nmea_tokenizer_get :: "token list \<Rightarrow> nat \<Rightarrow> token" where
  "nmea_tokenizer_get t i = (if i < length t then t ! i else Dummy)"

section \<open>Numbers\<close>

fun str2int_loop :: "byte list \<Rightarrow> i32 \<Rightarrow> i32 option" where
  "str2int_loop [] result = Some result"
| "str2int_loop (c # cs) result = (if is_digit c then str2int_loop cs (result * 10 + word_of_int (digit_val c)) else None)"

definition str2int :: "byte list \<Rightarrow> i32" where
  "str2int t =
     (case t of
        c # cs \<Rightarrow> if c = 45 then (case str2int_loop cs 0 of Some v \<Rightarrow> - v | None \<Rightarrow> -1)
                  else (case str2int_loop t 0 of Some v \<Rightarrow> v | None \<Rightarrow> -1)
      | [] \<Rightarrow> 0)"

definition str2float :: "byte list \<Rightarrow> f64" where
  "str2float t = (if 16 \<le> length t then 0 else strtod (takeWhile (\<lambda>c. c \<noteq> 0) t))"

definition convert_from_hhmm :: "byte list \<Rightarrow> f64" where
  "convert_from_hhmm t =
     (let val = str2float t;
          degrees = f64_to_int (f64_div (f64_floor val) (f64_of (Num False 100)));
          minutes = f64_sub val (f64_mul (f64_of_int degrees) (f64_of (Num False 100)))
      in f64_add (f64_of_int degrees) (f64_div minutes (f64_of (Num False 60))))"

section \<open>Fields of the position\<close>

definition set_flag :: "i32 \<Rightarrow> gps_location \<Rightarrow> gps_location" where
  "set_flag f l = l\<lparr>loc_flags := loc_flags l OR f\<rparr>"

definition nmea_reader_update_altitude :: "byte list \<Rightarrow> NmeaReader \<Rightarrow> NmeaReader" where
  "nmea_reader_update_altitude t r =
     (if t = [] then r else r\<lparr>fix_loc := (set_flag GPS_LOCATION_HAS_ALT (fix_loc r))\<lparr>loc_alt := str2float t\<rparr>\<rparr>)"

definition nmea_reader_update_time :: "nmea_env \<Rightarrow> byte list \<Rightarrow> NmeaReader \<Rightarrow> NmeaReader" where
  "nmea_reader_update_time e t r =
     (if length t < 6 then r
      else
        (let r = (if utc_year r <s 0
                  then let tm = gmtime (sint (at_now (ne_at e)))
                       in r\<lparr>utc_year := word_of_int (tm_year tm + 1900), utc_mon := word_of_int (tm_mon tm + 1),
                            utc_day := word_of_int (tm_mday tm)\<rparr>
                  else r);
             tm = \<lparr>tm_sec = sint (f64_to_int (str2float (drop 4 t))), tm_min = sint (str2int (take 2 (drop 2 t))),
                   tm_hour = sint (str2int (take 2 t)), tm_mday = sint (utc_day r), tm_mon = sint (utc_mon r - 1),
                   tm_year = sint (utc_year r - 1900), tm_isdst = -1\<rparr>;
             tm = snd (mktime (ne_zone e) tm);
             r = nmea_reader_update_utc_diff e r;
             fix_time = word_of_int (fst (mktime (ne_zone e) tm)) - utc_diff r
         in r\<lparr>fix_loc := (fix_loc r)\<lparr>loc_timestamp := scast fix_time * 1000\<rparr>\<rparr>))"

definition nmea_reader_update_date :: "nmea_env \<Rightarrow> byte list \<Rightarrow> byte list \<Rightarrow> NmeaReader \<Rightarrow> NmeaReader" where
  "nmea_reader_update_date e date time r =
     (if length date \<noteq> 6 then r
      else
        (let day = str2int (take 2 date); mon = str2int (take 2 (drop 2 date)); year = str2int (drop 4 date) + 2000
         in if day OR mon OR year <s 0 then r
            else nmea_reader_update_time e time (r\<lparr>utc_year := year, utc_mon := mon, utc_day := day\<rparr>)))"

definition nmea_reader_update_latlong ::
    "byte list \<Rightarrow> byte \<Rightarrow> byte list \<Rightarrow> byte \<Rightarrow> NmeaReader \<Rightarrow> NmeaReader" where
  "nmea_reader_update_latlong latitude latitudeHemi longitude longitudeHemi r =
     (if length latitude < 6 then r
      else
        (let lat = convert_from_hhmm latitude; lat = (if latitudeHemi = 83 then f64_neg lat else lat)
         in if length longitude < 6 then r
            else
              (let lon = convert_from_hhmm longitude; lon = (if longitudeHemi = 87 then f64_neg lon else lon)
               in r\<lparr>fix_loc := (set_flag GPS_LOCATION_HAS_LAT_LONG (fix_loc r))\<lparr>loc_lat := lat, loc_lng := lon\<rparr>\<rparr>)))"

definition nmea_reader_update_bearing :: "byte list \<Rightarrow> NmeaReader \<Rightarrow> NmeaReader" where
  "nmea_reader_update_bearing t r =
     (if t = [] then r
      else r\<lparr>fix_loc := (set_flag GPS_LOCATION_HAS_BEARING (fix_loc r))\<lparr>loc_bearing := f64_to_f32 (str2float t)\<rparr>\<rparr>)"

definition nmea_reader_update_speed :: "byte list \<Rightarrow> NmeaReader \<Rightarrow> NmeaReader" where
  "nmea_reader_update_speed t r =
     (if t = [] then r
      else r\<lparr>fix_loc := (set_flag GPS_LOCATION_HAS_SPEED (fix_loc r))
             \<lparr>loc_speed := f64_to_f32 (f64_div (str2float t) (f64_of (Num False (1942795467 / 1000000000))))\<rparr>\<rparr>)"

definition nmea_reader_update_accuracy :: "byte list \<Rightarrow> NmeaReader \<Rightarrow> NmeaReader" where
  "nmea_reader_update_accuracy t r =
     (if t = [] then r
      else r\<lparr>fix_loc := (set_flag GPS_LOCATION_HAS_ACCURACY (fix_loc r))\<lparr>loc_accuracy := f64_to_f32 (str2float t)\<rparr>\<rparr>)"

section \<open>Satellites\<close>

text \<open>Number and constellation of a satellite; \<open>None\<close> is an identifier that is ignored.\<close>

definition sv_identity :: "i32 \<Rightarrow> (i16 \<times> SV_TYPE) option" where
  "sv_identity prn =
     (let p = sint prn
      in if 0 < p \<and> p < 32 then Some (word_of_int p, GPS_SV)
         else if 65 \<le> p \<and> p \<le> 96 then Some (word_of_int (p - 64), GLONASS_SV)
         else if 201 \<le> p \<and> p \<le> 237 then Some (word_of_int (p - 200), BDS_SV)
         else if 401 \<le> p \<and> p \<le> 436 then Some (word_of_int (p - 400), GALILEO_SV)
         else None)"

definition nmea_reader_update_sv_status ::
    "(i32 \<times> bool) list \<Rightarrow> i32 \<Rightarrow> byte list \<Rightarrow> byte list \<Rightarrow> byte list \<Rightarrow> NmeaReader \<Rightarrow> NmeaReader" where
  "nmea_reader_update_sv_status used_in_fix prn elev azi snr r =
     (let sv_index = sv_count r + num_svs r
      in if GNSS_MAX_SVS \<le> sv_index then r
         else case sv_identity prn of
           None \<Rightarrow> r
         | Some (v, c) \<Rightarrow>
             (let f = sv_flags (sv_list r ! sv_index)
              in r\<lparr>sv_list := (sv_list r)[sv_index :=
                     \<lparr>svid = v, constellation = sv_type_code c, c_n0_dbhz = f64_to_f32 (str2float snr),
                      elevation = f32_of_int (str2int elev), azimuth = f32_of_int (str2int azi),
                      sv_flags = (if snd (used_in_fix ! nat (sint prn)) then f OR 0x04 else f AND 0xFB)\<rparr>],
                   sv_count := sv_count r + 1\<rparr>))"

text \<open>The offset a constellation adds to the satellite number of a sentence.\<close>

definition sv_offset :: "SV_TYPE \<Rightarrow> i32" where
  "sv_offset c = (if c = BDS_SV then 200 else if c = GALILEO_SV then 400 else 0)"

primrec gsa_loop :: "byte list \<Rightarrow> token list \<Rightarrow> SV_TYPE \<Rightarrow> nat list \<Rightarrow> (i32 \<times> bool) list \<Rightarrow> (i32 \<times> bool) list" where
  "gsa_loop mem t c [] u = u"
| "gsa_loop mem t c (i # is) u =
     (let tok = nmea_tokenizer_get t (i + 3)
      in if tok_len tok = 0 then u
         else let sate_id = str2int (tok_text mem tok) + sv_offset c
              in gsa_loop mem t c is (if 0 \<le> sint sate_id \<and> sint sate_id < 450 then u[nat (sint sate_id) := (sate_id, True)] else u))"

text \<open>One satellite of a \<open>GSV\<close> sentence; \<open>prn\<close> and \<open>snr\<close> are arrays of 32 elements.\<close>

definition gsv_entry :: "token list \<Rightarrow> SV_TYPE \<Rightarrow> nat \<Rightarrow> nmea_ctx act" where
  "gsv_entry t c idx s =
     (let mem = in_buf (rdr s); g = (\<lambda>k. tok_text mem (nmea_tokenizer_get t (4 * (idx + 1) + k)));
          sv_id = str2int (g 0) + sv_offset c; n = sv_count (rdr s); a = tst s
      in if length (at_prn a) \<le> n \<or> length (at_snr a) \<le> n then None
         else
           (let a = a\<lparr>at_prn := (at_prn a)[n := str2int (g 0)], at_snr := (at_snr a)[n := f64_to_int (str2float (g 3))]\<rparr>
            in Some (s\<lparr>tst := a, rdr := nmea_reader_update_sv_status (gnss_sv_used_in_fix s) sv_id (g 1) (g 2) (g 3) (rdr s)\<rparr>)))"

primrec gsv_loop :: "token list \<Rightarrow> SV_TYPE \<Rightarrow> nat list \<Rightarrow> nmea_ctx act" where
  "gsv_loop t c [] s = Some s"
| "gsv_loop t c (i # is) s = do { s \<leftarrow> gsv_entry t c i s; gsv_loop t c is s }"

section \<open>Sentences\<close>

definition parse_gga :: "nmea_env \<Rightarrow> token list \<Rightarrow> nmea_ctx \<Rightarrow> nmea_ctx" where
  "parse_gga e t s =
     (let mem = in_buf (rdr s); g = (\<lambda>i. tok_text mem (nmea_tokenizer_get t i)); c = (\<lambda>i. tok_char mem (nmea_tokenizer_get t i));
          r = nmea_reader_update_time e (g 1) (rdr s);
          r = nmea_reader_update_latlong (g 2) (c 3) (g 4) (c 5) r
      in s\<lparr>rdr := nmea_reader_update_altitude (g 9) r\<rparr>)"

definition parse_gsa :: "token list \<Rightarrow> SV_TYPE \<Rightarrow> nmea_ctx \<Rightarrow> nmea_ctx" where
  "parse_gsa t c s =
     (let mem = in_buf (rdr s); s = s\<lparr>rdr := (rdr s)\<lparr>fix_mode := str2int (tok_text mem (nmea_tokenizer_get t 2))\<rparr>\<rparr>
      in if LOC_FIXED (rdr s) then s\<lparr>gnss_sv_used_in_fix := gsa_loop mem t c [0..<12] (gnss_sv_used_in_fix s)\<rparr> else s)"

definition parse_rmc :: "nmea_env \<Rightarrow> token list \<Rightarrow> nmea_ctx \<Rightarrow> nmea_ctx" where
  "parse_rmc e t s =
     (let mem = in_buf (rdr s); g = (\<lambda>i. tok_text mem (nmea_tokenizer_get t i)); c = (\<lambda>i. tok_char mem (nmea_tokenizer_get t i))
      in if c 2 = 65 then
           (let r = nmea_reader_update_date e (g 9) (g 1) (rdr s);
                r = nmea_reader_update_latlong (g 3) (c 4) (g 5) (c 6) r;
                r = nmea_reader_update_bearing (g 8) r
            in s\<lparr>rdr := nmea_reader_update_speed (g 7) r\<rparr>)
         else s)"

text \<open>The last sentence of a set: the satellites are counted, or dropped when there are more than announced.\<close>

definition gsv_complete :: "i32 \<Rightarrow> nmea_ctx act" where
  "gsv_complete cnt s =
     (if int (sv_count (rdr s)) \<le> sint cnt then do {
        let s = s\<lparr>rdr := (rdr s)\<lparr>num_svs := num_svs (rdr s) + sv_count (rdr s)\<rparr>\<rparr>;
        (if MNL_AT_TEST_FLAG (tst s) \<or> MNL_AT_SIGNAL_MODE (tst s)
         then do { a \<leftarrow> gps_at_command_test_proc (word_of_nat (sv_count (rdr s))) (tst s); Some (s\<lparr>tst := a\<rparr>) }
         else Some s) }
      else Some (s\<lparr>rdr := (rdr s)\<lparr>sv_count := 0, num_svs := 0\<rparr>\<rparr>))"

definition parse_gsv :: "token list \<Rightarrow> SV_TYPE \<Rightarrow> nmea_ctx act" where
  "parse_gsv t c s = do {
     let mem = in_buf (rdr s);
     let num = str2int (tok_text mem (nmea_tokenizer_get t 1));
     let seq = str2int (tok_text mem (nmea_tokenizer_get t 2));
     let cnt = str2int (tok_text mem (nmea_tokenizer_get t 3));
     let sv_base = (seq - 1) * 4;
     let sv_num = min NMEA_MAX_SV_INFO (sint (cnt - sv_base));
     let s = (if seq = 1 then s\<lparr>rdr := (rdr s)\<lparr>sv_count := 0\<rparr>\<rparr> else s);
     s \<leftarrow> gsv_loop t c [0..<nat sv_num] s;
     (if seq = num then gsv_complete cnt s else Some s) }"

text \<open>A message to another process, from the parser's thread.\<close>

definition nsend :: "(os \<Rightarrow> (int \<times> os) option) \<Rightarrow> nmea_ctx act" where
  "nsend f s = do { d \<leftarrow> ksend f (dm (tst s)); Some (s\<lparr>tst := (tst s)\<lparr>dm := d\<rparr>\<rparr>) }"

text \<open>What is reported behind each sentence, in effect only at the end of the burst.\<close>

definition report_fix :: "nmea_ctx act" where
  "report_fix s =
     (if \<not> LOC_FIXED (rdr s) then Some s
      else if loc_flags (fix_loc (rdr s)) \<noteq> 0 \<and> gps_nmea_end_tag s then do {
        s \<leftarrow> nsend (mnl2hal_location (gps_location_bytes (fix_loc (rdr s)))) s;
        s \<leftarrow> nsend (mnld_gps_update_location (gps_location_bytes (fix_loc (rdr s)))) s;
        Some (s\<lparr>rdr := (rdr s)\<lparr>fix_loc := (fix_loc (rdr s))\<lparr>loc_flags := 0\<rparr>\<rparr>\<rparr>) }
      else Some s)"

definition report_svs :: "nmea_ctx act" where
  "report_svs s =
     (if num_svs (rdr s) \<noteq> 0 \<and> gps_nmea_end_tag s then do {
        s \<leftarrow> nsend (mnl2hal_gps_sv (sv_status_bytes (rdr s))) s;
        Some (s\<lparr>rdr := (rdr s)\<lparr>sv_count := 0, num_svs := 0\<rparr>, gnss_sv_used_in_fix := replicate 450 (0, False)\<rparr>) }
      else Some s)"

text \<open>The constellation, from the first two letters, and the sentence, from the next ones.\<close>

definition talker :: "byte list \<Rightarrow> SV_TYPE" where
  "talker sid = (if take 2 sid = [66, 68] then BDS_SV else if take 2 sid = [71, 80] then GPS_SV
     else if take 2 sid = [71, 76] then GLONASS_SV else if take 2 sid = [71, 65] then GALILEO_SV else GPS_SV)"

definition parse_sentence :: "nmea_env \<Rightarrow> token list \<Rightarrow> byte list \<Rightarrow> nmea_ctx act" where
  "parse_sentence e t sid s =
     (let c = talker sid; k = drop 2 sid
      in if take 3 k = [71, 71, 65] then Some (parse_gga e t s)
         else if take 3 k = [71, 83, 65] then Some (parse_gsa t c s)
         else if take 3 k = [82, 77, 67] then Some (parse_rmc e t s)
         else if take 3 k = [71, 83, 86] then parse_gsv t c s
         else if take 8 k = [65, 67, 67, 85, 82, 65, 67, 89] then
           Some (if fix_mode (rdr s) = 3 \<or> fix_mode (rdr s) = 2
                 then s\<lparr>rdr := nmea_reader_update_accuracy (tok_text (in_buf (rdr s)) (nmea_tokenizer_get t 1)) (rdr s)\<rparr> else s)
         else Some s)"

definition nmea_reader_parse :: "nmea_env \<Rightarrow> nmea_ctx act" where
  "nmea_reader_parse e s = do {
     a \<leftarrow> nmea_parser_at_cmd_pre (ne_at e) (gps_nmea_end_tag s) (tst s);
     let s = s\<lparr>tst := a\<rparr>;
     let mem = in_buf (rdr s);
     (if pos (rdr s) < 9 then Some s
      else do {
        let t = nmea_tokenizer_init mem (pos (rdr s));
        (case nmea_tokenizer_get t 0 of
           Dummy \<Rightarrow> Some s
         | Tok p q \<Rightarrow>
             if q < p + 5 then Some s
             else do {
               s \<leftarrow> parse_sentence e t (drop p mem) s;
               s \<leftarrow> report_fix s;
               report_svs s }) }) }"

section \<open>Lines\<close>

definition nmea_reader_addc :: "nmea_env \<Rightarrow> byte \<Rightarrow> nmea_ctx act" where
  "nmea_reader_addc e c s =
     (let r = rdr s
      in if overflow r then Some (s\<lparr>rdr := r\<lparr>overflow := c \<noteq> 10\<rparr>\<rparr>)
         else if length (in_buf r) - 1 \<le> pos r then Some (s\<lparr>rdr := r\<lparr>overflow := True, pos := 0\<rparr>\<rparr>)
         else do {
           let s = s\<lparr>rdr := r\<lparr>in_buf := (in_buf r)[pos r := c], pos := pos r + 1\<rparr>\<rparr>;
           (if c = 10 then do {
              s \<leftarrow> nmea_reader_parse e s;
              t \<leftarrow> c_string (in_buf (rdr s));
              s \<leftarrow> nsend (mnl2hal_nmea (loc_timestamp (fix_loc (rdr s))) (Some t) (word_of_nat (pos (rdr s)))) s;
              Some (s\<lparr>rdr := (rdr s)\<lparr>pos := 0\<rparr>\<rparr>) }
            else Some s) })"

text \<open>The loop over the burst: the end tag is set in front of its last character.\<close>

fun nmea_process_loop :: "nmea_env \<Rightarrow> byte list \<Rightarrow> nmea_ctx act" where
  "nmea_process_loop e [] s = Some s"
| "nmea_process_loop e (c # cs) s = do {
     s \<leftarrow> nmea_reader_addc e c (if cs = [] then s\<lparr>gps_nmea_end_tag := True\<rparr> else s);
     nmea_process_loop e cs s }"

definition mtk_mnl_nmea_parser_process :: "nmea_env \<Rightarrow> byte list \<Rightarrow> nmea_ctx act" where
  "mtk_mnl_nmea_parser_process e buffer s =
     nmea_process_loop e buffer (s\<lparr>rdr := nmea_reader_init e, gps_nmea_end_tag := False\<rparr>)"

definition get_gps_nmea_parser_end_status :: "nmea_ctx \<Rightarrow> i32" where
  "get_gps_nmea_parser_end_status s = (if gps_nmea_end_tag s then 1 else 0)"

end
