(* ===== verification/Nmea_Coordinates.thy ===== *)
theory Nmea_Coordinates
  imports Nmea_Parser
begin

text \<open>
  The accuracy of \<open>convert_from_hhmm\<close>: an NMEA coordinate \<open>dddmm.mmmm\<close> is a decimal number of degrees times
  one hundred plus minutes. Five roundings to \<open>double\<close> separate the text from the result.
\<close>

section \<open>One rounding\<close>

lemma f64_step:
  assumes "q = 0 \<or> 1 / 10 ^ 20 \<le> q" "q < 10 ^ 20"
  obtains r where "f64_val (f64_of (Num s q)) = Num s r" "0 \<le> r" "\<bar>r - q\<bar> \<le> q / 2 ^ 53"
proof (cases "q = 0")
  case True
  with that [of 0] show thesis by simp
next
  case False
  then have q: "0 < q" using assms(1) less_le_trans [of 0 "1 / 10 ^ 20 :: rat" q] by simp
  have "(2 :: rat) powi (-1022) \<le> 1 / 10 ^ 20" by (simp add: power_int_minus divide_simps)
  also have "\<dots> \<le> q" using assms(1) False by simp
  finally have lo: "2 powi (-1022) \<le> q" .
  have "(10 :: rat) ^ 20 \<le> 2 powi 1000" by simp
  with assms(2) have "q < 2 powi 1000" by (rule less_le_trans)
  from f64_near [OF q lo this, of s] obtain r where r: "f64_val (f64_of (Num s q)) = Num s r" "\<bar>r - q\<bar> \<le> q / 2 ^ 53" .
  have "q / 2 ^ 53 \<le> q" using q by (simp add: divide_simps)
  with r(2) have "0 \<le> r" by linarith
  with r that show thesis by blast
qed

lemma f64_num_exact:
  assumes "0 \<le> n" "n < 2 ^ 53"
  shows "f64_val (f64_of (num_of (of_int n))) = Num False (of_int n)"
  using f64_exact [OF assms, of False] assms(1) by (simp add: num_of_def)

section \<open>Reading the text\<close>

definition coord_text :: "byte list \<Rightarrow> byte list \<Rightarrow> bool" where
  "coord_text ip fp = (ip \<noteq> [] \<and> list_all is_digit ip \<and> list_all is_digit fp \<and> length ip + length fp \<le> 14)"

definition decimal :: "byte list \<Rightarrow> int" where
  "decimal ds = base_val 10 digit_val ds 0"

lemma digit_range: "is_digit c \<Longrightarrow> 0 \<le> digit_val c \<and> digit_val c \<le> 9"
  by (simp add: is_digit_def digit_val_def word_le_def)

lemma base_val_bounds:
  assumes "list_all is_digit ds" "0 \<le> acc"
  shows "0 \<le> base_val 10 digit_val ds acc \<and> base_val 10 digit_val ds acc < (acc + 1) * 10 ^ length ds"
  using assms
proof (induction ds arbitrary: acc)
  case (Cons c ds)
  have d: "0 \<le> digit_val c" "digit_val c \<le> 9" using Cons.prems digit_range [of c] by simp_all
  have "base_val 10 digit_val ds (acc * 10 + digit_val c) < (acc * 10 + digit_val c + 1) * 10 ^ length ds"
    using Cons d by simp
  also have "\<dots> \<le> ((acc + 1) * 10) * 10 ^ length ds"
    using d by (intro mult_right_mono) simp_all
  finally show ?case using Cons d by (simp add: algebra_simps)
qed simp

lemma decimal_bounds: "list_all is_digit ds \<Longrightarrow> 0 \<le> decimal ds \<and> decimal ds < 10 ^ length ds"
  using base_val_bounds [of ds 0] by (simp add: decimal_def)

lemma digit_not: "is_digit c \<Longrightarrow> c \<noteq> 0 \<and> c \<noteq> 45 \<and> c \<noteq> 43 \<and> c \<noteq> 46 \<and> c \<noteq> 120 \<and> \<not> is_space c
    \<and> to_lower c = c \<and> c \<noteq> 105 \<and> c \<noteq> 110"
  by (auto simp: is_digit_def is_space_def to_lower_def word_le_nat_alt)

lemma str2float_coord:
  assumes "coord_text ip fp"
  shows "str2float (ip @ 46 # fp) = f64_of (Num False (of_int (decimal (ip @ fp)) / 10 ^ length fp))"
proof -
  obtain c cs where ip: "ip = c # cs" using assms by (cases ip) (auto simp: coord_text_def)
  have ds: "list_all is_digit ip" "list_all is_digit fp" using assms by (simp_all add: coord_text_def)
  have c: "is_digit c" using ds(1) by (simp add: ip)
  have all: "0 \<notin> set (ip @ 46 # fp)"
    using ds digit_not by (auto simp: list_all_iff)
  have tw: "takeWhile (\<lambda>x. x \<noteq> 0) (ip @ 46 # fp) = ip @ 46 # fp"
    using all by (subst takeWhile_eq_all_conv) blast
  have sg: "split_sign (dropWhile is_space (ip @ 46 # fp)) = (False, ip @ 46 # fp)"
    using digit_not [OF c] by (simp add: ip split_sign_def)
  have nx: "take 2 (map to_lower (ip @ 46 # fp)) \<noteq> [48, 120]"
  proof (cases cs)
    case (Cons d ds')
    then have "is_digit d" using ds(1) ip by simp
    with Cons ip digit_not [of d] show ?thesis by auto
  qed (simp add: ip to_lower_def)
  have "takeWhile is_digit (ip @ 46 # fp) = ip" "dropWhile is_digit (ip @ 46 # fp) = 46 # fp"
    using ds(1) by (auto simp: takeWhile_append dropWhile_append list_all_iff is_digit_def)
  moreover have "takeWhile is_digit fp = fp" "dropWhile is_digit fp = []"
    using ds(2) by (auto simp: takeWhile_eq_all_conv dropWhile_eq_Nil_conv list_all_iff)
  ultimately have sc: "scan_mantissa is_digit (ip @ 46 # fp) = (ip, fp, [])"
    by (simp add: scan_mantissa_def)
  have "strtod_dec (ip @ 46 # fp) = Some (of_int (decimal (ip @ fp)) / 10 ^ length fp)"
    unfolding strtod_dec_def sc by (simp add: ip exp_part_def decimal_def)
  moreover have "take 3 (map to_lower (ip @ 46 # fp)) \<noteq> [105, 110, 102]" "take 3 (map to_lower (ip @ 46 # fp)) \<noteq> [110, 97, 110]"
    using digit_not [OF c] by (auto simp: ip)
  ultimately have "strtod (ip @ 46 # fp) = f64_of (Num False (of_int (decimal (ip @ fp)) / 10 ^ length fp))"
    using nx by (simp add: strtod_def sg)
  then show ?thesis using assms unfolding str2float_def tw by (simp add: coord_text_def)
qed

section \<open>Degrees are exact\<close>

text \<open>Rounding never crosses an integer: the text has at most fourteen digits.\<close>

lemma coord_floor:
  assumes N: "0 \<le> N" "N < 10 ^ 14" and v: "v = of_int N / 10 ^ k"
    and x: "f64_val (f64_of (Num False v)) = Num False x" "\<bar>x - v\<bar> \<le> v / 2 ^ 53"
  shows "\<lfloor>x\<rfloor> = \<lfloor>v\<rfloor>" "x = of_int \<lfloor>v\<rfloor> \<or> 1 / 10 ^ k \<le> 2 * (x - of_int \<lfloor>v\<rfloor>)"
proof -
  define n where "n = \<lfloor>v\<rfloor>"
  have Nr: "(of_int N :: rat) < of_int (10 ^ 14)" using N(2) by (simp only: of_int_less_iff)
  have v0: "0 \<le> v" using N(1) by (simp add: v)
  have "v \<le> of_int N" using N(1) by (simp add: v divide_le_eq mult_le_cancel_left1)
  with Nr have v14: "v < 10 ^ 14" by simp
  have n: "0 \<le> n" "n < 2 ^ 53" using v0 v14 by (simp_all add: n_def floor_less_iff)
  have "\<lfloor>x\<rfloor> = n \<and> (x = of_int n \<or> 1 / 10 ^ k \<le> 2 * (x - of_int n))"
  proof (cases "v = of_int n")
    case True
    with f64_exact [OF n, of False] x(1) have "x = of_int n" by simp
    then show ?thesis by simp
  next
    case False
    define p where "p = (10 :: rat) ^ k"
    have p: "0 < p" by (simp add: p_def)
    define j where "j = N - n * 10 ^ k"
    have j: "of_int j = (v - of_int n) * p" by (simp add: j_def v p_def left_diff_distrib)
    have fl: "of_int n \<le> v" "v < of_int n + 1" unfolding n_def by linarith+
    have "0 < (of_int j :: rat)" using False fl(1) p by (simp add: j)
    then have j1: "1 \<le> (of_int j :: rat)" by simp
    have "(of_int j :: rat) < 1 * p" unfolding j using fl(2) p by (intro mult_strict_right_mono) simp_all
    then have "(of_int j :: rat) < of_int (10 ^ k)" by (simp add: p_def)
    then have "j + 1 \<le> 10 ^ k" by (simp only: of_int_less_iff)
    then have "(of_int (j + 1) :: rat) \<le> of_int (10 ^ k)" by (simp only: of_int_le_iff)
    then have j2: "(of_int j :: rat) + 1 \<le> p" by (simp add: p_def)
    have "\<bar>x - v\<bar> * p \<le> v / 2 ^ 53 * p" using x(2) p by (intro mult_right_mono) simp_all
    also have "\<dots> = of_int N / 2 ^ 53" using p by (simp add: v p_def)
    also have "\<dots> < 1 / 2" using Nr by simp
    finally have e: "\<bar>(x - v) * p\<bar> < 1 / 2" using p by (simp add: abs_mult)
    have "(x - of_int n) * p = (x - v) * p + of_int j" by (simp add: j algebra_simps)
    with e j1 j2 have b: "1 / 2 < (x - of_int n) * p" "(x - of_int n) * p < p" by linarith+
    have "0 < (x - of_int n) * p" using b(1) by linarith
    then have "0 < x - of_int n" using p by (rule zero_less_mult_pos2)
    moreover have "(x - of_int n) * p < 1 * p" using b(2) by simp
    then have "x - of_int n < 1" using p by (simp only: mult_less_cancel_right_pos)
    moreover have "1 / p \<le> 2 * (x - of_int n)" using b(1) p by (simp add: divide_simps algebra_simps)
    ultimately show ?thesis by (simp add: p_def floor_eq_iff)
  qed
  then show "\<lfloor>x\<rfloor> = \<lfloor>v\<rfloor>" "x = of_int \<lfloor>v\<rfloor> \<or> 1 / 10 ^ k \<le> 2 * (x - of_int \<lfloor>v\<rfloor>)" by (simp_all add: n_def)
qed

lemma f64_100: "f64_val (f64_of (Num False 100)) = Num False 100" and f64_60: "f64_val (f64_of (Num False 60)) = Num False 60"
  using f64_exact [of 100 False] f64_exact [of 60 False] by simp_all

text \<open>\<open>(int)(n / 100)\<close> in \<open>double\<close> is the integer quotient when the remainder is below 60.\<close>

lemma hundred_floor:
  assumes "0 \<le> D" "D \<le> 180" "0 \<le> m" "m < 60"
  shows "f64_to_int (f64_div (f64_of (Num False (of_int (100 * D + m)))) (f64_of (Num False 100))) = word_of_int D"
proof -
  let ?n = "of_int (100 * D + m) :: rat"
  have b: "0 \<le> 100 * D + m" "100 * D + m < 2 ^ 53" using assms by simp_all
  have Dr: "(0 :: rat) \<le> of_int D" "(of_int D :: rat) \<le> 180" "(0 :: rat) \<le> of_int m" "(of_int m :: rat) \<le> 59"
    using assms of_int_le_iff [of D 180, where 'a = rat] of_int_le_iff [of m 59, where 'a = rat] by simp_all
  have d: "f64_div (f64_of (Num False ?n)) (f64_of (Num False 100)) = f64_of (Num False (?n / 100))"
    unfolding f64_div_def f64_exact [OF b] f64_100 by simp
  have "\<exists>y. f64_val (f64_of (Num False (?n / 100))) = Num False y \<and> \<lfloor>y\<rfloor> = D"
  proof (cases "m = 0")
    case True
    then have "?n / 100 = of_int D" by simp
    moreover have "D < 2 ^ 53" using assms by simp
    ultimately show ?thesis using f64_exact [OF assms(1), of False] by (metis floor_of_int)
  next
    case False
    then have m1: "(1 :: rat) \<le> of_int m" using assms(3) by simp
    have r: "?n / 100 = of_int D + of_int m / 100" by simp
    have "1 / 10 ^ 20 \<le> ?n / 100" "?n / 100 < 10 ^ 20" unfolding r using Dr m1 by simp_all
    then obtain y where y: "f64_val (f64_of (Num False (?n / 100))) = Num False y" "\<bar>y - ?n / 100\<bar> \<le> ?n / 100 / 2 ^ 53"
      using f64_step [of "?n / 100" False] by blast
    have "?n / 100 / 2 ^ 53 \<le> 1 / 1000" unfolding r using Dr by simp
    then have "of_int D \<le> y" "y < of_int D + 1" using y(2) Dr m1 unfolding r by linarith+
    with y(1) show ?thesis by (auto simp: floor_eq_iff)
  qed
  then obtain y where "f64_val (f64_of (Num False (?n / 100))) = Num False y" "\<lfloor>y\<rfloor> = D" by blast
  then show ?thesis using assms unfolding f64_to_int_def d by simp
qed

section \<open>The result\<close>

lemma fp_add_pos:
  "0 \<le> a + b \<Longrightarrow> 0 \<le> a \<Longrightarrow> fp_add (Num False a) (Num False b) = Num False (a + b)"
  "0 \<le> a - b \<Longrightarrow> fp_add (Num False a) (fp_neg (Num False b)) = Num False (a - b)"
  by (auto simp: signed_mag_def num_of_def Let_def)

text \<open>The last three operations: \<open>degrees + (val - degrees * 100.) / 60.0\<close>.\<close>

lemma minutes_accuracy:
  assumes "0 \<le> D" "D \<le> 180" "f64_val val = Num False x"
    and z: "z = x - 100 * of_int D" "z = 0 \<or> 1 / 10 ^ 14 \<le> z" "z < 61"
  obtains r where "f64_val (f64_add (f64_of_int (word_of_int D))
      (f64_div (f64_sub val (f64_mul (f64_of_int (word_of_int D)) (f64_of (Num False 100)))) (f64_of (Num False 60)))) = Num False r"
    "\<bar>r - (of_int D + z / 60)\<bar> \<le> 200 / 2 ^ 53"
proof -
  have Dr: "(0 :: rat) \<le> of_int D" "(of_int D :: rat) \<le> 180"
    using assms(1,2) of_int_le_iff [of D 180, where 'a = rat] by simp_all
  have si: "sint (word_of_int D :: i32) = D"
    using assms(1,2) sint_word_of_nat [of "nat D"] by simp
  have dv: "f64_val (f64_of_int (word_of_int D)) = Num False (of_int D)"
    unfolding f64_of_int_def si using f64_num_exact [of D] assms(1,2) by simp
  have "f64_val (f64_of (Num False (of_int (D * 100)))) = Num False (of_int (D * 100))"
    using assms(1,2) by (intro f64_exact) simp_all
  then have mv: "f64_val (f64_mul (f64_of_int (word_of_int D)) (f64_of (Num False 100))) = Num False (of_int D * 100)"
    unfolding f64_mul_def dv f64_100 by simp
  have z0: "0 \<le> z" using z(2) less_le_trans [of 0 "1 / 10 ^ 14 :: rat" z] by auto
  have "z = 0 \<or> 1 / 10 ^ 20 \<le> z" using z(2) order_trans [of "1 / 10 ^ 20" "1 / 10 ^ 14 :: rat" z] by auto
  then obtain w where w: "f64_val (f64_of (Num False z)) = Num False w" "0 \<le> w" "\<bar>w - z\<bar> \<le> z / 2 ^ 53"
    using f64_step [of z False] z(3) by auto
  have wl: "w \<le> z + z / 2 ^ 53" "z - z / 2 ^ 53 \<le> w" using w(3) by linarith+
  have wz: "w = 0 \<or> 1 / 10 ^ 15 \<le> w" "w < 62"
  proof -
    show "w < 62" using wl(1) z(3) by simp
    show "w = 0 \<or> 1 / 10 ^ 15 \<le> w" using z(2) wl w(2) by (elim disjE) simp_all
  qed
  have sv: "f64_val (f64_sub val (f64_mul (f64_of_int (word_of_int D)) (f64_of (Num False 100)))) = Num False w"
    unfolding f64_sub_def assms(3) mv using w(1) z0 z(1) fp_add_pos(2) [of x "of_int D * 100"] by (simp add: mult.commute)
  have "w / 60 = 0 \<or> 1 / 10 ^ 20 \<le> w / 60" "w / 60 < 10 ^ 20" using wz by auto
  then obtain q where q: "f64_val (f64_of (Num False (w / 60))) = Num False q" "0 \<le> q" "\<bar>q - w / 60\<bar> \<le> w / 60 / 2 ^ 53"
    by (rule f64_step)
  have qv: "f64_val (f64_div (f64_sub val (f64_mul (f64_of_int (word_of_int D)) (f64_of (Num False 100)))) (f64_of (Num False 60))) = Num False q"
    unfolding f64_div_def sv f64_60 using q(1) by simp
  have ql: "q \<le> w / 60 + w / 60 / 2 ^ 53" "w / 60 - w / 60 / 2 ^ 53 \<le> q" using q(3) by linarith+
  have qb: "q = 0 \<or> 1 / 10 ^ 19 \<le> q" "q < 2"
  proof -
    show "q < 2" using ql(1) wz(2) by simp
    show "q = 0 \<or> 1 / 10 ^ 19 \<le> q" using wz(1) ql q(2) by (elim disjE) simp_all
  qed
  have "of_int D + q = 0 \<or> 1 / 10 ^ 20 \<le> of_int D + q" "of_int D + q < 10 ^ 20"
  proof -
    show "of_int D + q < 10 ^ 20" using Dr(2) qb(2) by simp
    show "of_int D + q = 0 \<or> 1 / 10 ^ 20 \<le> of_int D + q"
    proof (cases "D = 0")
      case True
      with qb(1) show ?thesis by auto
    next
      case False
      then have "(1 :: rat) \<le> of_int D" using assms(1) by simp
      with q(2) show ?thesis by simp
    qed
  qed
  then obtain r where r: "f64_val (f64_of (Num False (of_int D + q))) = Num False r" "\<bar>r - (of_int D + q)\<bar> \<le> (of_int D + q) / 2 ^ 53"
    using f64_step [of "of_int D + q" False] by blast
  have "f64_val (f64_add (f64_of_int (word_of_int D))
      (f64_div (f64_sub val (f64_mul (f64_of_int (word_of_int D)) (f64_of (Num False 100)))) (f64_of (Num False 60)))) = Num False r"
    unfolding f64_add_def dv qv using fp_add_pos(1) [of "of_int D" q] Dr(1) q(2) r(1) by simp
  moreover have "\<bar>r - (of_int D + z / 60)\<bar> \<le> 200 / 2 ^ 53"
  proof -
    have "\<bar>w - z\<bar> / 60 = \<bar>w / 60 - z / 60\<bar>" by (simp flip: diff_divide_distrib)
    then have "\<bar>r - (of_int D + z / 60)\<bar> \<le> \<bar>r - (of_int D + q)\<bar> + \<bar>q - w / 60\<bar> + \<bar>w - z\<bar> / 60" by linarith
    also have "\<dots> \<le> (of_int D + q) / 2 ^ 53 + w / 60 / 2 ^ 53 + z / 2 ^ 53 / 60"
      using r(2) q(3) w(3) by (intro add_mono divide_right_mono) simp_all
    also have "\<dots> = (of_int D + q + w / 60 + z / 60) / 2 ^ 53" by (simp add: add_divide_distrib)
    also have "\<dots> \<le> 200 / 2 ^ 53" using Dr(2) qb(2) wz(2) z(3) by (intro divide_right_mono) simp_all
    finally show ?thesis .
  qed
  ultimately show thesis by (rule that)
qed

text \<open>The number a coordinate text denotes, its degrees and its minutes.\<close>

definition coord_value :: "byte list \<Rightarrow> byte list \<Rightarrow> rat" where
  "coord_value ip fp = of_int (decimal (ip @ fp)) / 10 ^ length fp"

definition coord_degrees :: "byte list \<Rightarrow> byte list \<Rightarrow> int" where
  "coord_degrees ip fp = \<lfloor>coord_value ip fp / 100\<rfloor>"

definition coord_minutes :: "byte list \<Rightarrow> byte list \<Rightarrow> rat" where
  "coord_minutes ip fp = coord_value ip fp - 100 * of_int (coord_degrees ip fp)"

definition valid_coord :: "byte list \<Rightarrow> byte list \<Rightarrow> bool" where
  "valid_coord ip fp = (coord_text ip fp \<and> coord_degrees ip fp \<le> 180 \<and> coord_minutes ip fp < 60)"

lemma coord_text_bounds:
  assumes "coord_text ip fp"
  shows "0 \<le> decimal (ip @ fp)" "decimal (ip @ fp) < 10 ^ 14" "0 \<le> coord_value ip fp"
    and "coord_value ip fp = 0 \<or> 1 / 10 ^ 20 \<le> coord_value ip fp" "1 / 10 ^ 13 \<le> (1 / 10 ^ length fp :: rat)"
proof -
  let ?v = "coord_value ip fp"
  have k: "length fp \<le> 13" using assms by (cases ip) (simp_all add: coord_text_def)
  show N: "0 \<le> decimal (ip @ fp)" using decimal_bounds [of "ip @ fp"] assms by (simp add: coord_text_def)
  have "decimal (ip @ fp) < 10 ^ length (ip @ fp)" using decimal_bounds [of "ip @ fp"] assms by (simp add: coord_text_def)
  also have "(10 :: int) ^ length (ip @ fp) \<le> 10 ^ 14" using assms by (intro power_increasing) (simp_all add: coord_text_def)
  finally show "decimal (ip @ fp) < 10 ^ 14" .
  show "0 \<le> ?v" using N by (simp add: coord_value_def)
  show pk: "1 / 10 ^ 13 \<le> (1 / 10 ^ length fp :: rat)"
    using k power_increasing [of "length fp" 13 "10 :: rat"] by (simp add: frac_le)
  have "?v = 0 \<or> 1 / 10 ^ length fp \<le> ?v"
    using N by (cases "decimal (ip @ fp) = 0") (simp_all add: coord_value_def divide_right_mono)
  then have "?v = 0 \<or> 1 / 10 ^ 13 \<le> ?v" using order_trans [OF pk] by blast
  then show "?v = 0 \<or> 1 / 10 ^ 20 \<le> ?v" by (elim disjE) simp_all
qed

lemma valid_coord_bounds:
  assumes "valid_coord ip fp"
  shows "0 \<le> coord_degrees ip fp" "0 \<le> coord_minutes ip fp"
    and "coord_value ip fp = 100 * of_int (coord_degrees ip fp) + coord_minutes ip fp" "coord_value ip fp < 18060"
proof -
  let ?v = "coord_value ip fp" and ?D = "coord_degrees ip fp"
  have t: "coord_text ip fp" "?D \<le> 180" "coord_minutes ip fp < 60" using assms by (simp_all add: valid_coord_def)
  show vM: "?v = 100 * of_int ?D + coord_minutes ip fp" by (simp add: coord_minutes_def)
  show "0 \<le> ?D" using coord_text_bounds(3) [OF t(1)] by (simp add: coord_degrees_def)
  have "of_int ?D \<le> ?v / 100" unfolding coord_degrees_def by linarith
  then show "0 \<le> coord_minutes ip fp" using vM by simp
  have "(of_int ?D :: rat) \<le> 180" using t(2) of_int_le_iff [of ?D 180, where 'a = rat] by simp
  then show "?v < 18060" using t(3) vM by simp
qed

lemma hhmm_accuracy:
  assumes "valid_coord ip fp"
  obtains r where "f64_val (convert_from_hhmm (ip @ 46 # fp)) = Num False r"
    "\<bar>r - (of_int (coord_degrees ip fp) + coord_minutes ip fp / 60)\<bar> \<le> 1 / 10 ^ 12"
proof -
  define v D M where "v = coord_value ip fp" and "D = coord_degrees ip fp" and "M = coord_minutes ip fp"
  have t: "coord_text ip fp" "D \<le> 180" "M < 60" using assms by (simp_all add: valid_coord_def D_def M_def)
  note b = coord_text_bounds [OF t(1), folded v_def] and d = valid_coord_bounds [OF assms, folded v_def D_def M_def]
  have v: "v = of_int (decimal (ip @ fp)) / 10 ^ length fp" by (simp add: v_def coord_value_def)
  have "v < 10 ^ 20" using d(4) by simp
  then obtain x where x: "f64_val (f64_of (Num False v)) = Num False x" "\<bar>x - v\<bar> \<le> v / 2 ^ 53"
    using f64_step [of v False] b(4) by blast
  note f = coord_floor [OF b(1,2) v x]
  define m where "m = \<lfloor>M\<rfloor>"
  have m: "0 \<le> m" "m < 60" using d(2) t(3) by (simp_all add: m_def floor_less_iff)
  have "\<lfloor>100 * of_int D + M\<rfloor> = \<lfloor>M + of_int (100 * D)\<rfloor>" by (simp add: add.commute)
  then have n: "\<lfloor>v\<rfloor> = 100 * D + m" unfolding d(3) m_def floor_add_int [symmetric] by simp
  have fl: "f64_floor (f64_of (Num False v)) = f64_of (Num False (of_int (100 * D + m)))"
    unfolding f64_floor_def x(1) using f(1) n d(1) m(1) by (simp add: signed_mag_def)
  define z where "z = x - 100 * of_int D"
  have z: "z = (x - of_int \<lfloor>v\<rfloor>) + of_int m" by (simp add: z_def n)
  have mr: "(0 :: rat) \<le> of_int m" "(of_int m :: rat) \<le> 59" using m of_int_le_iff [of m 59, where 'a = rat] by simp_all
  have "x < of_int \<lfloor>v\<rfloor> + 1" using f(1) by linarith
  then have "z < 61" using z mr(2) by linarith
  moreover have "z = 0 \<or> 1 / 10 ^ 14 \<le> z"
    using f(2)
  proof
    assume "x = of_int \<lfloor>v\<rfloor>"
    moreover have "m = 0 \<or> (1 :: rat) \<le> of_int m" using m(1) by auto
    ultimately show ?thesis using z by auto
  next
    assume "1 / 10 ^ length fp \<le> 2 * (x - of_int \<lfloor>v\<rfloor>)"
    then show ?thesis using order_trans [OF b(5), of "2 * (x - of_int \<lfloor>v\<rfloor>)"] mr(1) z by simp
  qed
  ultimately obtain r where r: "f64_val (f64_add (f64_of_int (word_of_int D))
      (f64_div (f64_sub (f64_of (Num False v)) (f64_mul (f64_of_int (word_of_int D)) (f64_of (Num False 100)))) (f64_of (Num False 60)))) = Num False r"
    "\<bar>r - (of_int D + z / 60)\<bar> \<le> 200 / 2 ^ 53"
    using minutes_accuracy [OF d(1) t(2) x(1) z_def] by blast
  have "convert_from_hhmm (ip @ 46 # fp) = f64_add (f64_of_int (word_of_int D))
      (f64_div (f64_sub (f64_of (Num False v)) (f64_mul (f64_of_int (word_of_int D)) (f64_of (Num False 100)))) (f64_of (Num False 60)))"
    unfolding convert_from_hhmm_def str2float_coord [OF t(1)] Let_def
    by (simp only: v [symmetric] fl hundred_floor [OF d(1) t(2) m])
  moreover have "z - M = x - v" by (simp add: z_def d(3))
  then have "\<bar>z / 60 - M / 60\<bar> \<le> v / 2 ^ 53 / 60" using x(2) by (simp flip: diff_divide_distrib)
  then have "\<bar>r - (of_int D + M / 60)\<bar> \<le> 200 / 2 ^ 53 + v / 2 ^ 53 / 60" using r(2) by linarith
  moreover have "200 / 2 ^ 53 + v / 2 ^ 53 / 60 \<le> 1 / 10 ^ 12" using d(4) by simp
  ultimately show thesis using that r(1) unfolding D_def M_def by simp
qed

end
