(* ===== verification/Nmea_Time.thy ===== *)
theory Nmea_Time
  imports Nmea_Coordinates
begin

text \<open>
  The time stamp of a position: date and time of day are text in UTC, and \<open>mktime\<close> reads them as local
  time, which \<open>utc_diff\<close> is meant to correct.
\<close>

section \<open>Two-digit numbers\<close>

lemma str2int_two:
  assumes "is_digit a" "is_digit b"
  shows "str2int [a, b] = word_of_int (decimal [a, b])"
  using assms digit_not [OF assms(1)] by (simp add: str2int_def decimal_def)

lemma decimal_two: "is_digit a \<Longrightarrow> is_digit b \<Longrightarrow> 0 \<le> decimal [a, b] \<and> decimal [a, b] \<le> 99"
  using decimal_bounds [of "[a, b]"] by simp

lemma sint_small: "0 \<le> n \<Longrightarrow> n < 2 ^ 31 \<Longrightarrow> sint (word_of_int n :: i32) = n"
  using sint_word_of_nat [of "nat n"] by simp

text \<open>The seconds lose their fraction.\<close>

lemma base_val_acc: "base_val 10 f ds acc = acc * 10 ^ length ds + base_val 10 f ds 0"
proof (induction ds arbitrary: acc)
  case (Cons c ds)
  show ?case using Cons.IH [of "acc * 10 + f c"] Cons.IH [of "f c"] by (simp add: algebra_simps)
qed simp

lemma decimal_append: "decimal (ip @ fp) = decimal ip * 10 ^ length fp + decimal fp"
  using base_val_acc [of digit_val fp "decimal ip"] by (simp add: decimal_def base_val_append)

lemma coord_value_floor:
  assumes "coord_text ip fp"
  shows "\<lfloor>coord_value ip fp\<rfloor> = decimal ip"
proof -
  have "0 \<le> decimal fp" "decimal fp < 10 ^ length fp"
    using decimal_bounds [of fp] assms by (simp_all add: coord_text_def)
  moreover from this(2) have "of_int (decimal fp) < (of_int (10 ^ length fp) :: rat)" by (simp only: of_int_less_iff)
  ultimately have "0 \<le> of_int (decimal fp) / (10 :: rat) ^ length fp" "of_int (decimal fp) / (10 :: rat) ^ length fp < 1"
    by simp_all
  then show ?thesis by (simp add: coord_value_def decimal_append add_divide_distrib floor_eq_iff)
qed

lemma seconds_int:
  assumes "coord_text ip fp" "length ip \<le> 9"
  shows "f64_to_int (str2float (ip @ 46 # fp)) = word_of_int (decimal ip)"
proof -
  define v where "v = coord_value ip fp"
  note b = coord_text_bounds [OF assms(1), folded v_def] and fv = coord_value_floor [OF assms(1), folded v_def]
  have "0 \<le> decimal ip" "decimal ip < 10 ^ length ip" using decimal_bounds [of ip] assms(1) by (simp_all add: coord_text_def)
  moreover have "(10 :: int) ^ length ip \<le> 10 ^ 9" using assms(2) by (intro power_increasing) simp_all
  ultimately have i: "0 \<le> decimal ip" "decimal ip < 10 ^ 9" by linarith+
  have "v < of_int (decimal ip + 1)" unfolding fv [symmetric] by simp linarith
  also have "(of_int (decimal ip + 1) :: rat) \<le> of_int (10 ^ 9)" using i(2) by (simp only: of_int_le_iff)
  finally have "v < 10 ^ 20" by simp
  then obtain x where x: "f64_val (f64_of (Num False v)) = Num False x" "\<bar>x - v\<bar> \<le> v / 2 ^ 53"
    using f64_step [of v False] b(4) by blast
  have v: "v = of_int (decimal (ip @ fp)) / 10 ^ length fp" by (simp add: v_def coord_value_def)
  have "\<lfloor>x\<rfloor> = decimal ip" using coord_floor(1) [OF b(1,2) v x] fv by simp
  then show ?thesis
    using i x(1) unfolding f64_to_int_def str2float_coord [OF assms(1)] v [symmetric] by simp
qed

section \<open>The zone cancels\<close>

definition in32 :: "int \<Rightarrow> bool" where "in32 t = (- (2 ^ 31) \<le> t \<and> t < 2 ^ 31)"

text \<open>A zone that has, around the time in question, either summer time or not.\<close>

definition steady_zone :: "zone \<Rightarrow> bool \<Rightarrow> bool" where "steady_zone z b = (dst_on z = (\<lambda>_. b))"

definition zone_offset :: "zone \<Rightarrow> bool \<Rightarrow> int" where "zone_offset z b = std_offset z + (if b then dst_save z else 0)"

lemma timegm_localtime: "steady_zone z b \<Longrightarrow> timegm (localtime z t) = t + zone_offset z b"
  by (simp add: localtime_def steady_zone_def zone_offset_def Let_def)

lemma isdst_localtime: "steady_zone z b \<Longrightarrow> tm_isdst (localtime z t) = (if b then 1 else 0)"
  by (simp add: localtime_def steady_zone_def Let_def)

lemma mktime_localtime: "steady_zone z b \<Longrightarrow> in32 t \<Longrightarrow> fst (mktime z (localtime z t)) = t"
  by (simp add: mktime_def Let_def timegm_localtime isdst_localtime in32_def zone_offset_def)

lemma mktime_guess:
  assumes "steady_zone z b" "tm_isdst t < 0" "in32 (timegm t - zone_offset z b)"
  shows "mktime z t = (timegm t - zone_offset z b, localtime z (timegm t - zone_offset z b))"
  using assms by (auto simp: mktime_def Let_def in32_def zone_offset_def steady_zone_def algebra_simps)

lemma isdst_gmtime [simp]: "tm_isdst (gmtime t) = 0"
  by (simp add: gmtime_def Let_def)

lemma mktime_gmtime: "in32 (t - std_offset z) \<Longrightarrow> fst (mktime z (gmtime t)) = t - std_offset z"
  by (simp add: mktime_def Let_def in32_def)

lemma utc_diff_zone:
  assumes "steady_zone (ne_zone e) b" "in32 (sint (at_now (ne_at e)) - std_offset (ne_zone e))"
  shows "utc_diff (nmea_reader_update_utc_diff e r) = word_of_int (- std_offset (ne_zone e))"
proof -
  have "in32 (sint (at_now (ne_at e)))"
    using sint_range_size [of "at_now (ne_at e)"] by (simp add: in32_def word_size)
  with assms show ?thesis
    by (simp add: nmea_reader_update_utc_diff_def Let_def mktime_localtime mktime_gmtime)
qed

section \<open>The time stamp\<close>

lemma sint_in32: "in32 n \<Longrightarrow> sint (word_of_int n :: i32) = n"
  by (simp add: in32_def signed_of_int signed_take_bit_int_eq_self)

lemma scast_in32: "in32 n \<Longrightarrow> (scast (word_of_int n :: i32) :: i64) = word_of_int n"
  by (metis of_int_sint sint_in32)

lemma not_negative_or:
  assumes "0 \<le> a" "a < 2 ^ 31" "0 \<le> b" "b < 2 ^ 31" "0 \<le> c" "c < 2 ^ 31"
  shows "\<not> (word_of_int a OR word_of_int b OR word_of_int c :: i32) <s 0"
proof -
  have "0 \<le> a OR b OR c" using assms by simp
  moreover have "a OR b OR c < 2 ^ 31"
    using assms OR_upper [of b 31 c] OR_upper [of a 31 "b OR c"] by simp
  ultimately have "sint (word_of_int (a OR b OR c) :: i32) = a OR b OR c" by (rule sint_small)
  with \<open>0 \<le> a OR b OR c\<close> show ?thesis by (simp add: word_sless_alt of_int_or_eq)
qed

text \<open>UTC seconds of a date and time as the sentence writes them.\<close>

definition utc_seconds :: "byte list \<Rightarrow> byte list \<Rightarrow> int" where
  "utc_seconds date time =
     timegm \<lparr>tm_sec = decimal (take 2 (drop 4 time)), tm_min = decimal (take 2 (drop 2 time)), tm_hour = decimal (take 2 time),
       tm_mday = decimal (take 2 date), tm_mon = decimal (take 2 (drop 2 date)) - 1, tm_year = decimal (drop 4 date) + 100,
       tm_isdst = -1\<rparr>"

definition date_text :: "byte list \<Rightarrow> bool" where "date_text d = (length d = 6 \<and> list_all is_digit d)"

definition time_text :: "byte list \<Rightarrow> bool" where
  "time_text t = (\<exists>hms fp. t = hms @ 46 # fp \<and> length hms = 6 \<and> list_all is_digit (hms @ fp) \<and> length fp \<le> 12)"

lemma length_six: "length d = 6 \<Longrightarrow> \<exists>a b c d' e f. d = [a, b, c, d', e, f]"
  by (auto simp: numeral_eq_Suc length_Suc_conv)

lemma update_time_stamp:
  assumes "time_text t" "steady_zone (ne_zone e) b" "in32 (sint (at_now (ne_at e)) - std_offset (ne_zone e))"
    and "0 \<le> y" "y \<le> 9999" "0 \<le> m" "m \<le> 99" "0 \<le> d" "d \<le> 99"
    and "utc_year r = word_of_int y" "utc_mon r = word_of_int m" "utc_day r = word_of_int d"
    and "g = timegm \<lparr>tm_sec = decimal (take 2 (drop 4 t)), tm_min = decimal (take 2 (drop 2 t)), tm_hour = decimal (take 2 t),
       tm_mday = d, tm_mon = m - 1, tm_year = y - 1900, tm_isdst = -1\<rparr>"
    and "in32 (g - zone_offset (ne_zone e) b)" "in32 (g - (if b then dst_save (ne_zone e) else 0))"
  shows "loc_timestamp (fix_loc (nmea_reader_update_time e t r)) = word_of_int (1000 * (g - (if b then dst_save (ne_zone e) else 0)))"
proof -
  let ?z = "ne_zone e"
  obtain hms fp where t: "t = hms @ 46 # fp" "length hms = 6" "list_all is_digit (hms @ fp)" "length fp \<le> 12"
    using assms(1) by (auto simp: time_text_def)
  obtain h1 h2 i1 i2 s1 s2 where hms: "hms = [h1, h2, i1, i2, s1, s2]" using length_six [OF t(2)] by blast
  have dg: "is_digit h1" "is_digit h2" "is_digit i1" "is_digit i2" "is_digit s1" "is_digit s2" "list_all is_digit fp"
    using t(3) by (simp_all add: hms)
  have sec: "f64_to_int (str2float (drop 4 t)) = word_of_int (decimal [s1, s2])"
    using seconds_int [of "[s1, s2]" fp] dg t(4) by (simp add: t hms coord_text_def)
  have sm: "sint (word_of_int n :: i32) = n" if "0 \<le> n" "n \<le> 9999" for n
    using that by (intro sint_in32) (simp add: in32_def)
  have mo: "sint (word_of_int m - 1 :: i32) = m - 1" "sint (word_of_int y - 1900 :: i32) = y - 1900"
    using assms(4-7) sint_in32 [of "m - 1"] sint_in32 [of "y - 1900"] by (simp_all add: in32_def)
  have ny: "\<not> utc_year r <s 0" using assms(4,5,10) sm [of y] by (simp add: word_sless_alt)
  note two = sm [OF conjunct1 [OF decimal_two] order_trans [OF conjunct2 [OF decimal_two]]]
  have tm: "\<lparr>tm_sec = sint (f64_to_int (str2float (drop 4 t))), tm_min = sint (str2int (take 2 (drop 2 t))),
      tm_hour = sint (str2int (take 2 t)), tm_mday = sint (utc_day r), tm_mon = sint (utc_mon r - 1),
      tm_year = sint (utc_year r - 1900), tm_isdst = -1\<rparr>
    = \<lparr>tm_sec = decimal (take 2 (drop 4 t)), tm_min = decimal (take 2 (drop 2 t)), tm_hour = decimal (take 2 t),
       tm_mday = d, tm_mon = m - 1, tm_year = y - 1900, tm_isdst = -1\<rparr>"
    using assms(8-12) mo sm [of d] two dg unfolding sec by (simp add: t hms str2int_two)
  let ?r = "g - zone_offset ?z b"
  have k: "mktime ?z \<lparr>tm_sec = decimal (take 2 (drop 4 t)), tm_min = decimal (take 2 (drop 2 t)), tm_hour = decimal (take 2 t),
       tm_mday = d, tm_mon = m - 1, tm_year = y - 1900, tm_isdst = -1\<rparr> = (?r, localtime ?z ?r)"
    using mktime_guess [OF assms(2)] assms(13,14) by simp
  have "word_of_int ?r - word_of_int (- std_offset ?z) = (word_of_int (g - (if b then dst_save ?z else 0)) :: i32)"
    by (simp add: zone_offset_def flip: of_int_diff) (simp add: algebra_simps)
  then have w: "scast (word_of_int ?r - word_of_int (- std_offset ?z) :: i32) = (word_of_int (g - (if b then dst_save ?z else 0)) :: i64)"
    using scast_in32 [OF assms(15)] by (simp only:)
  have "\<not> length t < 6" using t(1,2) by simp
  with ny have "loc_timestamp (fix_loc (nmea_reader_update_time e t r))
      = scast (word_of_int ?r - word_of_int (- std_offset ?z) :: i32) * 1000"
    using utc_diff_zone [OF assms(2,3)] mktime_localtime [OF assms(2,14)]
    unfolding nmea_reader_update_time_def Let_def by (simp add: tm k)
  then show ?thesis unfolding w by simp
qed

lemma update_date_stamp:
  assumes "date_text d" "time_text t" "steady_zone (ne_zone e) b" "in32 (sint (at_now (ne_at e)) - std_offset (ne_zone e))"
    and "in32 (utc_seconds d t - zone_offset (ne_zone e) b)" "in32 (utc_seconds d t - (if b then dst_save (ne_zone e) else 0))"
  shows "loc_timestamp (fix_loc (nmea_reader_update_date e d t r))
    = word_of_int (1000 * (utc_seconds d t - (if b then dst_save (ne_zone e) else 0)))"
proof -
  obtain d1 d2 m1 m2 y1 y2 where d: "d = [d1, d2, m1, m2, y1, y2]"
    using length_six [of d] assms(1) by (auto simp: date_text_def)
  have dg: "is_digit d1" "is_digit d2" "is_digit m1" "is_digit m2" "is_digit y1" "is_digit y2"
    using assms(1) by (simp_all add: date_text_def d)
  let ?d = "decimal [d1, d2]" and ?m = "decimal [m1, m2]" and ?y = "decimal [y1, y2] + 2000"
  have r: "0 \<le> ?d" "?d \<le> 99" "0 \<le> ?m" "?m \<le> 99" "0 \<le> ?y" "?y \<le> 9999"
    using decimal_two dg by (auto dest: decimal_two)
  let ?r = "r\<lparr>utc_year := word_of_int ?y, utc_mon := word_of_int ?m, utc_day := word_of_int ?d\<rparr>"
  have "\<not> (word_of_int ?d OR word_of_int ?m OR word_of_int ?y :: i32) <s 0"
    using r by (intro not_negative_or) simp_all
  then have "nmea_reader_update_date e d t r = nmea_reader_update_time e t ?r"
    using dg by (simp add: nmea_reader_update_date_def d str2int_two Let_def)
  moreover have "loc_timestamp (fix_loc (nmea_reader_update_time e t ?r))
      = word_of_int (1000 * (utc_seconds d t - (if b then dst_save (ne_zone e) else 0)))"
    using r by (intro update_time_stamp [OF assms(2-4) r(5,6) r(3,4) r(1,2)] assms(5,6)) (simp_all add: utc_seconds_def d add.commute)
  ultimately show ?thesis by simp
qed
end
