(* ===== verification/Nmea_Sentences.thy ===== *)
theory Nmea_Sentences
  imports Nmea_Facts Nmea_Time Mnld_Dispatch
begin

text \<open>
  Whole sentences: what one sentence sends and stores, the position of an \<open>RMC\<close> sentence, and bursts that
  cannot fault.
\<close>

section \<open>Negation\<close>

lemma flip_top: "(x :: f64) XOR 0x8000000000000000 = (if bit x 63 then x - 2 ^ 63 else x + 2 ^ 63)"
proof -
  have "(0x8000000000000000 :: f64) = push_bit 63 1" by simp
  then have "x XOR 0x8000000000000000 = flip_bit 63 x" by (simp only: flip_bit_eq_xor)
  then show ?thesis by (simp add: flip_bit_eq_if set_bit_eq unset_bit_eq)
qed

lemma bit63: "bit (x :: f64) 63 = (2 ^ 63 \<le> uint x)"
proof -
  have "bit x 63 = bit (uint x) 63" by (simp add: bit_uint_iff)
  also have "\<dots> = odd (uint x div 2 ^ 63)" by (simp only: bit_iff_odd)
  finally have "bit x 63 = odd (uint x div 2 ^ 63)" .
  moreover have b: "0 \<le> uint x" "uint x < 2 ^ 64" using uint_lt2p [of x] by simp_all
  have "uint x div 2 ^ 63 = (if 2 ^ 63 \<le> uint x then 1 else 0)"
  proof (cases "2 ^ 63 \<le> uint x")
    case True
    have "uint x div 2 ^ 63 = 1"
      by (rule int_div_pos_eq [of _ _ _ "uint x - 2 ^ 63"]) (use True b in simp_all)
    with True show ?thesis by simp
  qed (use b in simp)
  ultimately show ?thesis by simp
qed

lemma ieee_val_sign: "ieee_val p emin s n = Num s' r \<Longrightarrow> s' = s \<and> ieee_val p emin t n = Num t r"
  by (auto simp: ieee_val_def Let_def split: if_splits)

lemma f64_val_neg:
  assumes "f64_val x = Num s r"
  shows "f64_val (f64_neg x) = Num (\<not> s) r"
proof -
  have b: "0 \<le> uint x" "uint x < 2 ^ 64" using uint_lt2p [of x] by simp_all
  have u: "uint (f64_neg x) = (if 2 ^ 63 \<le> uint x then uint x - 2 ^ 63 else uint x + 2 ^ 63)"
    using b unfolding f64_neg_def flip_top bit63 by (simp add: uint_word_ariths)
  then have m: "(2 ^ 63 \<le> uint (f64_neg x)) = (\<not> 2 ^ 63 \<le> uint x)" "uint (f64_neg x) mod 2 ^ 63 = uint x mod 2 ^ 63"
    using b by simp_all
  show ?thesis
    using ieee_val_sign [OF assms [unfolded f64_val_def], of "\<not> s"] unfolding f64_val_def m by blast
qed

section \<open>Sending\<close>

definition outs :: "(string \<times> byte list) list \<Rightarrow> nmea_ctx \<Rightarrow> nmea_ctx" where
  "outs l s = s\<lparr>tst := (tst s)\<lparr>dm := emits l (dm (tst s))\<rparr>\<rparr>"

lemma outs_simps [simp]:
  "rdr (outs l s) = rdr s" "gps_nmea_end_tag (outs l s) = gps_nmea_end_tag s"
  "gnss_sv_used_in_fix (outs l s) = gnss_sv_used_in_fix s" "outs [] s = s"
  "outs l' (outs l s) = outs (l @ l') s" "sends (kern (dm (tst (outs l s)))) = sends (kern (dm (tst s))) @ l"
  by (simp_all add: outs_def emits_append)

lemma nsend_outs: "(\<And>d. ksend f d = Some (emits l d)) \<Longrightarrow> nsend f s = Some (outs l s)"
  by (simp add: nsend_def outs_def)

lemma ksend_main: "main_fits m \<Longrightarrow> (\<And>k. f k = main_send m k) \<Longrightarrow> ksend f s = Some (emits [(MNLD_MAIN_SOCKET, main_wire m)] s)"
  by (rule ksend_Some) (simp add: main_send_transmit transmit_def sent_def)

lemma nsend_nmea:
  assumes "0 \<notin> set t" "length t \<le> 255"
  shows "nsend (mnl2hal_nmea ts (Some t) n) s = Some (outs [to_hal (M_nmea ts (Some t) n)] s)"
proof (rule nsend_outs)
  fix d
  have "length (enc_string (Some t)) \<le> 1000" using assms(2) enc_string_length_le [of "Some t"] by simp
  then show "ksend (mnl2hal_nmea ts (Some t) n) d = Some (emits [to_hal (M_nmea ts (Some t) n)] d)"
    using assms by (intro ksend_hal) (simp_all add: m2h_fits_def m2h_head_def HAL_MNL_BUFF_SIZE_def ok_string_def)
qed

lemma nsend_location: "nsend (mnl2hal_location (gps_location_bytes l)) s = Some (outs [to_hal (M_location (gps_location_bytes l))] s)"
  by (rule nsend_outs) (rule ksend_hal, simp_all add: m2h_fits_def m2h_head_def HAL_MNL_BUFF_SIZE_def sizeof_defs)

lemma nsend_update:
  "nsend (mnld_gps_update_location (gps_location_bytes l)) s
    = Some (outs [(MNLD_MAIN_SOCKET, main_wire (E_update_location (gps_location_bytes l)))] s)"
  by (rule nsend_outs) (rule ksend_main, simp_all add: sizeof_defs)

lemma sv_status_length: "length (sv_list r) = 64 \<Longrightarrow> length (sv_status_bytes r) = sizeof_gnss_sv_info"
  by (simp add: sv_status_bytes_def length_concat comp_def sum_list_triv sizeof_defs)

lemma nsend_svs:
  "length (sv_list r) = 64 \<Longrightarrow> nsend (mnl2hal_gps_sv (sv_status_bytes r)) s = Some (outs [to_hal (M_gps_sv (sv_status_bytes r))] s)"
  by (rule nsend_outs) (rule ksend_hal, simp_all add: m2h_fits_def m2h_head_def HAL_MNL_BUFF_SIZE_def sizeof_defs sv_status_length)

section \<open>One sentence\<close>

text \<open>The last byte of the line buffer is never written: it ends the text that is sent to the HAL.\<close>

definition buf_ok :: "nmea_ctx \<Rightarrow> bool" where
  "buf_ok s = (length (in_buf (rdr s)) = 256 \<and> in_buf (rdr s) ! 255 = 0)"

lemma buffer_text:
  assumes "length mem = 256" "mem ! 255 = 0"
  shows "c_string mem = Some (takeWhile (\<lambda>c. c \<noteq> 0) mem)" "length (takeWhile (\<lambda>c. c \<noteq> 0) mem) \<le> 255"
    "0 \<notin> set (takeWhile (\<lambda>c. c \<noteq> 0) mem)"
proof -
  let ?t = "takeWhile (\<lambda>c. c \<noteq> 0) mem"
  show z: "0 \<notin> set ?t" by (auto dest: set_takeWhileD)
  have "0 \<in> set mem" using assms nth_mem [of 255 mem] by simp
  then show "c_string mem = Some ?t" by (simp add: c_string_def)
  show "length ?t \<le> 255"
  proof (rule ccontr)
    assume "\<not> ?thesis"
    then have l: "255 < length ?t" by simp
    with takeWhile_nth [OF l] assms(2) nth_mem [OF l] z show False by simp
  qed
qed

lemma line_in_buffer:
  assumes "buf_ok s" "length l \<le> 255"
  shows "length (l @ drop (length l) (in_buf (rdr s))) = 256" "(l @ drop (length l) (in_buf (rdr s))) ! 255 = 0"
  using assms by (simp_all add: buf_ok_def nth_append)

text \<open>A sentence is what its parsing does, followed by the copy that goes to the HAL.\<close>

lemma sentence_eq:
  fixes l s fin
  defines "s0 \<equiv> s\<lparr>rdr := (rdr s)\<lparr>in_buf := l @ drop (length l) (in_buf (rdr s)), pos := length l\<rparr>, gps_nmea_end_tag := fin\<rparr>"
  assumes "buf_ok s" "length l \<le> 255"
  shows "sentence e l fin s = map_option (\<lambda>s1. (outs [to_hal (M_nmea (loc_timestamp (fix_loc (rdr s1)))
      (Some (takeWhile (\<lambda>c. c \<noteq> 0) (l @ drop (length l) (in_buf (rdr s))))) (word_of_nat (length l)))] s1)
        \<lparr>rdr := (rdr s1)\<lparr>pos := 0\<rparr>\<rparr>) (nmea_reader_parse e s0)"
proof (cases "nmea_reader_parse e s0")
  case (Some s1)
  note b = buffer_text [OF line_in_buffer [OF assms(2,3)]]
  have "in_buf (rdr s1) = l @ drop (length l) (in_buf (rdr s))" "pos (rdr s1) = length l"
    using parse_keeps [OF Some] by (simp_all add: s0_def line_view_def)
  with Some b show ?thesis
    unfolding sentence_def s0_def [symmetric] by (simp add: nsend_nmea)
qed (simp add: sentence_def Let_def flip: s0_def)

lemma sentence_buf_ok: "sentence e l fin s = Some s' \<Longrightarrow> buf_ok s \<Longrightarrow> length l \<le> 255 \<Longrightarrow> buf_ok s'"
  by (auto simp: sentence_eq buf_ok_def line_view_def nth_append dest!: parse_keeps)

section \<open>Sentences printed from fields\<close>

lemma join_hd: "fs \<noteq> [] \<Longrightarrow> \<exists>r. join fs = hd fs @ r"
  by (cases fs rule: join.cases) simp_all

lemma parse_fields:
  assumes "ok_fields fs" "length fs \<le> 24" "5 \<le> length (hd fs)"
    and "in_buf (rdr s) = nmea_line fs h1 h2 @ rest" "pos (rdr s) = length (nmea_line fs h1 h2)" "\<not> gps_nmea_end_tag s"
  shows "nmea_reader_parse e s
    = parse_sentence e (nmea_tokenizer_init (in_buf (rdr s)) (pos (rdr s))) (drop 1 (in_buf (rdr s))) s"
proof -
  let ?t = "nmea_tokenizer_init (in_buf (rdr s)) (pos (rdr s))"
  obtain r where "join fs = hd fs @ r" using join_hd assms(1) by (auto simp: ok_fields_def)
  then have "9 \<le> pos (rdr s)" using assms(3,5) by (simp add: nmea_line_def)
  moreover have "nmea_tokenizer_get ?t 0 = Tok 1 (1 + length (hd fs))"
    using line_fields(3) [OF assms(1,2)] by (simp add: assms(4,5))
  moreover have "report_fix s' = Some s'" "report_svs s' = Some s'" if "\<not> gps_nmea_end_tag s'" for s'
    using that by (simp_all add: report_fix_def report_svs_def)
  moreover have "\<not> gps_nmea_end_tag s'" if "parse_sentence e ?t (drop 1 (in_buf (rdr s))) s = Some s'" for s'
    using parse_sentence_keeps [OF that] assms(6) by (simp add: line_view_def)
  ultimately show ?thesis
    using assms(3,6) by (cases "parse_sentence e ?t (drop 1 (in_buf (rdr s))) s")
      (simp_all add: nmea_reader_parse_def nmea_parser_at_cmd_pre_def)
qed

section \<open>The position of an RMC sentence\<close>

lemma later_fields [simp]:
  "loc_lat (fix_loc (nmea_reader_update_bearing t r)) = loc_lat (fix_loc r)"
  "loc_lng (fix_loc (nmea_reader_update_bearing t r)) = loc_lng (fix_loc r)"
  "loc_timestamp (fix_loc (nmea_reader_update_bearing t r)) = loc_timestamp (fix_loc r)"
  "bit (loc_flags (fix_loc r)) 0 \<Longrightarrow> bit (loc_flags (fix_loc (nmea_reader_update_bearing t r))) 0"
  "loc_lat (fix_loc (nmea_reader_update_speed t r)) = loc_lat (fix_loc r)"
  "loc_lng (fix_loc (nmea_reader_update_speed t r)) = loc_lng (fix_loc r)"
  "loc_timestamp (fix_loc (nmea_reader_update_speed t r)) = loc_timestamp (fix_loc r)"
  "bit (loc_flags (fix_loc r)) 0 \<Longrightarrow> bit (loc_flags (fix_loc (nmea_reader_update_speed t r))) 0"
  by (simp_all add: nmea_reader_update_bearing_def nmea_reader_update_speed_def set_flag_def bit_or_iff)

lemma latlong_fields:
  assumes "6 \<le> length lat" "6 \<le> length lon"
  shows "loc_lat (fix_loc (nmea_reader_update_latlong lat ns lon ew r)) = (if ns = 83 then f64_neg (convert_from_hhmm lat) else convert_from_hhmm lat)"
    "loc_lng (fix_loc (nmea_reader_update_latlong lat ns lon ew r)) = (if ew = 87 then f64_neg (convert_from_hhmm lon) else convert_from_hhmm lon)"
    "loc_timestamp (fix_loc (nmea_reader_update_latlong lat ns lon ew r)) = loc_timestamp (fix_loc r)"
    "bit (loc_flags (fix_loc (nmea_reader_update_latlong lat ns lon ew r))) 0"
  using assms by (simp_all add: nmea_reader_update_latlong_def Let_def set_flag_def GPS_LOCATION_HAS_LAT_LONG_def bit_or_iff)

text \<open>A \<open>double\<close> is within \<open>10^-12\<close> degrees of a coordinate, with the sign of its hemisphere.\<close>

definition near_coord :: "f64 \<Rightarrow> bool \<Rightarrow> byte list \<Rightarrow> byte list \<Rightarrow> bool" where
  "near_coord x neg ip fp = (case f64_val x of
     Num s r \<Rightarrow> s = neg \<and> \<bar>r - (of_int (coord_degrees ip fp) + coord_minutes ip fp / 60)\<bar> \<le> 1 / 10 ^ 12 | _ \<Rightarrow> False)"

lemma near_hhmm:
  assumes "valid_coord ip fp"
  shows "near_coord (if neg then f64_neg (convert_from_hhmm (ip @ 46 # fp)) else convert_from_hhmm (ip @ 46 # fp)) neg ip fp"
proof -
  obtain r where r: "f64_val (convert_from_hhmm (ip @ 46 # fp)) = Num False r"
    "\<bar>r - (of_int (coord_degrees ip fp) + coord_minutes ip fp / 60)\<bar> \<le> 1 / 10 ^ 12"
    using assms by (rule hhmm_accuracy)
  then show ?thesis using f64_val_neg [OF r(1)] by (simp add: near_coord_def)
qed

definition rmc_fields :: "byte list list \<Rightarrow> byte list \<Rightarrow> byte list \<Rightarrow> byte list \<Rightarrow> byte \<Rightarrow> byte list \<Rightarrow> byte list \<Rightarrow> byte \<Rightarrow>
    byte list \<Rightarrow> byte list \<Rightarrow> bool" where
  "rmc_fields fs time alat flat ns alon flon ew date sid =
     (ok_fields fs \<and> 10 \<le> length fs \<and> length fs \<le> 24 \<and> fs ! 0 = sid \<and> length sid = 5 \<and> drop 2 sid = [82, 77, 67]
      \<and> fs ! 1 = time \<and> fs ! 2 = [65] \<and> fs ! 3 = alat @ 46 # flat \<and> fs ! 4 = [ns] \<and> fs ! 5 = alon @ 46 # flon
      \<and> fs ! 6 = [ew] \<and> fs ! 9 = date \<and> valid_coord alat flat \<and> valid_coord alon flon
      \<and> 5 \<le> length (alat @ flat) \<and> 5 \<le> length (alon @ flon) \<and> date_text date \<and> time_text time)"

lemma rmc_parse:
  assumes "rmc_fields fs time alat flat ns alon flon ew date sid" "steady_zone (ne_zone e) b"
    and "in32 (sint (at_now (ne_at e)) - std_offset (ne_zone e))" "in32 (utc_seconds date time - zone_offset (ne_zone e) b)"
    and "in32 (utc_seconds date time - (if b then dst_save (ne_zone e) else 0))"
    and mem: "in_buf (rdr s) = nmea_line fs h1 h2 @ rest" "t = nmea_tokenizer_init (in_buf (rdr s)) (length (nmea_line fs h1 h2))"
  shows "\<exists>r. parse_sentence e t (drop 1 (in_buf (rdr s))) s = Some (s\<lparr>rdr := r\<rparr>)
    \<and> near_coord (loc_lat (fix_loc r)) (ns = 83) alat flat \<and> near_coord (loc_lng (fix_loc r)) (ew = 87) alon flon
    \<and> loc_timestamp (fix_loc r) = word_of_int (1000 * (utc_seconds date time - (if b then dst_save (ne_zone e) else 0)))
    \<and> bit (loc_flags (fix_loc r)) 0"
proof -
  note f = assms(1) [unfolded rmc_fields_def]
  have ok: "ok_fields fs" "length fs \<le> 24" "fs \<noteq> []" using f by auto
  obtain r where "join fs = hd fs @ r" using join_hd [OF ok(3)] by blast
  moreover have "hd fs = sid" using f ok(3) by (simp add: hd_conv_nth)
  moreover obtain c1 c2 where "sid = [c1, c2, 82, 77, 67]"
    using f by (cases sid; cases "tl sid") auto
  ultimately have "take 3 (drop 2 (drop 1 (in_buf (rdr s)))) = [82, 77, 67]"
    by (simp add: mem nmea_line_def)
  then have p: "parse_sentence e t (drop 1 (in_buf (rdr s))) s = Some (parse_rmc e t s)"
    by (simp add: parse_sentence_def Let_def)
  have g: "tok_text (in_buf (rdr s)) (nmea_tokenizer_get t i) = (if i < length fs then fs ! i else [])" for i
    unfolding mem by (rule line_fields(2) [OF ok(1,2)])
  have c: "tok_char (in_buf (rdr s)) (nmea_tokenizer_get t 2) = 65" "tok_char (in_buf (rdr s)) (nmea_tokenizer_get t 4) = ns"
    "tok_char (in_buf (rdr s)) (nmea_tokenizer_get t 6) = ew"
    using tok_char_text [of "in_buf (rdr s)"] g f by simp_all
  let ?r = "nmea_reader_update_date e date time (rdr s)"
  let ?l = "nmea_reader_update_latlong (alat @ 46 # flat) ns (alon @ 46 # flon) ew ?r"
  let ?v = "nmea_reader_update_speed (fs ! 7) (nmea_reader_update_bearing (fs ! 8) ?l)"
  have "parse_rmc e t s = s\<lparr>rdr := ?v\<rparr>"
    using f unfolding parse_rmc_def Let_def c g by simp
  moreover have "near_coord (loc_lat (fix_loc ?v)) (ns = 83) alat flat" "near_coord (loc_lng (fix_loc ?v)) (ew = 87) alon flon"
    "bit (loc_flags (fix_loc ?v)) 0"
    using f near_hhmm [of alat flat "ns = 83"] near_hhmm [of alon flon "ew = 87"] by (simp_all add: latlong_fields)
  moreover have "loc_timestamp (fix_loc ?v) = word_of_int (1000 * (utc_seconds date time - (if b then dst_save (ne_zone e) else 0)))"
  proof -
    have "loc_timestamp (fix_loc ?v) = loc_timestamp (fix_loc ?r)" using f by (simp add: latlong_fields)
    also have "\<dots> = word_of_int (1000 * (utc_seconds date time - (if b then dst_save (ne_zone e) else 0)))"
      using f assms(2-5) by (intro update_date_stamp) simp_all
    finally show ?thesis .
  qed
  ultimately show ?thesis unfolding p by blast
qed
end
