(* ===== verification/Nmea_Safety.thy ===== *)
theory Nmea_Safety
  imports Nmea_Sentences
begin

text \<open>
  Bursts that cannot fault, and a sentence that does. The parser counts the satellites of a set of \<open>GSV\<close> sentences and stores number
  and strength of each in two arrays of 32 elements without looking at the count; a sentence carries four,
  and a sentence with sequence number one starts again. So a burst is harmless as long as no more than
  eight \<open>GSV\<close> sentences follow each other without a first one.
\<close>

section \<open>Tokens depend on the line only\<close>

lemma next_comma_local: "q \<le> length l \<Longrightarrow> next_comma (l @ rest) p q = next_comma l p q"
  by (cases "p \<le> length l") (simp_all add: next_comma_def take_append)

lemma nmea_tokens_local: "q \<le> length l \<Longrightarrow> nmea_tokens (l @ rest) p q acc = nmea_tokens l p q acc"
proof (induction l p q acc rule: nmea_tokens.induct)
  case (1 l p q acc)
  then show ?case
    by (cases "p < q") (simp_all add: nmea_tokens.simps [of "l @ rest" p q acc] nmea_tokens.simps [of l p q acc]
        next_comma_local Let_def)
qed

lemma tokenizer_local: "nmea_tokenizer_init (l @ rest) (length l) = nmea_tokenizer_init l (length l)"
proof -
  let ?mem = "l @ rest"
  define p :: nat where "p = (if 0 < length l \<and> l ! 0 = 36 then 1 else 0)"
  define q where "q = (if p < length l \<and> l ! (length l - 1) = 10
    then (let q = length l - 1 in if p < q \<and> l ! (q - 1) = 13 then q - 1 else q) else length l)"
  define q' where "q' = (if p + 3 \<le> q \<and> l ! (q - 3) = 42 then q - 3 else q)"
  have "p = (if 0 < length l \<and> ?mem ! 0 = 36 then 1 else 0)" by (simp add: p_def nth_append)
  moreover have "q = (if p < length l \<and> ?mem ! (length l - 1) = 10
    then (let q = length l - 1 in if p < q \<and> ?mem ! (q - 1) = 13 then q - 1 else q) else length l)"
    by (cases "l = []") (simp_all add: q_def nth_append Let_def)
  moreover have q: "q \<le> length l" by (simp add: q_def Let_def)
  then have "q' = (if p + 3 \<le> q \<and> ?mem ! (q - 3) = 42 then q - 3 else q)" by (auto simp: q'_def nth_append)
  ultimately have "nmea_tokenizer_init ?mem (length l) = nmea_tokens ?mem p q' []"
    unfolding nmea_tokenizer_init_def Let_def by presburger
  moreover have "nmea_tokenizer_init l (length l) = nmea_tokens l p q' []"
    by (simp only: nmea_tokenizer_init_def Let_def p_def q_def q'_def)
  moreover have "q' \<le> length l" using q by (auto simp: q'_def)
  ultimately show ?thesis by (simp add: nmea_tokens_local)
qed

definition in_line :: "nat \<Rightarrow> token \<Rightarrow> bool" where
  "in_line n t = (case t of Tok p q \<Rightarrow> p \<le> q \<and> q \<le> n | Dummy \<Rightarrow> True)"

lemma nmea_tokens_in_line:
  "q \<le> n \<Longrightarrow> list_all (in_line n) acc \<Longrightarrow> list_all (in_line n) (nmea_tokens mem p q acc)"
proof (induction mem p q acc rule: nmea_tokens.induct)
  case (1 mem p q acc)
  show ?case
  proof (cases "p < q")
    case True
    then have "in_line n (Tok p (next_comma mem p q))"
      using next_comma_bounds [where mem = mem and p = p and q = q] "1.prems" by (simp add: in_line_def)
    with 1 True show ?thesis by (simp add: nmea_tokens.simps [of mem p q acc] Let_def)
  qed (use 1 in \<open>simp add: nmea_tokens.simps [of mem p q acc]\<close>)
qed

lemma get_in_line: "in_line (length l) (nmea_tokenizer_get (nmea_tokenizer_init mem (length l)) i)"
proof -
  have "list_all (in_line (length l)) (nmea_tokenizer_init mem (length l))"
    by (auto simp: nmea_tokenizer_init_def Let_def intro!: nmea_tokens_in_line)
  then show ?thesis by (simp add: nmea_tokenizer_get_def list_all_length in_line_def)
qed

lemma tok_text_local: "in_line (length l) t \<Longrightarrow> tok_text (l @ rest) t = tok_text l t"
  by (cases t) (simp_all add: tok_text_def in_line_def)

section \<open>Which lines count\<close>

definition is_gsv :: "byte list \<Rightarrow> bool" where
  "is_gsv l = (9 \<le> length l \<and>
     (case nmea_tokenizer_get (nmea_tokenizer_init l (length l)) 0 of
        Tok p q \<Rightarrow> p + 5 \<le> q \<and> take 3 (drop (p + 2) l) = [71, 83, 86] | Dummy \<Rightarrow> False))"

definition is_first :: "byte list \<Rightarrow> bool" where
  "is_first l = (str2int (tok_text l (nmea_tokenizer_get (nmea_tokenizer_init l (length l)) 2)) = 1)"

definition gsv_count :: "byte list \<Rightarrow> nat \<Rightarrow> nat" where
  "gsv_count l n = (if is_gsv l then (if is_first l then 1 else n + 1) else n)"

primrec gsv_ok :: "nat \<Rightarrow> byte list list \<Rightarrow> bool" where
  "gsv_ok n [] = True"
| "gsv_ok n (l # ls) = (gsv_count l n \<le> 8 \<and> gsv_ok (gsv_count l n) ls)"

section \<open>Steps that cannot fault\<close>

text \<open>No factory test is running.\<close>

definition no_test :: "at_ctx \<Rightarrow> bool" where
  "no_test a = (\<not> MNL_AT_TEST_FLAG a \<and> \<not> MNL_AT_SIGNAL_MODE a \<and> \<not> MNL_AT_SIGNAL_TEST_BEGIN a
     \<and> length (at_prn a) = 32 \<and> length (at_snr a) = 32)"

definition sane :: "nmea_ctx \<Rightarrow> bool" where
  "sane s = (no_test (tst s) \<and> length (sv_list (rdr s)) = 64)"

lemma sv_keeps [simp]:
  "sv_list (nmea_reader_update_utc_diff e r) = sv_list r" "sv_count (nmea_reader_update_utc_diff e r) = sv_count r"
  "sv_list (nmea_reader_update_time e t r) = sv_list r" "sv_count (nmea_reader_update_time e t r) = sv_count r"
  "sv_list (nmea_reader_update_date e d t r) = sv_list r" "sv_count (nmea_reader_update_date e d t r) = sv_count r"
  "sv_list (nmea_reader_update_latlong la ns lo ew r) = sv_list r" "sv_count (nmea_reader_update_latlong la ns lo ew r) = sv_count r"
  by (simp_all add: nmea_reader_update_utc_diff_def nmea_reader_update_time_def nmea_reader_update_date_def
      nmea_reader_update_latlong_def Let_def)

lemma sv_keeps2 [simp]:
  "sv_list (nmea_reader_update_altitude t r) = sv_list r" "sv_count (nmea_reader_update_altitude t r) = sv_count r"
  "sv_list (nmea_reader_update_bearing t r) = sv_list r" "sv_count (nmea_reader_update_bearing t r) = sv_count r"
  "sv_list (nmea_reader_update_speed t r) = sv_list r" "sv_count (nmea_reader_update_speed t r) = sv_count r"
  "sv_list (nmea_reader_update_accuracy t r) = sv_list r" "sv_count (nmea_reader_update_accuracy t r) = sv_count r"
  by (simp_all add: nmea_reader_update_altitude_def nmea_reader_update_bearing_def nmea_reader_update_speed_def
      nmea_reader_update_accuracy_def)

lemma sane_pure:
  "sane s \<Longrightarrow> sane (parse_gga e t s) \<and> sv_count (rdr (parse_gga e t s)) = sv_count (rdr s)"
  "sane s \<Longrightarrow> sane (parse_gsa t c s) \<and> sv_count (rdr (parse_gsa t c s)) = sv_count (rdr s)"
  "sane s \<Longrightarrow> sane (parse_rmc e t s) \<and> sv_count (rdr (parse_rmc e t s)) = sv_count (rdr s)"
  by (simp_all add: sane_def parse_gga_def parse_gsa_def parse_rmc_def Let_def)

lemma sv_status_count:
  "length (sv_list (nmea_reader_update_sv_status u p el az sn r)) = length (sv_list r)"
  "sv_count (nmea_reader_update_sv_status u p el az sn r) \<le> Suc (sv_count r)"
  by (auto simp: nmea_reader_update_sv_status_def Let_def split: option.split)

lemma gsv_entry_safe:
  assumes "sane s" "sv_count (rdr s) < 32"
  shows "\<exists>s'. gsv_entry t c i s = Some s' \<and> sane s' \<and> sv_count (rdr s') \<le> sv_count (rdr s) + 1"
  using assms by (simp add: gsv_entry_def sane_def no_test_def Let_def sv_status_count)

lemma gsv_loop_safe:
  assumes "sane s" "sv_count (rdr s) + length is \<le> 32"
  shows "\<exists>s'. gsv_loop t c is s = Some s' \<and> sane s' \<and> sv_count (rdr s') \<le> sv_count (rdr s) + length is"
  using assms
proof (induction "is" arbitrary: s)
  case (Cons i "is")
  then obtain s1 where s1: "gsv_entry t c i s = Some s1" "sane s1" "sv_count (rdr s1) \<le> sv_count (rdr s) + 1"
    using gsv_entry_safe [of s t c i] by auto
  with Cons.IH [of s1] Cons.prems show ?case by fastforce
qed simp

lemma gsv_complete_safe: "sane s \<Longrightarrow> \<exists>s'. gsv_complete cnt s = Some s' \<and> sane s' \<and> sv_count (rdr s') \<le> sv_count (rdr s)"
  by (simp add: gsv_complete_def sane_def no_test_def Let_def)

lemma parse_gsv_safe:
  assumes "sane s" "sv_count (rdr s) \<le> 4 * n"
    and "m = (if str2int (tok_text (in_buf (rdr s)) (nmea_tokenizer_get t 2)) = 1 then 1 else n + 1)" "m \<le> 8"
  shows "\<exists>s'. parse_gsv t c s = Some s' \<and> sane s' \<and> sv_count (rdr s') \<le> 4 * m"
proof -
  let ?q = "str2int (tok_text (in_buf (rdr s)) (nmea_tokenizer_get t 2))"
  let ?cnt = "str2int (tok_text (in_buf (rdr s)) (nmea_tokenizer_get t 3))"
  let ?k = "nat (min NMEA_MAX_SV_INFO (sint (?cnt - (?q - 1) * 4)))"
  define s0 where "s0 = (if ?q = 1 then s\<lparr>rdr := (rdr s)\<lparr>sv_count := 0\<rparr>\<rparr> else s)"
  have k: "?k \<le> 4" by (simp add: NMEA_MAX_SV_INFO_def)
  have s0: "sane s0" "sv_count (rdr s0) + 4 \<le> 4 * m" using assms by (auto simp: s0_def sane_def)
  then obtain s1 where s1: "gsv_loop t c [0..<?k] s0 = Some s1" "sane s1" "sv_count (rdr s1) \<le> 4 * m"
    using gsv_loop_safe [of s0 "[0..<?k]" t c] k assms(4) by fastforce
  then show ?thesis
    using gsv_complete_safe [OF s1(2), of ?cnt] unfolding parse_gsv_def Let_def s0_def [symmetric] by fastforce
qed

lemma parse_sentence_safe:
  assumes "sane s" "sv_count (rdr s) \<le> 4 * n" "n \<le> 8"
    and "m = (if take 3 (drop 2 sid) = [71, 83, 86]
              then (if str2int (tok_text (in_buf (rdr s)) (nmea_tokenizer_get t 2)) = 1 then 1 else n + 1) else n)" "m \<le> 8"
  shows "\<exists>s'. parse_sentence e t sid s = Some s' \<and> sane s' \<and> sv_count (rdr s') \<le> 4 * m"
proof (cases "take 3 (drop 2 sid) = [71, 83, 86]")
  case True
  with parse_gsv_safe [OF assms(1,2) _ assms(5), of t "talker sid"] assms(4) show ?thesis
    by (simp add: parse_sentence_def Let_def)
next
  case False
  then show ?thesis
    using assms(1,2,4) sane_pure [OF assms(1)] by (auto simp: parse_sentence_def Let_def) (simp_all add: sane_def)
qed

lemma report_safe:
  assumes "sane s"
  shows "\<exists>s'. report_fix s = Some s' \<and> sane s' \<and> sv_count (rdr s') = sv_count (rdr s)"
    and "\<exists>s'. report_svs s = Some s' \<and> sane s' \<and> sv_count (rdr s') \<le> sv_count (rdr s)"
  using assms by (auto simp: report_fix_def report_svs_def nsend_location nsend_update nsend_svs sane_def)
    (simp_all add: outs_def no_test_def)

lemma pre_safe: "no_test a \<Longrightarrow> nmea_parser_at_cmd_pre e b a = Some a"
  by (simp add: nmea_parser_at_cmd_pre_def no_test_def)

text \<open>The class of a line, read off the buffer that holds it.\<close>

lemma gsv_of_buffer:
  assumes "nmea_tokenizer_get (nmea_tokenizer_init (l @ rest) (length l)) 0 = Tok p q" "p + 5 \<le> q" "9 \<le> length l"
  shows "is_gsv l = (take 3 (drop 2 (drop p (l @ rest))) = [71, 83, 86])"
proof -
  have "q \<le> length l" using get_in_line [of l "l @ rest" 0] assms(1) by (simp add: in_line_def)
  then have eq: "take 3 (drop 2 (drop p (l @ rest))) = take 3 (drop (p + 2) l)"
    using assms(2) by (simp add: add.commute)
  show ?thesis unfolding eq using assms by (simp add: is_gsv_def tokenizer_local)
qed

lemma first_of_buffer:
  "is_first l = (str2int (tok_text (l @ rest) (nmea_tokenizer_get (nmea_tokenizer_init (l @ rest) (length l)) 2)) = 1)"
  using get_in_line [of l "l @ rest" 2] by (simp add: is_first_def tok_text_local tokenizer_local)

lemma parse_safe:
  assumes "sane s" "sv_count (rdr s) \<le> 4 * n" "n \<le> 8" "gsv_count l n \<le> 8"
    and mem: "in_buf (rdr s) = l @ rest" "pos (rdr s) = length l"
  shows "\<exists>s'. nmea_reader_parse e s = Some s' \<and> sane s' \<and> sv_count (rdr s') \<le> 4 * gsv_count l n"
proof -
  let ?t = "nmea_tokenizer_init (l @ rest) (length l)"
  have pre: "nmea_parser_at_cmd_pre (ne_at e) (gps_nmea_end_tag s) (tst s) = Some (tst s)"
    using assms(1) pre_safe by (simp add: sane_def)
  show ?thesis
  proof (cases "9 \<le> length l \<and> (\<exists>p q. nmea_tokenizer_get ?t 0 = Tok p q \<and> p + 5 \<le> q)")
    case True
    then obtain p q where pq: "9 \<le> length l" "nmea_tokenizer_get ?t 0 = Tok p q" "p + 5 \<le> q" by blast
    have g: "is_gsv l = (take 3 (drop 2 (drop p (l @ rest))) = [71, 83, 86])" by (rule gsv_of_buffer [OF pq(2,3,1)])
    obtain s1 where s1: "parse_sentence e ?t (drop p (l @ rest)) s = Some s1" "sane s1" "sv_count (rdr s1) \<le> 4 * gsv_count l n"
      using parse_sentence_safe [OF assms(1-3) refl, of "drop p (l @ rest)" ?t e] assms(4)
      unfolding gsv_count_def g first_of_buffer [of l rest] mem(1) by auto
    obtain s2 where s2: "report_fix s1 = Some s2" "sane s2" "sv_count (rdr s2) = sv_count (rdr s1)"
      using report_safe(1) [OF s1(2)] by blast
    obtain s3 where s3: "report_svs s2 = Some s3" "sane s3" "sv_count (rdr s3) \<le> sv_count (rdr s2)"
      using report_safe(2) [OF s2(2)] by blast
    show ?thesis
      using pre pq s1 s2 s3 mem by (simp add: nmea_reader_parse_def)
  next
    case False
    then have "\<not> is_gsv l"
      by (auto simp: is_gsv_def tokenizer_local split: token.splits)
    moreover have "nmea_reader_parse e s = Some s"
      using False pre mem by (auto simp: nmea_reader_parse_def Let_def split: token.split)
    ultimately show ?thesis using assms(1,2) by (simp add: gsv_count_def)
  qed
qed

lemma sentence_safe:
  assumes "sane s" "buf_ok s" "sv_count (rdr s) \<le> 4 * n" "n \<le> 8" "gsv_count l n \<le> 8" "length l \<le> 255"
  shows "\<exists>s'. sentence e l fin s = Some s' \<and> sane s' \<and> buf_ok s' \<and> sv_count (rdr s') \<le> 4 * gsv_count l n"
proof -
  let ?s = "s\<lparr>rdr := (rdr s)\<lparr>in_buf := l @ drop (length l) (in_buf (rdr s)), pos := length l\<rparr>, gps_nmea_end_tag := fin\<rparr>"
  have "sane ?s" "sv_count (rdr ?s) \<le> 4 * n" using assms(1,3) by (simp_all add: sane_def)
  then obtain s1 where s1: "nmea_reader_parse e ?s = Some s1" "sane s1" "sv_count (rdr s1) \<le> 4 * gsv_count l n"
    using parse_safe [of ?s n l _ e] assms(4,5) by auto
  then have "\<exists>s'. sentence e l fin s = Some s' \<and> sane s' \<and> sv_count (rdr s') \<le> 4 * gsv_count l n"
    using assms(2,6) by (simp add: sentence_eq sane_def outs_def no_test_def)
  with sentence_buf_ok [OF _ assms(2,6)] show ?thesis by blast
qed

section \<open>Bursts that cannot fault\<close>

primrec sentences :: "line_event list \<Rightarrow> byte list list" where
  "sentences [] = []"
| "sentences (v # vs) = (case v of Sentence l fin \<Rightarrow> [l] | Dropped l \<Rightarrow> []) @ sentences vs"

fun fits_event :: "line_event \<Rightarrow> bool" where
  "fits_event (Sentence l fin) = (length l \<le> 255)"
| "fits_event (Dropped l) = (255 < length l)"

lemma cut_lines_fits: "list_all fits_event (cut_lines ls)"
  by (induction ls rule: cut_lines.induct) simp_all

text \<open>The opposite: a sentence that is one too many.\<close>

lemma field_of_buffer:
  "tok_text (l @ rest) (nmea_tokenizer_get (nmea_tokenizer_init (l @ rest) (length l)) i)
    = tok_text l (nmea_tokenizer_get (nmea_tokenizer_init l (length l)) i)"
  using get_in_line [of l "l @ rest" i] by (simp add: tok_text_local tokenizer_local)

lemma parse_gsv_overrun:
  assumes "str2int (tok_text (in_buf (rdr s)) (nmea_tokenizer_get t 2)) \<noteq> 1"
    "0 < sint (str2int (tok_text (in_buf (rdr s)) (nmea_tokenizer_get t 3)) - (str2int (tok_text (in_buf (rdr s)) (nmea_tokenizer_get t 2)) - 1) * 4)"
    "no_test (tst s)" "32 \<le> sv_count (rdr s)"
  shows "parse_gsv t c s = None"
proof -
  let ?d = "sint (str2int (tok_text (in_buf (rdr s)) (nmea_tokenizer_get t 3)) - (str2int (tok_text (in_buf (rdr s)) (nmea_tokenizer_get t 2)) - 1) * 4)"
  have "0 < nat (min NMEA_MAX_SV_INFO ?d)" using assms(2) by (simp add: NMEA_MAX_SV_INFO_def)
  then obtain k where "nat (min NMEA_MAX_SV_INFO ?d) = Suc k" by (cases "nat (min NMEA_MAX_SV_INFO ?d)") auto
  moreover have "gsv_entry t c 0 s = None" using assms(3,4) by (simp add: gsv_entry_def Let_def no_test_def)
  ultimately show ?thesis using assms(1) by (simp add: parse_gsv_def upt_rec [of 0 "Suc k"] del: upt_Suc)
qed

lemma sentence_overrun:
  assumes "is_gsv l" "\<not> is_first l"
    "0 < sint (str2int (tok_text l (nmea_tokenizer_get (nmea_tokenizer_init l (length l)) 3))
       - (str2int (tok_text l (nmea_tokenizer_get (nmea_tokenizer_init l (length l)) 2)) - 1) * 4)"
    "buf_ok s" "length l \<le> 255" "no_test (tst s)" "32 \<le> sv_count (rdr s)"
  shows "sentence e l fin s = None"
proof -
  let ?rest = "drop (length l) (in_buf (rdr s))"
  let ?s = "s\<lparr>rdr := (rdr s)\<lparr>in_buf := l @ ?rest, pos := length l\<rparr>, gps_nmea_end_tag := fin\<rparr>"
  let ?t = "nmea_tokenizer_init (l @ ?rest) (length l)"
  obtain p q where pq: "nmea_tokenizer_get ?t 0 = Tok p q" "p + 5 \<le> q" "9 \<le> length l"
    using assms(1) by (auto simp: is_gsv_def tokenizer_local split: token.splits)
  have "take 3 (drop 2 (drop p (l @ ?rest))) = [71, 83, 86]" using gsv_of_buffer [OF pq] assms(1) by simp
  then have "parse_sentence e ?t (drop p (l @ ?rest)) ?s = parse_gsv ?t (talker (drop p (l @ ?rest))) ?s"
    by (simp add: parse_sentence_def Let_def)
  also have "\<dots> = None"
    by (rule parse_gsv_overrun) (use assms(2,3,6,7) in \<open>simp_all add: field_of_buffer is_first_def\<close>)
  finally have "nmea_reader_parse e ?s = None"
    using pq assms(6) by (simp add: nmea_reader_parse_def pre_safe)
  then show ?thesis unfolding sentence_eq [OF assms(4,5)] by simp
qed

end
