(* ===== verification/Nmea_Reports.thy ===== *)
theory Nmea_Reports
  imports Nmea_Safety
begin

text \<open>
  What a burst sends: a copy of each of its sentences to the HAL, in order, and for a sentence with the
  fix mode followed by one with the position, the location to the HAL and to the daemon's main thread.
\<close>

section \<open>The copies\<close>

abbreviation traffic :: "nmea_ctx \<Rightarrow> (string \<times> byte list) list" where "traffic s \<equiv> sends (kern (dm (tst s)))"

text \<open>A group of messages that ends with the copy of a sentence: the text starts with it, and the length is its own.\<close>

definition forwarded :: "byte list \<Rightarrow> (string \<times> byte list) list \<Rightarrow> bool" where
  "forwarded l g = (\<exists>pre ts x. g = pre @ [to_hal (M_nmea ts (Some (takeWhile (\<lambda>c. c \<noteq> 0) (l @ x))) (word_of_nat (length l)))])"

lemma gsv_loop_dm: "gsv_loop t c is s = Some s' \<Longrightarrow> no_test (tst s) \<Longrightarrow> dm (tst s') = dm (tst s) \<and> no_test (tst s')"
proof (induction "is" arbitrary: s)
  case (Cons i "is")
  then obtain s1 where s1: "gsv_entry t c i s = Some s1" "gsv_loop t c is s1 = Some s'" by (auto simp: bind_eq_Some_conv)
  then have "dm (tst s1) = dm (tst s)" "no_test (tst s1)"
    using Cons.prems(2) by (auto simp: gsv_entry_def Let_def no_test_def split: if_splits)
  with Cons.IH [OF s1(2)] show ?case by simp
qed simp

lemma gsv_complete_dm: "gsv_complete cnt s = Some s' \<Longrightarrow> no_test (tst s) \<Longrightarrow> dm (tst s') = dm (tst s)"
  by (auto simp: gsv_complete_def Let_def no_test_def split: if_splits)

lemma parse_gsv_dm:
  assumes "parse_gsv t c s = Some s'" "no_test (tst s)"
  shows "dm (tst s') = dm (tst s)"
proof -
  let ?q = "str2int (tok_text (in_buf (rdr s)) (nmea_tokenizer_get t 2))"
  define s0 where "s0 = (if ?q = 1 then s\<lparr>rdr := (rdr s)\<lparr>sv_count := 0\<rparr>\<rparr> else s)"
  have s0: "tst s0 = tst s" by (simp add: s0_def)
  obtain "is" cnt b s1 where s1: "gsv_loop t c is s0 = Some s1" "(if b then gsv_complete cnt s1 else Some s1) = Some s'"
    using assms(1) unfolding parse_gsv_def Let_def bind_eq_Some_conv s0_def [symmetric] by blast
  from gsv_loop_dm [OF s1(1)] assms(2) s0 have "dm (tst s1) = dm (tst s)" "no_test (tst s1)" by simp_all
  with s1(2) gsv_complete_dm [of cnt s1 s'] show ?thesis by (cases b) simp_all
qed

lemma parse_sentence_dm:
  assumes "parse_sentence e t k s = Some s'" "no_test (tst s)"
  shows "dm (tst s') = dm (tst s)"
  using assms parse_gsv_dm
  by (auto simp: parse_sentence_def parse_gga_def parse_gsa_def parse_rmc_def Let_def split: if_splits)

lemma report_fix_sends: "report_fix s = Some s' \<Longrightarrow> \<exists>g. traffic s' = traffic s @ g"
  by (auto simp: report_fix_def nsend_location nsend_update split: if_splits)

lemma report_svs_sends: "report_svs s = Some s' \<Longrightarrow> length (sv_list (rdr s)) = 64 \<Longrightarrow> \<exists>g. traffic s' = traffic s @ g"
  by (auto simp: report_svs_def nsend_svs split: if_splits)


lemma parse_sends:
  assumes "nmea_reader_parse e s = Some s'" "sane s" "sv_count (rdr s) \<le> 4 * n" "n \<le> 8" "gsv_count l n \<le> 8"
    and mem: "in_buf (rdr s) = l @ rest" "pos (rdr s) = length l"
  shows "\<exists>g. traffic s' = traffic s @ g"
proof -
  have nt: "no_test (tst s)" and pre: "nmea_parser_at_cmd_pre (ne_at e) (gps_nmea_end_tag s) (tst s) = Some (tst s)"
    using assms(2) pre_safe by (simp_all add: sane_def)
  let ?t = "nmea_tokenizer_init (in_buf (rdr s)) (pos (rdr s))"
  consider "s' = s" | p q s1 s2 where "nmea_tokenizer_get ?t 0 = Tok p q" "p + 5 \<le> q" "9 \<le> length l"
    "parse_sentence e ?t (drop p (in_buf (rdr s))) s = Some s1" "report_fix s1 = Some s2" "report_svs s2 = Some s'"
    using assms(1) pre mem by (auto simp: nmea_reader_parse_def Let_def bind_eq_Some_conv not_le split: if_splits token.splits)
  then show ?thesis
  proof cases
    case 2
    note g = gsv_of_buffer [OF 2(1) [unfolded mem] 2(2,3)]
    obtain s1' where "parse_sentence e ?t (drop p (in_buf (rdr s))) s = Some s1'" "sane s1'"
      using parse_sentence_safe [OF assms(2-4) refl, of "drop p (in_buf (rdr s))" ?t e] assms(5)
      unfolding gsv_count_def g first_of_buffer [of l rest] mem by auto
    with 2(4) have s1: "sane s1" by simp
    obtain s2' where "report_fix s1 = Some s2'" "sane s2'" using report_safe(1) [OF s1] by blast
    with 2(5) have "length (sv_list (rdr s2)) = 64" by (simp add: sane_def)
    with report_svs_sends [OF 2(6)] report_fix_sends [OF 2(5)] parse_sentence_dm [OF 2(4) nt] show ?thesis
      by (metis append.assoc)
  qed (simp add: exI [of _ "[]"])
qed

lemma sentence_forwards:
  assumes "sentence e l fin s = Some s'" "sane s" "buf_ok s" "sv_count (rdr s) \<le> 4 * n" "n \<le> 8" "gsv_count l n \<le> 8" "length l \<le> 255"
  shows "\<exists>g. traffic s' = traffic s @ g \<and> forwarded l g"
proof -
  let ?s = "s\<lparr>rdr := (rdr s)\<lparr>in_buf := l @ drop (length l) (in_buf (rdr s)), pos := length l\<rparr>, gps_nmea_end_tag := fin\<rparr>"
  obtain s1 where s1: "nmea_reader_parse e ?s = Some s1"
    "traffic s' = traffic s1 @ [to_hal (M_nmea (loc_timestamp (fix_loc (rdr s1)))
      (Some (takeWhile (\<lambda>c. c \<noteq> 0) (l @ drop (length l) (in_buf (rdr s))))) (word_of_nat (length l)))]"
    using assms(1) unfolding sentence_eq [OF assms(3,7)] by auto
  have "sane ?s" "sv_count (rdr ?s) \<le> 4 * n" using assms(2,4) by (simp_all add: sane_def)
  from parse_sends [OF s1(1) this assms(5,6)] obtain g where "traffic s1 = traffic ?s @ g" by auto
  with s1(2) show ?thesis by (auto simp: forwarded_def)
qed

lemma take_lines_forwards:
  assumes "sane s" "buf_ok s" "sv_count (rdr s) \<le> 4 * n" "n \<le> 8" "gsv_ok n (sentences vs)" "list_all fits_event vs"
  shows "\<exists>s' gs. take_lines e vs s = Some s' \<and> traffic s' = traffic s @ concat gs \<and> list_all2 forwarded (sentences vs) gs"
  using assms
proof (induction vs arbitrary: s n)
  case Nil
  then show ?case by (intro exI [of _ s] exI [of _ "[]"]) simp
next
  case (Cons v vs)
  show ?case
  proof (cases v)
    case (Sentence l fin)
    have l: "gsv_count l n \<le> 8" "length l \<le> 255" using Cons.prems(5,6) by (simp_all add: Sentence)
    obtain s1 where s1: "sentence e l fin s = Some s1" "sane s1" "buf_ok s1" "sv_count (rdr s1) \<le> 4 * gsv_count l n"
      using sentence_safe [OF Cons.prems(1-4) l] by blast
    obtain g where g: "traffic s1 = traffic s @ g" "forwarded l g"
      using sentence_forwards [OF s1(1) Cons.prems(1-4) l] by blast
    obtain s' gs where "take_lines e vs s1 = Some s'" "traffic s' = traffic s1 @ concat gs" "list_all2 forwarded (sentences vs) gs"
      using Cons.IH [OF s1(2-4) l(1)] Cons.prems(5,6) by (auto simp: Sentence)
    with s1(1) g show ?thesis by (intro exI [of _ s'] exI [of _ "g # gs"]) (simp add: Sentence)
  next
    case (Dropped l)
    have "sane (dropped l s)" "buf_ok (dropped l s)" "sv_count (rdr (dropped l s)) \<le> 4 * n"
      using Cons.prems by (simp_all add: sane_def buf_ok_def dropped_def Dropped nth_append)
    moreover have "traffic (dropped l s) = traffic s" by (simp add: dropped_def)
    ultimately show ?thesis using Cons.IH [of "dropped l s" n] Cons.prems(4-6) by (simp add: Dropped)
  qed
qed


abbreviation new_burst :: "nmea_env \<Rightarrow> nmea_ctx \<Rightarrow> nmea_ctx" where
  "new_burst e s \<equiv> s\<lparr>rdr := nmea_reader_init e, gps_nmea_end_tag := False\<rparr>"

lemma reader_init_fields:
  "pos (nmea_reader_init e) = 0" "\<not> overflow (nmea_reader_init e)" "in_buf (nmea_reader_init e) = replicate 256 0"
  "sv_count (nmea_reader_init e) = 0" "num_svs (nmea_reader_init e) = 0" "length (sv_list (nmea_reader_init e)) = 64"
  "fix_loc (nmea_reader_init e) = zero_location"
  by (simp_all add: nmea_reader_init_def nmea_reader_update_utc_diff_def NMEA_MAX_SIZE_def GNSS_MAX_SVS_def Let_def)

lemma new_burst_ok: "ready (new_burst e s)" "buf_ok (new_burst e s)" "no_test (tst s) \<Longrightarrow> sane (new_burst e s)"
  by (simp_all add: ready_def buf_ok_def sane_def reader_init_fields del: replicate.simps)

section \<open>A position in a burst\<close>

text \<open>A sentence at the end of a burst is followed by the reports.\<close>

lemma parse_fields_last:
  assumes "ok_fields fs" "length fs \<le> 24" "5 \<le> length (hd fs)" "no_test (tst s)"
    and "in_buf (rdr s) = nmea_line fs h1 h2 @ rest" "pos (rdr s) = length (nmea_line fs h1 h2)"
  shows "nmea_reader_parse e s = do {
     s \<leftarrow> parse_sentence e (nmea_tokenizer_init (in_buf (rdr s)) (pos (rdr s))) (drop 1 (in_buf (rdr s))) s;
     s \<leftarrow> report_fix s;
     report_svs s }"
proof -
  obtain r where "join fs = hd fs @ r" using join_hd assms(1) by (auto simp: ok_fields_def)
  then have "9 \<le> pos (rdr s)" using assms(3,6) by (simp add: nmea_line_def)
  moreover have "nmea_tokenizer_get (nmea_tokenizer_init (in_buf (rdr s)) (pos (rdr s))) 0 = Tok 1 (1 + length (hd fs))"
    using line_fields(3) [OF assms(1,2)] by (simp add: assms(5,6))
  ultimately show ?thesis using assms(3,4) by (simp add: nmea_reader_parse_def pre_safe Let_def)
qed

text \<open>The fix mode of a \<open>GSA\<close> sentence.\<close>

definition gsa_fields :: "byte list list \<Rightarrow> byte \<Rightarrow> bool" where
  "gsa_fields fs m = (ok_fields fs \<and> 3 \<le> length fs \<and> length fs \<le> 24 \<and> length (fs ! 0) = 5 \<and> drop 2 (fs ! 0) = [71, 83, 65]
     \<and> fs ! 2 = [m] \<and> m \<in> {50, 51})"

lemma sentence_kind:
  assumes "ok_fields fs" "length (fs ! 0) = 5" "in_buf (rdr s) = nmea_line fs h1 h2 @ rest"
  shows "take 3 (drop 2 (drop 1 (in_buf (rdr s)))) = drop 2 (fs ! 0)"
proof -
  obtain r where r: "join fs = fs ! 0 @ r" using join_hd [of fs] assms(1) by (auto simp: ok_fields_def hd_conv_nth)
  have "drop 2 (drop 1 (in_buf (rdr s))) = drop 2 (fs ! 0) @ r @ [42, h1, h2, 13, 10] @ rest"
    using assms(2) by (simp add: assms(3) nmea_line_def r)
  then show ?thesis using assms(2) by simp
qed

lemma gsa_parse:
  assumes "gsa_fields fs m" and mem: "in_buf (rdr s) = nmea_line fs h1 h2 @ rest"
    "t = nmea_tokenizer_init (in_buf (rdr s)) (length (nmea_line fs h1 h2))"
  shows "\<exists>u. parse_sentence e t (drop 1 (in_buf (rdr s))) s
    = Some (s\<lparr>rdr := (rdr s)\<lparr>fix_mode := word_of_int (digit_val m)\<rparr>, gnss_sv_used_in_fix := u\<rparr>)"
proof -
  note f = assms(1) [unfolded gsa_fields_def]
  have ok: "ok_fields fs" "length fs \<le> 24" using f by auto
  have "take 3 (drop 2 (drop 1 (in_buf (rdr s)))) = [71, 83, 65]" using sentence_kind [OF ok(1) _ mem(1)] f by simp
  then have p: "parse_sentence e t (drop 1 (in_buf (rdr s))) s = Some (parse_gsa t (talker (drop 1 (in_buf (rdr s)))) s)"
    by (simp add: parse_sentence_def Let_def)
  have "tok_text (in_buf (rdr s)) (nmea_tokenizer_get t 2) = [m]"
    using f unfolding mem by (simp add: line_fields(2) [OF ok])
  moreover have "is_digit m" "m \<noteq> 45" using f by (auto simp: is_digit_def)
  then have "str2int [m] = word_of_int (digit_val m)" by (simp add: str2int_def)
  moreover have "LOC_FIXED ((rdr s)\<lparr>fix_mode := word_of_int (digit_val m)\<rparr>)"
    using f by (auto simp: LOC_FIXED_def digit_val_def)
  ultimately show ?thesis unfolding p by (auto simp: parse_gsa_def Let_def)
qed

lemma gsa_sentence:
  assumes "gsa_fields fs m" "buf_ok s" "length (nmea_line fs h1 h2) \<le> 255"
  shows "\<exists>u. sentence e (nmea_line fs h1 h2) False s = Some ((outs [to_hal (M_nmea (loc_timestamp (fix_loc (rdr s)))
      (Some (takeWhile (\<lambda>c. c \<noteq> 0) (nmea_line fs h1 h2 @ drop (length (nmea_line fs h1 h2)) (in_buf (rdr s)))))
      (word_of_nat (length (nmea_line fs h1 h2))))] s)\<lparr>gps_nmea_end_tag := False, gnss_sv_used_in_fix := u,
      rdr := (rdr s)\<lparr>in_buf := nmea_line fs h1 h2 @ drop (length (nmea_line fs h1 h2)) (in_buf (rdr s)), pos := 0,
        fix_mode := word_of_int (digit_val m)\<rparr>\<rparr>)"
proof -
  let ?l = "nmea_line fs h1 h2"
  let ?s = "s\<lparr>rdr := (rdr s)\<lparr>in_buf := ?l @ drop (length ?l) (in_buf (rdr s)), pos := length ?l\<rparr>, gps_nmea_end_tag := False\<rparr>"
  note f = assms(1) [unfolded gsa_fields_def]
  have ok: "ok_fields fs" "length fs \<le> 24" "5 \<le> length (hd fs)" using f by (auto simp: ok_fields_def hd_conv_nth)
  have b: "in_buf (rdr ?s) = ?l @ drop (length ?l) (in_buf (rdr s))" "pos (rdr ?s) = length ?l" "\<not> gps_nmea_end_tag ?s" by simp_all
  obtain u where "parse_sentence e (nmea_tokenizer_init (in_buf (rdr ?s)) (length ?l)) (drop 1 (in_buf (rdr ?s))) ?s
      = Some (?s\<lparr>rdr := (rdr ?s)\<lparr>fix_mode := word_of_int (digit_val m)\<rparr>, gnss_sv_used_in_fix := u\<rparr>)"
    using gsa_parse [OF assms(1) b(1) refl, of e] by blast
  with parse_fields [OF ok b, of e] have
    "nmea_reader_parse e ?s = Some (?s\<lparr>rdr := (rdr ?s)\<lparr>fix_mode := word_of_int (digit_val m)\<rparr>, gnss_sv_used_in_fix := u\<rparr>)"
    by (simp only: b(2))
  then show ?thesis unfolding sentence_eq [OF assms(2,3)] by (intro exI [of _ u]) (simp add: outs_def)
qed

text \<open>When the clock and the zone of the phone are such that the seconds of the sentence fit \<open>time_t\<close>.\<close>

definition stamp_ok :: "nmea_env \<Rightarrow> bool \<Rightarrow> byte list \<Rightarrow> byte list \<Rightarrow> bool" where
  "stamp_ok e b date time = (steady_zone (ne_zone e) b \<and> in32 (sint (at_now (ne_at e)) - std_offset (ne_zone e))
     \<and> in32 (utc_seconds date time - zone_offset (ne_zone e) b)
     \<and> in32 (utc_seconds date time - (if b then dst_save (ne_zone e) else 0)))"

lemma rmc_keeps:
  "fix_mode (rdr (parse_rmc e t s)) = fix_mode (rdr s)" "num_svs (rdr (parse_rmc e t s)) = num_svs (rdr s)"
  by (simp_all add: parse_rmc_def Let_def nmea_reader_update_bearing_def nmea_reader_update_speed_def
      nmea_reader_update_latlong_def nmea_reader_update_date_def nmea_reader_update_time_def nmea_reader_update_utc_diff_def)

lemma rmc_sentence:
  assumes f: "rmc_fields fs time alat flat ns alon flon ew date sid" and "stamp_ok e b date time" "buf_ok s" "no_test (tst s)"
    and "length (nmea_line fs h1 h2) \<le> 255" "LOC_FIXED (rdr s)" "num_svs (rdr s) = 0"
  shows "\<exists>s' loc. sentence e (nmea_line fs h1 h2) True s = Some s'
    \<and> traffic s' = traffic s @ [to_hal (M_location (gps_location_bytes loc)),
        (MNLD_MAIN_SOCKET, main_wire (E_update_location (gps_location_bytes loc))),
        to_hal (M_nmea (loc_timestamp loc) (Some (takeWhile (\<lambda>c. c \<noteq> 0) (nmea_line fs h1 h2
          @ drop (length (nmea_line fs h1 h2)) (in_buf (rdr s))))) (word_of_nat (length (nmea_line fs h1 h2))))]
    \<and> near_coord (loc_lat loc) (ns = 83) alat flat \<and> near_coord (loc_lng loc) (ew = 87) alon flon
    \<and> loc_timestamp loc = word_of_int (1000 * (utc_seconds date time - (if b then dst_save (ne_zone e) else 0)))
    \<and> bit (loc_flags loc) 0"
proof -
  let ?l = "nmea_line fs h1 h2"
  let ?s = "s\<lparr>rdr := (rdr s)\<lparr>in_buf := ?l @ drop (length ?l) (in_buf (rdr s)), pos := length ?l\<rparr>, gps_nmea_end_tag := True\<rparr>"
  let ?t = "nmea_tokenizer_init (in_buf (rdr ?s)) (length ?l)"
  note g = f [unfolded rmc_fields_def]
  have ok: "ok_fields fs" "length fs \<le> 24" "5 \<le> length (hd fs)" "length (fs ! 0) = 5"
    using g by (auto simp: ok_fields_def hd_conv_nth)
  have b: "in_buf (rdr ?s) = ?l @ drop (length ?l) (in_buf (rdr s))" "pos (rdr ?s) = length ?l" by simp_all
  obtain r where r: "parse_sentence e ?t (drop 1 (in_buf (rdr ?s))) ?s = Some (?s\<lparr>rdr := r\<rparr>)"
    "near_coord (loc_lat (fix_loc r)) (ns = 83) alat flat" "near_coord (loc_lng (fix_loc r)) (ew = 87) alon flon"
    "loc_timestamp (fix_loc r) = word_of_int (1000 * (utc_seconds date time - (if b then dst_save (ne_zone e) else 0)))"
    "bit (loc_flags (fix_loc r)) 0"
    using rmc_parse [OF f, of e b ?s h1 h2 "drop (length ?l) (in_buf (rdr s))" ?t] assms(2) by (auto simp: stamp_ok_def)
  have "take 3 (drop 2 (drop 1 (in_buf (rdr ?s)))) = [82, 77, 67]" using sentence_kind [OF ok(1,4) b(1)] g by metis
  then have "r = rdr (parse_rmc e ?t ?s)" using r(1) by (auto simp: parse_sentence_def Let_def)
  then have k: "LOC_FIXED r" "num_svs r = 0" using rmc_keeps [of e ?t ?s] assms(6,7) by (simp_all add: LOC_FIXED_def)
  have "loc_flags (fix_loc r) \<noteq> 0" using r(5) by auto
  then have p: "nmea_reader_parse e ?s = Some ((outs [to_hal (M_location (gps_location_bytes (fix_loc r))),
        (MNLD_MAIN_SOCKET, main_wire (E_update_location (gps_location_bytes (fix_loc r))))] (?s\<lparr>rdr := r\<rparr>))
        \<lparr>rdr := r\<lparr>fix_loc := (fix_loc r)\<lparr>loc_flags := 0\<rparr>\<rparr>\<rparr>)"
    using parse_fields_last [OF ok(1-3) _ b, of e] assms(4) r(1) k unfolding b(2)
    by (simp add: report_fix_def report_svs_def nsend_location nsend_update)
  show ?thesis
    unfolding sentence_eq [OF assms(3,5)] p using r(2-5) by (intro exI [of _ "fix_loc r"] exI conjI) auto
qed

text \<open>A burst of the two.\<close>

definition printable_line :: "byte list list \<Rightarrow> byte \<Rightarrow> byte \<Rightarrow> bool" where
  "printable_line fs h1 h2 = (list_all (\<lambda>f. 0 \<notin> set f \<and> 10 \<notin> set f) fs \<and> 0 \<notin> {h1, h2} \<and> 10 \<notin> {h1, h2}
     \<and> length (nmea_line fs h1 h2) \<le> 255)"

lemma join_set: "set (join fs) \<subseteq> insert 44 (\<Union> (set (map set fs)))"
  by (induction fs rule: join.induct) auto

lemma printable_line_facts:
  assumes "printable_line fs h1 h2"
  shows "is_line (nmea_line fs h1 h2)" "0 \<notin> set (nmea_line fs h1 h2)" "length (nmea_line fs h1 h2) \<le> 255"
proof -
  have "0 \<notin> set (join fs)" "10 \<notin> set (join fs)"
    using assms join_set [of fs] by (auto simp: printable_line_def list_all_iff)
  then show "is_line (nmea_line fs h1 h2)" "0 \<notin> set (nmea_line fs h1 h2)" "length (nmea_line fs h1 h2) \<le> 255"
    using assms by (auto simp: printable_line_def nmea_line_def is_line_def butlast_append)
qed

lemma text_prefix: "0 \<notin> set l \<Longrightarrow> takeWhile (\<lambda>c. c \<noteq> 0) (l @ replicate n 0) = (l :: byte list)"
  by (cases n) (auto simp: takeWhile_append)

lemma position_burst:
  fixes e gf g1 g2 fs h1 h2
  defines "g \<equiv> nmea_line gf g1 g2" and "l \<equiv> nmea_line fs h1 h2"
  assumes "gsa_fields gf m" "rmc_fields fs time alat flat ns alon flon ew date sid" "stamp_ok e b date time" "no_test (tst s)"
    "printable_line gf g1 g2" "printable_line fs h1 h2"
  shows "\<exists>s' loc. mtk_mnl_nmea_parser_process e (g @ l) s = Some s'
    \<and> traffic s' = traffic s @ [to_hal (M_nmea 0 (Some g) (word_of_nat (length g))),
        to_hal (M_location (gps_location_bytes loc)),
        (MNLD_MAIN_SOCKET, main_wire (E_update_location (gps_location_bytes loc))),
        to_hal (M_nmea (loc_timestamp loc) (Some (l @ drop (length l) g)) (word_of_nat (length l)))]
    \<and> near_coord (loc_lat loc) (ns = 83) alat flat \<and> near_coord (loc_lng loc) (ew = 87) alon flon
    \<and> loc_timestamp loc = word_of_int (1000 * (utc_seconds date time - (if b then dst_save (ne_zone e) else 0)))
    \<and> bit (loc_flags loc) 0"
proof -
  note gl = printable_line_facts [OF assms(7), folded g_def] printable_line_facts [OF assms(8), folded l_def]
  have tx1: "takeWhile (\<lambda>c. c \<noteq> 0) (g @ drop (length g) (replicate 256 0)) = g"
    using text_prefix [OF gl(2), of "256 - length g"] by (simp only: drop_replicate)
  define s1 where "s1 u = (outs [to_hal (M_nmea 0 (Some g) (word_of_nat (length g)))] (new_burst e s))
      \<lparr>gps_nmea_end_tag := False, gnss_sv_used_in_fix := u,
       rdr := (nmea_reader_init e)\<lparr>in_buf := g @ drop (length g) (replicate 256 0), pos := 0, fix_mode := word_of_int (digit_val m)\<rparr>\<rparr>" for u
  obtain u where s1: "sentence e g False (new_burst e s) = Some (s1 u)"
    using gsa_sentence [OF assms(3) new_burst_ok(2) [of e s], of g1 g2 e] gl(3) tx1
    by (auto simp: s1_def g_def [symmetric] reader_init_fields zero_location_def simp del: drop_replicate)
  have ok1: "buf_ok (s1 u)" "no_test (tst (s1 u))" "LOC_FIXED (rdr (s1 u))" "num_svs (rdr (s1 u)) = 0"
    using gl(3) assms(3,6) by (auto simp: s1_def buf_ok_def nth_append outs_def no_test_def LOC_FIXED_def gsa_fields_def digit_val_def
        reader_init_fields)
  have tx2: "takeWhile (\<lambda>c. c \<noteq> 0) (l @ drop (length l) (in_buf (rdr (s1 u)))) = l @ drop (length l) g"
    using text_prefix [of "l @ drop (length l) g"] gl(2,5) in_set_dropD [of 0 "length l" g] by (auto simp: s1_def)
  obtain s' loc where s': "sentence e l True (s1 u) = Some s'"
    "traffic s' = traffic (s1 u) @ [to_hal (M_location (gps_location_bytes loc)),
        (MNLD_MAIN_SOCKET, main_wire (E_update_location (gps_location_bytes loc))),
        to_hal (M_nmea (loc_timestamp loc) (Some (l @ drop (length l) g)) (word_of_nat (length l)))]"
    "near_coord (loc_lat loc) (ns = 83) alat flat" "near_coord (loc_lng loc) (ew = 87) alon flon"
    "loc_timestamp loc = word_of_int (1000 * (utc_seconds date time - (if b then dst_save (ne_zone e) else 0)))" "bit (loc_flags loc) 0"
    using rmc_sentence [OF assms(4,5) ok1(1,2) _ ok1(3,4), of h1 h2] gl(6) tx2 by (auto simp: l_def)
  have "take_lines e (cut_lines [g, l]) (new_burst e s) = Some s'" using gl(3,6) s1 s'(1) by simp
  moreover have "map_option outcome (nmea_process_loop e (concat [g, l]) (new_burst e s)) = map_option outcome (take_lines e (cut_lines [g, l]) (new_burst e s))"
    by (rule process_cut) (use gl new_burst_ok(1) in simp_all)
  ultimately obtain s'' where "mtk_mnl_nmea_parser_process e (g @ l) s = Some s''" "tst s'' = tst s'"
    by (auto simp: mtk_mnl_nmea_parser_process_def outcome_def)
  moreover have "traffic (s1 u) = traffic s @ [to_hal (M_nmea 0 (Some g) (word_of_nat (length g)))]"
    by (simp add: s1_def outs_def)
  ultimately show ?thesis using s' by (intro exI [of _ s''] exI [of _ loc]) simp
qed
end
