(* ===== verification/At_Facts.thy ===== *)
theory At_Facts
  imports At_Command Mnld_Invariants
begin

text \<open>
  Facts about the factory test: the block of samples is never given back twice, the commands of the tester
  cannot fault while they are short and the results printable, and the measurement is the average and the
  mean deviation of the reported signal strengths.
\<close>

section \<open>The invariant\<close>

text \<open>A test that is under way owns its block of samples.\<close>

definition at_live :: "at_ctx \<Rightarrow> bool" where
  "at_live s = (MNL_AT_TEST_FLAG s \<or> MNL_AT_SIGNAL_MODE s \<or> MNL_AT_SIGNAL_TEST_BEGIN s \<or> MNL_AT_TEST_STATE s \<noteq> MNL_AT_TEST_UNKNOWN)"

definition at_inv :: "nat \<Rightarrow> (string \<times> byte list \<times> bool) list \<Rightarrow> at_ctx \<Rightarrow> bool" where
  "at_inv n h s = ((at_live s \<longrightarrow> Dev_CNr s \<noteq> Freed) \<and> fsm_inv n h (dm s) \<and> length (at_result s) = 8)"

lemma at_stop_inv:
  assumes "at_inv n h s" "Dev_CNr s \<noteq> Freed"
  shows "\<exists>s'. gpsinf_mtk_gps_test_stop e s = Some (0, s') \<and> at_inv n h s' \<and> \<not> at_live s' \<and> at_result s' = at_result s
    \<and> Avg_CNo s' = Avg_CNo s \<and> at_cn s' = at_cn s \<and> at_prn s' = at_prn s \<and> at_snr s' = at_snr s"
proof -
  obtain d where "at_test2mnl_gps_stop (at_mnld e) (dm s) = Some d" "fsm_inv n h d"
    using u_at.stop_inv [of n h "dm s" "at_mnld e"] assms(1) by (auto simp: at_inv_def)
  moreover obtain p where "free_block (Dev_CNr s) = Some p" using assms(2) by (cases "Dev_CNr s") auto
  ultimately show ?thesis
    using assms(1) by (simp add: gpsinf_mtk_gps_test_stop_def at_inv_def at_live_def)
qed

lemma calloc_Some: "(\<And>k. malloc_ok e k) \<Longrightarrow> calloc_ints e num = Some (Block (replicate (nat (uint (4 * num)) div 4) 0))"
  by (simp add: calloc_ints_def Let_def)

lemma at_start_inv:
  assumes "at_inv n h s" "\<And>k. malloc_ok e k"
  shows "\<exists>ret s'. gpsinf_mtk_gps_test_start e num p d mode s = Some (ret, s') \<and> at_inv n h s' \<and> at_result s' = at_result s
    \<and> Avg_CNo s' = 0 \<and> at_cn s' = at_cn s"
proof -
  have "\<exists>s0. (if MNL_AT_TEST_STATE s \<noteq> MNL_AT_TEST_UNKNOWN \<and> test_mode_flag s
      then map_option snd (gpsinf_mtk_gps_test_stop e s) else Some s) = Some s0
    \<and> at_inv n h s0 \<and> at_result s0 = at_result s \<and> at_cn s0 = at_cn s"
  proof (cases "MNL_AT_TEST_STATE s \<noteq> MNL_AT_TEST_UNKNOWN \<and> test_mode_flag s")
    case True
    then have "Dev_CNr s \<noteq> Freed" using assms(1) by (simp add: at_inv_def at_live_def)
    with at_stop_inv [OF assms(1) this, of e] True show ?thesis by auto
  qed (use assms in auto)
  then obtain s0 where s0: "(if MNL_AT_TEST_STATE s \<noteq> MNL_AT_TEST_UNKNOWN \<and> test_mode_flag s
      then map_option snd (gpsinf_mtk_gps_test_stop e s) else Some s) = Some s0"
    "at_inv n h s0" "at_result s0 = at_result s" "at_cn s0 = at_cn s" by blast
  obtain d where "at_test2mnl_gps_start (at_mnld e) (dm s0) = Some d" "fsm_inv n h d"
    using u_at.start_inv [of n h "dm s0" "at_mnld e"] s0(2) by (auto simp: at_inv_def)
  with s0 show ?thesis
    unfolding gpsinf_mtk_gps_test_start_def s0(1) by (auto simp: calloc_Some [OF assms(2)] Let_def at_inv_def at_live_def)
qed

lemma at_progress_keeps:
  assumes "at_progress s = (b, s')"
  shows "Dev_CNr s' = Dev_CNr s" "dm s' = dm s" "at_result s' = at_result s" "MNL_AT_TEST_FLAG s' = MNL_AT_TEST_FLAG s"
    "at_live s' = at_live s"
  using assms by (auto simp: at_progress_def Let_def at_live_def split: if_splits)

lemma at_finish_inv:
  assumes "at_inv n h s" "Dev_CNr s \<noteq> Freed"
  shows "\<exists>s'. at_finish e s = Some s' \<and> at_inv n h s'"
proof -
  let ?s = "s\<lparr>at_result := (at_result s)[0 := Err_Code s, 3 := Success_Num s, 4 := Completed_Num s, 5 := Avg_CNo s, 6 := Dev_CNo s],
      Wait_Num := 0, MNL_AT_TEST_STATE := MNL_AT_TEST_DONE, Err_Code := 1\<rparr>"
  have "at_inv n h ?s" "Dev_CNr ?s \<noteq> Freed" using assms by (simp_all add: at_inv_def)
  from at_stop_inv [OF this, of e] this(1) show ?thesis
    by (auto simp: at_finish_def Let_def) (simp_all add: at_inv_def at_live_def)
qed

lemma at_pre_inv:
  assumes "at_inv n h s"
  shows "\<exists>s'. nmea_parser_at_cmd_pre e b s = Some s' \<and> at_inv n h s'"
proof -
  obtain st t where t: "at_progress s = (st, t)" by (cases "at_progress s")
  let ?t = "t\<lparr>prev_success_num := Success_Num t\<rparr>"
  have inv: "at_inv n h ?t" using assms at_progress_keeps [OF t] by (simp add: at_inv_def at_live_def)
  have "Dev_CNr ?t \<noteq> Freed" if "MNL_AT_TEST_FLAG s \<or> MNL_AT_SIGNAL_TEST_BEGIN s"
    using assms that at_progress_keeps [OF t] by (auto simp: at_inv_def at_live_def)
  with inv assms at_finish_inv [OF inv, of e] show ?thesis
    by (auto simp: nmea_parser_at_cmd_pre_def t Let_def)
qed

section \<open>Commands\<close>

text \<open>The numbers a query prints fit its array.\<close>

definition printable :: "at_ctx \<Rightarrow> bool" where
  "printable s = (length (result_list s) \<le> 33 \<and> length (show_int (sint (Avg_CNo s) sdiv 10)) \<le> 5
     \<and> length (show_int (sint (at_cn s) sdiv 10)) \<le> 5)"

definition at_good :: "nat \<Rightarrow> (string \<times> byte list \<times> bool) list \<Rightarrow> at_ctx \<Rightarrow> bool" where
  "at_good n h s = (at_inv n h s \<and> printable s)"

lemma result_list_cong: "at_result s' = at_result s \<Longrightarrow> result_list s' = result_list s"
  by (simp add: result_list_def)

lemma at_good_ack [simp]: "at_good n h (at_command_send_ack m s) = at_good n h s"
  by (simp add: at_good_def at_inv_def at_live_def printable_def at_command_send_ack_def result_list_def)

lemma at_good_mode [simp]: "at_good n h (s\<lparr>test_mode_flag := x\<rparr>) = at_good n h s"
  by (simp add: at_good_def at_inv_def at_live_def printable_def result_list_def)

lemma show_zero [simp]: "show_int 0 = [48]"
  by (simp add: show_int_def show_nat.simps)

lemma ascii_length [simp]: "length (ascii s) = length s"
  by (simp add: ascii_def)

lemma printed_Some: "length t + 1 \<le> length mem \<Longrightarrow> \<exists>b. printed mem t = Some b"
  by (simp add: printed_def store_def)

lemma fresh_results: "at_result s = [1, 0, 0, 0, 0, 0, 0, 0] \<Longrightarrow> length (result_list s) = 22"
  by (simp add: result_list_def upt_rec ascii_def show_int_def show_nat.simps)

lemma send_cno_good:
  assumes "at_good n h s"
  shows "\<exists>s'. at_command_send_cno e c s = Some s' \<and> at_good n h s'"
proof -
  let ?v = "if MNL_AT_SIGNAL_MODE s then at_cn s else Avg_CNo s"
  let ?t = "show_int (sint ?v sdiv 10) @ (if take 7 c = GNSS_OP then ascii '', NA'' else [])"
  have "length ?t + 1 \<le> 10" using assms by (auto simp: at_good_def printable_def)
  then obtain b where "printed (uninit (at_junk e) 10) ?t = Some b"
    using printed_Some [of ?t "uninit (at_junk e) 10"] by auto
  with assms show ?thesis by (simp add: at_command_send_cno_def Let_def split: if_splits)
qed

lemma bracketed_good:
  assumes "at_good n h s"
  shows "\<exists>s'. send_bracketed junk s = Some s' \<and> at_good n h s'"
proof -
  let ?t = "ascii ''['' @ result_list s @ ascii ''][0, 0, 0, 0, 0, 0, 0, 0]''"
  have "length ?t + 1 \<le> 60" using assms by (simp add: at_good_def printable_def)
  then obtain b where "printed (uninit junk 60) ?t = Some b" using printed_Some [of ?t "uninit junk 60"] by auto
  with assms show ?thesis by (simp add: send_bracketed_def GPS_AT_ACK_SIZE_def)
qed

lemma send_result_good: "at_good n h s \<Longrightarrow> \<exists>s'. at_command_send_test_result e s = Some s' \<and> at_good n h s'"
  by (auto simp: at_command_send_test_result_def Let_def intro: bracketed_good)

lemma at_start_good:
  assumes "at_good n h s" "\<And>k. malloc_ok e k"
  shows "\<exists>ret s'. gpsinf_mtk_gps_test_start e num p d mode s = Some (ret, s') \<and> at_good n h s'"
proof -
  obtain ret s' where "gpsinf_mtk_gps_test_start e num p d mode s = Some (ret, s')" "at_inv n h s'"
    "at_result s' = at_result s" "Avg_CNo s' = 0" "at_cn s' = at_cn s"
    using at_start_inv [of n h s e num p d mode] assms by (auto simp: at_good_def)
  with assms(1) show ?thesis by (auto simp: at_good_def printable_def result_list_def)
qed

lemma at_stop_good:
  assumes "at_good n h s" "MNL_AT_TEST_STATE s \<noteq> MNL_AT_TEST_UNKNOWN"
  shows "\<exists>s'. gpsinf_mtk_gps_test_stop e s = Some (0, s') \<and> at_good n h s'"
proof -
  have "at_inv n h s" "Dev_CNr s \<noteq> Freed" using assms by (auto simp: at_good_def at_inv_def at_live_def)
  from at_stop_inv [OF this, of e] assms(1) show ?thesis by (auto simp: at_good_def printable_def result_list_def)
qed

text \<open>The terminator the receive loop writes is behind the operator of every command that carries a number.\<close>

lemma test_num_Some:
  assumes "k < length c" "c ! k = 0" "\<And>k. malloc_ok e k" "(if take 7 c = GNSS_OP then 8 else 7) \<le> k"
  shows "\<exists>v. at_command_parse_test_num e c = Some v"
proof -
  let ?m = "if take 7 c = GNSS_OP then 8 else 7 :: nat"
  have "0 \<in> set (drop ?m c)"
    using assms nth_mem [of "k - ?m" "drop ?m c"] by (auto simp: nth_drop)
  moreover from this have "0 \<in> set c" by (rule in_set_dropD)
  ultimately show ?thesis using assms(3) by (simp add: at_command_parse_test_num_def c_string_def case_prod_beta)
qed

lemma prefix_nth: "take (length p) c = p \<Longrightarrow> i < length p \<Longrightarrow> c ! i = p ! i"
  by (metis nth_take)

lemma terminator_behind:
  assumes "take (length p) c = p" "0 \<notin> set p" "c ! length p \<noteq> 0" "c ! k = 0"
  shows "Suc (length p) \<le> k"
proof (rule ccontr)
  assume "\<not> Suc (length p) \<le> k"
  then consider "k < length p" | "k = length p" by linarith
  then show False
  proof cases
    case 1
    with assms prefix_nth [OF assms(1) this] show ?thesis by (metis nth_mem)
  qed (use assms in auto)
qed

lemma operators:
  "length GPS_OP = 6" "length GNSS_OP = 7" "0 \<notin> set GPS_OP" "0 \<notin> set GNSS_OP"
  by (simp_all add: GPS_OP_def GNSS_OP_def ascii_def)

lemma gps_not_gnss:
  assumes "take 6 c = GPS_OP"
  shows "take 7 c \<noteq> GNSS_OP"
proof
  assume "take 7 c = GNSS_OP"
  then have "c ! 4 = 78" using prefix_nth [of GNSS_OP c 4] by (simp add: operators) (simp add: GNSS_OP_def ascii_def)
  moreover have "c ! 4 = 80" using prefix_nth [of GPS_OP c 4] assms by (simp add: operators) (simp add: GPS_OP_def ascii_def)
  ultimately show False by simp
qed

lemma gps_command_good:
  assumes "at_good n h s" "\<And>k. malloc_ok e k" "take 6 c = GPS_OP" "k < length c" "c ! k = 0"
  shows "\<exists>s'. at_gps_command_parser e c s = Some s' \<and> at_good n h s'"
proof -
  let ?s = "s\<lparr>test_mode_flag := False\<rparr>"
  have g: "at_good n h ?s" using assms(1) by simp
  have num: "\<exists>v. at_command_parse_test_num e c = Some v" if "c ! 6 = 61"
    using test_num_Some [OF assms(4,5,2)] terminator_behind [of GPS_OP c k] assms that gps_not_gnss [OF assms(3)]
    by (simp add: operators)
  have "length (ascii ''<'' @ result_list ?s @ ascii ''>'') + 1 \<le> 60" using g by (simp add: at_good_def printable_def)
  then obtain b where b: "printed (uninit (at_junk e) 60) (ascii ''<'' @ result_list ?s @ ascii ''>'') = Some b"
    using printed_Some [of "ascii ''<'' @ result_list ?s @ ascii ''>''" "uninit (at_junk e) 60"] by auto
  have start: "\<exists>ret s'. gpsinf_mtk_gps_test_start e v GPS_TEST_PRN 2 0 ?s = Some (ret, s') \<and> at_good n h s'" for v
    by (rule at_start_good [OF g assms(2)])
  show ?thesis
  proof (cases "c ! 6 = 61")
    case True
    with num obtain v where "at_command_parse_test_num e c = Some v" by blast
    then show ?thesis using True send_cno_good [OF g, of e c] g start [of v]
      by (auto simp: at_gps_command_parser_def at_is_def Let_def)
  next
    case False
    then show ?thesis using send_cno_good [OF g, of e c] g b
      by (auto simp: at_gps_command_parser_def at_is_def Let_def GPS_AT_ACK_SIZE_def)
  qed
qed

lemma gnss_signal_good:
  assumes "at_good n h s" "\<And>k. malloc_ok e k"
  shows "\<exists>s'. gnss_signal e s = Some s' \<and> at_good n h s'"
proof (cases "MNL_AT_TEST_FLAG s")
  case True
  let ?s = "s\<lparr>MNL_AT_SIGNAL_MODE := True, MNL_AT_TEST_FLAG := False\<rparr>"
  let ?t = "if \<not> MNL_AT_CANCEL_ALARM s then ?s\<lparr>MNL_AT_CANCEL_ALARM := False, MNL_AT_SET_ALARM := False\<rparr> else ?s"
  have "at_live s" using True by (simp add: at_live_def)
  then have "at_good n h ?t" using assms(1) by (simp add: at_good_def at_inv_def printable_def result_list_def)
  moreover have "gnss_signal e s = Some (at_command_send_ack (lit ''GNSS START START OK'') ?t)"
    using True by (simp add: gnss_signal_def)
  ultimately show ?thesis by simp
next
  case False
  then show ?thesis using at_start_good [OF assms, of 0 1 2 1] by (auto simp: gnss_signal_def)
qed

lemma gnss_end_good: "at_good n h s \<Longrightarrow> \<exists>s'. gnss_end e s = Some s' \<and> at_good n h s'"
  using at_stop_good [of n h s e] by (auto simp: gnss_end_def)

lemma gnss_number_good:
  assumes "at_good n h s" "\<And>k. malloc_ok e k" "at_command_parse_test_num e c = Some v"
  shows "\<exists>s'. gnss_number e c s = Some s' \<and> at_good n h s'"
proof -
  let ?s = "s\<lparr>at_result := [1, 0, 0, 0, 0, 0, 0, 0], Avg_CNo := 0, Success_Num := 0, Completed_Num := 0, CNo := 0,
               DCNo := 0, Dev_CNo := 0, at_cn := 0\<rparr>"
  have g: "at_good n h ?s"
    using assms(1) fresh_results [of ?s] by (simp add: at_good_def at_inv_def at_live_def printable_def)
  have sig: "at_good n h (?s\<lparr>MNL_AT_SIGNAL_TEST_BEGIN := True, MNL_AT_TEST_STATE := MNL_AT_TEST_INPROGRESS\<rparr>
      \<lparr>at_start_time := x\<rparr>)" if "MNL_AT_SIGNAL_MODE s" for x
    using g that by (simp add: at_good_def at_inv_def at_live_def printable_def result_list_def)
  have ack: "(at_command_send_ack m s')\<lparr>at_start_time := x\<rparr> = at_command_send_ack m (s'\<lparr>at_start_time := x\<rparr>)" for m s' x
    by (simp add: at_command_send_ack_def)
  have st: "MNL_AT_TEST_STATE (at_command_send_ack m s') = MNL_AT_TEST_STATE s'" for m s'
    by (simp add: at_command_send_ack_def)
  have stop: "\<exists>s'. gpsinf_mtk_gps_test_stop e (at_command_send_ack m ?s) = Some (0, s') \<and> at_good n h s'"
    if "MNL_AT_TEST_STATE s \<noteq> MNL_AT_TEST_UNKNOWN" for m
    using at_stop_good [of n h "at_command_send_ack m ?s" e] g that by (simp add: st)
  obtain ret s1 where s1: "gpsinf_mtk_gps_test_start e v GPS_TEST_PRN 2 0 ?s = Some (ret, s1)" "at_good n h s1"
    using at_start_good [OF g assms(2), of v GPS_TEST_PRN 2 0] by blast
  show ?thesis
  proof (cases "MNL_AT_SIGNAL_MODE s")
    case True
    show ?thesis
    proof (cases "sint v \<le> 0")
      case neg: True
      show ?thesis
        using True neg g stop [of "lit ''Invalid Test Num = 0''"]
        by (cases "MNL_AT_TEST_STATE s = MNL_AT_TEST_UNKNOWN") (auto simp: gnss_number_def assms(3) Let_def st)
    next
      case False
      then show ?thesis using True sig by (simp add: gnss_number_def assms(3) Let_def ack)
    qed
  next
    case False
    then show ?thesis using g s1 by (cases "0 \<le> sint v") (simp_all add: gnss_number_def assms(3) Let_def)
  qed
qed

lemma gnss_command_good:
  assumes "at_good n h s" "\<And>k. malloc_ok e k" "take 7 c = GNSS_OP" "k < length c" "c ! k = 0"
  shows "\<exists>s'. at_gnss_command_parser e c s = Some s' \<and> at_good n h s'"
proof -
  let ?s = "s\<lparr>test_mode_flag := False\<rparr>"
  have g: "at_good n h ?s" using assms(1) by simp
  have "\<exists>v. at_command_parse_test_num e c = Some v" if "c ! 7 = 61"
    using test_num_Some [OF assms(4,5,2)] terminator_behind [of GNSS_OP c k] assms that by (simp add: operators)
  then have "\<exists>s'. gnss_number e c ?s = Some s' \<and> at_good n h s'" if "c ! 7 = 61"
    using gnss_number_good [OF g assms(2)] that by blast
  then show ?thesis
    using gnss_end_good [OF g, of e] gnss_signal_good [OF g assms(2)] send_result_good [OF g, of e] send_cno_good [OF g, of e c] g
    unfolding at_gnss_command_parser_def at_is_def Let_def by (simp split: if_splits)
qed

lemma command_good:
  assumes "at_good n h s" "\<And>k. malloc_ok e k" "k < length c" "c ! k = 0"
  shows "\<exists>s'. at_command_parser e c s = Some s' \<and> at_good n h s'"
  using gps_command_good [OF assms(1,2) _ assms(3,4)] gnss_command_good [OF assms(1,2) _ assms(3,4)] assms(1)
  by (simp add: at_command_parser_def)

text \<open>A session of commands that leave room for the terminator.\<close>

lemma cmd_loop_good:
  assumes "\<And>k. malloc_ok e k" "\<forall>d. Datagram d \<in> set rx \<longrightarrow> length d < length cmd" "at_good n h s"
  shows "\<exists>s'. at_cmd_loop e rx cmd s = Some s' \<and> at_good n h s'"
  using assms(2,3)
proof (induction rx arbitrary: cmd s)
  case (Cons a rx)
  show ?case
  proof (cases a)
    case (RErr err)
    then show ?thesis using Cons by (cases err) auto
  next
    case (Datagram d)
    have d: "length d < length cmd" using Cons.prems(1) Datagram by simp
    let ?c = "d @ 0 # drop (Suc (length d)) cmd"
    have c: "store (d @ drop (length d) cmd) (int (length d)) [0] = Some ?c" using d by (simp add: store_def)
    have l: "length ?c = length cmd" using d by simp
    have "length d < length ?c" "?c ! length d = 0" using d by simp_all
    from command_good [OF Cons.prems(2) assms(1) this]
    obtain s1 where "at_command_parser e ?c s = Some s1" "at_good n h s1" by blast
    with Cons.IH [of ?c s1] Cons.prems(1) c d l show ?thesis by (simp add: Datagram)
  qed
qed simp

section \<open>Measurement\<close>

text \<open>
  The reports of the NMEA parser: the satellites, their signal strengths and how many of the entries count. A
  sample is the strength of the tested satellite where it is listed and not zero.
\<close>

type_synonym sv_report = "i32 list \<times> i32 list \<times> nat"

primrec run_reports :: "sv_report list \<Rightarrow> at_ctx act" where
  "run_reports [] s = Some s"
| "run_reports (r # rs) s = do {
     s \<leftarrow> gps_at_command_test_proc (word_of_nat (snd (snd r))) (s\<lparr>at_prn := fst r, at_snr := fst (snd r)\<rparr>);
     run_reports rs s }"

definition sighted :: "i32 \<Rightarrow> sv_report \<Rightarrow> i32 option" where
  "sighted prn r = map_of (take (snd (snd r)) (zip (fst r) (fst (snd r)))) prn"

definition sv_report_ok :: "i32 \<Rightarrow> sv_report \<Rightarrow> bool" where
  "sv_report_ok prn r = (length (fst r) = 32 \<and> length (fst (snd r)) = 32 \<and> snd (snd r) \<le> 32
     \<and> (case sighted prn r of None \<Rightarrow> True | Some v \<Rightarrow> unat v \<le> 99))"

definition samples :: "i32 \<Rightarrow> sv_report list \<Rightarrow> nat list" where
  "samples prn rs = map unat (filter (\<lambda>v. v \<noteq> 0) (map the (filter (\<lambda>x. x \<noteq> None) (map (sighted prn) rs))))"

text \<open>In tenths of a decibel: the average and the mean deviation of the samples, rounded down.\<close>

definition avg_of :: "nat list \<Rightarrow> nat" where "avg_of vs = sum_list (map (\<lambda>v. 10 * v) vs) div length vs"

definition dev_of :: "nat list \<Rightarrow> int" where
  "dev_of vs = isqrt (sum_list (map (\<lambda>v. (10 * int v - int (avg_of vs)) ^ 2) vs) div int (length vs))"

definition measured :: "nat \<Rightarrow> i32 \<Rightarrow> nat list \<Rightarrow> at_ctx \<Rightarrow> bool" where
  "measured n prn vs s =
     (MNL_AT_TEST_FLAG s \<and> \<not> MNL_AT_SIGNAL_MODE s \<and> MNL_AT_TEST_STATE s = MNL_AT_TEST_INPROGRESS
      \<and> at_prn_num (hal_test_data s) = prn \<and> Success_Num s = word_of_nat (length vs)
      \<and> CNo s = word_of_nat (sum_list (map (\<lambda>v. 10 * v) vs)) \<and> DCNo s = 0
      \<and> Dev_CNr s = Block (map (\<lambda>v. word_of_nat (10 * v)) vs @ replicate (n - length vs) 0)
      \<and> (vs \<noteq> [] \<longrightarrow> Avg_CNo s = word_of_nat (avg_of vs) \<and> Dev_CNo s = word_of_int (dev_of vs)))"

lemma search_sighted:
  assumes "length (at_prn s) = 32" "length (at_snr s) = 32" "i + n \<le> 32"
  shows "at_search_from n i s =
    (case map_of (take n (drop i (zip (at_prn s) (at_snr s)))) (at_prn_num (hal_test_data s)) of
       None \<Rightarrow> Some s | Some v \<Rightarrow> at_satellite_found v s)"
  using assms(3)
proof (induction n arbitrary: i)
  case (Suc n)
  have "drop i (zip (at_prn s) (at_snr s)) = (at_prn s ! i, at_snr s ! i) # drop (Suc i) (zip (at_prn s) (at_snr s))"
    using Suc.prems assms(1,2) by (simp add: Cons_nth_drop_Suc [symmetric])
  with Suc assms(1) show ?case by auto
qed simp

lemma sum_dev_block:
  assumes "m \<le> length zs"
  shows "sum_dev m (word_of_int a) (Block (map word_of_int zs @ r)) acc
    = Some (acc + word_of_int (sum_list (map (\<lambda>z. (z - a) ^ 2) (take m zs))))"
  using assms
proof (induction m)
  case (Suc m)
  then show ?case
    by (simp add: take_Suc_conv_app_nth nth_append power2_eq_square)
qed simp

lemma tenths_bound: "\<forall>v\<in>set vs. v \<le> 99 \<Longrightarrow> sum_list (map (\<lambda>v. 10 * v) vs) \<le> 990 * length vs"
  by (induction vs) auto

lemma dev_bound:
  assumes "\<forall>v\<in>set vs. v \<le> 99" "0 \<le> a" "a \<le> 990"
  shows "sum_list (map (\<lambda>v. (10 * int v - a) ^ 2) vs) \<le> 980100 * int (length vs)"
  using assms(1)
proof (induction vs)
  case (Cons v vs)
  have "\<bar>10 * int v - a\<bar> \<le> 990" using Cons.prems assms(2,3) by auto
  then have "(10 * int v - a)\<^sup>2 \<le> 990\<^sup>2" by (metis abs_le_square_iff abs_numeral)
  with Cons show ?case by simp
qed simp

lemma sum_squares_nonneg: "0 \<le> sum_list (map (\<lambda>v. (f v :: int) ^ 2) vs)"
  by (induction vs) simp_all

lemma avg_bound: "\<forall>v\<in>set vs. v \<le> 99 \<Longrightarrow> avg_of vs \<le> 990"
proof (cases vs)
  case (Cons a list)
  assume "\<forall>v\<in>set vs. v \<le> 99"
  from tenths_bound [OF this] Cons show ?thesis
    by (simp add: avg_of_def) (metis div_le_mono div_mult_self1_is_m mult.commute zero_less_Suc mult_Suc_right)
qed (simp add: avg_of_def)

text \<open>What the sum over the block gives.\<close>

lemma deviation_step:
  assumes "vs \<noteq> []" "length vs \<le> 1000" "\<forall>v\<in>set vs. v \<le> 99"
  shows "\<exists>x. sum_dev (nat (sint (word_of_nat (length vs) :: i32))) (word_of_nat (avg_of vs))
        (Block (map (\<lambda>v. word_of_nat (10 * v)) vs @ r)) 0 = Some x
    \<and> isqrt (sint x sdiv sint (word_of_nat (length vs) :: i32)) = dev_of vs"
proof -
  let ?a = "int (avg_of vs)" let ?S = "sum_list (map (\<lambda>v. (10 * int v - ?a) ^ 2) vs)"
  have len: "sint (word_of_nat (length vs) :: i32) = int (length vs)" using assms(2) by (simp add: sint_word_of_nat)
  have blk: "map (\<lambda>v. word_of_nat (10 * v)) vs = (map word_of_int (map (\<lambda>v. 10 * int v) vs) :: i32 list)"
    by simp
  have "sum_dev (length vs) (word_of_int ?a) (Block (map word_of_int (map (\<lambda>v. 10 * int v) vs) @ r)) 0 = Some (0 + word_of_int ?S)"
    using sum_dev_block [of "length vs" "map (\<lambda>v. 10 * int v) vs" ?a r 0] by (simp add: comp_def)
  note sum = this
  have "0 \<le> ?S" by (rule sum_squares_nonneg)
  have "?S \<le> 980100 * int (length vs)" using dev_bound [OF assms(3), of ?a] avg_bound [OF assms(3)] by simp
  then have "?S < 2 ^ 31" using assms(2) by simp
  with \<open>0 \<le> ?S\<close> have S: "sint (word_of_int ?S :: i32) = ?S" by (simp add: signed_of_int signed_take_bit_int_eq_self)
  show ?thesis
    using sum S len \<open>0 \<le> ?S\<close> assms(1) unfolding blk
    by (intro exI [of _ "word_of_int ?S"]) (simp add: dev_of_def comp_def signed_divide_int_def sgn_if)
qed

lemma found_zero:
  assumes "measured n prn vs s" "length vs \<le> 1000" "\<forall>v\<in>set vs. v \<le> 99"
  shows "\<exists>s'. at_satellite_found 0 s = Some s' \<and> measured n prn vs s'"
proof (cases "vs = []")
  case True
  then show ?thesis using assms(1) by (simp add: at_satellite_found_def Let_def measured_def)
next
  case False
  have "word_of_nat (length vs) \<noteq> (0 :: i32)"
    using False assms(2) sint_word_of_nat [of "length vs"] by (auto simp del: of_nat_eq_0_iff)
  with deviation_step [OF False assms(2,3), of "replicate (n - length vs) 0"] assms(1) False show ?thesis
    by (auto simp: at_satellite_found_def Let_def measured_def)
qed

lemma found_full: "measured n prn vs s \<Longrightarrow> length vs = n \<Longrightarrow> n \<le> 1000 \<Longrightarrow> v \<noteq> 0 \<Longrightarrow> at_satellite_found v s = None"
  by (simp add: at_satellite_found_def Let_def measured_def set_sample_def sint_word_of_nat)

lemma nat_sdiv: "int a sdiv int b = int (a div b)"
  by (simp add: signed_divide_int_def sgn_if zdiv_int)

lemma found_eq:
  assumes "MNL_AT_TEST_FLAG s" "\<not> MNL_AT_SIGNAL_MODE s" "v \<noteq> 0" "set_sample (Success_Num s) (v * 10) (Dev_CNr s) = Some p"
    "Success_Num s + 1 = k" "k \<noteq> 0" "CNo s + v * 10 = c" "word_of_int (sint c sdiv sint k) = a"
    "sum_dev (nat (sint k)) a p (DCNo s) = Some x" "isqrt (sint x sdiv sint k) = d"
  shows "at_satellite_found v s = Some (s\<lparr>Err_Code := 0, CNo := c, Dev_CNr := p, Success_Num := k, Avg_CNo := a,
    at_cn := v * 10, DCNo := 0, Dev_CNo := word_of_int d\<rparr>)"
  using assms by (simp add: at_satellite_found_def Let_def)

lemma found_sample:
  assumes m: "measured n prn vs s" and "length vs < n" "n \<le> 1000" "\<forall>v\<in>set vs. v \<le> 99" "0 < v" "v \<le> 99"
  shows "\<exists>s'. at_satellite_found (word_of_nat v) s = Some s' \<and> measured n prn (vs @ [v]) s'"
proof -
  let ?vs = "vs @ [v]"
  have len: "sint (word_of_nat (length vs) :: i32) = int (length vs)" "sint (word_of_nat (length ?vs) :: i32) = int (length ?vs)"
    using assms(2,3) sint_word_of_nat [of "length vs"] sint_word_of_nat [of "length ?vs"] by simp_all
  then have nz: "word_of_nat (length ?vs) \<noteq> (0 :: i32)" by (metis length_append_singleton of_nat_eq_0_iff old.nat.distinct(1) signed_0)
  have vz: "word_of_nat v \<noteq> (0 :: i32)" using assms(5,6) sint_word_of_nat [of v] by auto
  have b: "\<forall>v\<in>set ?vs. v \<le> 99" using assms by simp
  have "sum_list (map (\<lambda>v. 10 * v) ?vs) \<le> 990 * 1000" using tenths_bound [OF b] assms(2,3) by simp
  then have "sint (word_of_nat (sum_list (map (\<lambda>v. 10 * v) ?vs)) :: i32) = int (sum_list (map (\<lambda>v. 10 * v) ?vs))"
    by (intro sint_word_of_nat) simp
  then have avg: "word_of_int (sint (word_of_nat (sum_list (map (\<lambda>v. 10 * v) ?vs)) :: i32) sdiv sint (word_of_nat (length ?vs) :: i32))
      = (word_of_nat (avg_of ?vs) :: i32)"
    unfolding len by (simp only: nat_sdiv of_int_of_nat_eq avg_of_def)
  have l1000: "length ?vs \<le> 1000" using assms(2,3) by simp
  let ?blk = "map (\<lambda>v. word_of_nat (10 * v)) ?vs @ replicate (n - length ?vs) 0"
  have set: "set_sample (word_of_nat (length vs)) (word_of_nat v * 10)
      (Block (map (\<lambda>v. word_of_nat (10 * v)) vs @ replicate (n - length vs) 0)) = Some (Block ?blk)"
    using assms(2) len by (simp add: set_sample_def list_update_append Suc_diff_Suc [symmetric])
  obtain x where x: "sum_dev (nat (sint (word_of_nat (length ?vs) :: i32))) (word_of_nat (avg_of ?vs)) (Block ?blk) 0 = Some x"
     "isqrt (sint x sdiv sint (word_of_nat (length ?vs) :: i32)) = dev_of ?vs"
    using deviation_step [OF _ l1000 b, of "replicate (n - length ?vs) 0"] by blast
  have st: "Success_Num s = word_of_nat (length vs)" "CNo s = word_of_nat (sum_list (map (\<lambda>v. 10 * v) vs))" "DCNo s = 0"
    "Dev_CNr s = Block (map (\<lambda>v. word_of_nat (10 * v)) vs @ replicate (n - length vs) 0)"
    "MNL_AT_TEST_FLAG s" "\<not> MNL_AT_SIGNAL_MODE s" "MNL_AT_TEST_STATE s = MNL_AT_TEST_INPROGRESS" "at_prn_num (hal_test_data s) = prn"
    using m by (simp_all add: measured_def)
  have "at_satellite_found (word_of_nat v) s = Some (s\<lparr>Err_Code := 0, CNo := word_of_nat (sum_list (map (\<lambda>v. 10 * v) ?vs)),
      Dev_CNr := Block ?blk, Success_Num := word_of_nat (length ?vs), Avg_CNo := word_of_nat (avg_of ?vs),
      at_cn := word_of_nat v * 10, DCNo := 0, Dev_CNo := word_of_int (dev_of ?vs)\<rparr>)"
    by (rule found_eq [OF st(5,6) vz _ _ nz _ avg _ x(2)]) (use set x(1) st(1-4) in simp_all)
  then show ?thesis using st(5-8) by (simp add: measured_def)
qed

text \<open>One report, then a run of them.\<close>

lemma proc_sighted:
  assumes "measured n prn vs s" "sv_report_ok prn r"
  shows "gps_at_command_test_proc (word_of_nat (snd (snd r))) (s\<lparr>at_prn := fst r, at_snr := fst (snd r)\<rparr>) =
    (case sighted prn r of None \<Rightarrow> Some (s\<lparr>at_prn := fst r, at_snr := fst (snd r)\<rparr>)
     | Some v \<Rightarrow> at_satellite_found v (s\<lparr>at_prn := fst r, at_snr := fst (snd r)\<rparr>))"
proof -
  let ?s = "s\<lparr>at_prn := fst r, at_snr := fst (snd r)\<rparr>"
  have "snd (snd r) \<le> 32" "length (at_prn ?s) = 32" "length (at_snr ?s) = 32"
    using assms(2) by (simp_all add: sv_report_ok_def)
  then show ?thesis
    using assms(1) search_sighted [of ?s 0 "snd (snd r)"] sint_word_of_nat [of "snd (snd r)"]
    by (simp add: gps_at_command_test_proc_def gps_at_command_search_satellite_def measured_def sighted_def)
qed

lemma samples_simps:
  "samples prn [] = []"
  "samples prn (r # rs) = (case sighted prn r of None \<Rightarrow> [] | Some v \<Rightarrow> if v = 0 then [] else [unat v]) @ samples prn rs"
  by (auto simp: samples_def split: option.splits)

lemma reports_measured:
  assumes "measured n prn vs s" "n \<le> 1000" "length vs \<le> n" "\<forall>v\<in>set vs. v \<le> 99" "list_all (sv_report_ok prn) rs"
  shows "if length vs + length (samples prn rs) \<le> n
    then \<exists>s'. run_reports rs s = Some s' \<and> measured n prn (vs @ samples prn rs) s' else run_reports rs s = None"
  using assms
proof (induction rs arbitrary: vs s)
  case (Cons r rs)
  let ?s = "s\<lparr>at_prn := fst r, at_snr := fst (snd r)\<rparr>"
  have m: "measured n prn vs ?s" using Cons.prems(1) by (simp add: measured_def)
  have ok: "sv_report_ok prn r" "list_all (sv_report_ok prn) rs" using Cons.prems(5) by simp_all
  have l: "length vs \<le> 1000" using Cons.prems(2,3) by simp
  note step = proc_sighted [OF Cons.prems(1) ok(1)]
  show ?case
  proof (cases "sighted prn r")
    case None
    then show ?thesis using Cons.IH [OF m Cons.prems(2-4) ok(2)] step by (simp add: samples_simps)
  next
    case (Some v)
    show ?thesis
    proof (cases "v = 0")
      case True
      obtain s1 where "at_satellite_found 0 ?s = Some s1" "measured n prn vs s1"
        using found_zero [OF m l Cons.prems(4)] by blast
      with Cons.IH [OF this(2) Cons.prems(2-4) ok(2)] step Some True show ?thesis by (simp add: samples_simps)
    next
      case False
      then have v: "0 < unat v" "unat v \<le> 99" "word_of_nat (unat v) = v"
        using ok(1) Some by (auto simp: sv_report_ok_def unat_gt_0)
      show ?thesis
      proof (cases "length vs = n")
        case True
        then show ?thesis using found_full [OF m True Cons.prems(2) False] step Some False by (simp add: samples_simps)
      next
        case less: False
        then have "length vs < n" using Cons.prems(3) by simp
        from found_sample [OF m this Cons.prems(2,4) v(1,2)] v(3)
        obtain s1 where "at_satellite_found v ?s = Some s1" "measured n prn (vs @ [unat v]) s1" by auto
        with Cons.IH [OF this(2) Cons.prems(2) _ _ ok(2)] step Some False \<open>length vs < n\<close> Cons.prems(4) v(2)
        show ?thesis by (simp add: samples_simps split: if_splits)
      qed
    qed
  qed
qed (simp add: samples_simps)

lemma start_measured:
  assumes "at_inv k h s" "\<And>k. malloc_ok e k" "MNL_AT_TEST_STATE s = MNL_AT_TEST_UNKNOWN" "\<not> MNL_AT_SIGNAL_MODE s"
    "Success_Num s = 0" "CNo s = 0" "DCNo s = 0" "0 < n" "n \<le> 1000"
  shows "\<exists>s'. gpsinf_mtk_gps_test_start e (word_of_nat n) prn 2 0 s = Some (0, s') \<and> measured n prn [] s'"
proof -
  have "uint (word_of_nat (4 * n) :: i32) = 4 * int n"
    using assms(9) by (simp only: unsigned_of_nat) (simp add: take_bit_nat_eq_self)
  then have "uint (4 * word_of_nat n :: i32) = 4 * int n" by simp
  then have "nat (uint (4 * word_of_nat n :: i32)) div 4 = n" by simp
  moreover have "word_of_nat n \<noteq> (0 :: i32)" using assms(8,9) sint_word_of_nat [of n] by auto
  moreover obtain d where "at_test2mnl_gps_start (at_mnld e) (dm s) = Some d"
    using u_at.start_inv [of k h "dm s" "at_mnld e"] assms(1) by (auto simp: at_inv_def)
  ultimately show ?thesis
    using assms by (simp add: gpsinf_mtk_gps_test_start_def calloc_Some [OF assms(2)] measured_def)
qed
end
