(* ===== verification/Epo_Time.thy ===== *)
theory Epo_Time
  imports Calendar "HOL-Library.Signed_Division"
begin

text \<open>
  \<open>GpsToUtcTime\<close> of \<open>epo.c\<close>: the conversion of a GPS week and a time of week to the seconds of the C library, by
  counting years and months from 1980. Every caller passes a whole number of seconds, so the \<open>double\<close> is an integer
  here. The result is compared with the calendar of the C library.
\<close>

section \<open>The conversion\<close>

text \<open>The \<open>while\<close> loop that takes away one year after the other.\<close>

fun decide_year :: "nat \<Rightarrow> nat \<Rightarrow> nat \<times> nat" where
  "decide_year iDaysElapsed iYearsElapsed =
     (if 365 \<le> iDaysElapsed then
        if iYearsElapsed mod 100 = 20 then
          if iYearsElapsed mod 400 = 20 then
            if 366 \<le> iDaysElapsed then decide_year (iDaysElapsed - 366) (iYearsElapsed + 1) else (iDaysElapsed, iYearsElapsed)
          else decide_year (iDaysElapsed - 365) (iYearsElapsed + 1)
        else if iYearsElapsed mod 4 = 0 then
          if 366 \<le> iDaysElapsed then decide_year (iDaysElapsed - 366) (iYearsElapsed + 1) else (iDaysElapsed, iYearsElapsed)
        else decide_year (iDaysElapsed - 365) (iYearsElapsed + 1)
      else (iDaysElapsed, iYearsElapsed))"

declare decide_year.simps [simp del]

definition fgLeapYear :: "nat \<Rightarrow> bool" where
  "fgLeapYear iYearsElapsed =
     (if iYearsElapsed mod 100 = 20 then iYearsElapsed mod 400 = 20 else iYearsElapsed mod 4 = 0)"

definition doy :: "bool \<Rightarrow> nat list" where
  "doy leap = map (\<lambda>i. [0, 31, 59, 90, 120, 151, 181, 212, 243, 273, 304, 334] ! i + (if leap \<and> 2 \<le> i then 1 else 0)) [0..<12]"

text \<open>The number of the month: the first entry of the table behind the day.\<close>

primrec decide_month :: "nat list \<Rightarrow> nat \<Rightarrow> nat" where
  "decide_month [] d = 0"
| "decide_month (x # xs) d = (if d < x then 0 else Suc (decide_month xs d))"

definition GpsToUtcTime :: "zone \<Rightarrow> int \<Rightarrow> int \<Rightarrow> int" where
  "GpsToUtcTime z i2Wn dfTow =
     (let iDaysElapsed = unat (word_of_int (i2Wn * 7 + dfTow sdiv 86400 + 5) :: 32 word);
          dfSecElapsed = dfTow - (dfTow sdiv 86400) * 86400;
          (iDaysElapsed, iYearsElapsed) = decide_year iDaysElapsed 0;
          t = doy (fgLeapYear iYearsElapsed);
          i = decide_month t iDaysElapsed;
          pi2Day = (if 0 < i then iDaysElapsed - t ! (i - 1) + 1 else 0)
      in fst (mktime z
        \<lparr>tm_sec = dfSecElapsed - (dfSecElapsed sdiv 60) * 60, tm_min = (dfSecElapsed smod 3600) sdiv 60,
         tm_hour = dfSecElapsed sdiv 3600, tm_mday = int pi2Day, tm_mon = int i - 1, tm_year = 1980 + int iYearsElapsed - 1900,
         tm_isdst = -1\<rparr>))"

section \<open>It agrees with the calendar\<close>

lemma dvd_1980:
  assumes "k dvd 2000" "20 < k"
  shows "(int k dvd 1980 + int y) = (y mod k = 20)"
proof -
  have "int k dvd 2000" using assms(1) by (metis int_dvd_int_iff of_nat_numeral)
  moreover have "1980 + int y = (int y - 20) + 2000" by simp
  ultimately have "(int k dvd 1980 + int y) = (int k dvd int y - 20)" by (metis dvd_add_left_iff)
  also have "\<dots> = (int y mod int k = 20 mod int k)" by (simp add: mod_eq_dvd_iff)
  also have "\<dots> = (y mod k = 20)" using assms(2) by (simp add: zmod_int [symmetric])
  finally show ?thesis .
qed

lemma leap_1980: "leap_year (1980 + int y) = fgLeapYear y"
proof -
  have "100 dvd (1980 + int y) = (y mod 100 = 20)" "400 dvd (1980 + int y) = (y mod 400 = 20)"
    using dvd_1980 [of 100 y] dvd_1980 [of 400 y] by simp_all
  moreover have "4 dvd (1980 + int y) = (y mod 4 = 0)" by presburger
  moreover have "y mod 4 = 0" if "y mod 100 = 20"
    using that mod_mod_cancel [of 4 100 y] by simp
  ultimately show ?thesis by (auto simp: leap_year_def fgLeapYear_def)
qed

lemma decide_year_ok:
  assumes "decide_year d y = (d', y')"
  shows "days_to_year (1980 + int y') + int d' = days_to_year (1980 + int y) + int d
    \<and> d' < (if fgLeapYear y' then 366 else 365)"
  using assms
proof (induction d y rule: decide_year.induct)
  case (1 d y)
  have next_year: "days_to_year (1980 + int (y + 1)) = days_to_year (1980 + int y) + (if fgLeapYear y then 366 else 365)"
    using days_to_year_Suc [of "1980 + int y"] leap_1980 [of y] by (simp add: algebra_simps)
  show ?case
  proof (cases "365 \<le> d \<and> (fgLeapYear y \<longrightarrow> 366 \<le> d)")
    case True
    let ?n = "if fgLeapYear y then 366 else 365 :: nat"
    from True have "decide_year d y = decide_year (d - ?n) (y + 1)"
      by (subst decide_year.simps) (auto simp: fgLeapYear_def)
    with "1.prems" have "decide_year (d - ?n) (y + 1) = (d', y')" by simp
    with "1.IH" True have "days_to_year (1980 + int y') + int d' = days_to_year (1980 + int (y + 1)) + int (d - ?n)
        \<and> d' < (if fgLeapYear y' then 366 else 365)"
      by (auto simp: fgLeapYear_def split: if_splits)
    with next_year True show ?thesis by (auto split: if_splits)
  next
    case False
    then have "decide_year d y = (d, y)"
      by (subst decide_year.simps) (auto simp: fgLeapYear_def)
    with "1.prems" False show ?thesis by (auto split: if_splits)
  qed
qed

lemma doy_months: "doy l = map (\<lambda>m. nat (days_to_month l (int m))) [0..<12]"
  by (cases l) (simp_all add: doy_def days_to_month_def month_days_def upt_rec nat_add_distrib)

lemma decide_month_ok: "decide_month xs d \<le> length xs \<and> (\<forall>j < decide_month xs d. xs ! j \<le> d)"
  by (induction xs) (auto simp: less_Suc_eq_0_disj)

lemma month_found:
  "0 < decide_month (doy l) d" "decide_month (doy l) d \<le> 12"
  "int (doy l ! (decide_month (doy l) d - 1)) = days_to_month l (int (decide_month (doy l) d - 1))"
  "doy l ! (decide_month (doy l) d - 1) \<le> d"
proof -
  show pos: "0 < decide_month (doy l) d" by (cases l) (simp_all add: doy_def upt_rec)
  show le: "decide_month (doy l) d \<le> 12" using decide_month_ok [of "doy l" d] by (simp add: doy_def)
  have nn: "0 \<le> days_to_month l (int m)" for m
    unfolding days_to_month_def by (rule sum_list_nonneg) (auto dest!: in_set_takeD simp: month_days_def split: if_splits)
  have "int (doy l ! m) = days_to_month l (int m)" if "m < 12" for m
    using that nn [of m] by (simp add: doy_months)
  from this [of "decide_month (doy l) d - 1"] pos le
  show "int (doy l ! (decide_month (doy l) d - 1)) = days_to_month l (int (decide_month (doy l) d - 1))" by simp
  show "doy l ! (decide_month (doy l) d - 1) \<le> d" using decide_month_ok [of "doy l" d] pos by simp
qed

lemma sdiv_nonneg: "0 \<le> a \<Longrightarrow> 0 < b \<Longrightarrow> a sdiv b = a div b" for a b :: int
  by (simp add: signed_divide_int_def zero_less_iff_neq_zero sgn_if)

lemma smod_nonneg: "0 \<le> a \<Longrightarrow> 0 < b \<Longrightarrow> a smod b = a mod b" for a b :: int
  by (cases "a = 0") (simp_all add: signed_modulo_int_def)

definition gps_epoch :: int where "gps_epoch = 315964800"

lemma mktime_timegm:
  assumes "timegm s = timegm t" "tm_isdst s = tm_isdst t"
  shows "fst (mktime z s) = fst (mktime z t)"
  using assms by (simp add: mktime_def Let_def)

lemma unat_u32: "0 \<le> x \<Longrightarrow> x < 2 ^ 32 \<Longrightarrow> int (unat (word_of_int x :: 32 word)) = x"
  by (simp add: uint_word_of_int take_bit_int_eq_self)

lemma gps_to_utc:
  assumes "0 \<le> wn" "0 \<le> tow" "wn * 7 + tow div 86400 + 5 < 2 ^ 32"
  shows "GpsToUtcTime z wn tow = fst (mktime z ((gmtime (gps_epoch + 604800 * wn + tow))\<lparr>tm_isdst := -1\<rparr>))"
proof -
  define d0 where "d0 = unat (word_of_int (wn * 7 + tow sdiv 86400 + 5) :: 32 word)"
  obtain d y where dy: "decide_year d0 0 = (d, y)" by fastforce
  define l i sec q where "l = fgLeapYear y" and "i = decide_month (doy l) d" and "sec = tow mod 86400" and "q = tow div 86400"
  define t where "t = \<lparr>tm_sec = sec mod 60, tm_min = sec mod 3600 div 60, tm_hour = sec div 3600,
      tm_mday = 1 + int (d - doy l ! (i - 1)), tm_mon = int (i - 1), tm_year = 80 + int y, tm_isdst = -1\<rparr>"
  note i = month_found [of l d, folded i_def]
  have "tow - tow sdiv 86400 * 86400 = sec" and sec: "0 \<le> sec"
    using assms(2) by (simp_all add: sec_def sdiv_nonneg minus_div_mult_eq_mod)
  then have eq: "GpsToUtcTime z wn tow = fst (mktime z t)"
    using i(1) unfolding GpsToUtcTime_def d0_def [symmetric] dy Let_def prod.case l_def [symmetric] i_def [symmetric]
    by (simp add: t_def sdiv_nonneg smod_nonneg minus_div_mult_eq_mod of_nat_diff)
  have "timegm t = (days_to_year (1980 + int y) + int d) * 86400 + sec"
  proof -
    have "int (i - 1) div 12 = 0" "int (i - 1) mod 12 = int (i - 1)" using i(1,2) by simp_all
    moreover have "sec mod 3600 div 60 = sec div 60 mod 60" by (simp add: zmod_zmult2_eq [of 60 sec 60, simplified])
    moreover have "leap_year (1980 + int y) = l" by (simp add: leap_1980 l_def)
    ultimately show ?thesis
      using hms_split [of sec] i(3,4) by (simp add: t_def timegm_def Let_def of_nat_diff algebra_simps)
  qed
  moreover have "days_to_year (1980 + int y) + int d = 3657 + 7 * wn + q"
  proof -
    have "0 \<le> q" using assms(2) by (simp add: q_def pos_imp_zdiv_nonneg_iff)
    then have "int d0 = wn * 7 + q + 5"
      using assms(1,3) unat_u32 [of "wn * 7 + q + 5"] by (simp add: d0_def sdiv_nonneg [OF assms(2)] flip: q_def)
    moreover have "days_to_year 1980 = 3652" by (simp add: days_to_year_def)
    ultimately show ?thesis using decide_year_ok [OF dy] by simp
  qed
  moreover have "tow = q * 86400 + sec" by (simp add: sec_def q_def)
  ultimately have "timegm t = gps_epoch + 604800 * wn + tow"
    by (simp only: gps_epoch_def) (simp add: algebra_simps)
  moreover have "tm_isdst t = -1" by (simp add: t_def)
  ultimately show ?thesis
    using eq mktime_timegm [of t "(gmtime (gps_epoch + 604800 * wn + tow))\<lparr>tm_isdst := -1\<rparr>" z] by simp
qed

end
