(* ===== verification/Config_File.thy ===== *)
theory Config_File
  imports C_Text
begin

text \<open>
  The configuration files of the daemon: lines \<open>key = value\<close> as \<open>get_prop\<close> of \<open>mnl_common.c\<close> and \<open>get_val\<close> of
  \<open>epo.c\<close> and \<open>gps_controller.c\<close> read them, and the settings of the engine that \<open>mnl_common.c\<close> takes from
  \<open>mnl.prop\<close>. The build leaves out the settings that come from system properties.
\<close>

section \<open>Lines\<close>

text \<open>
  \<open>fgets\<close> with an array of \<open>n\<close> bytes: at most \<open>n - 1\<close> bytes, up to and with the line feed. The program sees the bytes up to
  the first zero byte.
\<close>

fun fgets_len :: "nat \<Rightarrow> byte list \<Rightarrow> nat" where
  "fgets_len 0 t = 0"
| "fgets_len (Suc n) [] = 0"
| "fgets_len (Suc n) (c # cs) = (if c = 10 then 1 else Suc (fgets_len n cs))"

lemma fgets_len_pos: "0 < n \<Longrightarrow> t \<noteq> [] \<Longrightarrow> 0 < fgets_len n t"
  by (cases "(n, t)" rule: fgets_len.cases) auto

function fgets_lines :: "nat \<Rightarrow> byte list \<Rightarrow> byte list list" where
  "fgets_lines n t =
     (if t = [] \<or> n < 2 then [] else takeWhile (\<lambda>c. c \<noteq> 0) (take (fgets_len (n - 1) t) t) # fgets_lines n (drop (fgets_len (n - 1) t) t))"
  by auto
termination
proof (relation "measure (length \<circ> snd)")
  fix n :: nat and t :: "byte list"
  assume "\<not> (t = [] \<or> n < 2)"
  then show "((n, drop (fgets_len (n - 1) t) t), n, t) \<in> measure (length \<circ> snd)"
    using fgets_len_pos [of "n - 1" t] by simp
qed simp

declare fgets_lines.simps [simp del]

definition conf_space :: "byte \<Rightarrow> bool" where "conf_space c = (c = 32 \<or> c = 9 \<or> c = 10)"

text \<open>
  One line in an array of \<open>n\<close> bytes: an error, a comment, or a key and a value. The value ends at the first white space.
\<close>

datatype conf_line = Conf_error | Conf_comment | Conf_set "byte list" "byte list"

definition get_val :: "nat \<Rightarrow> byte list \<Rightarrow> conf_line" where
  "get_val n line =
     (if line = [] then Conf_error
      else if hd line = 35 then Conf_comment
      else if last line \<noteq> 10 \<and> n - 1 \<le> length line then Conf_error
      else
        (let key = takeWhile (\<lambda>c. c \<noteq> 61) line; rest = dropWhile (\<lambda>c. c \<noteq> 61) line
         in if rest = [] then Conf_error
            else Conf_set key (takeWhile (\<lambda>c. \<not> conf_space c) (dropWhile conf_space (tl rest)))))"

definition get_prop :: "byte list \<Rightarrow> conf_line" where "get_prop = get_val 512"

section \<open>Numbers\<close>

text \<open>\<open>strtol\<close> on a 32-bit \<open>long\<close> keeps a value out of range at the nearest end of the range.\<close>

definition clamp32 :: "bool \<Rightarrow> int \<Rightarrow> i32" where
  "clamp32 neg v = (if neg then word_of_int (max (- (2 ^ 31)) (- v)) else word_of_int (min (2 ^ 31 - 1) v))"

definition atoi :: "byte list \<Rightarrow> i32" where
  "atoi t = (let (s, u) = split_sign (dropWhile is_space t) in clamp32 s (base_val 10 digit_val (takeWhile is_digit u) 0))"

definition strtol16 :: "byte list \<Rightarrow> i32" where
  "strtol16 t =
     (let (s, u) = split_sign (dropWhile is_space t);
          u = (case u of z # x # d # r \<Rightarrow> if z = 48 \<and> (x = 120 \<or> x = 88) \<and> is_xdigit d then d # r else u | _ \<Rightarrow> u)
      in clamp32 s (base_val 16 xdigit_val (takeWhile is_xdigit u) 0))"

section \<open>Settings of the engine\<close>

text \<open>The members of \<open>MNL_CONFIG_T\<close> that the file can set, and the flag \<open>epo_setconfig\<close>.\<close>

record MNL_CONFIG_T =
  init_speed :: i32
  link_speed :: i32
  debug_nmea :: i32
  debug_mnl :: i32
  pmtk_conn :: i32
  socket_port :: i32
  dev_dbg :: "byte list"
  dev_dsp :: "byte list"
  dev_gps :: "byte list"
  bee_path :: "byte list"
  delay_reset_dsp :: i32
  dbg2file :: i32
  dbglog_file_max_size :: i32
  dbglog_folder_max_size :: i32
  timeout_init :: i32
  timeout_monitor :: i32
  timeout_wakeup :: i32
  timeout_sleep :: i32
  timeout_pwroff :: i32
  timeout_ttff :: i32
  EPO_enabled :: i32
  BEE_enabled :: i32
  SUPL_enabled :: i32
  SUPLSI_enabled :: i32
  EPO_priority :: i32
  BEE_priority :: i32
  SUPL_priority :: i32
  AVAILIABLE_AGE :: i32
  RTC_DRIFT :: i32
  TIME_INTERVAL :: i32
  u1AgpsMachine :: byte
  ACCURACY_SNR :: i32
  GNSSOPMode :: i32
  OFFLOAD_enabled :: i32
  OFFLOAD_testMode :: i32
  epo_setconfig :: bool

definition set_prop :: "byte list \<Rightarrow> byte list \<Rightarrow> MNL_CONFIG_T \<Rightarrow> MNL_CONFIG_T" where
  "set_prop key val c =
    (if key = ascii ''init.speed'' then c\<lparr>init_speed := atoi val\<rparr>
     else if key = ascii ''link.speed'' then c\<lparr>link_speed := atoi val\<rparr>
     else if key = ascii ''dev.dsp'' then (if length val < 32 then c\<lparr>dev_dsp := val\<rparr> else c)
     else if key = ascii ''dev.gps'' then (if length val < 32 then c\<lparr>dev_gps := val\<rparr> else c)
     else if key = ascii ''bee.path'' then (if length val < 32 then c\<lparr>bee_path := val\<rparr> else c)
     else if key = ascii ''pmtk.serial.dev'' then (if length val < 32 then c\<lparr>dev_dbg := val\<rparr> else c)
     else if key = ascii ''pmtk.conn'' then (if val = ascii ''serial'' then c\<lparr>pmtk_conn := 2\<rparr> else if val = ascii ''socket'' then c\<lparr>pmtk_conn := 1\<rparr> else c)
     else if key = ascii ''pmtk.serial.port'' then c\<lparr>socket_port := atoi val\<rparr>
     else if key = ascii ''debug.debug_nmea'' then c\<lparr>debug_nmea := (if 0 <s atoi val then 1 else 0)\<rparr>
     else if key = ascii ''debug.mnl'' then c\<lparr>debug_mnl := strtol16 val\<rparr>
     else if key = ascii ''debug.dbg2file'' then c\<lparr>dbg2file := atoi val\<rparr>
     else if key = ascii ''timeout.monitor'' then c\<lparr>timeout_monitor := atoi val\<rparr>
     else if key = ascii ''timeout.init'' then c\<lparr>timeout_init := atoi val\<rparr>
     else if key = ascii ''timeout.sleep'' then c\<lparr>timeout_sleep := atoi val\<rparr>
     else if key = ascii ''timeout.pwroff'' then c\<lparr>timeout_pwroff := atoi val\<rparr>
     else if key = ascii ''timeout.wakeup'' then c\<lparr>timeout_wakeup := atoi val\<rparr>
     else if key = ascii ''timeout.ttff'' then c\<lparr>timeout_ttff := atoi val\<rparr>
     else if key = ascii ''delay.reset_dsp'' then c\<lparr>delay_reset_dsp := atoi val\<rparr>
     else if key = ascii ''EPO_enabled'' then c\<lparr>EPO_enabled := atoi val, epo_setconfig := True\<rparr>
     else if key = ascii ''BEE_enabled'' then c\<lparr>BEE_enabled := atoi val\<rparr>
     else if key = ascii ''SUPL_enabled'' then c\<lparr>SUPL_enabled := atoi val\<rparr>
     else if key = ascii ''SUPLSI_enabled'' then c\<lparr>SUPLSI_enabled := atoi val\<rparr>
     else if key = ascii ''EPO_priority'' then c\<lparr>EPO_priority := atoi val\<rparr>
     else if key = ascii ''BEE_priority'' then c\<lparr>BEE_priority := atoi val\<rparr>
     else if key = ascii ''SUPL_priority'' then c\<lparr>SUPL_priority := atoi val\<rparr>
     else if key = ascii ''AVAILIABLE_AGE'' then c\<lparr>AVAILIABLE_AGE := atoi val\<rparr>
     else if key = ascii ''RTC_DRIFT'' then c\<lparr>RTC_DRIFT := atoi val\<rparr>
     else if key = ascii ''TIME_INTERVAL'' then c\<lparr>TIME_INTERVAL := atoi val\<rparr>
     else if key = ascii ''TEST_MACHINE'' then c\<lparr>u1AgpsMachine := ucast (atoi val)\<rparr>
     else if key = ascii ''ACC_SNR'' then c\<lparr>ACCURACY_SNR := atoi val\<rparr>
     else if key = ascii ''GNSS_MODE'' then c\<lparr>GNSSOPMode := atoi val\<rparr>
     else if key = ascii ''DBGLOG_FILE_MAX'' then c\<lparr>dbglog_file_max_size := atoi val\<rparr>
     else if key = ascii ''DBGLOG_FOLDER_MAX'' then c\<lparr>dbglog_folder_max_size := atoi val\<rparr>
     else if key = ascii ''OFFLOAD_enabled'' then c\<lparr>OFFLOAD_enabled := atoi val\<rparr>
     else if key = ascii ''OFFLOAD_testMode'' then c\<lparr>OFFLOAD_testMode := atoi val\<rparr>
     else c)"

text \<open>\<open>read_prop\<close> stops at the first line it cannot read; what it has set before stays.\<close>

fun read_lines :: "byte list list \<Rightarrow> MNL_CONFIG_T \<Rightarrow> int \<times> MNL_CONFIG_T" where
  "read_lines [] c = (0, c)"
| "read_lines (l # ls) c =
     (case get_prop l of
        Conf_error \<Rightarrow> (-1, c)
      | Conf_comment \<Rightarrow> read_lines ls c
      | Conf_set key val \<Rightarrow> read_lines ls (set_prop key val c))"

definition read_prop :: "byte list option \<Rightarrow> MNL_CONFIG_T \<Rightarrow> int \<times> MNL_CONFIG_T" where
  "read_prop file c = (case file of None \<Rightarrow> (-1, c) | Some t \<Rightarrow> read_lines (fgets_lines 512 t) c)"

text \<open>The files are tried in order, up to the first that is read to its end.\<close>

fun load_property :: "byte list option list \<Rightarrow> MNL_CONFIG_T \<Rightarrow> int \<times> MNL_CONFIG_T" where
  "load_property [] c = (-1, c)"
| "load_property (f # fs) c = (case read_prop f c of (ret, c) \<Rightarrow> if ret = 0 then (0, c) else load_property fs c)"

definition mnl_utl_load_property :: "(string \<Rightarrow> byte list option) \<Rightarrow> MNL_CONFIG_T \<Rightarrow> int \<times> MNL_CONFIG_T" where
  "mnl_utl_load_property files c =
     load_property (map files [''/data/misc/gps/mnl.prop'', ''/sbin/mnl.prop'']) (c\<lparr>epo_setconfig := False\<rparr>)"

section \<open>Reading what was written\<close>

definition conf_entry :: "byte list \<times> byte list \<Rightarrow> byte list" where
  "conf_entry kv = fst kv @ [61] @ snd kv @ [10]"

text \<open>Keys without comment sign, separator, line feed and zero byte; values without white space; lines that fit.\<close>

definition plain_entry :: "nat \<Rightarrow> byte list \<times> byte list \<Rightarrow> bool" where
  "plain_entry n kv =
     (fst kv \<noteq> [] \<and> hd (fst kv) \<noteq> 35 \<and> list_all (\<lambda>c. c \<noteq> 61 \<and> c \<noteq> 10 \<and> c \<noteq> 0) (fst kv)
      \<and> list_all (\<lambda>c. \<not> conf_space c \<and> c \<noteq> 0) (snd kv) \<and> length (conf_entry kv) < n)"

lemma fgets_len_line:
  assumes "10 \<notin> set l" "length l < n"
  shows "fgets_len n (l @ 10 # t) = Suc (length l)"
  using assms
proof (induction l arbitrary: n)
  case Nil
  then show ?case by (cases n) auto
next
  case (Cons c l)
  then show ?case by (cases n) auto
qed

lemma fgets_lines_line:
  assumes "10 \<notin> set l" "0 \<notin> set l" "Suc (length l) < n"
  shows "fgets_lines n (l @ 10 # t) = (l @ [10]) # fgets_lines n t"
proof -
  have "fgets_len (n - 1) (l @ 10 # t) = Suc (length l)" using assms by (intro fgets_len_line) simp_all
  moreover have "takeWhile (\<lambda>c. c \<noteq> 0) (l @ [10]) = l @ [10]"
    using assms(2) by (subst takeWhile_eq_all_conv) auto
  ultimately show ?thesis using assms(3) by (subst fgets_lines.simps) simp
qed

lemma conf_space_10 [simp]: "conf_space 10" by (simp add: conf_space_def)

lemma get_val_entry:
  assumes "plain_entry n kv"
  shows "get_val n (conf_entry kv) = Conf_set (fst kv) (snd kv)"
proof -
  obtain k v where kv: "kv = (k, v)" by (cases kv)
  have k: "takeWhile (\<lambda>c. c \<noteq> 61) (k @ 61 # t) = k" "dropWhile (\<lambda>c. c \<noteq> 61) (k @ 61 # t) = 61 # t" for t
    using assms kv by (auto simp: plain_entry_def list_all_iff takeWhile_append2 dropWhile_append2)
  have d: "dropWhile conf_space (v @ [10]) = (if v = [] then [] else v @ [10])"
    using assms kv by (cases v) (simp_all add: plain_entry_def)
  have v: "takeWhile (\<lambda>c. \<not> conf_space c) (v @ [10]) = v"
    using assms kv by (subst takeWhile_append2) (auto simp: plain_entry_def list_all_iff)
  from assms kv have "k \<noteq> []" "hd k \<noteq> 35" by (simp_all add: plain_entry_def)
  then show ?thesis
    using d v by (simp add: get_val_def conf_entry_def kv k Let_def)
qed

lemma fgets_lines_entries:
  assumes "list_all (plain_entry n) kvs"
  shows "fgets_lines n (concat (map conf_entry kvs)) = map conf_entry kvs"
  using assms
proof (induction kvs)
  case Nil
  then show ?case by (simp add: fgets_lines.simps)
next
  case (Cons kv kvs)
  obtain k v where kv: "kv = (k, v)" by (cases kv)
  have "10 \<notin> set (k @ 61 # v)" "0 \<notin> set (k @ 61 # v)" "Suc (length (k @ 61 # v)) < n"
    using Cons.prems kv by (auto simp: plain_entry_def list_all_iff conf_space_def conf_entry_def)
  moreover have "conf_entry kv = k @ 61 # v @ [10]" by (simp add: kv conf_entry_def)
  ultimately show ?case
    using fgets_lines_line [of "k @ 61 # v" n "concat (map conf_entry kvs)"] Cons by simp
qed

text \<open>A file of plain entries is read to its end, and every setting takes effect in order.\<close>

lemma read_entries:
  assumes "list_all (plain_entry 512) kvs"
  shows "read_prop (Some (concat (map conf_entry kvs))) c = (0, fold (\<lambda>(k, v). set_prop k v) kvs c)"
proof -
  have "read_lines (map conf_entry kvs) c = (0, fold (\<lambda>(k, v). set_prop k v) kvs c)"
    using assms
  proof (induction kvs arbitrary: c)
    case (Cons kv kvs)
    then show ?case using get_val_entry [of 512 kv] by (cases kv) (simp add: get_prop_def)
  qed simp
  then show ?thesis using fgets_lines_entries [OF assms] by (simp add: read_prop_def)
qed

end
