(* ===== verification/Epo.thy ===== *)
theory Epo
  imports Epo_Time Config_File Mnld_Internal Nmea_Parser
begin

text \<open>
  \<open>epo.c\<close>: the downloader of prediction data. Pieces of three days each are fetched one after the other, appended to
  \<open>EPOHAL.DAT\<close> and checked for continuity; a piece that fails is retried while the engine runs or Wi-Fi is there.

  \<open>epo_ctx\<close> holds the statics of the file and the files under \<open>/data/misc/gps\<close>. What the rest of the world does in one
  round of the download loop is the record \<open>epo_world\<close>: the clock, the state of the network and of the other threads, what the
  two transfers of the round give, and which files can be opened and locked. The URL of a piece comes from a library
  (\<open>getEpoUrl\<close>), which is a parameter; data written to a file arrive completely.
\<close>

section \<open>State\<close>

type_synonym files = "string \<Rightarrow> byte list option"

definition EPO_FILE :: string where "EPO_FILE = ''/data/misc/gps/EPO.DAT''"
definition EPO_UPDATE_HAL :: string where "EPO_UPDATE_HAL = ''/data/misc/gps/EPOHAL.DAT''"
definition MTK_EPO_ONE_SV_SIZE :: nat where "MTK_EPO_ONE_SV_SIZE = 72"
definition CURLE_OK :: int where "CURLE_OK = 0"
definition CURLE_FAILED_INIT :: int where "CURLE_FAILED_INIT = 2"
definition EPO_DOWNLOAD_RESULT_SUCCESS :: int where "EPO_DOWNLOAD_RESULT_SUCCESS = 0"
definition EPO_DOWNLOAD_RESULT_FAIL :: int where "EPO_DOWNLOAD_RESULT_FAIL = -1"
definition MNLD_EPO_RETRY_HANDLER_TIMEOUT :: int where "MNLD_EPO_RETRY_HANDLER_TIMEOUT = 10 * 1000"

record epo_conf =
  gps_epo_download_days :: int
  gps_epo_enable :: int
  gps_epo_wifi_trigger :: int

record epo_ctx =
  epo_data_updated :: bool
  gps_epo_file_count :: nat
  gps_epo_file_name :: string
  gps_epo_md_file_name :: string
  gps_epo_type :: int
  epo_download_failed :: bool
  epo_download_retry :: bool
  counter :: int
  delay_time :: nat
  file_retrying :: nat
  retry_time :: nat
  retry_download_timer :: int
  conf :: epo_conf
  efs :: files
  ekern :: os

record transfer =
  curl_ready :: bool
  file_opens :: bool
  curl_res :: int
  received :: "byte list"

record epo_world =
  ew_zone :: zone
  ew_now :: int
  getEpoUrl :: "string \<Rightarrow> byte list \<Rightarrow> byte list option"
  md_transfer :: transfer
  data_transfer :: transfer
  can_open :: "string \<Rightarrow> bool"
  qepo_idle :: bool
  gps_started :: bool
  wifi_connected :: bool
  net_connected :: bool
  retry_alarm :: bool

definition gps_dir :: "string \<Rightarrow> string" where "gps_dir name = ''/data/misc/gps/'' @ name"

definition unlink :: "string \<Rightarrow> epo_ctx \<Rightarrow> epo_ctx" where
  "unlink path s = s\<lparr>efs := (efs s)(path := None)\<rparr>"

definition open_read :: "epo_world \<Rightarrow> string \<Rightarrow> epo_ctx \<Rightarrow> byte list option" where
  "open_read w path s = (if can_open w path then efs s path else None)"

section \<open>Names and configuration\<close>

text \<open>Ten pieces, with one set of names for GPS alone and one for GPS with GLONASS.\<close>

definition epo_names :: "int \<Rightarrow> string list" where
  "epo_names ty =
     (if ty = 1 then [''EPO_GPS_3_1'', ''EPO_GPS_3_2'', ''EPO_GPS_3_3'', ''EPO_GPS_3_4'', ''EPO_GPS_3_5'', ''EPO_GPS_3_6'',
        ''EPO_GPS_3_7'', ''EPO_GPS_3_8'', ''EPO_GPS_3_9'', ''EPO_GPS_3_10'']
      else if ty = 0 then [''EPO_GR_3_1'', ''EPO_GR_3_2'', ''EPO_GR_3_3'', ''EPO_GR_3_4'', ''EPO_GR_3_5'', ''EPO_GR_3_6'',
        ''EPO_GR_3_7'', ''EPO_GR_3_8'', ''EPO_GR_3_9'', ''EPO_GR_3_10'']
      else [])"

definition gps_download_epo_file_name :: "nat \<Rightarrow> epo_ctx \<Rightarrow> epo_ctx" where
  "gps_download_epo_file_name count s =
     (let names = epo_names (gps_epo_type s)
      in if count < length names
         then s\<lparr>gps_epo_file_name := names ! count @ ''.DAT'', gps_epo_md_file_name := names ! count @ ''.MD5''\<rparr> else s)"

text \<open>Values out of range fall back to the default.\<close>

definition epo_set :: "byte list \<Rightarrow> byte list \<Rightarrow> epo_conf \<Rightarrow> epo_conf" where
  "epo_set key val c =
     (let v = sint (str2int val)
      in if key = ascii ''EPO_ENABLE'' then c\<lparr>gps_epo_enable := if v \<noteq> 1 \<and> v \<noteq> 0 then 1 else v\<rparr>
         else if key = ascii ''DW_DAYS'' then c\<lparr>gps_epo_download_days := if v > 30 \<or> v < 0 then 9 else v\<rparr>
         else if key = ascii ''EPO_WIFI_TRIGGER'' then c\<lparr>gps_epo_wifi_trigger := if v \<noteq> 1 \<and> v \<noteq> 0 then 0 else v\<rparr>
         else c)"

fun epo_read_lines :: "byte list list \<Rightarrow> epo_conf \<Rightarrow> epo_conf" where
  "epo_read_lines [] c = c"
| "epo_read_lines (l # ls) c =
     (case get_val 100 l of
        Conf_error \<Rightarrow> c
      | Conf_comment \<Rightarrow> epo_read_lines ls c
      | Conf_set key val \<Rightarrow> epo_read_lines ls (epo_set key val c))"

definition epo_read_cust_config :: "byte list option \<Rightarrow> epo_conf \<Rightarrow> epo_conf" where
  "epo_read_cust_config file c = (case file of None \<Rightarrow> c | Some t \<Rightarrow> epo_read_lines (fgets_lines 100 t) c)"

section \<open>Times of a file\<close>

text \<open>The hour stamp of a record, in GPS seconds.\<close>

definition gps_secs :: "byte list \<Rightarrow> 32 word" where
  "gps_secs szBuf = (field_int szBuf 0 AND 0x00FFFFFF) * 3600"

definition secs_to_utc :: "zone \<Rightarrow> 32 word \<Rightarrow> int" where
  "secs_to_utc z s = GpsToUtcTime z (uint s div 604800) (uint s mod 604800)"

definition mtk_gps_sys_epo_period_start :: "zone \<Rightarrow> byte list \<Rightarrow> int option" where
  "mtk_gps_sys_epo_period_start z file =
     (if length file < MTK_EPO_ONE_SV_SIZE then None else Some (secs_to_utc z (gps_secs (take MTK_EPO_ONE_SV_SIZE file))))"

text \<open>The last record, and six hours more.\<close>

definition last_record_end :: "zone \<Rightarrow> byte list \<Rightarrow> int option" where
  "last_record_end z file =
     (if length file < MTK_EPO_ONE_SV_SIZE then None
      else Some (secs_to_utc z (gps_secs (drop (length file - MTK_EPO_ONE_SV_SIZE) file) + 21600)))"

definition epo_file_in_use :: "epo_ctx \<Rightarrow> string option" where
  "epo_file_in_use s =
     (if efs s EPO_UPDATE_HAL \<noteq> None then Some EPO_UPDATE_HAL else if efs s EPO_FILE \<noteq> None then Some EPO_FILE else None)"

text \<open>Start and end of the merged file; what was found before an error stays in the array.\<close>

definition mtk_gps_epo_file_time_hal :: "epo_world \<Rightarrow> epo_ctx \<Rightarrow> int \<times> int \<times> int" where
  "mtk_gps_epo_file_time_hal w s =
     (case epo_file_in_use s of
        None \<Rightarrow> (-1, 0, 0)
      | Some path \<Rightarrow>
          (case open_read w path s of
             None \<Rightarrow> (-1, 0, 0)
           | Some file \<Rightarrow>
               (case mtk_gps_sys_epo_period_start (ew_zone w) file of
                  None \<Rightarrow> (-1, 0, 0)
                | Some a \<Rightarrow> (case last_record_end (ew_zone w) file of None \<Rightarrow> (-1, a, 0) | Some b \<Rightarrow> (0, a, b)))))"

definition utc_now :: "epo_world \<Rightarrow> int" where
  "utc_now w = fst (mktime (ew_zone w) (gmtime (ew_now w)))"

definition mtk_epo_is_expired :: "bool \<Rightarrow> epo_world \<Rightarrow> epo_ctx \<Rightarrow> bool \<times> epo_ctx" where
  "mtk_epo_is_expired wifi_tragger w s =
     (let (ret, t0, t2) = mtk_gps_epo_file_time_hal w s;
          download_day = (t2 - t0) sdiv (24 * 60 * 60);
          expired_set = (if wifi_tragger then 3 * 24 * 60 * 60
            else if download_day < 3 then 0 else if download_day < 6 then 2 * 24 * 60 * 60
            else if download_day < 9 then 5 * 24 * 60 * 60 else 7 * 24 * 60 * 60)
      in if expired_set \<le> utc_now w - t0 then (True, s\<lparr>gps_epo_file_count := 0\<rparr>)
         else if utc_now w - t0 < 0 then (True, s\<lparr>gps_epo_file_count := 0\<rparr>)
         else (False, s))"

definition epo_downloader_is_file_invalid :: "epo_world \<Rightarrow> epo_ctx \<Rightarrow> bool \<times> epo_ctx" where
  "epo_downloader_is_file_invalid = mtk_epo_is_expired False"

section \<open>One piece\<close>

definition curl_easy_download :: "transfer \<Rightarrow> string \<Rightarrow> epo_ctx \<Rightarrow> int \<times> epo_ctx" where
  "curl_easy_download t filename s =
     (if curl_ready t
      then if file_opens t then (curl_res t, s\<lparr>efs := (efs s)(filename := Some (received t))\<rparr>) else (CURLE_FAILED_INIT, s)
      else (CURLE_FAILED_INIT, s))"

text \<open>The key of a request: sixteen characters of the checksum file, and the number of the attempt.\<close>

definition md_key :: "byte list \<Rightarrow> int \<Rightarrow> byte list" where
  "md_key key n = key @ ascii ''&counter='' @ show_int n @ (if n \<le> 1 then ascii ''&url=1'' else ascii ''&url=0'')"

definition no_key :: "byte list" where "no_key = ascii ''0000000000000000''"

definition key_of_md :: "byte list \<Rightarrow> byte list" where
  "key_of_md file = takeWhile (\<lambda>c. c \<noteq> 0) (take 16 (drop 32 (take 48 file)))"

definition fetch_md :: "epo_world \<Rightarrow> epo_ctx \<Rightarrow> (byte list \<times> epo_ctx) option" where
  "fetch_md w s =
     (let path = gps_dir (gps_epo_md_file_name s)
      in case getEpoUrl w (gps_epo_md_file_name s) (md_key no_key (counter s)) of
           None \<Rightarrow> None
         | Some md_url \<Rightarrow>
             (let (res, s) = curl_easy_download (md_transfer w) path s
              in if res = 0
                 then (case open_read w path s of
                         None \<Rightarrow> Some (no_key, s\<lparr>counter := 1\<rparr>)
                       | Some file \<Rightarrow> Some (key_of_md file, (unlink path s)\<lparr>counter := 1\<rparr>))
                 else Some (no_key, s\<lparr>counter := counter s + 1\<rparr>)))"

text \<open>The piece is appended to the merged file; the first piece starts a new one.\<close>

definition append_piece :: "epo_world \<Rightarrow> string \<Rightarrow> epo_ctx \<Rightarrow> epo_ctx" where
  "append_piece w path s =
     (let s = (if gps_epo_file_count s = 0 then unlink EPO_UPDATE_HAL s else s)
      in if can_open w EPO_UPDATE_HAL
         then s\<lparr>efs := (efs s)(EPO_UPDATE_HAL :=
                Some ((case efs s EPO_UPDATE_HAL of None \<Rightarrow> [] | Some t \<Rightarrow> t)
                      @ (case open_read w path s of None \<Rightarrow> [] | Some t \<Rightarrow> t)))\<rparr>
         else s)"

definition curl_easy_download_epo :: "epo_world \<Rightarrow> epo_ctx \<Rightarrow> int \<times> epo_ctx" where
  "curl_easy_download_epo w s =
     (case fetch_md w s of
        None \<Rightarrow> (CURLE_FAILED_INIT, s)
      | Some (key, s) \<Rightarrow>
          (case getEpoUrl w (gps_epo_file_name s) (md_key key (counter s)) of
             None \<Rightarrow> (CURLE_FAILED_INIT, s)
           | Some url \<Rightarrow>
               (let path = gps_dir (gps_epo_file_name s); (res, s) = curl_easy_download (data_transfer w) path s
                in if res = CURLE_OK then (res, append_piece w path (s\<lparr>counter := 1\<rparr>))
                   else (res, (unlink path s)\<lparr>counter := counter s + 1\<rparr>))))"

definition mtk_gps_epo_file_update_hal :: "epo_world \<Rightarrow> epo_ctx \<Rightarrow> int \<times> epo_ctx" where
  "mtk_gps_epo_file_update_hal w s =
     (let (res, s) = curl_easy_download_epo w s
      in if res \<noteq> CURLE_OK then (-1, s\<lparr>epo_download_failed := True\<rparr>) else (0, s))"

section \<open>Continuity of the pieces\<close>

definition piece_start :: "epo_world \<Rightarrow> epo_ctx \<Rightarrow> int \<times> bool" where
  "piece_start w s =
     (case open_read w (gps_dir (gps_epo_file_name s)) s of
        None \<Rightarrow> (0, True)
      | Some f \<Rightarrow> (case mtk_gps_sys_epo_period_start (ew_zone w) f of None \<Rightarrow> (0, False) | Some t \<Rightarrow> (t, True)))"

definition piece_end :: "epo_world \<Rightarrow> epo_ctx \<Rightarrow> int \<times> bool" where
  "piece_end w s =
     (case open_read w (gps_dir (gps_epo_file_name s)) s of
        None \<Rightarrow> (0, True)
      | Some f \<Rightarrow> (case last_record_end (ew_zone w) f of None \<Rightarrow> (0, False) | Some t \<Rightarrow> (t, True)))"

primrec drop_pieces :: "nat \<Rightarrow> epo_ctx \<Rightarrow> epo_ctx" where
  "drop_pieces 0 s = (let s = gps_download_epo_file_name 0 s in unlink (gps_dir (gps_epo_file_name s)) s)"
| "drop_pieces (Suc i) s =
     drop_pieces i (let s = gps_download_epo_file_name (Suc i) s in unlink (gps_dir (gps_epo_file_name s)) s)"

text \<open>
  A piece that starts a day or more behind the end of its predecessor comes from new data on the server: everything is
  dropped. The second value is the return value 1.
\<close>

definition mtk_gps_epo_server_data_is_changed :: "epo_world \<Rightarrow> epo_ctx \<Rightarrow> bool \<times> epo_ctx" where
  "mtk_gps_epo_server_data_is_changed w s =
     (let (t_start, ok1) = piece_start w s;
          s = (if ok1 then s else s\<lparr>epo_download_failed := True\<rparr>);
          s1 = (if 0 < gps_epo_file_count s then gps_download_epo_file_name (gps_epo_file_count s - 1) s else s);
          (t_end, ok2) = (if 0 < gps_epo_file_count s then piece_end w s1 else (t_start, True));
          s1 = (if ok2 then s1 else s1\<lparr>epo_download_failed := True\<rparr>)
      in if 24 * 60 * 60 + t_end \<le> t_start
         then (True, (unlink EPO_UPDATE_HAL (drop_pieces (gps_epo_file_count s1) s1))\<lparr>gps_epo_file_count := 0\<rparr>)
         else (\<not> (ok1 \<and> ok2), s1))"

definition piece_count :: "epo_conf \<Rightarrow> nat" where
  "piece_count c = nat (gps_epo_download_days c div 3 + (if 0 < gps_epo_download_days c mod 3 then 1 else 0))"

primrec clear_pieces :: "nat \<Rightarrow> epo_ctx \<Rightarrow> epo_ctx" where
  "clear_pieces 0 s = s"
| "clear_pieces (Suc n) s =
     (let s = gps_download_epo_file_name n (clear_pieces n s) in unlink (gps_dir (gps_epo_file_name s)) s)"

definition mtk_gps_epo_file_update :: "epo_world \<Rightarrow> epo_ctx \<Rightarrow> int \<times> epo_ctx" where
  "mtk_gps_epo_file_update w s =
     (let (ret, s) = mtk_gps_epo_file_update_hal w s
      in if ret < 0 then (-1, s)
         else
           (let (is_changed, s) = mtk_gps_epo_server_data_is_changed w s
            in if is_changed then (-1, s)
               else
                 (let s = s\<lparr>gps_epo_file_count := gps_epo_file_count s + 1\<rparr>; count_temp = piece_count (conf s)
                  in if gps_epo_file_count s < 10 \<and> gps_epo_file_count s < count_temp then (0, s)
                     else (ret, (clear_pieces count_temp s)\<lparr>epo_data_updated := False, gps_epo_file_count := 0,
                            epo_download_failed := False\<rparr>))))"

section \<open>The download loop\<close>

definition epo_file_update_retry :: "epo_world \<Rightarrow> epo_ctx \<Rightarrow> epo_ctx" where
  "epo_file_update_retry w s =
     (if gps_started w \<or> wifi_connected w then
        if net_connected w \<and> epo_download_retry s then
          (let s = (if file_retrying s = 50 then s\<lparr>file_retrying := gps_epo_file_count s\<rparr> else s);
               file_count_temp = gps_epo_file_count s;
               (ret, t0, t2) = mtk_gps_epo_file_time_hal w s;
               s = (if 0 \<le> ret \<and> t0 + 24 * 60 * 60 \<le> utc_now w
                    then unlink EPO_UPDATE_HAL (s\<lparr>epo_download_failed := False, gps_epo_file_count := 0, epo_data_updated := True,
                           delay_time := 0\<rparr>)
                    else snd (mtk_gps_epo_file_update w (gps_download_epo_file_name (gps_epo_file_count s) s)))
           in if file_count_temp = gps_epo_file_count s then
                (let s = (if file_retrying s = gps_epo_file_count s then s\<lparr>retry_time := retry_time s + 1\<rparr>
                          else s\<lparr>file_retrying := gps_epo_file_count s, retry_time := 0\<rparr>)
                 in if retry_time s < 10
                    then s\<lparr>epo_download_retry := False,
                           ekern := snd (start_timer (retry_download_timer s) MNLD_EPO_RETRY_HANDLER_TIMEOUT (ekern s))\<rparr>
                    else s\<lparr>epo_download_failed := False, retry_time := 0, file_retrying := 50, delay_time := 0\<rparr>)
              else s)
        else if epo_download_retry s then
          (if 10 \<le> delay_time s then s\<lparr>epo_download_failed := False, delay_time := 0\<rparr> else s\<lparr>delay_time := delay_time s + 1\<rparr>)
        else s
      else s\<lparr>epo_download_failed := False, delay_time := 0\<rparr>)"

definition epo_piece_round :: "epo_world \<Rightarrow> epo_ctx \<Rightarrow> epo_ctx" where
  "epo_piece_round w s =
     (let s = gps_download_epo_file_name (gps_epo_file_count s) (s\<lparr>epo_download_failed := False\<rparr>);
          s = snd (mtk_gps_epo_file_update w s)
      in if epo_download_failed s then s\<lparr>epo_data_updated := False\<rparr> else s)"

text \<open>
  The rounds of the loop, one after each pause; the alarm of the retry timer goes off between rounds. \<open>None\<close>: the loop is
  still running when the worlds are used up.
\<close>

fun epo_loop :: "epo_world list \<Rightarrow> epo_ctx \<Rightarrow> epo_ctx option" where
  "epo_loop [] s = None"
| "epo_loop (w # ws) s =
     (let s = (if retry_alarm w then s\<lparr>epo_download_retry := True\<rparr> else s)
      in if qepo_idle w then
           if epo_data_updated s then epo_loop ws (epo_piece_round w s)
           else if epo_download_failed s then epo_loop ws (epo_file_update_retry w s)
           else Some s
         else epo_loop ws s)"

definition epo_file_update_impl :: "epo_world list \<Rightarrow> epo_ctx \<Rightarrow> (int \<times> epo_ctx) option" where
  "epo_file_update_impl ws s = do {
     let s = unlink EPO_FILE (unlink EPO_UPDATE_HAL (s\<lparr>epo_data_updated := True, epo_download_failed := False, gps_epo_file_count := 0\<rparr>));
     s \<leftarrow> epo_loop ws s;
     Some (if gps_epo_file_count s \<noteq> 0 then EPO_DOWNLOAD_RESULT_FAIL else EPO_DOWNLOAD_RESULT_SUCCESS, s) }"

definition mnld_epo_download :: "epo_world list \<Rightarrow> epo_ctx \<Rightarrow> (int \<times> epo_ctx) option" where
  "mnld_epo_download ws s = do {
     (ret, s) \<leftarrow> epo_file_update_impl ws s;
     (r, k) \<leftarrow> mnld_epo_download_done (word_of_int ret) (ekern s);
     Some (ret, s\<lparr>ekern := k\<rparr>) }"

definition epo_event_hdlr :: "rx_ans list \<Rightarrow> epo_world list \<Rightarrow> epo_ctx \<Rightarrow> (int \<times> epo_ctx) option" where
  "epo_event_hdlr rx ws s =
     (let (read_len, mem) = safe_recvfrom rx (replicate MNLD_INTERNAL_BUFF_SIZE 0)
      in if read_len \<le> 0 then Some (-1, s)
         else do {
           (cmd, b) \<leftarrow> get_int (cursor mem);
           (if cmd = 0 then do { (ret, s) \<leftarrow> mnld_epo_download ws s; Some (0, s) } else Some (-1, s)) })"

text \<open>Handing the merged file to the engine removes it when the engine has taken it.\<close>

definition epo_update_epo_file :: "bool \<Rightarrow> epo_ctx \<Rightarrow> epo_ctx" where
  "epo_update_epo_file taken s = (if taken then unlink EPO_UPDATE_HAL s else s)"

end
