(* ===== verification/Epo_Facts.thy ===== *)
theory Epo_Facts
  imports Epo
begin

text \<open>
  What a download of prediction data leaves behind: when every transfer succeeds and the pieces follow each other, the
  merged file holds the pieces in order after one round per piece; one that is given up after its first piece has failed still reports success.
\<close>

section \<open>Paths\<close>

definition dat :: "int \<Rightarrow> nat \<Rightarrow> string" where "dat ty i = gps_dir (epo_names ty ! i @ ''.DAT'')"
definition md5 :: "int \<Rightarrow> nat \<Rightarrow> string" where "md5 ty i = gps_dir (epo_names ty ! i @ ''.MD5'')"

definition known_type :: "int \<Rightarrow> bool" where "known_type ty = (ty = 0 \<or> ty = 1)"

lemma names_length: "known_type ty \<Longrightarrow> length (epo_names ty) = 10"
  by (auto simp: known_type_def epo_names_def)

definition all_paths :: "int \<Rightarrow> string list" where
  "all_paths ty = map (dat ty) [0..<10] @ map (md5 ty) [0..<10] @ [EPO_UPDATE_HAL, EPO_FILE]"

lemma paths_distinct: "known_type ty \<Longrightarrow> distinct (all_paths ty)"
proof -
  have "distinct (all_paths 0)" "distinct (all_paths 1)" by code_simp+
  then show "known_type ty \<Longrightarrow> ?thesis" by (auto simp: known_type_def)
qed

lemma path_facts:
  assumes "known_type ty" "i < 10" "j < 10"
  shows "dat ty i = dat ty j \<longleftrightarrow> i = j" "md5 ty i \<noteq> dat ty j" "dat ty i \<noteq> EPO_UPDATE_HAL" "dat ty i \<noteq> EPO_FILE"
    "md5 ty i \<noteq> EPO_UPDATE_HAL" "md5 ty i \<noteq> EPO_FILE" "EPO_UPDATE_HAL \<noteq> EPO_FILE"
proof -
  note d = paths_distinct [OF assms(1), unfolded all_paths_def distinct_append]
  then have "inj_on (dat ty) (set [0..<10])" by (simp add: distinct_map)
  with assms show "dat ty i = dat ty j \<longleftrightarrow> i = j" by (auto simp: inj_on_def)
  have "dat ty i \<in> dat ty ` {0..<10}" "dat ty j \<in> dat ty ` {0..<10}" "md5 ty i \<in> md5 ty ` {0..<10}" using assms by simp_all
  with d show "md5 ty i \<noteq> dat ty j" "dat ty i \<noteq> EPO_UPDATE_HAL" "dat ty i \<noteq> EPO_FILE"
    "md5 ty i \<noteq> EPO_UPDATE_HAL" "md5 ty i \<noteq> EPO_FILE" "EPO_UPDATE_HAL \<noteq> EPO_FILE"
    by auto
qed

lemma file_name:
  assumes "known_type (gps_epo_type s)" "i < 10"
  shows "gps_download_epo_file_name i s = s\<lparr>gps_epo_file_name := epo_names (gps_epo_type s) ! i @ ''.DAT'',
     gps_epo_md_file_name := epo_names (gps_epo_type s) ! i @ ''.MD5''\<rparr>"
  using names_length [OF assms(1)] assms(2) by (simp add: gps_download_epo_file_name_def Let_def)

section \<open>A round that succeeds\<close>

definition ok_round :: "zone \<Rightarrow> epo_world \<Rightarrow> byte list \<Rightarrow> bool" where
  "ok_round z w d =
     (ew_zone w = z \<and> qepo_idle w \<and> (\<forall>f k. getEpoUrl w f k \<noteq> None) \<and> (\<forall>p. can_open w p)
      \<and> curl_ready (data_transfer w) \<and> file_opens (data_transfer w) \<and> curl_res (data_transfer w) = 0 \<and> received (data_transfer w) = d
      \<and> MTK_EPO_ONE_SV_SIZE \<le> length d)"

lemma fetch_md_ok:
  assumes "\<forall>f k. getEpoUrl w f k \<noteq> None"
  shows "\<exists>key c f. fetch_md w s = Some (key, s\<lparr>counter := c, efs := (efs s)(gps_dir (gps_epo_md_file_name s) := f)\<rparr>)"
proof -
  obtain url where "getEpoUrl w (gps_epo_md_file_name s) (md_key no_key (counter s)) = Some url" using assms by blast
  then show ?thesis
    by (cases s)
      (auto simp: fetch_md_def curl_easy_download_def unlink_def Let_def fun_upd_idem split: option.splits prod.splits
        intro!: exI)
qed

definition merged :: "epo_ctx \<Rightarrow> byte list" where
  "merged s = (if gps_epo_file_count s = 0 then [] else case efs s EPO_UPDATE_HAL of None \<Rightarrow> [] | Some t \<Rightarrow> t)"

definition named :: "nat \<Rightarrow> epo_ctx \<Rightarrow> bool" where
  "named i s = (gps_epo_file_name s = epo_names (gps_epo_type s) ! i @ ''.DAT''
     \<and> gps_epo_md_file_name s = epo_names (gps_epo_type s) ! i @ ''.MD5'')"

lemma piece_downloaded:
  assumes "ok_round z w d" "known_type (gps_epo_type s)" "i < 10" "named i s"
  shows "\<exists>f. mtk_gps_epo_file_update_hal w s = (0, s\<lparr>counter := 1, efs := (efs s)(md5 (gps_epo_type s) i := f,
     dat (gps_epo_type s) i := Some d, EPO_UPDATE_HAL := Some (merged s @ d))\<rparr>)"
proof -
  have n: "gps_dir (gps_epo_md_file_name s) = md5 (gps_epo_type s) i" "gps_dir (gps_epo_file_name s) = dat (gps_epo_type s) i"
    using assms(4) by (simp_all add: named_def md5_def dat_def)
  obtain key c f where md: "fetch_md w s = Some (key, s\<lparr>counter := c, efs := (efs s)(md5 (gps_epo_type s) i := f)\<rparr>)"
    using fetch_md_ok [of w s] assms(1) n by (auto simp: ok_round_def)
  have "getEpoUrl w (gps_epo_file_name s) (md_key key c) \<noteq> None" using assms(1) by (simp add: ok_round_def)
  then obtain url where url: "getEpoUrl w (gps_epo_file_name s) (md_key key c) = Some url" by blast
  have "mtk_gps_epo_file_update_hal w s = (0, s\<lparr>counter := 1, efs := (efs s)(md5 (gps_epo_type s) i := f,
     dat (gps_epo_type s) i := Some d, EPO_UPDATE_HAL := Some (merged s @ d))\<rparr>)"
    using assms(1) path_facts [OF assms(2,3,3)] path_facts(3) [OF assms(2,3,3), symmetric]
    by (auto simp: mtk_gps_epo_file_update_hal_def curl_easy_download_epo_def md url n curl_easy_download_def ok_round_def Let_def
      CURLE_OK_def append_piece_def open_read_def unlink_def merged_def)
  then show ?thesis by blast
qed

text \<open>A piece that follows its predecessor is kept.\<close>

definition follows :: "zone \<Rightarrow> byte list \<Rightarrow> byte list \<Rightarrow> bool" where
  "follows z a b = (the (mtk_gps_sys_epo_period_start z b) < 24 * 60 * 60 + the (last_record_end z a))"

lemma piece_kept:
  assumes "ok_round z w d" "known_type (gps_epo_type s)" "gps_epo_file_count s < 10" "named (gps_epo_file_count s) s"
    and "efs s (dat (gps_epo_type s) (gps_epo_file_count s)) = Some d"
    and "0 < gps_epo_file_count s \<Longrightarrow> efs s (dat (gps_epo_type s) (gps_epo_file_count s - 1)) = Some a
      \<and> MTK_EPO_ONE_SV_SIZE \<le> length a \<and> follows z a d"
  shows "\<exists>f g. mtk_gps_epo_server_data_is_changed w s = (False, s\<lparr>gps_epo_file_name := f, gps_epo_md_file_name := g\<rparr>)"
proof -
  have st: "piece_start w s = (the (mtk_gps_sys_epo_period_start z d), True)"
    using assms(1,4,5) by (simp add: piece_start_def open_read_def ok_round_def named_def mtk_gps_sys_epo_period_start_def flip: dat_def)
  show ?thesis
  proof (cases "0 < gps_epo_file_count s")
    case True
    then obtain i where i: "gps_epo_file_count s = Suc i" by (cases "gps_epo_file_count s") auto
    have s': "gps_download_epo_file_name i s = s\<lparr>gps_epo_file_name := epo_names (gps_epo_type s) ! i @ ''.DAT'',
        gps_epo_md_file_name := epo_names (gps_epo_type s) ! i @ ''.MD5''\<rparr>"
      using assms(2,3) i by (intro file_name) simp_all
    have "piece_end w (gps_download_epo_file_name i s) = (the (last_record_end z a), True)"
      using assms(1,6) i by (simp add: s' piece_end_def open_read_def ok_round_def last_record_end_def flip: dat_def)
    with i st assms(6) show ?thesis
      unfolding mtk_gps_epo_server_data_is_changed_def by (auto simp: s' follows_def Let_def)
  next
    case False
    with st show ?thesis
      unfolding mtk_gps_epo_server_data_is_changed_def Let_def
      by (intro exI [of _ "gps_epo_file_name s"] exI [of _ "gps_epo_md_file_name s"]) simp
  qed
qed

lemma clear_pieces_efs:
  assumes "known_type (gps_epo_type s)" "n \<le> 10"
  shows "\<exists>f g. clear_pieces n s = s\<lparr>gps_epo_file_name := f, gps_epo_md_file_name := g,
     efs := (\<lambda>p. if p \<in> dat (gps_epo_type s) ` {0..<n} then None else efs s p)\<rparr>"
  using assms(2)
proof (induction n)
  case 0
  show ?case by (intro exI [of _ "gps_epo_file_name s"] exI [of _ "gps_epo_md_file_name s"]) simp
next
  case (Suc n)
  then obtain f g where c: "clear_pieces n s = s\<lparr>gps_epo_file_name := f, gps_epo_md_file_name := g,
     efs := (\<lambda>p. if p \<in> dat (gps_epo_type s) ` {0..<n} then None else efs s p)\<rparr>" by auto
  have "gps_dir (epo_names (gps_epo_type s) ! n @ ''.DAT'') = dat (gps_epo_type s) n" by (simp add: dat_def)
  moreover have "(\<lambda>p. if p \<in> dat (gps_epo_type s) ` {0..<n} then None else efs s p)(dat (gps_epo_type s) n := None)
    = (\<lambda>p. if p \<in> dat (gps_epo_type s) ` {0..<Suc n} then None else efs s p)"
    by (auto simp: fun_eq_iff less_Suc_eq)
  ultimately show ?case
    using Suc.prems assms(1) by (auto simp: c file_name unlink_def Let_def simp del: image_iff)
qed

section \<open>All pieces\<close>

definition stage :: "int \<Rightarrow> epo_conf \<Rightarrow> byte list list \<Rightarrow> nat \<Rightarrow> epo_ctx \<Rightarrow> bool" where
  "stage ty c ds i s =
     (gps_epo_type s = ty \<and> conf s = c \<and> epo_data_updated s \<and> gps_epo_file_count s = i \<and> efs s EPO_FILE = None
      \<and> (0 < i \<longrightarrow> efs s EPO_UPDATE_HAL = Some (concat (take i ds)) \<and> efs s (dat ty (i - 1)) = Some (ds ! (i - 1))))"

definition completed :: "int \<Rightarrow> byte list list \<Rightarrow> epo_ctx \<Rightarrow> bool" where
  "completed ty ds s =
     (\<not> epo_data_updated s \<and> \<not> epo_download_failed s \<and> gps_epo_file_count s = 0 \<and> efs s EPO_UPDATE_HAL = Some (concat ds)
      \<and> efs s EPO_FILE = None \<and> (\<forall>i < length ds. efs s (dat ty i) = None))"

text \<open>The state in which the piece has been stored and the count is about to go up.\<close>

lemma piece_stored:
  assumes "stage ty c ds i s" "known_type ty" "i < length ds" "length ds \<le> 10" "ok_round z w (ds ! i)"
    and "0 < i \<Longrightarrow> MTK_EPO_ONE_SV_SIZE \<le> length (ds ! (i - 1)) \<and> follows z (ds ! (i - 1)) (ds ! i)"
  shows "\<exists>s2. mtk_gps_epo_server_data_is_changed w (snd (mtk_gps_epo_file_update_hal w
       (gps_download_epo_file_name (gps_epo_file_count s) (s\<lparr>epo_download_failed := False\<rparr>)))) = (False, s2)
    \<and> fst (mtk_gps_epo_file_update_hal w (gps_download_epo_file_name (gps_epo_file_count s) (s\<lparr>epo_download_failed := False\<rparr>))) = 0
    \<and> gps_epo_type s2 = ty \<and> conf s2 = c \<and> epo_data_updated s2 \<and> gps_epo_file_count s2 = i \<and> efs s2 EPO_FILE = None
    \<and> efs s2 EPO_UPDATE_HAL = Some (concat (take (Suc i) ds)) \<and> efs s2 (dat ty i) = Some (ds ! i) \<and> \<not> epo_download_failed s2"
proof -
  let ?s0 = "gps_download_epo_file_name (gps_epo_file_count s) (s\<lparr>epo_download_failed := False\<rparr>)"
  have i: "i < 10" using assms(3,4) by simp
  have s: "gps_epo_type s = ty" "gps_epo_file_count s = i" "conf s = c" "epo_data_updated s" "efs s EPO_FILE = None"
    using assms(1) by (simp_all add: stage_def)
  have s0: "?s0 = s\<lparr>epo_download_failed := False, gps_epo_file_name := epo_names ty ! i @ ''.DAT'',
      gps_epo_md_file_name := epo_names ty ! i @ ''.MD5''\<rparr>"
    using assms(2) i s by (simp add: file_name)
  note s0i = s0 [unfolded s(2)]
  have m: "merged ?s0 = concat (take i ds)"
    using assms(1) unfolding s0 by (auto simp: merged_def stage_def)
  from piece_downloaded [OF assms(5), of ?s0 i] obtain f where
    s1: "mtk_gps_epo_file_update_hal w ?s0 = (0, ?s0\<lparr>counter := 1, efs := (efs ?s0)(md5 ty i := f,
       dat ty i := Some (ds ! i), EPO_UPDATE_HAL := Some (merged ?s0 @ ds ! i))\<rparr>)" (is "_ = (0, ?s1)")
    using assms(2) i s by (auto simp: s0i named_def)
  note pf = path_facts [OF assms(2) i i]
  have prev: "efs ?s1 (dat ty (i - 1)) = Some (ds ! (i - 1))" if "0 < i"
  proof -
    have "i - 1 < 10" using i by simp
    then show ?thesis
      using assms(1) that path_facts [OF assms(2) \<open>i - 1 < 10\<close> i] path_facts(2) [OF assms(2) i \<open>i - 1 < 10\<close>, symmetric]
      by (simp add: s0i stage_def)
  qed
  have "\<exists>f g. mtk_gps_epo_server_data_is_changed w ?s1 = (False, ?s1\<lparr>gps_epo_file_name := f, gps_epo_md_file_name := g\<rparr>)"
    by (rule piece_kept [OF assms(5), of _ "ds ! (i - 1)"]) (use assms(2,6) i s prev pf in \<open>simp_all add: s0i named_def\<close>)
  then obtain g h where "mtk_gps_epo_server_data_is_changed w ?s1 = (False, ?s1\<lparr>gps_epo_file_name := g, gps_epo_md_file_name := h\<rparr>)"
    by blast
  with s1 s m pf assms(3) show ?thesis
    by (auto simp: s0i take_Suc_conv_app_nth)
qed

lemma piece_round:
  assumes "stage ty c ds i s" "known_type ty" "i < length ds" "piece_count c \<le> 10" "length ds \<le> piece_count c" "ok_round z w (ds ! i)"
    and "0 < i \<Longrightarrow> MTK_EPO_ONE_SV_SIZE \<le> length (ds ! (i - 1)) \<and> follows z (ds ! (i - 1)) (ds ! i)"
  shows "if Suc i < piece_count c then stage ty c ds (Suc i) (epo_piece_round w s) else completed ty ds (epo_piece_round w s)"
proof -
  have len: "length ds \<le> 10" using assms(4,5) by simp
  let ?s0 = "gps_download_epo_file_name (gps_epo_file_count s) (s\<lparr>epo_download_failed := False\<rparr>)"
  obtain s2 where s2: "mtk_gps_epo_server_data_is_changed w (snd (mtk_gps_epo_file_update_hal w ?s0)) = (False, s2)"
    "fst (mtk_gps_epo_file_update_hal w ?s0) = 0" "gps_epo_type s2 = ty" "conf s2 = c" "epo_data_updated s2" "gps_epo_file_count s2 = i"
    "efs s2 EPO_FILE = None" "efs s2 EPO_UPDATE_HAL = Some (concat (take (Suc i) ds))" "efs s2 (dat ty i) = Some (ds ! i)"
    "\<not> epo_download_failed s2"
    using piece_stored [OF assms(1-3) len assms(6,7)] by blast
  let ?s3 = "s2\<lparr>gps_epo_file_count := Suc i\<rparr>"
  have upd: "snd (mtk_gps_epo_file_update w ?s0) = (if Suc i < piece_count c then ?s3
      else (clear_pieces (piece_count c) ?s3)\<lparr>epo_data_updated := False, gps_epo_file_count := 0, epo_download_failed := False\<rparr>)"
    using s2 assms(3-5) by (simp add: mtk_gps_epo_file_update_def split_beta Let_def)
  show ?thesis
  proof (cases "Suc i < piece_count c")
    case True
    with s2 upd show ?thesis by (simp add: epo_piece_round_def Let_def stage_def)
  next
    case False
    with assms(3,5) have n: "length ds = Suc i" "piece_count c = length ds" by simp_all
    with n have all: "concat (take (Suc i) ds) = concat ds" by simp
    have "known_type (gps_epo_type ?s3)" using s2(3) assms(2) by simp
    from clear_pieces_efs [OF this len] obtain f g where "clear_pieces (length ds) ?s3 = ?s3\<lparr>gps_epo_file_name := f, gps_epo_md_file_name := g,
       efs := (\<lambda>p. if p \<in> dat (gps_epo_type ?s3) ` {0..<length ds} then None else efs ?s3 p)\<rparr>" by blast
    moreover have "EPO_UPDATE_HAL \<notin> dat ty ` {0..<length ds}" "EPO_FILE \<notin> dat ty ` {0..<length ds}"
      using path_facts(3,4) [OF assms(2), of _ 0] len by (auto simp: image_iff) (metis order.strict_trans2)+
    ultimately show ?thesis
      using False s2 upd all n(2) by (simp add: epo_piece_round_def Let_def completed_def)
  qed
qed

lemma epo_pieces:
  assumes "stage ty c ds i s" "known_type ty" "piece_count c \<le> 10" "length ds \<le> piece_count c" "i < piece_count c" "i \<le> length ds"
    and "list_all2 (ok_round z) ws (drop i ds)" "successively (follows z) (drop (i - 1) ds)"
    and "0 < i \<Longrightarrow> MTK_EPO_ONE_SV_SIZE \<le> length (ds ! (i - 1))"
  shows "\<exists>s'. epo_loop (ws @ vs) s = epo_loop vs s'
    \<and> (if length ds < piece_count c then stage ty c ds (length ds) s' else completed ty ds s')"
  using assms(1,5-9)
proof (induction ws arbitrary: i s)
  case Nil
  then have "i = length ds" by simp
  with Nil show ?case by auto
next
  case (Cons w ws)
  have i: "i < length ds" using Cons.prems(3,4) by (cases "i = length ds") auto
  have d: "drop i ds = ds ! i # drop (Suc i) ds" using i by (simp add: Cons_nth_drop_Suc)
  with Cons.prems have ok: "ok_round z w (ds ! i)" and oks: "list_all2 (ok_round z) ws (drop (Suc i) ds)" by auto
  have fol: "follows z (ds ! (i - 1)) (ds ! i) \<and> successively (follows z) (drop i ds)" if "0 < i"
  proof -
    have "drop (i - 1) ds = ds ! (i - 1) # drop i ds" using that i Cons_nth_drop_Suc [of "i - 1" ds] by simp
    with Cons.prems(5) d show ?thesis by (simp add: successively_Cons)
  qed
  let ?s = "if retry_alarm w then s\<lparr>epo_download_retry := True\<rparr> else s"
  have st: "stage ty c ds i ?s" using Cons.prems(1) by (simp add: stage_def)
  have upd: "epo_data_updated ?s" using st by (simp add: stage_def)
  have step: "epo_loop ((w # ws) @ vs) s = epo_loop (ws @ vs) (epo_piece_round w ?s)"
    using ok upd by (simp add: ok_round_def Let_def)
  have r: "if Suc i < piece_count c then stage ty c ds (Suc i) (epo_piece_round w ?s) else completed ty ds (epo_piece_round w ?s)"
    by (rule piece_round [OF st assms(2) i assms(3,4) ok]) (use fol Cons.prems(6) in simp)
  show ?case
  proof (cases "Suc i < piece_count c")
    case True
    have "successively (follows z) (drop i ds)" using Cons.prems(5) fol by (cases "0 < i") auto
    moreover have "MTK_EPO_ONE_SV_SIZE \<le> length (ds ! i)" using ok by (simp add: ok_round_def)
    ultimately show ?thesis
      using Cons.IH [of "Suc i" "epo_piece_round w ?s"] r True oks step i by simp
  next
    case False
    with i assms(4) have n: "length ds = Suc i" "\<not> length ds < piece_count c" by simp_all
    with oks have "ws = []" by simp
    with r False n step show ?thesis by auto
  qed
qed

lemma impl_start:
  assumes "known_type (gps_epo_type s)"
  shows "stage (gps_epo_type s) (conf s) ds 0
    (unlink EPO_FILE (unlink EPO_UPDATE_HAL (s\<lparr>epo_data_updated := True, epo_download_failed := False, gps_epo_file_count := 0\<rparr>)))"
  by (simp add: stage_def unlink_def)

lemma download_complete:
  assumes "known_type (gps_epo_type s)" "length ds = piece_count (conf s)" "0 < length ds" "length ds \<le> 10"
    and "list_all2 (ok_round z) ws ds" "successively (follows z) ds" "qepo_idle v"
  shows "\<exists>s'. epo_file_update_impl (ws @ [v]) s = Some (EPO_DOWNLOAD_RESULT_SUCCESS, s') \<and> completed (gps_epo_type s) ds s'"
proof -
  from epo_pieces [OF impl_start [OF assms(1), of ds] assms(1), of z ws "[v]"] assms obtain s1 where
    s1: "epo_loop (ws @ [v]) (unlink EPO_FILE (unlink EPO_UPDATE_HAL
       (s\<lparr>epo_data_updated := True, epo_download_failed := False, gps_epo_file_count := 0\<rparr>))) = epo_loop [v] s1"
    "completed (gps_epo_type s) ds s1"
    by auto
  then have "epo_loop [v] s1 = Some (if retry_alarm v then s1\<lparr>epo_download_retry := True\<rparr> else s1)"
    using assms(7) by (simp add: completed_def Let_def)
  with s1 show ?thesis by (auto simp: epo_file_update_impl_def completed_def)
qed

section \<open>A transfer that fails\<close>

definition failed_transfer :: "transfer \<Rightarrow> bool" where
  "failed_transfer t = (curl_ready t \<longrightarrow> file_opens t \<longrightarrow> curl_res t \<noteq> 0)"

lemma fetch_md_frame:
  assumes "fetch_md w s = Some (key, s')"
  shows "s' = s\<lparr>counter := counter s', efs := efs s'\<rparr> \<and> (\<forall>p. p \<noteq> gps_dir (gps_epo_md_file_name s) \<longrightarrow> efs s' p = efs s p)"
  using assms
  by (cases s)
    (auto simp: fetch_md_def curl_easy_download_def unlink_def Let_def split: option.splits prod.splits if_splits)

lemma update_fails:
  assumes "failed_transfer (data_transfer w)" "known_type (gps_epo_type s)" "i < 10" "named i s"
  shows "\<exists>c h. mtk_gps_epo_file_update w s = (-1, s\<lparr>epo_download_failed := True, counter := c, efs := h\<rparr>)
    \<and> h EPO_UPDATE_HAL = efs s EPO_UPDATE_HAL"
proof -
  have n: "gps_dir (gps_epo_md_file_name s) = md5 (gps_epo_type s) i" "gps_dir (gps_epo_file_name s) = dat (gps_epo_type s) i"
    using assms(4) by (simp_all add: named_def md5_def dat_def)
  note pf = path_facts(3,5) [OF assms(2,3,3), symmetric]
  have "case curl_easy_download_epo w s of (res, s') \<Rightarrow>
    res \<noteq> 0 \<and> s' = s\<lparr>counter := counter s', efs := efs s'\<rparr> \<and> efs s' EPO_UPDATE_HAL = efs s EPO_UPDATE_HAL"
  proof (cases "fetch_md w s")
    case None
    then show ?thesis by (simp add: curl_easy_download_epo_def CURLE_FAILED_INIT_def)
  next
    case (Some a)
    obtain key s1 where a: "a = (key, s1)" by (cases a)
    have s1: "s1 = s\<lparr>counter := counter s1, efs := efs s1\<rparr>"
      and h1: "\<And>p. p \<noteq> md5 (gps_epo_type s) i \<Longrightarrow> efs s1 p = efs s p"
      using fetch_md_frame [of w s key s1] Some a n by simp_all
    obtain c h where s1': "s1 = s\<lparr>counter := c, efs := h\<rparr>" and hh: "h EPO_UPDATE_HAL = efs s EPO_UPDATE_HAL"
      using s1 h1 [of EPO_UPDATE_HAL] pf by metis
    show ?thesis
      using assms(1) pf hh
      by (auto simp: curl_easy_download_epo_def Some a s1' n curl_easy_download_def failed_transfer_def CURLE_OK_def CURLE_FAILED_INIT_def
        unlink_def Let_def split: option.split)
  qed
  moreover obtain res s' where e: "curl_easy_download_epo w s = (res, s')" by (cases "curl_easy_download_epo w s")
  ultimately have r: "res \<noteq> 0" "s' = s\<lparr>counter := counter s', efs := efs s'\<rparr>" "efs s' EPO_UPDATE_HAL = efs s EPO_UPDATE_HAL"
    by simp_all
  have "mtk_gps_epo_file_update w s = (-1, s'\<lparr>epo_download_failed := True\<rparr>)"
    using e r(1) by (simp add: mtk_gps_epo_file_update_def mtk_gps_epo_file_update_hal_def CURLE_OK_def)
  also have "s'\<lparr>epo_download_failed := True\<rparr> = s\<lparr>epo_download_failed := True, counter := counter s', efs := efs s'\<rparr>"
    by (subst r(2)) simp
  finally show ?thesis using r(3) by blast
qed

lemma round_fails:
  assumes "stage ty c ds i s" "known_type ty" "i < 10" "failed_transfer (data_transfer w)"
  shows "\<not> epo_data_updated (epo_piece_round w s) \<and> epo_download_failed (epo_piece_round w s)
    \<and> gps_epo_file_count (epo_piece_round w s) = i \<and> efs (epo_piece_round w s) EPO_UPDATE_HAL = efs s EPO_UPDATE_HAL"
proof -
  let ?s0 = "gps_download_epo_file_name (gps_epo_file_count s) (s\<lparr>epo_download_failed := False\<rparr>)"
  have nm: "known_type (gps_epo_type ?s0)" "named i ?s0" "gps_epo_file_count ?s0 = i" "efs ?s0 = efs s"
    using assms(1-3) file_name [of "s\<lparr>epo_download_failed := False\<rparr>" i] by (simp_all add: stage_def named_def)
  define s0 where "s0 = ?s0"
  from update_fails [OF assms(4) nm(1) assms(3) nm(2)] obtain c h where
    "mtk_gps_epo_file_update w s0 = (-1, s0\<lparr>epo_download_failed := True, counter := c, efs := h\<rparr>)"
    "h EPO_UPDATE_HAL = efs s0 EPO_UPDATE_HAL" unfolding s0_def by blast
  moreover have "epo_piece_round w s = (let s = snd (mtk_gps_epo_file_update w s0)
      in if epo_download_failed s then s\<lparr>epo_data_updated := False\<rparr> else s)"
    by (simp only: epo_piece_round_def s0_def Let_def)
  ultimately show ?thesis using nm(3,4) [folded s0_def] by simp
qed

lemma gives_up:
  assumes "stage ty c ds i s" "known_type ty" "i < 10" "failed_transfer (data_transfer w)"
    and "qepo_idle w" "qepo_idle u" "\<not> gps_started u" "\<not> wifi_connected u" "qepo_idle v"
  shows "\<exists>s'. epo_loop [w, u, v] s = Some s' \<and> gps_epo_file_count s' = i \<and> efs s' EPO_UPDATE_HAL = efs s EPO_UPDATE_HAL"
proof -
  let ?s = "if retry_alarm w then s\<lparr>epo_download_retry := True\<rparr> else s"
  have st: "stage ty c ds i ?s" and upd: "epo_data_updated ?s" and h: "efs ?s = efs s"
    using assms(1) by (simp_all add: stage_def)
  define t where "t = epo_piece_round w ?s"
  have r: "\<not> epo_data_updated t" "epo_download_failed t" "gps_epo_file_count t = i" "efs t EPO_UPDATE_HAL = efs s EPO_UPDATE_HAL"
    using round_fails [OF st assms(2-4), folded t_def] h by simp_all
  have "epo_loop [w, u, v] s = epo_loop [u, v] t"
    using assms(5) upd by (simp only: t_def epo_loop.simps Let_def if_True)
  with r assms(6-9) show ?thesis by (simp add: epo_file_update_retry_def Let_def)
qed

lemma download_aborted:
  assumes "known_type (gps_epo_type s)" "length ds < piece_count (conf s)" "piece_count (conf s) \<le> 10"
    and "list_all2 (ok_round z) ws ds" "successively (follows z) ds"
    and "qepo_idle w" "failed_transfer (data_transfer w)" "qepo_idle u" "\<not> gps_started u" "\<not> wifi_connected u" "qepo_idle v"
  shows "\<exists>s'. epo_file_update_impl (ws @ [w, u, v]) s
      = Some (if ds = [] then EPO_DOWNLOAD_RESULT_SUCCESS else EPO_DOWNLOAD_RESULT_FAIL, s')
    \<and> efs s' EPO_UPDATE_HAL = (if ds = [] then None else Some (concat ds))"
proof -
  let ?s = "unlink EPO_FILE (unlink EPO_UPDATE_HAL (s\<lparr>epo_data_updated := True, epo_download_failed := False, gps_epo_file_count := 0\<rparr>))"
  have st0: "stage (gps_epo_type s) (conf s) ds 0 ?s" by (rule impl_start [OF assms(1)])
  obtain s1 where s1: "epo_loop (ws @ [w, u, v]) ?s = epo_loop [w, u, v] s1" "stage (gps_epo_type s) (conf s) ds (length ds) s1"
    "efs s1 EPO_UPDATE_HAL = (if ds = [] then None else Some (concat ds))"
  proof (cases "ds = []")
    case True
    with assms(4) have "ws = []" by simp
    with True st0 show ?thesis by (intro that [of ?s]) (simp_all add: unlink_def)
  next
    case False
    have "\<exists>s'. epo_loop (ws @ vs) ?s = epo_loop vs s' \<and> stage (gps_epo_type s) (conf s) ds (length ds) s'" for vs
      using epo_pieces [OF st0 assms(1), of z ws vs] assms(2-5) by simp
    then obtain s1 where
      "epo_loop (ws @ [w, u, v]) ?s = epo_loop [w, u, v] s1" "stage (gps_epo_type s) (conf s) ds (length ds) s1" by blast
    with False that show ?thesis by (simp add: stage_def)
  qed
  have "length ds < 10" using assms(2,3) by simp
  from gives_up [OF s1(2) assms(1) this assms(7,6,8-11)] obtain s2 where
    "epo_loop [w, u, v] s1 = Some s2" "gps_epo_file_count s2 = length ds" "efs s2 EPO_UPDATE_HAL = efs s1 EPO_UPDATE_HAL" by blast
  with s1(1,3) show ?thesis by (simp add: epo_file_update_impl_def Let_def del: epo_loop.simps)
qed

end
