(* ===== verification/Qepo.thy ===== *)
theory Qepo
  imports Epo
begin

text \<open>
  \<open>qepo.c\<close>: the downloader of the prediction data of a quarter of a day. The engine asks for them with its time of the week; the
  file whose number follows from the time of the day is fetched and checked against that time, and fetched again, up to ten
  times, while it does not fit and the network is there.

  \<open>qepo_ctx\<close> holds the statics of the file; \<open>repo\<close> are those of \<open>epo.c\<close>, whose type of data and whose files are shared. The
  worlds of the attempts are numbered from 0.
\<close>

section \<open>State\<close>

definition QUARTER_FILE_HAL :: string where "QUARTER_FILE_HAL = ''/data/misc/gps/QEPOHAL.DAT''"
definition QEPO_UPDATE_HAL :: string where "QEPO_UPDATE_HAL = ''/data/misc/gps/QEPOHAL.DAT''"
definition MNLD_QEPO_DOWNLOAD_SOCKET :: string where "MNLD_QEPO_DOWNLOAD_SOCKET = ''mnld_qepo_download_socket''"
definition CURLE_RECV_ERROR :: int where "CURLE_RECV_ERROR = 56"
definition MTK_QEPO_RSP_UPDATE_SUCCESS :: int where "MTK_QEPO_RSP_UPDATE_SUCCESS = 0"
definition MTK_QEPO_RSP_UPDATE_FAIL :: int where "MTK_QEPO_RSP_UPDATE_FAIL = 1"
definition MTK_QEPO_RSP_DOWNLOAD_FAIL :: int where "MTK_QEPO_RSP_DOWNLOAD_FAIL = 2"
definition MAIN2QEPO_EVENT_START :: i32 where "MAIN2QEPO_EVENT_START = 0"

record qepo_gps_time =
  gt_wn :: int
  gt_tow :: int
  gt_sys_time :: int

record qepo_ctx =
  quarter_epo_file_name :: string
  quarter_epo_md_file_name :: string
  gps_time :: qepo_gps_time
  qepo_download_finished :: bool
  pre_day :: bool
  server_not_updated :: bool
  Qepo_res :: int
  qcounter :: int
  repo :: epo_ctx
  qkern :: os

section \<open>One file\<close>

definition fetch_quarter_md :: "epo_world \<Rightarrow> qepo_ctx \<Rightarrow> (byte list \<times> qepo_ctx) option" where
  "fetch_quarter_md w s =
     (let path = gps_dir (quarter_epo_md_file_name s)
      in case getEpoUrl w (quarter_epo_md_file_name s) (md_key no_key (qcounter s)) of
           None \<Rightarrow> None
         | Some md_url \<Rightarrow>
             (let (res, r) = curl_easy_download (md_transfer w) path (repo s)
              in if res = 0
                 then (case open_read w path r of
                         None \<Rightarrow> Some (no_key, s\<lparr>repo := r, qcounter := 1\<rparr>)
                       | Some file \<Rightarrow> Some (key_of_md file, s\<lparr>repo := unlink path r, qcounter := 1\<rparr>))
                 else Some (no_key, s\<lparr>repo := r, qcounter := qcounter s + 1\<rparr>)))"

definition curl_easy_download_quarter_epo :: "epo_world \<Rightarrow> qepo_ctx \<Rightarrow> int \<times> qepo_ctx" where
  "curl_easy_download_quarter_epo w s =
     (case fetch_quarter_md w s of
        None \<Rightarrow> (CURLE_FAILED_INIT, s)
      | Some (key, s) \<Rightarrow>
          (case getEpoUrl w (quarter_epo_file_name s) (md_key key (qcounter s)) of
             None \<Rightarrow> (CURLE_FAILED_INIT, s)
           | Some url \<Rightarrow>
               (let (res, r) = curl_easy_download (data_transfer w) QUARTER_FILE_HAL (repo s);
                    s = s\<lparr>repo := r, Qepo_res := res\<rparr>
                in (res, s\<lparr>qcounter := if res = 0 then 1 else qcounter s + 1\<rparr>))))"

text \<open>The time the engine gave, against the six hours from the first record of the file.\<close>

definition is_quarter_epo_valid :: "epo_world \<Rightarrow> qepo_ctx \<Rightarrow> int \<times> qepo_ctx" where
  "is_quarter_epo_valid w s =
     (case open_read w QUARTER_FILE_HAL (repo s) of
        None \<Rightarrow> (EPO_DOWNLOAD_RESULT_FAIL, s)
      | Some file \<Rightarrow>
          (case mtk_gps_sys_epo_period_start (ew_zone w) file of
             None \<Rightarrow> (EPO_DOWNLOAD_RESULT_FAIL, s)
           | Some uSecond_start \<Rightarrow>
               (let mnl_time = GpsToUtcTime (ew_zone w) (gt_wn (gps_time s)) (gt_tow (gps_time s))
                in if uSecond_start \<le> mnl_time \<and> mnl_time < 6 * 60 * 60 + uSecond_start then (EPO_DOWNLOAD_RESULT_SUCCESS, s)
                   else (EPO_DOWNLOAD_RESULT_FAIL,
                         s\<lparr>pre_day := 18 * 60 * 60 + mnl_time \<le> uSecond_start,
                           server_not_updated := 24 * 60 * 60 + uSecond_start \<le> mnl_time\<rparr>))))"

definition quarter_names :: "string list" where
  "quarter_names = [''QG_R_1'', ''QG_R_2'', ''QG_R_3'', ''QG_R_4'', ''QG_R_5'']"

definition gps_download_quarter_epo_file_name :: "nat \<Rightarrow> qepo_ctx \<Rightarrow> qepo_ctx" where
  "gps_download_quarter_epo_file_name count s =
     (if (gps_epo_type (repo s) = 1 \<or> gps_epo_type (repo s) = 0) \<and> 1 \<le> count \<and> count \<le> 5
      then s\<lparr>quarter_epo_file_name := quarter_names ! (count - 1) @ ''.DAT'',
             quarter_epo_md_file_name := quarter_names ! (count - 1) @ ''.MD5''\<rparr>
      else s)"

definition gps_mnl_set_gps_time :: "int \<Rightarrow> int \<Rightarrow> int \<Rightarrow> qepo_ctx \<Rightarrow> qepo_ctx" where
  "gps_mnl_set_gps_time w t y s = s\<lparr>gps_time := \<lparr>gt_wn = w, gt_tow = t, gt_sys_time = y\<rparr>\<rparr>"

text \<open>The number of the file, five minutes behind the start of each quarter.\<close>

definition quarter_index :: "qepo_ctx \<Rightarrow> nat" where
  "quarter_index s =
     (let SecofDay = gt_tow (gps_time s) smod 86400;
          index = (if 300 < SecofDay \<and> SecofDay \<le> 21900 then 1
            else if 21900 < SecofDay \<and> SecofDay \<le> 43500 then 2
            else if 43500 < SecofDay \<and> SecofDay \<le> 65100 then 3
            else if 65100 < SecofDay \<and> SecofDay \<le> 85500 then 4
            else if SecofDay \<le> 300 \<or> 85500 < SecofDay then (if server_not_updated s then 4 else 5)
            else 1)
      in if pre_day s then 5 else index)"

definition quarter_epo_download_process :: "epo_world \<Rightarrow> qepo_ctx \<Rightarrow> qepo_ctx" where
  "quarter_epo_download_process w s =
     snd (curl_easy_download_quarter_epo w (gps_download_quarter_epo_file_name (quarter_index s) s))"

section \<open>The download\<close>

text \<open>The loop: attempt \<open>10 - try_time\<close> is checked, and the next one made while tries are left.\<close>

primrec qepo_loop :: "nat \<Rightarrow> (nat \<Rightarrow> epo_world) \<Rightarrow> qepo_ctx \<Rightarrow> int \<times> qepo_ctx" where
  "qepo_loop 0 ws s = is_quarter_epo_valid (ws 10) s"
| "qepo_loop (Suc try_time) ws s =
     (let (qepo_valid, s) = is_quarter_epo_valid (ws (10 - Suc try_time)) s
      in if qepo_valid = EPO_DOWNLOAD_RESULT_FAIL \<and> net_connected (ws (10 - Suc try_time))
         then qepo_loop try_time ws (quarter_epo_download_process (ws (10 - try_time)) s)
         else (qepo_valid, s))"

definition qepo_file_update_impl :: "(nat \<Rightarrow> epo_world) \<Rightarrow> qepo_ctx \<Rightarrow> int \<times> qepo_ctx" where
  "qepo_file_update_impl ws s =
     (let (qepo_valid, s) = qepo_loop 10 ws (quarter_epo_download_process (ws 0) s)
      in (qepo_valid, if server_not_updated s then s\<lparr>Qepo_res := CURLE_RECV_ERROR\<rparr> else s))"

text \<open>
  What the engine is told; \<open>file_update\<close> is the engine's answer to the request to take the file. The first value is the
  status handed over.
\<close>

definition qepo_update_quarter_epo_file :: "bool \<Rightarrow> int \<Rightarrow> qepo_ctx \<Rightarrow> int \<times> qepo_ctx" where
  "qepo_update_quarter_epo_file file_update qepo_valid s =
     (if qepo_valid = EPO_DOWNLOAD_RESULT_SUCCESS
      then if file_update then (MTK_QEPO_RSP_UPDATE_SUCCESS, s\<lparr>repo := unlink QEPO_UPDATE_HAL (repo s)\<rparr>)
           else (MTK_QEPO_RSP_UPDATE_FAIL, s)
      else if 0 < Qepo_res s then (MTK_QEPO_RSP_DOWNLOAD_FAIL, s) else (Qepo_res s, s))"

definition mnld_qepo_download :: "(nat \<Rightarrow> epo_world) \<Rightarrow> qepo_ctx \<Rightarrow> (int \<times> qepo_ctx) option" where
  "mnld_qepo_download ws s = do {
     let (ret, s) = qepo_file_update_impl ws (s\<lparr>qepo_download_finished := False\<rparr>);
     let s = s\<lparr>qepo_download_finished := True\<rparr>;
     (r, k) \<leftarrow> mnld_qepo_download_done (word_of_int ret) (qkern s);
     Some (ret, s\<lparr>qkern := k\<rparr>) }"

definition qepo_event_hdlr :: "rx_ans list \<Rightarrow> (nat \<Rightarrow> epo_world) \<Rightarrow> qepo_ctx \<Rightarrow> (int \<times> qepo_ctx) option" where
  "qepo_event_hdlr rx ws s =
     (let (read_len, mem) = safe_recvfrom rx (replicate MNLD_INTERNAL_BUFF_SIZE 0)
      in if read_len \<le> 0 then Some (-1, s)
         else do {
           (cmd, b) \<leftarrow> get_int (cursor mem);
           (if cmd = MAIN2QEPO_EVENT_START then do { (ret, s) \<leftarrow> mnld_qepo_download ws s; Some (0, s) } else Some (-1, s)) })"

definition qepo_downloader_start :: "os \<Rightarrow> (int \<times> os) option" where
  "qepo_downloader_start k = do {
     b \<leftarrow> put_int MAIN2QEPO_EVENT_START (fresh MNLD_INTERNAL_BUFF_SIZE);
     safe_sendto MNLD_QEPO_DOWNLOAD_SOCKET (buff b) (offset b) k }"

section \<open>The file that was quarter_fits\<close>

text \<open>The quarter file covers the time the engine gave.\<close>

definition covers :: "zone \<Rightarrow> qepo_gps_time \<Rightarrow> byte list \<Rightarrow> bool" where
  "covers z t file =
     (case mtk_gps_sys_epo_period_start z file of
        None \<Rightarrow> False
      | Some start \<Rightarrow> start \<le> GpsToUtcTime z (gt_wn t) (gt_tow t) \<and> GpsToUtcTime z (gt_wn t) (gt_tow t) < start + 6 * 60 * 60)"

lemma quarter_md_frame:
  "fetch_quarter_md w s = Some (key, s') \<Longrightarrow> gps_time s' = gps_time s \<and> qkern s' = qkern s \<and> Qepo_res s' = Qepo_res s"
  by (auto simp: fetch_quarter_md_def Let_def split: option.splits prod.splits if_splits)

lemma process_frame [simp]:
  "gps_time (quarter_epo_download_process w s) = gps_time s" "qkern (quarter_epo_download_process w s) = qkern s"
  by (auto simp: quarter_epo_download_process_def curl_easy_download_quarter_epo_def gps_download_quarter_epo_file_name_def Let_def
      split: option.split prod.split dest: quarter_md_frame)

text \<open>The result of a download that took attempts up to \<open>n\<close>.\<close>

definition quarter_fits :: "(nat \<Rightarrow> epo_world) \<Rightarrow> nat \<Rightarrow> qepo_ctx \<Rightarrow> bool" where
  "quarter_fits ws n s =
     (case open_read (ws n) QUARTER_FILE_HAL (repo s) of None \<Rightarrow> False | Some file \<Rightarrow> covers (ew_zone (ws n)) (gps_time s) file)"

lemma valid_quarter_fits:
  assumes "is_quarter_epo_valid (ws n) s = (r, s')"
  shows "r = (if quarter_fits ws n s' then EPO_DOWNLOAD_RESULT_SUCCESS else EPO_DOWNLOAD_RESULT_FAIL) \<and> gps_time s' = gps_time s \<and> qkern s' = qkern s"
  using assms
  by (auto simp: is_quarter_epo_valid_def quarter_fits_def covers_def Let_def EPO_DOWNLOAD_RESULT_SUCCESS_def EPO_DOWNLOAD_RESULT_FAIL_def
      split: option.splits if_splits)

lemma qepo_attempts:
  assumes "qepo_loop t ws s = (r, s')" "t \<le> 10"
  shows "\<exists>n. 10 - t \<le> n \<and> n \<le> 10 \<and> r = (if quarter_fits ws n s' then EPO_DOWNLOAD_RESULT_SUCCESS else EPO_DOWNLOAD_RESULT_FAIL)
    \<and> (\<forall>m. 10 - t \<le> m \<and> m < n \<longrightarrow> net_connected (ws m)) \<and> (quarter_fits ws n s' \<or> n = 10 \<or> \<not> net_connected (ws n))
    \<and> gps_time s' = gps_time s \<and> qkern s' = qkern s"
  using assms
proof (induction t arbitrary: s)
  case 0
  then show ?case using valid_quarter_fits [of ws 10 s r s'] by (intro exI [of _ 10]) auto
next
  case (Suc t)
  obtain v s1 where v: "is_quarter_epo_valid (ws (10 - Suc t)) s = (v, s1)" by (cases "is_quarter_epo_valid (ws (10 - Suc t)) s")
  note a = valid_quarter_fits [of ws "10 - Suc t", OF v]
  show ?case
  proof (cases "v = EPO_DOWNLOAD_RESULT_FAIL \<and> net_connected (ws (10 - Suc t))")
    case True
    with Suc.prems v have "qepo_loop t ws (quarter_epo_download_process (ws (10 - t)) s1) = (r, s')" by simp
    from Suc.IH [OF this] Suc.prems(2) obtain n where n: "10 - t \<le> n" "n \<le> 10"
      "r = (if quarter_fits ws n s' then EPO_DOWNLOAD_RESULT_SUCCESS else EPO_DOWNLOAD_RESULT_FAIL)"
      "\<forall>m. 10 - t \<le> m \<and> m < n \<longrightarrow> net_connected (ws m)" "quarter_fits ws n s' \<or> n = 10 \<or> \<not> net_connected (ws n)"
      "gps_time s' = gps_time s1" "qkern s' = qkern s1" by auto
    have "net_connected (ws m)" if "10 - Suc t \<le> m" "m < n" for m
      using that True n(4) Suc.prems(2) by (cases "m = 10 - Suc t") auto
    with n a show ?thesis by (intro exI [of _ n]) auto
  next
    case False
    with Suc.prems v have "r = v" "s' = s1" by auto
    with False a show ?thesis
      by (intro exI [of _ "10 - Suc t"]) (auto simp: EPO_DOWNLOAD_RESULT_SUCCESS_def EPO_DOWNLOAD_RESULT_FAIL_def split: if_splits)
  qed
qed

lemma quarter_download:
  "\<exists>n ret s'. mnld_qepo_download ws s = Some (ret, s') \<and> n \<le> 10
    \<and> ret = (if quarter_fits ws n s' then EPO_DOWNLOAD_RESULT_SUCCESS else EPO_DOWNLOAD_RESULT_FAIL)
    \<and> (\<forall>m. m < n \<longrightarrow> net_connected (ws m)) \<and> (quarter_fits ws n s' \<or> n = 10 \<or> \<not> net_connected (ws n))
    \<and> gps_time s' = gps_time s \<and> qepo_download_finished s'
    \<and> qkern s' = snd (transmit MNLD_MAIN_SOCKET (main_wire (E_qepo_done (word_of_int ret))) (qkern s))"
proof -
  let ?s = "quarter_epo_download_process (ws 0) (s\<lparr>qepo_download_finished := False\<rparr>)"
  obtain r s1 where l: "qepo_loop 10 ws ?s = (r, s1)" by (cases "qepo_loop 10 ws ?s")
  from qepo_attempts [OF l] obtain n where n: "n \<le> 10" "r = (if quarter_fits ws n s1 then EPO_DOWNLOAD_RESULT_SUCCESS else EPO_DOWNLOAD_RESULT_FAIL)"
    "\<forall>m. m < n \<longrightarrow> net_connected (ws m)" "quarter_fits ws n s1 \<or> n = 10 \<or> \<not> net_connected (ws n)"
    "gps_time s1 = gps_time s" "qkern s1 = qkern s" by auto
  define s2 where "s2 = (if server_not_updated s1 then s1\<lparr>Qepo_res := CURLE_RECV_ERROR\<rparr> else s1)"
  have s2: "qkern s2 = qkern s" "gps_time s2 = gps_time s" "\<And>k. quarter_fits ws n (s2\<lparr>qepo_download_finished := True, qkern := k\<rparr>) = quarter_fits ws n s1"
    using n(5,6) by (simp_all add: s2_def quarter_fits_def split: option.split)
  have "qepo_file_update_impl ws (s\<lparr>qepo_download_finished := False\<rparr>) = (r, s2)"
    by (simp add: qepo_file_update_impl_def l s2_def)
  moreover define k2 where "k2 = snd (transmit MNLD_MAIN_SOCKET (main_wire (E_qepo_done (word_of_int r))) (qkern s))"
  moreover have "mnld_qepo_download_done (word_of_int r) k = Some (transmit MNLD_MAIN_SOCKET (main_wire (E_qepo_done (word_of_int r))) k)" for k
    using main_send_transmit [of "E_qepo_done (word_of_int r)" k] by simp
  ultimately have "mnld_qepo_download ws s = Some (r, s2\<lparr>qepo_download_finished := True, qkern := k2\<rparr>)"
    using s2(1) by (simp add: mnld_qepo_download_def split_beta)
  with n s2 k2_def show ?thesis
    by (intro exI [of _ n] exI [of _ r] exI [of _ "s2\<lparr>qepo_download_finished := True, qkern := k2\<rparr>"]) (simp del: main_wire.simps)
qed

text \<open>A download of which nothing came, for want of a URL: the engine is told that the update succeeded.\<close>

lemma no_url:
  assumes "\<And>n f k. getEpoUrl (ws n) f k = None" "efs (repo s) QUARTER_FILE_HAL = None"
  shows "\<exists>f g. quarter_epo_download_process (ws n) s = s\<lparr>quarter_epo_file_name := f, quarter_epo_md_file_name := g\<rparr>"
  using assms(1)
  by (cases s) (auto simp: quarter_epo_download_process_def curl_easy_download_quarter_epo_def fetch_quarter_md_def
      gps_download_quarter_epo_file_name_def Let_def)

lemma failed_download_status:
  assumes "\<And>n f k. getEpoUrl (ws n) f k = None" "efs (repo s) QUARTER_FILE_HAL = None" "Qepo_res s = 0" "\<not> server_not_updated s"
  shows "\<exists>s'. qepo_file_update_impl ws s = (EPO_DOWNLOAD_RESULT_FAIL, s')
    \<and> qepo_update_quarter_epo_file file_update EPO_DOWNLOAD_RESULT_FAIL s' = (MTK_QEPO_RSP_UPDATE_SUCCESS, s')"
proof -
  have "\<exists>s'. qepo_loop t ws s = (EPO_DOWNLOAD_RESULT_FAIL, s') \<and> Qepo_res s' = 0 \<and> \<not> server_not_updated s'"
    if "efs (repo s) QUARTER_FILE_HAL = None" "Qepo_res s = 0" "\<not> server_not_updated s" for t s
    using that
  proof (induction t arbitrary: s)
    case 0
    then show ?case by (simp add: is_quarter_epo_valid_def open_read_def)
  next
    case (Suc t)
    from no_url [of ws s, OF assms(1) Suc.prems(1)] obtain f g where
      p: "quarter_epo_download_process (ws (10 - t)) s = s\<lparr>quarter_epo_file_name := f, quarter_epo_md_file_name := g\<rparr>" by blast
    with Suc show ?case by (simp add: is_quarter_epo_valid_def open_read_def)
  qed
  moreover from no_url [of ws s, OF assms(1,2)] obtain f g where
    "quarter_epo_download_process (ws 0) s = s\<lparr>quarter_epo_file_name := f, quarter_epo_md_file_name := g\<rparr>" by blast
  ultimately have "\<exists>s'. qepo_loop 10 ws (quarter_epo_download_process (ws 0) s) = (EPO_DOWNLOAD_RESULT_FAIL, s') \<and> Qepo_res s' = 0 \<and> \<not> server_not_updated s'"
    using assms(2-4) by simp
  then show ?thesis
    by (auto simp: qepo_file_update_impl_def qepo_update_quarter_epo_file_def MTK_QEPO_RSP_UPDATE_SUCCESS_def
        EPO_DOWNLOAD_RESULT_SUCCESS_def EPO_DOWNLOAD_RESULT_FAIL_def)
qed

section \<open>Requests for the downloads\<close>

text \<open>
  Each of the two sockets carries one message, the request to start: the locale of the message endpoints applies to the start
  functions and the handlers of both downloaders.
\<close>

definition start_wire :: "unit \<Rightarrow> byte list" where "start_wire _ = enc_int MAIN2QEPO_EVENT_START"

lemma start_received:
  assumes "recvfrom_loop rx 10 = Some (start_wire m)"
  shows "safe_recvfrom rx (replicate MNLD_INTERNAL_BUFF_SIZE 0) = (4, start_wire m @ replicate (MNLD_INTERNAL_BUFF_SIZE - 4) 0)"
    "get_int (cursor (start_wire m @ replicate (MNLD_INTERNAL_BUFF_SIZE - 4) 0)) = Some (0, rd (start_wire m) (replicate (MNLD_INTERNAL_BUFF_SIZE - 4) 0))"
proof -
  have l: "length (start_wire m) = 4" by (simp add: start_wire_def enc_int_def)
  with assms show "safe_recvfrom rx (replicate MNLD_INTERNAL_BUFF_SIZE 0) = (4, start_wire m @ replicate (MNLD_INTERNAL_BUFF_SIZE - 4) 0)"
    using safe_recvfrom_fit [of rx "start_wire m" MNLD_INTERNAL_BUFF_SIZE] by (simp add: MNLD_INTERNAL_BUFF_SIZE_def del: replicate.simps)
  show "get_int (cursor (start_wire m @ replicate (MNLD_INTERNAL_BUFF_SIZE - 4) 0)) = Some (0, rd (start_wire m) (replicate (MNLD_INTERNAL_BUFF_SIZE - 4) 0))"
    by (simp add: cursor_rd start_wire_def wire_get MAIN2QEPO_EVENT_START_def del: replicate.simps)
qed

interpretation qp: channel MNLD_QEPO_DOWNLOAD_SOCKET start_wire "\<lambda>_. True" "\<lambda>_. True" "\<lambda>_. 4" "\<lambda>_. qepo_downloader_start"
    "\<lambda>rx. qepo_event_hdlr rx ws" "\<lambda>_ s. map_option (\<lambda>(ret, s). (0, s)) (mnld_qepo_download ws s)" for ws
proof unfold_locales
  show "qepo_downloader_start k = Some (if fst (post MNLD_QEPO_DOWNLOAD_SOCKET (start_wire m) k) then 4 else - 1,
      sent MNLD_QEPO_DOWNLOAD_SOCKET (start_wire m) k)" for m k
    by (simp add: qepo_downloader_start_def fresh_wr wire_put MNLD_INTERNAL_BUFF_SIZE_def MNLD_QEPO_DOWNLOAD_SOCKET_def start_wire_def
        transmit_alt)
  show "qepo_event_hdlr rx ws s = map_option (\<lambda>(ret, s). (0, s)) (mnld_qepo_download ws s)"
    if "recvfrom_loop rx 10 = Some (start_wire m)" for m rx s
    using start_received [OF that]
    by (simp add: qepo_event_hdlr_def MAIN2QEPO_EVENT_START_def del: replicate.simps split: option.split bind_splits)
qed simp

interpretation ep: channel MNLD_EPO_DOWNLOAD_SOCKET start_wire "\<lambda>_. True" "\<lambda>_. True" "\<lambda>_. 4" "\<lambda>_. epo_downloader_start"
    "\<lambda>rx. epo_event_hdlr rx ws" "\<lambda>_ s. map_option (\<lambda>(ret, s). (0, s)) (mnld_epo_download ws s)" for ws
proof unfold_locales
  show "epo_downloader_start k = Some (if fst (post MNLD_EPO_DOWNLOAD_SOCKET (start_wire m) k) then 4 else - 1,
      sent MNLD_EPO_DOWNLOAD_SOCKET (start_wire m) k)" for m k
    by (simp add: epo_start_transmit epo_wire_def start_wire_def MAIN2QEPO_EVENT_START_def transmit_alt)
  show "epo_event_hdlr rx ws s = map_option (\<lambda>(ret, s). (0, s)) (mnld_epo_download ws s)"
    if "recvfrom_loop rx 10 = Some (start_wire m)" for m rx s
    using start_received [OF that]
    by (simp add: epo_event_hdlr_def del: replicate.simps split: option.split bind_splits)
qed simp

end
