(* ===== verification/Samples.thy ===== *)
theory Samples
  imports Hal_Link Nmea_Reports At_Facts Epo_Facts Qepo
begin

text \<open>
  Concrete configurations and states at which the theorems of the development are instantiated: a daemon after
  start-up, and the daemon with the first client starting; a HAL that is running; a download of prediction data.
\<close>

section \<open>Concrete inputs\<close>

definition quiet_kernel :: os where
  "quiet_kernel = \<lparr>answers = [], slog = [], timers = (\<lambda>_. None)\<rparr>"

definition demo_env :: mnld_env where
  "demo_env = \<lparr>start_time_out = 30000, nmea_data_time_out = 5000, cmcc_log_enabled = False, clock_now = Some (5, 0),
     epo_file_invalid = True, epo_download_enabled = True, epo_wifi_trigger = False, chip_id = ''0x6755'', stack_byte = 0\<rparr>"

definition demo_fds :: mnld_fds where
  "demo_fds = \<lparr>fd_hal = 3, fd_agps = 4, fd_flp = 5, fd_flp_test = 6, fd_at_cmd = 7, fd_int = 8, fd_mtklogger = 9,
     fd_mtklogger_client = 0\<rparr>"

definition demo_ctl :: gps_ctl where
  "demo_ctl = \<lparr>assist_data_bit_map = 0, dsp_fd = -1, g_gpsdbglogThreadExit = True, ctl_calls = [], ctl_kern = quiet_kernel\<rparr>"

definition demo_main :: mnld where
  "demo_main = snd (the (mnld_init demo_fds 1 2 3 4 (mnld_zero quiet_kernel)))"

definition demo_daemon :: daemon where
  "demo_daemon = \<lparr>main = demo_main, ctl = demo_ctl, main_read = 0, ctl_read = 0, notify_read = 0\<rparr>"

definition demo_nmea_env :: nmea_env where
  "demo_nmea_env = \<lparr>ne_zone = \<lparr>std_offset = 0, dst_save = 3600, dst_on = (\<lambda>_. False)\<rparr>,
     ne_at = \<lparr>at_now = 0, malloc_ok = (\<lambda>_. True), at_mnld = demo_env, at_junk = (\<lambda>_. 0)\<rparr>\<rparr>"

definition demo_nmea :: nmea_ctx where
  "demo_nmea = \<lparr>rdr = nmea_reader_init demo_nmea_env, gps_nmea_end_tag = False,
     gnss_sv_used_in_fix = replicate 450 (0, False), tst = at_ctx_init demo_main\<rparr>"

definition demo_gps_h :: gps_h where
  "demo_gps_h = \<lparr>sizeof_GpsCallbacks = 88, requestor_id_len = 256, ni_text_len = 2048, gnss_sv_list_len = 64,
     gps_measurements_len = 32, gnss_measurements_len = 64, ref_loc_gsm = 1, ref_loc_umts = 2,
     interface_names = [''agps'', ''gps-ni'', ''agps_ril'', ''gps_measurement'', ''gps_navigation_message'']\<rparr>"

definition demo_hal_env :: hal_env where
  "demo_hal_env = \<lparr>gh = demo_gps_h, hal_abi = LP64, hal_junk = (\<lambda>_. 0), bind_fd = 5, epoll_fd = 6, epoll_add_ok = True,
     thread_ok = True\<rparr>"

definition demo_hal :: hal where
  "demo_hal = \<lparr>ctx = g_gpshal_ctx, hst = hal_statics_init, hker = quiet_kernel, fw = []\<rparr>"

definition demo_running_hal :: hal where
  "demo_running_hal = demo_hal\<lparr>ctx := g_gpshal_ctx\<lparr>fd_mnl2hal := 5, gps_state_intent := GPSHAL_STATE_START,
     gpshal_context_t.gps_state := GPSHAL_STATE_START, gps_cbs := Some 88, agps_cbs := Some 1, gpsni_cbs := Some 1, agpsril_cbs := Some 1,
     meas_cbs := Some 1, navimsg_cbs := Some 1\<rparr>\<rparr>"

definition demo_zone :: zone where
  "demo_zone = \<lparr>std_offset = 0, dst_save = 3600, dst_on = (\<lambda>_. False)\<rparr>"

text \<open>A piece of one record, with its hour stamp, and a round that receives it.\<close>

definition demo_piece :: "32 word \<Rightarrow> byte list" where
  "demo_piece hour = enc_int hour @ replicate 68 0"

definition demo_epo_world :: "byte list \<Rightarrow> epo_world" where
  "demo_epo_world d = \<lparr>ew_zone = demo_zone, ew_now = 1141560000, getEpoUrl = (\<lambda>f k. Some []), 
     md_transfer = \<lparr>curl_ready = True, file_opens = True, curl_res = 0, received = []\<rparr>,
     data_transfer = \<lparr>curl_ready = True, file_opens = True, curl_res = 0, received = d\<rparr>, 
     can_open = (\<lambda>_. True), qepo_idle = True, gps_started = True, wifi_connected = False, net_connected = True, retry_alarm = False\<rparr>"

definition demo_epo :: epo_ctx where
  "demo_epo = \<lparr>epo_data_updated = False, gps_epo_file_count = 0, gps_epo_file_name = [], gps_epo_md_file_name = [], gps_epo_type = 1,
     epo_download_failed = False, epo_download_retry = True, counter = 1, delay_time = 0, file_retrying = 50, retry_time = 0,
     retry_download_timer = 5, conf = \<lparr>gps_epo_download_days = 6, gps_epo_enable = 1, gps_epo_wifi_trigger = 1\<rparr>,
     efs = (\<lambda>_. None), ekern = quiet_kernel\<rparr>"

definition demo_qepo :: qepo_ctx where
  "demo_qepo = \<lparr>quarter_epo_file_name = [], quarter_epo_md_file_name = [], gps_time = \<lparr>gt_wn = 1878, gt_tow = 259200, gt_sys_time = 0\<rparr>,
     qepo_download_finished = True, pre_day = False, server_not_updated = False, Qepo_res = 0, qcounter = 1, repo = demo_epo,
     qkern = quiet_kernel\<rparr>"

lemma quiet_kernel_simps [simp]:
  "answers quiet_kernel = []" "sends quiet_kernel = []" "timers quiet_kernel = (\<lambda>_. None)" "inbox p quiet_kernel = []"
  by (simp_all add: quiet_kernel_def sends_def inbox_def delivered_def)

lemma demo_init: "mnld_init demo_fds 1 2 3 4 (mnld_zero quiet_kernel) = Some (0, demo_main)"
proof -
  have "\<exists>s. mnld_init demo_fds 1 2 3 4 (mnld_zero quiet_kernel) = Some (0, s)"
    by (simp add: mnld_init_def demo_fds_def Let_def ksend_fixed del: emits_simps)
  then show ?thesis by (auto simp: demo_main_def)
qed

lemma demo_reachable: "reachable demo_daemon"
  unfolding demo_daemon_def by (rule reachable.start [OF demo_init]) (simp_all add: demo_ctl_def)

lemma demo_main_state: "state_of demo_main = MNLD_GPS_STATE_IDLE" "\<not> used demo_main c"
  "delete_aiding_flag (gps demo_main) = 0" "\<not> wants_open demo_main c" "\<not> wants_close demo_main c" "\<not> wants_reset demo_main c"
proof -
  from mnld_init_eq [OF demo_init] obtain f where
    "demo_main = emits [to_hal M_mnld_reboot, to_agps G_mnl_reboot, to_flp flp_reboot_msg]
     ((mnld_zero quiet_kernel)\<lparr>fds := f, gps := (gps (mnld_zero quiet_kernel))\<lparr>timer_start := 1, timer_stop := 2,
        timer_reset := 3, timer_nmea_monitor := 4\<rparr>\<rparr>)" by blast
  then have m: "gps demo_main = (gps (mnld_zero quiet_kernel))\<lparr>timer_start := 1, timer_stop := 2, timer_reset := 3,
        timer_nmea_monitor := 4\<rparr>"
    by (elim ssubst) (simp del: emits_simps)
  show "state_of demo_main = MNLD_GPS_STATE_IDLE" "\<not> used demo_main c" "delete_aiding_flag (gps demo_main) = 0"
    "\<not> wants_open demo_main c" "\<not> wants_close demo_main c" "\<not> wants_reset demo_main c"
    unfolding m by (simp_all add: mnld_zero_def)
qed

lemma demo_started: "\<exists>d. reachable d \<and> state_of (main d) = MNLD_GPS_STATE_STARTING \<and> used (main d) HAL"
proof -
  have adm: "admissible (Hal_says H_gps_start)"
    by (simp add: h2m_fits_def h2m_head_def HAL_MNL_BUFF_SIZE_def relay_fits_def)
  then have "h2m_fits H_gps_start" by simp
  from sys_step_inv [OF reachable_inv [OF demo_reachable] adm, of demo_env "\<lambda>_. 0" "\<lambda>_. 0"] obtain d where
    d: "sys_step demo_env (\<lambda>_. 0) (\<lambda>_. 0) (Hal_says H_gps_start) demo_daemon = Some d" by blast
  then obtain s where s: "hal_gps_start demo_env demo_main = Some s" "d = demo_daemon\<lparr>main := s\<rparr>"
    using \<open>h2m_fits H_gps_start\<close>
    by (auto simp: hal2mnl_hdlr_refines g_hal2mnl_interface_def demo_daemon_def simp del: h2m_wire.simps)
  with u_hal.start_state [OF s(1)] reachable.step [OF demo_reachable adm d] demo_main_state show ?thesis by auto
qed

lemma demo_no_test: "no_test (tst demo_nmea)"
  by (simp add: demo_nmea_def at_ctx_init_def no_test_def)

lemma demo_main_inv: "fsm_inv 0 [] demo_main"
  by (rule mnld_init_inv [OF demo_init]) simp_all

lemma demo_test_good: "at_good 0 [] (at_ctx_init demo_main)"
  using demo_main_inv fresh_results [of "at_ctx_init demo_main"]
  by (simp add: at_good_def at_inv_def printable_def at_ctx_init_def)

lemma demo_sane: "sane_daemon demo_main"
  using demo_main_inv by (auto simp: sane_daemon_def)

lemma demo_registered: "registered (ctx demo_running_hal)"
  by (simp add: registered_def demo_running_hal_def)

lemma demo_restart: "sound_event demo_hal_env (Restart demo_fds 1 2 3 4 quiet_kernel)"
  by (simp add: demo_fds_def quiet_kernel_def)

lemma demo_secs: "gps_secs (demo_piece h) = (h AND 0x00FFFFFF) * 3600" "length (demo_piece h) = MTK_EPO_ONE_SV_SIZE"
  by (simp_all add: gps_secs_def demo_piece_def field_int_enc [where pre = "[]"] MTK_EPO_ONE_SV_SIZE_def)

lemma demo_utc:
  assumes "uint s < 1800000000"
  shows "secs_to_utc demo_zone s = gps_epoch + uint s"
proof -
  have "0 \<le> uint s div 604800" "uint s div 604800 * 7 + uint s mod 604800 div 86400 + 5 < 2 ^ 32"
  proof -
    define u where "u = uint s"
    have "0 \<le> u" "u < 1800000000" using assms by (simp_all add: u_def)
    then have "0 \<le> u div 604800" "u div 604800 \<le> 3000" "u mod 604800 div 86400 \<le> 7" by simp_all
    then show "0 \<le> uint s div 604800" "uint s div 604800 * 7 + uint s mod 604800 div 86400 + 5 < 2 ^ 32" unfolding u_def by simp_all
  qed
  moreover have "604800 * (uint s div 604800) + uint s mod 604800 = uint s" by simp
  ultimately show ?thesis
    using gps_to_utc [of "uint s div 604800" "uint s mod 604800" demo_zone] assms
    by (simp add: secs_to_utc_def mktime_def demo_zone_def Let_def gps_epoch_def)
qed

lemma demo_follows: "follows demo_zone (demo_piece 315576) (demo_piece 315582)"
  by (simp add: follows_def mtk_gps_sys_epo_period_start_def last_record_end_def demo_secs demo_utc)

end
