(* ===== verification/Wire_Records.thy ===== *)
theory Wire_Records
  imports Data_Coder
begin

text \<open>
  Whole messages over the coder of \<open>data_coder.c\<close>: a message is a list of fields written one after the
  other. The field kinds are gathered in one datatype, which again meets the codec contract, and lists
  of fields inherit the exact size condition and the round trip.
\<close>

section \<open>Fields\<close>

datatype wire_field =
    W_byte byte | W_short i16 | W_int i32 | W_long i64 | W_float f32 | W_double f64 | W_string cstr | W_block "byte list"

datatype wire_kind = K_byte | K_short | K_int | K_long | K_float | K_double | K_string | K_block nat

primrec kind_of :: "wire_field \<Rightarrow> wire_kind" where
  "kind_of (W_byte x) = K_byte" | "kind_of (W_short x) = K_short" | "kind_of (W_int x) = K_int"
| "kind_of (W_long x) = K_long" | "kind_of (W_float x) = K_float" | "kind_of (W_double x) = K_double"
| "kind_of (W_string x) = K_string" | "kind_of (W_block x) = K_block (length x)"

primrec put_field :: "wire_field \<Rightarrow> cbuf \<Rightarrow> cbuf option" where
  "put_field (W_byte x) = put_byte x" | "put_field (W_short x) = put_short x" | "put_field (W_int x) = put_int x"
| "put_field (W_long x) = put_long x" | "put_field (W_float x) = put_float x" | "put_field (W_double x) = put_double x"
| "put_field (W_string x) = put_string x" | "put_field (W_block x) = put_block x"

primrec get_field :: "wire_kind \<Rightarrow> cbuf \<Rightarrow> (wire_field \<times> cbuf) option" where
  "get_field K_byte b = map_option (apfst W_byte) (get_byte b)"
| "get_field K_short b = map_option (apfst W_short) (get_short b)"
| "get_field K_int b = map_option (apfst W_int) (get_int b)"
| "get_field K_long b = map_option (apfst W_long) (get_long b)"
| "get_field K_float b = map_option (apfst W_float) (get_float b)"
| "get_field K_double b = map_option (apfst W_double) (get_double b)"
| "get_field K_string b = map_option (apfst W_string) (get_cstr b)"
| "get_field (K_block n) b = map_option (apfst W_block) (get_block (replicate n 0) b)"

primrec enc_field :: "wire_field \<Rightarrow> byte list" where
  "enc_field (W_byte x) = enc_byte x" | "enc_field (W_short x) = enc_short x" | "enc_field (W_int x) = enc_int x"
| "enc_field (W_long x) = enc_long x" | "enc_field (W_float x) = enc_int x" | "enc_field (W_double x) = enc_long x"
| "enc_field (W_string x) = enc_string x" | "enc_field (W_block x) = enc_binary x"

fun ok_field :: "wire_field \<Rightarrow> bool" where
  "ok_field (W_string x) = ok_string x"
| "ok_field (W_block x) = (length x < 2 ^ 31)"
| "ok_field _ = True"

lemma get_field_rd:
  "ok_field f \<Longrightarrow> get_field (kind_of f) (rd pre (enc_field f @ rest)) = Some (f, rd (pre @ enc_field f) rest)"
  by (cases f)
    (simp_all add: cod_byte.get_rd cod_short.get_rd cod_int.get_rd cod_long.get_rd cod_float.get_rd cod_double.get_rd
      cod_string.get_rd cod_block.get_rd)

lemma put_field_iff:
  assumes "ok_field f" "length bs \<le> n"
  shows "put_field f (wr n bs) = (if length bs + length (enc_field f) \<le> n then Some (wr n (bs @ enc_field f)) else None)"
proof (cases f)
  case (W_block x)
  with assms show ?thesis using cod_block.put_iff [of x x bs n] by simp
qed (use assms in \<open>simp_all add: cod_byte.put_iff cod_short.put_iff cod_int.put_iff cod_long.put_iff cod_float.put_iff
        cod_double.put_iff cod_string.put_iff\<close>)

interpretation cod_field: wire_codec put_field "get_field K" enc_field "\<lambda>f. ok_field f \<and> kind_of f = K" for K
  by unfold_locales (auto simp: put_field_iff get_field_rd)

text \<open>A message: its fields one after the other.\<close>

primrec put_fields :: "wire_field list \<Rightarrow> cbuf \<Rightarrow> cbuf option" where
  "put_fields [] b = Some b"
| "put_fields (f # fs) b = do { b \<leftarrow> put_field f b; put_fields fs b }"

primrec get_fields :: "wire_kind list \<Rightarrow> cbuf \<Rightarrow> (wire_field list \<times> cbuf) option" where
  "get_fields [] b = Some ([], b)"
| "get_fields (k # ks) b = do { (f, b) \<leftarrow> get_field k b; (fs, b) \<leftarrow> get_fields ks b; Some (f # fs, b) }"

definition enc_fields :: "wire_field list \<Rightarrow> byte list" where
  "enc_fields fs = concat (map enc_field fs)"

lemma enc_fields_simps [simp]: "enc_fields [] = []" "enc_fields (f # fs) = enc_field f @ enc_fields fs"
  by (simp_all add: enc_fields_def)

lemma put_fields_iff:
  assumes "list_all ok_field fs" "length bs \<le> n"
  shows "put_fields fs (wr n bs) = (if length bs + length (enc_fields fs) \<le> n then Some (wr n (bs @ enc_fields fs)) else None)"
  using assms by (induction fs arbitrary: bs) (auto simp: put_field_iff)

lemma get_fields_rd:
  assumes "list_all ok_field fs"
  shows "get_fields (map kind_of fs) (rd pre (enc_fields fs @ rest)) = Some (fs, rd (pre @ enc_fields fs) rest)"
  using assms by (induction fs arbitrary: pre) (auto simp: get_field_rd)

end
