(* ===== verification/Spec2Isabelle.thy ===== *)
theory Spec2Isabelle
  imports Samples Wire_Records
begin

text \<open>
  Verification of the MediaTek GPS stack of the device tree, the sources under \<open>src/gps\<close>.

  \<^bold>\<open>The program.\<close> The Android framework loads the GPS HAL (\<open>gps_hal\<close>), a library that talks over local datagram sockets to
  the daemon \<open>mnld\<close> (\<open>mtk_mnld\<close>). The daemon owns the GPS engine (the closed library libmnl), which is shared by six clients:
  the HAL, the assisted-GPS daemon, the fused location service with its test socket and its offload mode, and a factory tester
  that sends AT commands. The main thread holds a state machine (idle, starting, started, stopping) with a record per client;
  a control thread starts, stops and resets the engine and answers over an internal socket. The text that the engine produces
  (NMEA sentences) is parsed into locations and satellite reports for the HAL. Two further threads download prediction data.

  \<^bold>\<open>Conventions.\<close> (\<open>Prelude\<close>) A memory object is the list of its bytes; a function of type \<open>'a option\<close> returns \<open>None\<close> when the
  C code reads or writes outside an object, follows a null pointer or runs into its deliberate crash. State is a record
  that is passed on; integers have the width of the source wherever they are computed with; floating-point numbers are their
  bit patterns, and are computed with in \<open>Ieee754\<close> and \<open>Float32\<close>. The kernel is the record \<open>os\<close> of \<open>Lbs_Utility\<close>: its
  answers to \<open>socket\<close> and \<open>sendto\<close> are an arbitrary list, and what was sent is logged. What a local variable holds before it is
  written is an argument called \<open>junk\<close>.

  \<^bold>\<open>Messages.\<close>
  \<open>Data_Coder\<close>: \<open>data_coder.c\<close>. \<open>Lbs_Utility\<close>: \<open>mtk_lbs_utility.c\<close> (sockets with retries, timers, clock, text conversions).
  \<open>Hal_Mnl_Common\<close>, \<open>C_Struct\<close>: the structs and commands of \<open>hal_mnl_interface_common.h\<close>, with their layout on both data models.
  \<open>Mnl2Hal_Interface\<close>, \<open>Hal2Mnl_Interface\<close>: the two ends of the HAL sockets, one definition per message, and the handlers.
  \<open>Agps_Common\<close>, \<open>Mnl2Agps_Interface\<close>, \<open>Agps2Mnl_Interface\<close>: the same for the assisted-GPS sockets.
  \<open>Flp_Interface\<close>: \<open>mnl_flp_interface.c\<close> and \<open>mnl_flp_test_interface.c\<close>. \<open>Mnld_Internal\<close>: the messages between the threads.
  The locale \<open>channel\<close> (\<open>Channel\<close>) states what a sender and a handler promise each other; its consequences for whole sessions
  over a socket that may lose messages are proved once. \<open>Hal_Channel\<close>, \<open>Agps_Channel\<close>, \<open>Mnld_Dispatch\<close>, \<open>Gps_Controller\<close> and
  \<open>Qepo\<close> interpret it on the functions of the source (C7 to C12, C18, C19, and the faults C23 to C26).
  \<open>Wire_Records\<close> has the locale of the field codecs.

  \<^bold>\<open>The daemon.\<close> \<open>Mnld\<close>: the state machine of \<open>mnld.c\<close>, one definition per state and per acknowledgement handler.
  \<open>Mnld_Handlers\<close>: the callbacks of all sockets, the internal events, one round of the main loop and the start-up.
  \<open>Gps_Controller\<close>: the control thread of \<open>gps_controller.c\<close>. \<open>Mnld_Fsm\<close>: what each transition does. \<open>Mnld_Invariants\<close>: the invariant
  \<open>fsm_inv\<close> on clients, timers and the log of sent messages, and the locale \<open>gps_user\<close> for what a client sees, interpreted for
  the six clients. \<open>Mnld_Dispatch\<close>: every message keeps the invariant. \<open>Mnld_System\<close>: the threads together, as a step relation
  over the events of the sockets and timers with the queues between the threads, and the states it reaches. C1 to C6
  are invariants of these states; C13 to C16 and C20 to C22 say what single events do.

  \<^bold>\<open>The HAL.\<close> \<open>Gps_Hal\<close>: \<open>gpshal.c\<close>, \<open>gpshal_worker.c\<close>, \<open>gpsinf.c\<close> and \<open>agpsinf.c\<close>; the header of the framework is the record
  \<open>gps_h\<close>. \<open>Hal_Worker\<close>: what the worker thread makes of each message. \<open>Location_Rate\<close>: the thinning of locations.
  \<open>Hal_Link\<close>: the HAL and the daemon together through restarts of the daemon, a specification of what they agree on, and the
  proof that they implement it (C17, C35 to C37).

  \<^bold>\<open>Engine output.\<close> \<open>Nmea_Parser\<close>: \<open>nmea_parser.c\<close>. \<open>Nmea_Facts\<close>: framing and tokens. \<open>Nmea_Coordinates\<close>, \<open>Nmea_Time\<close>: accuracy of the
  coordinates and the time stamps, with \<open>C_Text\<close>, \<open>Ieee754\<close> and \<open>Calendar\<close> for what the C library does. \<open>Nmea_Sentences\<close>,
  \<open>Nmea_Safety\<close>, \<open>Nmea_Reports\<close>: what a burst of sentences reports, and when it faults (C27 to C31). \<open>At_Command\<close>, \<open>At_Facts\<close>: the
  factory test of \<open>mnl_at_interface.c\<close> (C32 to C34).

  \<^bold>\<open>Prediction data.\<close> \<open>Epo_Time\<close>: \<open>GpsToUtcTime\<close> against the calendar (C40). \<open>Config_File\<close>: the configuration files of \<open>epo.c\<close> and
  \<open>mnl_common.c\<close>. \<open>Epo\<close>, \<open>Epo_Facts\<close>: the downloader of \<open>epo.c\<close> (C38, and what happens when it gives up). \<open>Qepo\<close>: \<open>qepo.c\<close> (C39).
  The transfers, the URLs and the files that can be opened are the record \<open>epo_world\<close>, one per round of the loop.

  \<open>Samples\<close> has the concrete states and inputs of the witnesses.

  \<^bold>\<open>Bounds.\<close> No definition needs fuel, except that the download loop of \<open>epo.c\<close> runs over a list of worlds, one per round,
  because the source polls the network without an end: \<open>None\<close> means that it is still running, and C38 gives a list
  that is long enough. The retry budgets (ten for sockets, ten for quarter data) are those of the source.

  \<^bold>\<open>Not modelled.\<close> The engine library and the assisted-GPS agent are closed: their calls are logged or are arguments. The creation
  of sockets and threads and the \<open>epoll\<close> loops are kernel calls; a round of a loop is modelled from the event on. The debug
  logs (\<open>gps_dbg_log.c\<close>, \<open>op01_log.c\<close>), the link to the sensor engine (\<open>mpe.c\<close>), the request to the network location service
  (\<open>mnl2nlps.c\<close>) and \<open>pseudo_mnl.c\<close> write files, call one socket or wrap a library. The branch of the main loop for the logger
  and the set-up of the engine in \<open>gps_controller.c\<close> are left out with them. The other subsystems of the tree (Bluetooth, Wi-Fi,
  sensors, lights, radio, power) share nothing with the GPS stack. Threads interleave at whole messages; the statics of one
  thread are not written by another in the modelled code, except for the flags that the threads exchange.
\<close>

section \<open>The daemon as a whole\<close>



lemma reachable_fsm: "reachable d \<Longrightarrow> \<exists>n. fsm_inv n [] (main d) \<and> queue_inv n d"
  using reachable_inv [of d] by (simp add: sys_inv_def)

text \<open>
  C2. The wake lock is balanced: the requests for the wake lock the daemon has sent to the HAL exceed the
  releases by exactly one while the engine is not idle, and by none while it is idle.
\<close>

theorem wakelock_balance:
  assumes "reachable d"
  shows "hal_count MNL2HAL_REQUEST_WAKELOCK (sends (kern (main d)))
     = hal_count MNL2HAL_RELEASE_WAKELOCK (sends (kern (main d))) + of_bool (state_of (main d) \<noteq> MNLD_GPS_STATE_IDLE)"
  using reachable_fsm [OF assms] by (auto simp: fsm_inv_def wakelocks_held_def)

theorem wakelock_balance_witness:
  "\<exists>d. reachable d \<and> state_of (main d) = MNLD_GPS_STATE_STARTING
     \<and> hal_count MNL2HAL_REQUEST_WAKELOCK (sends (kern (main d)))
        = hal_count MNL2HAL_RELEASE_WAKELOCK (sends (kern (main d))) + 1"
  using demo_started wakelock_balance by force

text \<open>
  C3. The GPS control thread is never asked twice: of the start and stop requests sent to it, the starts
  exceed the stops by one exactly while the engine counts as started, and otherwise they are equal.
\<close>

theorem engine_request_balance:
  assumes "reachable d"
  shows "ctl_count MAIN2GPS_EVENT_START (sends (kern (main d)))
     = ctl_count MAIN2GPS_EVENT_STOP (sends (kern (main d))) + of_bool (mnld_is_gps_started (main d))"
  using reachable_fsm [OF assms] by (auto simp: fsm_inv_def engine_runs_def)

theorem engine_request_balance_witness:
  "\<exists>d. reachable d \<and> ctl_count MAIN2GPS_EVENT_START (sends (kern (main d)))
     = ctl_count MAIN2GPS_EVENT_STOP (sends (kern (main d))) + 1"
  using demo_started engine_request_balance by (force simp: mnld_is_gps_started_def)



text \<open>
  C5. The watchdog timers match the state: the stop timer is armed exactly while stopping, and the start
  timer only while starting, so neither fires in a state that waits for nothing.
\<close>

theorem timers_match_state:
  assumes "reachable d"
  shows "(timers (kern (main d)) (timer_stop (gps (main d))) \<noteq> None) = (state_of (main d) = MNLD_GPS_STATE_STOPPING)
    \<and> (timers (kern (main d)) (timer_start (gps (main d))) \<noteq> None \<longrightarrow> state_of (main d) = MNLD_GPS_STATE_STARTING)"
  using reachable_fsm [OF assms] by (auto simp: fsm_inv_def armed_def)

theorem timers_match_state_witness:
  "\<exists>d. reachable d \<and> timers (kern (main d)) (timer_stop (gps (main d))) = None"
  using demo_started timers_match_state by force

text \<open>
  C6. No acknowledgement is forgotten or sent late: a user who still waits for the open acknowledgement is
  using the engine and it is on its way up (or down, to come up again); one who waits for the close
  acknowledgement is not using it; in the idle state nobody uses the engine or waits for anything.
\<close>

theorem pending_acks:
  assumes "reachable d"
  shows "(wants_open (main d) c \<longrightarrow> used (main d) c
      \<and> state_of (main d) \<in> {MNLD_GPS_STATE_STARTING, MNLD_GPS_STATE_STOPPING})
    \<and> (wants_close (main d) c \<longrightarrow> \<not> used (main d) c \<and> state_of (main d) \<noteq> MNLD_GPS_STATE_IDLE)
    \<and> (state_of (main d) = MNLD_GPS_STATE_IDLE \<longrightarrow> \<not> used (main d) c \<and> \<not> wants_open (main d) c \<and> \<not> wants_close (main d) c)"
  using reachable_fsm [OF assms] by (auto simp: fsm_inv_def)

theorem pending_acks_witness: "\<not> used (main demo_daemon) HAL \<and> \<not> wants_open (main demo_daemon) HAL"
  using pending_acks [OF demo_reachable, of HAL] demo_main_state by (simp add: demo_daemon_def)

section \<open>The message channels\<close>




text \<open>
  C8. Daemon to HAL, end to end: the HAL's handler does exactly what the accepted messages ask for, in
  order, with its location rate limiter and its receive structs included.
\<close>

theorem mnl_to_hal_session:
  assumes "list_all m2h_fits ms" "inbox MTK_MNL2HAL k = []"
  shows "\<exists>rs k'. send_all mnl2hal_send ms k = Some (rs, k') \<and> length rs = length ms
    \<and> run_all (\<lambda>rx (st, s). mnl2hal_hdlr abi junk rx hdlr st s) (map (\<lambda>d. [Datagram d]) (inbox MTK_MNL2HAL k')) (st, s)
       = run_all (m2h_dispatch abi junk hdlr) (accepted ms rs) (st, s)"
  by (rule m2h.session [OF assms(1) _ assms(2)]) (simp add: list_all_iff)

text \<open>A HAL that notes the status values it is told.\<close>

definition status_log :: "i32 list mnl2hal_interface" where
  "status_log =
     \<lparr>m2h_mnld_reboot = None, m2h_location = None, m2h_gps_status = Some (\<lambda>v l. Some (l @ [v])), m2h_gps_sv = None,
      m2h_nmea = None, m2h_gps_capabilities = None, m2h_gps_measurements = None, m2h_gps_navigation = None,
      m2h_gnss_measurements = None, m2h_gnss_navigation = None, m2h_request_wakelock = None,
      m2h_release_wakelock = None, m2h_request_utc_time = None, m2h_request_data_conn = None,
      m2h_release_data_conn = None, m2h_request_ni_notify = None, m2h_request_set_id = None,
      m2h_request_ref_loc = None\<rparr>"

definition status_script :: "mnl2hal_msg list" where
  "status_script = [M_gps_status GPS_STATUS_SESSION_ENGINE_ON, M_gps_status GPS_STATUS_SESSION_BEGIN]"

theorem mnl_to_hal_session_witness:
  "\<exists>rs k'. send_all mnl2hal_send status_script quiet_kernel = Some (rs, k') \<and> length rs = 2
    \<and> run_all (\<lambda>rx (st, s). mnl2hal_hdlr ILP32 (\<lambda>_. 0) rx status_log st s)
        (map (\<lambda>d. [Datagram d]) (inbox MTK_MNL2HAL k')) (hal_statics_init, [])
       = run_all (m2h_dispatch ILP32 (\<lambda>_. 0) status_log) (accepted status_script rs) (hal_statics_init, [])"
proof -
  have "list_all m2h_fits status_script" "length status_script = 2"
    by (simp_all add: status_script_def m2h_fits_def m2h_head_def HAL_MNL_BUFF_SIZE_def)
  with mnl_to_hal_session [of status_script quiet_kernel ILP32 "\<lambda>_. 0" status_log hal_statics_init "[]"]
  show ?thesis by simp
qed

text \<open>
  C9. Assisted-GPS daemon to GPS daemon, end to end.
\<close>

theorem agps_to_mnl_session:
  assumes "list_all a2m_fits ms" "inbox AGPS_TO_MNL k = []"
  shows "\<exists>rs k'. send_all agps2mnl_send ms k = Some (rs, k') \<and> length rs = length ms
    \<and> run_all (\<lambda>rx. ignoring_return (agps2mnl_hdlr junk rx hdlr)) (map (\<lambda>d. [Datagram d]) (inbox AGPS_TO_MNL k')) s
       = run_all (\<lambda>m. ignoring_return (a2m_dispatch hdlr m)) (accepted ms rs) s"
  by (rule a2m.session [OF assms(1) _ assms(2)]) (simp add: list_all_iff)

definition agps_script :: "agps2mnl_msg list" where
  "agps_script = [A_agps_open_gps_req 1, A_agps_reset_gps_req 0xFFFF, A_agps_close_gps_req]"

theorem agps_to_mnl_session_witness:
  "\<exists>rs k'. send_all agps2mnl_send agps_script quiet_kernel = Some (rs, k') \<and> length rs = 3
    \<and> run_all (\<lambda>rx. ignoring_return (agps2mnl_hdlr (\<lambda>_. 0) rx (g_agps2mnl_interface demo_env)))
        (map (\<lambda>d. [Datagram d]) (inbox AGPS_TO_MNL k')) demo_main
       = run_all (\<lambda>m. ignoring_return (a2m_dispatch (g_agps2mnl_interface demo_env) m)) (accepted agps_script rs) demo_main"
proof -
  have "list_all a2m_fits agps_script" "length agps_script = 3"
    by (simp_all add: agps_script_def a2m_fits_def a2m_head_def MNL_AGPS_MAX_BUFF_SIZE_def)
  with agps_to_mnl_session [of agps_script quiet_kernel "\<lambda>_. 0" "g_agps2mnl_interface demo_env" demo_main]
  show ?thesis by simp
qed



text \<open>An assisted-GPS daemon that notes the acknowledgements it is told.\<close>

definition ack_log :: "string list mnl2agps_interface" where
  "ack_log =
     \<lparr>m2a_mnl_reboot = None, m2a_open_gps_done = Some (\<lambda>l. Some (l @ [''open''])),
      m2a_close_gps_done = Some (\<lambda>l. Some (l @ [''close''])), m2a_reset_gps_done = None, m2a_gps_init = None,
      m2a_gps_cleanup = None, m2a_set_server = None, m2a_delete_aiding_data = None, m2a_gps_open = None,
      m2a_gps_close = None, m2a_data_conn_open = None, m2a_data_conn_open_ip_type = None,
      m2a_install_certificates = None, m2a_revoke_certificates = None, m2a_data_conn_failed = None,
      m2a_data_conn_closed = None, m2a_ni_message = None, m2a_ni_respond = None, m2a_set_ref_loc = None,
      m2a_set_set_id = None, m2a_update_network_state = None, m2a_update_network_availability = None,
      m2a_rcv_pmtk = None, m2a_raw_dbg = None, m2a_reaiding_req = None, m2a_location_sync = None\<rparr>"



text \<open>
  C11. Events inside the daemon, end to end: the main thread reacts to the accepted events of the other
  threads, in order, and to nothing else.
\<close>

theorem internal_event_session:
  assumes "list_all main_fits ms" "inbox MNLD_MAIN_SOCKET k = []"
  shows "\<exists>rs k'. send_all main_send ms k = Some (rs, k') \<and> length rs = length ms
    \<and> run_all (main_event_hdlr e junk) (map (\<lambda>d. [Datagram d]) (inbox MNLD_MAIN_SOCKET k')) s
       = run_all (\<lambda>m. ignoring_return (e_dispatch e m)) (accepted ms rs) s"
  by (rule mn.session [OF assms(1) _ assms(2)]) (simp add: list_all_iff)

definition event_script :: "main_msg list" where
  "event_script = [E_start_done True, E_epo_done 0, E_nmea_timeout]"

theorem internal_event_session_witness:
  "\<exists>rs k'. send_all main_send event_script quiet_kernel = Some (rs, k') \<and> length rs = 3
    \<and> run_all (main_event_hdlr demo_env (\<lambda>_. 0)) (map (\<lambda>d. [Datagram d]) (inbox MNLD_MAIN_SOCKET k')) demo_main
       = run_all (\<lambda>m. ignoring_return (e_dispatch demo_env m)) (accepted event_script rs) demo_main"
proof -
  have "list_all main_fits event_script" "length event_script = 3" by (simp_all add: event_script_def)
  with internal_event_session [of event_script quiet_kernel demo_env "\<lambda>_. 0" demo_main] show ?thesis by simp
qed

text \<open>
  C12. Requests to the GPS control thread, end to end; they always fit, and with a kernel that takes
  everything the thread carries out every one of them.
\<close>

theorem control_request_session:
  assumes "answers k = []" "inbox MNLD_GPS_CONTROL_SOCKET k = []"
  shows "\<exists>rs k'. send_all ctl_send ms k = Some (rs, k')
    \<and> run_all (gps_control_event_hdlr ans e) (map (\<lambda>d. [Datagram d]) (inbox MNLD_GPS_CONTROL_SOCKET k')) sc
       = run_all (c_dispatch ans) ms sc"
  by (rule ct.session_healthy) (simp_all add: assms list_all_iff)

theorem control_request_session_witness:
  "\<exists>rs k'. send_all ctl_send [C_start 0, C_reset 1, C_stop] quiet_kernel = Some (rs, k')
    \<and> run_all (gps_control_event_hdlr (\<lambda>_. 0) demo_env) (map (\<lambda>d. [Datagram d]) (inbox MNLD_GPS_CONTROL_SOCKET k'))
        (demo_main, demo_ctl)
       = run_all (c_dispatch (\<lambda>_. 0)) [C_start 0, C_reset 1, C_stop] (demo_main, demo_ctl)"
  by (rule control_request_session) simp_all

section \<open>What the main thread does\<close>


lemma agps_traffic_to [simp]:
  "agps_traffic (emits [to_agps g] s) = agps_traffic s @ [m2a_wire g]"
  "agps_traffic (emits [to_hal m] s) = agps_traffic s" "agps_traffic (emits [to_ctl x] s) = agps_traffic s"
  by (simp_all add: to_agps_def to_hal_def to_ctl_def del: emits_simps m2a_wire.simps)






text \<open>
  C14. When the engine reports that it runs, everybody who waits is told and nobody else: in the starting
  state the main thread sends exactly the open acknowledgements of the users that asked for one (the
  HAL two status reports and the assisted-GPS daemon a notice, in this order), then the pending reset
  acknowledgement and the pending request to delete aiding data, and becomes started; or, when all
  users have left in the meantime, a stop request follows and it becomes stopping.
\<close>

theorem start_done_effects:
  assumes "state_of s = MNLD_GPS_STATE_STARTING"
  shows "\<exists>s'. mnld_fsm e GPS_EVENT_START_DONE a s = Some s'
    \<and> sends (kern s') = sends (kern s) @ open_acks a (clients (gps s)) @ reset_acks (clients (gps s))
        @ (if delete_aiding_flag (gps s) = 0 then [] else [to_ctl (C_reset (delete_aiding_flag (gps s)))])
        @ (if \<forall>c. \<not> used s c then [to_ctl C_stop] else [])
    \<and> state_of s' = (if \<forall>c. \<not> used s c then MNLD_GPS_STATE_STOPPING else MNLD_GPS_STATE_STARTED)
    \<and> delete_aiding_flag (gps s') = 0 \<and> (\<forall>c. \<not> wants_open s' c \<and> used s' c = used s c)"
  using assms
  by (cases "\<forall>c. \<not> used s c")
    (simp_all add: fsm_defs ksend_fixed do_gps_started_hdlr_eq all_exit_iff Let_def reset_request_def, blast?)

definition starting_main :: mnld where
  "starting_main = set_client AGPS (\<lambda>c. c\<lparr>gps_used := True, need_open_ack := True\<rparr>) (set_state MNLD_GPS_STATE_STARTING demo_main)"

theorem start_done_effects_witness:
  "\<exists>s'. mnld_fsm demo_env GPS_EVENT_START_DONE 0 starting_main = Some s' \<and> state_of s' = MNLD_GPS_STATE_STARTED
    \<and> delete_aiding_flag (gps s') = 0 \<and> \<not> wants_open s' AGPS"
proof -
  have "state_of starting_main = MNLD_GPS_STATE_STARTING" "used starting_main AGPS"
    by (simp_all add: starting_main_def set_client_def)
  with start_done_effects [of starting_main demo_env 0] show ?thesis by (auto split: if_splits)
qed

text \<open>
  C15. When the engine reports that it stopped, the close acknowledgements and a pending reset
  acknowledgement go out; if a user came back in the meantime the engine is started again at once, the
  wake lock staying held, and otherwise the wake lock is released and the machine is idle.
\<close>

theorem stop_done_effects:
  assumes "state_of s = MNLD_GPS_STATE_STOPPING"
  shows "\<exists>s'. mnld_fsm e GPS_EVENT_STOP_DONE d s = Some s'
    \<and> sends (kern s') = sends (kern s) @ close_acks (clients (gps s)) @ reset_acks (clients (gps s))
        @ (if \<exists>c. used s c then [to_ctl (C_start (delete_aiding_flag (gps s)))] else [to_hal M_release_wakelock])
    \<and> state_of s' = (if \<exists>c. used s c then MNLD_GPS_STATE_STARTING else MNLD_GPS_STATE_IDLE)
    \<and> (\<forall>c. \<not> wants_close s' c \<and> used s' c = used s c \<and> wants_open s' c = wants_open s c)"
  using assms
  by (cases "\<exists>c. used s c")
    (simp_all add: fsm_defs ksend_fixed do_gps_stopped_hdlr_eq a_client_iff Let_def)

definition stopping_main :: mnld where
  "stopping_main = set_client FLP (\<lambda>c. c\<lparr>need_close_ack := True\<rparr>) (set_state MNLD_GPS_STATE_STOPPING demo_main)"

theorem stop_done_effects_witness:
  "\<exists>s'. mnld_fsm demo_env GPS_EVENT_STOP_DONE 0 stopping_main = Some s' \<and> state_of s' = MNLD_GPS_STATE_IDLE
    \<and> sends (kern s') = sends (kern demo_main) @ [to_flp flp_close_msg, to_hal M_release_wakelock]"
proof -
  have "state_of stopping_main = MNLD_GPS_STATE_STOPPING" "\<not> used stopping_main c" "kern stopping_main = kern demo_main"
    "close_acks (clients (gps stopping_main)) = [to_flp flp_close_msg]" "reset_acks (clients (gps stopping_main)) = []" for c
    using demo_main_state by (simp_all add: stopping_main_def set_client_def close_acks_def reset_acks_def)
  with stop_done_effects [of stopping_main demo_env 0] show ?thesis by auto
qed

text \<open>The six users' entry points, by user.\<close>

primrec user_start :: "gps_client \<Rightarrow> mnld_env \<Rightarrow> mnld act" where
  "user_start HAL e = hal_gps_start e" | "user_start AGPS e = agps_open_gps_req e 1"
| "user_start FLP e = flp2mnl_gps_start e" | "user_start FLP_TEST e = flp_test2mnl_gps_start e"
| "user_start AT_CMD_TEST e = at_test2mnl_gps_start e" | "user_start FACTORY e = factory_mnld_gps_start e"

primrec user_stop :: "gps_client \<Rightarrow> mnld_env \<Rightarrow> mnld act" where
  "user_stop HAL e = hal_gps_stop e" | "user_stop AGPS e = agps_close_gps_req e"
| "user_stop FLP e = flp2mnl_gps_stop e" | "user_stop FLP_TEST e = flp_test2mnl_gps_stop e"
| "user_stop AT_CMD_TEST e = at_test2mnl_gps_stop e" | "user_stop FACTORY e = factory_mnld_gps_stop e"

text \<open>
  C16. The engine is shared by reference: from any consistent state, the start of any of the six users
  succeeds, marks that user active and moves the machine out of idle and nowhere else; the stop of a
  user succeeds, marks it inactive and moves the machine from started to stopping exactly when no other
  user is left, and nowhere else.
\<close>

theorem shared_engine:
  assumes "fsm_inv n h s"
  shows "(\<exists>s'. user_start c e s = Some s' \<and> fsm_inv n h s' \<and> used s' c
      \<and> state_of s' = (if state_of s = MNLD_GPS_STATE_IDLE then MNLD_GPS_STATE_STARTING else state_of s))
    \<and> (\<exists>s'. user_stop c e s = Some s' \<and> fsm_inv n h s' \<and> \<not> used s' c
      \<and> state_of s' = (if state_of s = MNLD_GPS_STATE_STARTED \<and> (\<forall>c'. c' \<noteq> c \<longrightarrow> \<not> used s c')
          then MNLD_GPS_STATE_STOPPING else state_of s))"
proof (cases c)
  case HAL
  with u_hal.start_inv [OF assms, of e] u_hal.stop_inv [OF assms, of e] u_hal.start_state [of e s] u_hal.stop_state [of e s]
  show ?thesis by fastforce
next
  case AGPS
  with u_agps.start_inv [OF assms, of e 1] u_agps.stop_inv [OF assms, of e] u_agps.start_state [of e 1 s] u_agps.stop_state [of e s]
  show ?thesis by fastforce
next
  case FLP
  with u_flp.start_inv [OF assms, of e] u_flp.stop_inv [OF assms, of e] u_flp.start_state [of e s] u_flp.stop_state [of e s]
  show ?thesis by fastforce
next
  case FLP_TEST
  with u_flp_test.start_inv [OF assms, of e] u_flp_test.stop_inv [OF assms, of e] u_flp_test.start_state [of e s]
    u_flp_test.stop_state [of e s]
  show ?thesis by fastforce
next
  case AT_CMD_TEST
  with u_at.start_inv [OF assms, of e] u_at.stop_inv [OF assms, of e] u_at.start_state [of e s] u_at.stop_state [of e s]
  show ?thesis by fastforce
next
  case FACTORY
  with u_factory.start_inv [OF assms, of e] u_factory.stop_inv [OF assms, of e] u_factory.start_state [of e s]
    u_factory.stop_state [of e s]
  show ?thesis by fastforce
qed

theorem shared_engine_witness:
  "\<exists>s'. user_start FLP demo_env demo_main = Some s' \<and> used s' FLP \<and> state_of s' = MNLD_GPS_STATE_STARTING"
  using shared_engine [OF demo_main_inv, of FLP demo_env] demo_main_state by auto

text \<open>
  C17. After the framework asks for a position every \<open>k\<close> seconds, the worker thread of the HAL reports to the framework
  exactly every \<open>k\<close>-th of the locations the daemon sends once a second, for any \<open>k\<close> up to 16000, while the framework
  wants the engine to run and the counter starts from zero; the \<open>float\<close> arithmetic of the counter loses nothing.
\<close>

theorem location_rate:
  assumes "1 \<le> k" "k \<le> 16000" "loc_count (hst s) = 0" "list_all (\<lambda>l. length l = sizeof_gps_location) ls"
    and "gps_cbs (ctx s) \<noteq> None" "gps_state_intent (ctx s) = GPSHAL_STATE_START"
    and "gpsinf_set_position_mode mode r (word_of_nat (1000 * k)) a t s = Some s'"
  shows "\<exists>st. gpshal_worker_thread e (map (\<lambda>d. arrives s' (m2h_wire (M_location d))) ls) s'
    = Some (s'\<lparr>hst := st, fw := fw s @ map (\<lambda>d. Location_cb (gps_location_of_bytes d)) (every k ls)\<rparr>)"
proof -
  have set: "report_time_interval (hst s') = rat_of_nat k" "loc_count (hst s') = rat_of_nat 0" "ctx s' = ctx s" "fw s' = fw s"
    using set_mode_interval [OF assms(1,2,7)] assms(3) by simp_all
  from rate_run [OF set(1,2), of ls e] assms(1,2,4-6) set(3,4) show ?thesis
    by (simp add: thin_every)
qed

lemma set_mode_demo:
  "\<exists>s'. gpsinf_set_position_mode 0 0 (word_of_nat (1000 * 2)) 0 0 demo_running_hal = Some s'"
  by (simp add: gpsinf_set_position_mode_def hal2mnl_gps_set_position_mode_def fresh_wr wire_put Let_def HAL_MNL_BUFF_SIZE_def
      case_prod_beta del: hal2mnl_code.simps)

definition demo_fixes :: "byte list list" where
  "demo_fixes = map (replicate 56) [1, 2, 3, 4, 5]"

lemma demo_fixes_every: "every 2 demo_fixes = [replicate 56 2, replicate 56 4]"
  "list_all (\<lambda>l. length l = sizeof_gps_location) demo_fixes"
  by (simp_all add: every_def demo_fixes_def sizeof_defs upt_rec)

theorem location_rate_witness:
  "\<exists>s' s''. gpshal_worker_thread demo_hal_env (map (\<lambda>d. arrives s' (m2h_wire (M_location d))) demo_fixes) s' = Some s''
    \<and> fw s'' = [Location_cb (gps_location_of_bytes (replicate 56 2)), Location_cb (gps_location_of_bytes (replicate 56 4))]"
proof -
  obtain s' where s': "gpsinf_set_position_mode 0 0 (word_of_nat (1000 * 2)) 0 0 demo_running_hal = Some s'"
    using set_mode_demo by blast
  have d: "loc_count (hst demo_running_hal) = 0" "gps_cbs (ctx demo_running_hal) \<noteq> None"
    "gps_state_intent (ctx demo_running_hal) = GPSHAL_STATE_START" "fw demo_running_hal = []"
    by (simp_all add: demo_running_hal_def demo_hal_def hal_statics_init_def)
  from location_rate [OF _ _ d(1) demo_fixes_every(2) d(2,3) s', of demo_hal_env] obtain st where
    "gpshal_worker_thread demo_hal_env (map (\<lambda>d. arrives s' (m2h_wire (M_location d))) demo_fixes) s'
      = Some (s'\<lparr>hst := st, fw := fw demo_running_hal @ map (\<lambda>d. Location_cb (gps_location_of_bytes d)) (every 2 demo_fixes)\<rparr>)"
    by auto
  then show ?thesis unfolding demo_fixes_every(1) d(4) by (intro exI conjI) (assumption, simp)
qed

section \<open>Coder and sockets\<close>

text \<open>
  C18. The coder is exact on whole messages: writing any fields into an empty buffer of \<open>n\<close> bytes succeeds
  exactly when their encodings fit together (otherwise the C code writes past the buffer), and reading
  the same kinds of fields from the filled buffer gives back every value, strings and blocks included.
\<close>

theorem message_roundtrip:
  assumes "list_all ok_field fs"
  shows "(put_fields fs (fresh n) = None) = (n < length (enc_fields fs))
    \<and> (put_fields fs (fresh n) = Some b \<longrightarrow>
         offset b = int (length (enc_fields fs)) \<and> length (buff b) = n
         \<and> (\<exists>b'. get_fields (map kind_of fs) (cursor (buff b)) = Some (fs, b')))"
proof -
  have "put_fields fs (fresh n) = (if length (enc_fields fs) \<le> n then Some (wr n (enc_fields fs)) else None)"
    using put_fields_iff [OF assms, of "[]" n] by (simp add: fresh_wr)
  moreover have "buff (wr n (enc_fields fs)) = enc_fields fs @ replicate (n - length (enc_fields fs)) 0"
    by (simp add: wr_def)
  ultimately show ?thesis
    using get_fields_rd [OF assms, of "[]"] by (auto simp: cursor_rd wr_def split: if_splits)
qed

theorem message_roundtrip_witness:
  "(put_fields [W_int 1, W_string (Some [65, 66]), W_block [9, 8, 7], W_string None] (fresh 20) = None) = (20 < (20::nat))"
  using message_roundtrip [of "[W_int 1, W_string (Some [65, 66]), W_block [9, 8, 7], W_string None]" 20]
  by (simp add: ok_string_def)

text \<open>
  C19. A datagram is handed to the kernel exactly when, before it first accepts, the kernel reports no hard
  error and at most ten times that its queue is full; interruptions by signals do not count. The call
  always returns, the length on success and -1 otherwise, and one attempt is logged.
\<close>

theorem send_retry_budget:
  assumes "length path \<le> 107" "0 \<le> len" "len \<le> int (length buf)" "answers k = None # as"
  shows "\<exists>k'. safe_sendto path buf len k
       = Some (if Some EOTHER \<notin> set (takeWhile (\<lambda>a. a \<noteq> None) as)
               \<and> count_list (takeWhile (\<lambda>a. a \<noteq> None) as) (Some EAGAIN) \<le> 10 then len else -1, k')
     \<and> sends k' = sends k @ [(path, take (nat len) buf)]"
proof -
  have "fst (post path (take (nat len) buf) k) = fst (sendto_loop as 10)"
    using assms(4) by (simp add: post_def sys_answer_def split: prod.split)
  with safe_sendto_post [OF assms(1-3), of k] show ?thesis
    by (simp add: sendto_loop_iff Let_def)
qed

definition busy_kernel :: os where
  "busy_kernel = \<lparr>answers = None # replicate 11 (Some EAGAIN), slog = [], timers = (\<lambda>_. None)\<rparr>"

theorem send_retry_budget_witness:
  "\<exists>k'. safe_sendto MNLD_MAIN_SOCKET [1, 2, 3] 2 busy_kernel = Some (-1, k') \<and> sends k' = [(MNLD_MAIN_SOCKET, [1, 2])]"
  using send_retry_budget [of MNLD_MAIN_SOCKET 2 "[1, 2, 3]" busy_kernel "replicate 11 (Some EAGAIN)"]
  by (simp add: busy_kernel_def sends_def numeral_eq_Suc)

text \<open>
  C20. A network-initiated notification: texts of up to 254 characters reach the HAL as one request whose
  texts are the upper-case hexadecimal form of their UCS-2 encoding (decoding gives the encoding back);
  a longer text overruns the 1024-byte arrays of the handler.
\<close>

theorem ni_notify_texts:
  "(length r \<le> 254 \<and> length c \<le> 254 \<longrightarrow>
      agps_ni_notify i t (Some r) (Some c) s
        = Some (emits [to_hal (M_request_ni_notify i t (Some (hex_text (ucs2_text r))) (Some (hex_text (ucs2_text c)))
                  NI_ENCODING_TYPE_UCS2 NI_ENCODING_TYPE_UCS2)] s))
    \<and> (254 < length r \<or> 254 < length c \<longrightarrow> agps_ni_notify i t (Some r) (Some c) s = None)
    \<and> unhex (hex_text (ucs2_text r)) = ucs2_text r"
proof -
  have "ksend (mnl2hal_request_ni_notify i t (Some (ni_hex r)) (Some (ni_hex c)) NI_ENCODING_TYPE_UCS2 NI_ENCODING_TYPE_UCS2) s
      = Some (emits [to_hal (M_request_ni_notify i t (Some (ni_hex r)) (Some (ni_hex c)) NI_ENCODING_TYPE_UCS2
          NI_ENCODING_TYPE_UCS2)] s)" if "length r \<le> 254" "length c \<le> 254"
    by (rule ksend_hal_notify) (use that in \<open>simp_all add: ok_string_def ni_hex_length, simp_all add: ni_hex_def hex_text_no_nul\<close>)
  then show ?thesis
    by (auto simp: agps_ni_notify_eq unhex_hex_text ni_hex_def simp del: emits_simps)
qed

theorem ni_notify_texts_witness:
  "agps_ni_notify 1 2 (Some (replicate 255 65)) (Some []) demo_main = None"
  using ni_notify_texts [of "replicate 255 65" "[]" 1 2 demo_main] by (simp del: replicate.simps)

text \<open>
  C21. A location of the assisted-GPS daemon is passed to the HAL with latitude and longitude always
  present, and altitude, speed, bearing and accuracy present in the flags exactly when the sender marked
  them as used, with the sender's values; what the HAL decodes from the 56-byte block is that location.
\<close>

theorem agps_location_conversion:
  "let a = agps_location_of_bytes d; l = agps_to_gps_location a
   in (\<exists>s'. agps_location e d s = Some s' \<and> sends (kern s') = sends (kern s) @ [to_hal (M_location (gps_location_bytes l))])
    \<and> gps_location_of_bytes (gps_location_bytes l) = l
    \<and> loc_lat l = al_latitude a \<and> loc_lng l = al_longitude a \<and> bit (loc_flags l) 0
    \<and> bit (loc_flags l) 1 = (al_altitude_used a \<noteq> 0) \<and> loc_alt l = (if al_altitude_used a \<noteq> 0 then al_altitude a else 0)
    \<and> bit (loc_flags l) 2 = (al_speed_used a \<noteq> 0) \<and> loc_speed l = (if al_speed_used a \<noteq> 0 then al_speed a else 0)
    \<and> bit (loc_flags l) 3 = (al_bearing_used a \<noteq> 0) \<and> loc_bearing l = (if al_bearing_used a \<noteq> 0 then al_bearing a else 0)
    \<and> bit (loc_flags l) 4 = (al_accuracy_used a \<noteq> 0) \<and> loc_accuracy l = (if al_accuracy_used a \<noteq> 0 then al_accuracy a else 0)"
  unfolding Let_def
proof (intro conjI)
  show "\<exists>s'. agps_location e d s = Some s' \<and> sends (kern s')
      = sends (kern s) @ [to_hal (M_location (gps_location_bytes (agps_to_gps_location (agps_location_of_bytes d))))]"
    by (cases "clock_now e") (simp_all add: agps_location_def Let_def ksend_hal_location del: emits_simps m2h_wire.simps)
qed (simp_all add: gps_location_roundtrip, simp_all add: agps_to_gps_location_def zero_location_def Let_def
      GPS_LOCATION_HAS_LAT_LONG_def GPS_LOCATION_HAS_ALT_def GPS_LOCATION_HAS_SPEED_def GPS_LOCATION_HAS_BEARING_def
      GPS_LOCATION_HAS_ACCURACY_def bit_or_iff)







section \<open>Inputs that hurt\<close>



text \<open>
  C24. A network-initiated message longer than 1024 bytes, which the HAL's send buffer accepts, overruns
  the local array of the daemon's handler.
\<close>

theorem ni_message_overrun:
  assumes "h2m_fits (H_ni_message d)" "1024 < length d"
  shows "hal2mnl_hdlr [Datagram (h2m_wire (H_ni_message d))] (g_hal2mnl_interface e) s = None"
  by (rule hal2mnl_hdlr_ni_overrun [OF assms]) (simp_all add: g_hal2mnl_interface_def)

theorem ni_message_overrun_witness:
  "hal2mnl_hdlr [Datagram (h2m_wire (H_ni_message (replicate 1025 0)))] (g_hal2mnl_interface demo_env) demo_main = None"
  by (rule ni_message_overrun) (simp_all add: h2m_fits_def h2m_head_def HAL_MNL_BUFF_SIZE_def del: replicate.simps)

text \<open>
  C25. A datagram of one to four bytes on the HAL socket, whatever it contains, is taken for the message that
  the HAL restarted: the command is read from the zeros behind it.
\<close>

theorem short_datagram_reboots:
  assumes "d \<noteq> []" "length d \<le> 4"
  shows "hal2mnl_hdlr [Datagram d] (g_hal2mnl_interface e) s = map_option (Pair 0) (hal_reboot e s)"
proof -
  let ?mem = "d @ replicate (HAL_MNL_BUFF_SIZE - length d) 0"
  have rx: "safe_recvfrom [Datagram d] (replicate HAL_MNL_BUFF_SIZE 0) = (int (length d), ?mem)"
    using assms(2) by (simp add: safe_recvfrom_fit HAL_MNL_BUFF_SIZE_def)
  have len: "8 \<le> length ?mem" by (simp add: HAL_MNL_BUFF_SIZE_def)
  have "take 4 (drop 4 ?mem) = replicate 4 0"
    using assms(2) by (simp add: HAL_MNL_BUFF_SIZE_def)
  moreover have "replicate 4 0 = enc_int 0" by (simp add: enc_int_def numeral_eq_Suc)
  ultimately have z: "field_int (take 4 (drop 4 ?mem)) 0 = 0" by simp
  show ?thesis
    using assms(1) len z unfolding hal2mnl_hdlr_def rx cursor_rd
    by (simp add: get_int_take Let_def g_hal2mnl_interface_def hal2mnl_cmd_of_def hal2mnl_cmds_def)
qed

theorem short_datagram_reboots_witness:
  "hal2mnl_hdlr [Datagram [0x7f]] (g_hal2mnl_interface demo_env) demo_main = map_option (Pair 0) (hal_reboot demo_env demo_main)"
  by (rule short_datagram_reboots) simp_all

lemma emits_settings [simp]: "g_settings_to_agps (emits l s) = g_settings_to_agps s"
  by (induction l arbitrary: s) (auto simp: emit_def)

definition known_chips :: "string list" where
  "known_chips = [''0x6620'', ''0x6628'', ''0x3336'', ''0x6572'', ''0x6582'', ''0x6592'', ''0x6571'', ''0x6580'', ''0x0335'',
     ''0x3332'', ''0x6752'', ''0x0321'', ''0x0337'', ''0x6755'', ''0x6757'', ''0x6797'', ''0x6630'', ''0x6632'']"

text \<open>
  C26. The answer to a settings synchronisation is unreliable twice over: for a chip that is not in the table
  the satellite support it reports is taken from an uninitialised byte, and whatever it reports, the
  assisted-GPS daemon has no branch for it, so that the message has no effect there.
\<close>

theorem settings_ack_lost:
  assumes "chip_id e \<notin> set known_chips"
  shows "(\<exists>s'. agps_settings_sync e st s = Some s' \<and> gps_satellite_support (g_settings_to_agps s') = stack_byte e AND 0x01
      \<and> sends (kern s') = sends (kern s) @ [to_agps (G_agps_settings_ack (g_settings_to_agps s'))])
    \<and> mnl2agps_hdlr [Datagram (m2a_wire (G_agps_settings_ack g))] hdlr t = Some t"
proof
  have "m2a_fits (G_agps_settings_ack g)"
    by (simp add: m2a_fits_def agps_head_def MNL_AGPS_MAX_BUFF_SIZE_def)
  then show "mnl2agps_hdlr [Datagram (m2a_wire (G_agps_settings_ack g))] hdlr t = Some t"
    by (simp add: mnl2agps_hdlr_refines del: m2a_wire.simps)
  have "get_chip_sv_support_capability (chip_id e) b = b" for b
    using assms by (simp add: get_chip_sv_support_capability_def known_chips_def)
  then show "\<exists>s'. agps_settings_sync e st s = Some s' \<and> gps_satellite_support (g_settings_to_agps s') = stack_byte e AND 0x01
      \<and> sends (kern s') = sends (kern s) @ [to_agps (G_agps_settings_ack (g_settings_to_agps s'))]"
    by (simp add: agps_settings_sync_def Let_def ksend_fixed del: emits_simps m2a_wire.simps)
qed

definition demo_settings :: mnl_agps_agps_settings where
  "demo_settings = \<lparr>sib8_16_enable = 0, gps_satellite_enable = 1, glonass_satellite_enable = 1,
     beidou_satellite_enable = 0, galileo_satellite_enable = 0, a_glonass_satellite_enable = 0\<rparr>"

theorem settings_ack_lost_witness:
  "\<exists>s'. agps_settings_sync (demo_env\<lparr>chip_id := ''0x6739'', stack_byte := 0xfe\<rparr>) demo_settings demo_main = Some s'
     \<and> gps_satellite_support (g_settings_to_agps s') = 0"
  using settings_ack_lost [of "demo_env\<lparr>chip_id := ''0x6739'', stack_byte := 0xfe\<rparr>" demo_settings demo_main "g_settings_to_agps demo_main" ack_log "[]"]
  by (auto simp: known_chips_def)

section \<open>The NMEA parser\<close>

text \<open>
  C27. Framing. A burst made of lines, each ended by a newline, is processed as a sequence of sentences: a line of
  up to 255 bytes is one sentence, the last one of the burst being marked as such, and a longer line is
  dropped. A line of exactly 256 bytes takes the line behind it with it.
\<close>

theorem nmea_framing:
  assumes "list_all is_line ls"
  shows "map_option outcome (mtk_mnl_nmea_parser_process e (concat ls) s)
    = map_option outcome (take_lines e (cut_lines ls) (new_burst e s))"
  unfolding mtk_mnl_nmea_parser_process_def by (rule process_cut [OF assms new_burst_ok(1)])

theorem nmea_framing_witness:
  "map_option outcome (mtk_mnl_nmea_parser_process demo_nmea_env (concat [replicate 255 65 @ [10], [66, 10], [67, 10]]) demo_nmea)
    = map_option outcome (take_lines demo_nmea_env [Dropped (replicate 255 65 @ [10]), Sentence [67, 10] True] (new_burst demo_nmea_env demo_nmea))"
proof -
  have "cut_lines [replicate 255 65 @ [10], [66, 10], [67, 10]] = [Dropped (replicate 255 65 @ [10]), Sentence [67, 10] True]"
    by simp
  moreover have "list_all is_line [replicate 255 65 @ [10], [66, 10], [67, 10]]" by (simp add: is_line_def butlast_append)
  ultimately show ?thesis
    using nmea_framing [of "[replicate 255 65 @ [10], [66, 10], [67, 10]]" demo_nmea_env demo_nmea] by (simp only:)
qed

text \<open>
  C28. Bursts are safe and complete. While no factory test runs, a burst in which no more than eight satellite
  sentences follow each other without a first one is processed without a fault, and the daemon sends one copy
  of every sentence to the HAL, in the order of the sentences and with their lengths.
\<close>

theorem nmea_burst_forwarded:
  assumes "list_all is_line ls" "no_test (tst s)" "gsv_ok 0 (sentences (cut_lines ls))"
  shows "\<exists>s' gs. mtk_mnl_nmea_parser_process e (concat ls) s = Some s' \<and> traffic s' = traffic s @ concat gs
    \<and> list_all2 forwarded (sentences (cut_lines ls)) gs"
proof -
  obtain s' gs where "take_lines e (cut_lines ls) (new_burst e s) = Some s'" "traffic s' = traffic s @ concat gs"
    "list_all2 forwarded (sentences (cut_lines ls)) gs"
    using take_lines_forwards [of "new_burst e s" 0 "cut_lines ls" e] new_burst_ok assms(2,3) cut_lines_fits
    by (auto simp: reader_init_fields)
  moreover from this(1) process_cut [OF assms(1), of "new_burst e s" e] new_burst_ok(1) obtain s'' where
    "mtk_mnl_nmea_parser_process e (concat ls) s = Some s''" "tst s'' = tst s'"
    by (auto simp: mtk_mnl_nmea_parser_process_def outcome_def)
  ultimately show ?thesis by auto
qed

theorem nmea_burst_forwarded_witness:
  "\<exists>s' gs. mtk_mnl_nmea_parser_process demo_nmea_env (concat [[66, 10], [67, 10]]) demo_nmea = Some s'
    \<and> traffic s' = traffic demo_nmea @ concat gs \<and> list_all2 forwarded [[66, 10], [67, 10]] gs"
proof -
  have "gsv_ok 0 (sentences (cut_lines [[66, 10], [67, 10]]))" by (simp add: gsv_count_def is_gsv_def)
  then show ?thesis
    using nmea_burst_forwarded [of "[[66, 10], [67, 10]]" demo_nmea demo_nmea_env] demo_no_test by (simp add: is_line_def)
qed











section \<open>The factory test\<close>






text \<open>
  C34. A command of twenty bytes or more fills the receive array, and its terminator is written behind it.
\<close>

theorem at_command_overrun:
  assumes "20 \<le> length d"
  shows "at_cmd2mnl_hdlr e fd (Datagram d # rx) s = None"
  using assms by (simp add: at_cmd2mnl_hdlr_def store_def)

theorem at_command_overrun_witness:
  "at_cmd2mnl_hdlr (ne_at demo_nmea_env) 5 [Datagram (ascii ''AT%GNSS=000000000001'')] (at_ctx_init demo_main) = None"
  by (rule at_command_overrun) simp

text \<open>
  C35. The HAL module and the daemon agree on the session. From the first initialisation on, whatever sequence of
  initialise, start, stop and clean-up calls the framework makes, and whenever in between a daemon process is replaced
  by a new one, the pair returns from every event and ends where the specification of the session ends: the HAL holds the
  framework's last wish, the daemon serves the HAL exactly if the last start was not followed by a stop (a new daemon: if
  the wish is to run), and the daemon is initialised exactly as the framework asked. The sockets of the HAL accept every
  message in this statement.
\<close>

theorem hal_session:
  assumes "ctx h = g_gpshal_ctx" "answers (hker h) = []" "sockets_ok he" "sane_daemon d" "\<not> used d HAL"
    and "list_all (sound_event he) evs"
  shows "\<exists>p. link_run he de (Fw_init (Some (sizeof_GpsCallbacks (gh he))) # evs) (h, d) = Some p
    \<and> session_of p = fold session_step evs \<lparr>wish = GPSHAL_STATE_INIT, serving = False, prepared = True\<rparr>
    \<and> (gpshal_context_t.gps_state (ctx (fst p)) = wish (session_of p)
       \<or> gpshal_context_t.gps_state (ctx (fst p)) = GPSHAL_STATE_INIT \<and> wish (session_of p) = GPSHAL_STATE_STOP)"
proof -
  obtain p1 where p1: "link_step he de (Fw_init (Some (sizeof_GpsCallbacks (gh he)))) (h, d) = Some p1" "link_inv p1"
    "session_of p1 = \<lparr>wish = GPSHAL_STATE_INIT, serving = False, prepared = True\<rparr>"
    using first_init [OF assms(1-4), of de] assms(5) by auto
  obtain p where p: "link_run he de evs p1 = Some p" "link_inv p" "session_of p = fold session_step evs (session_of p1)"
    using link_run_refines [OF p1(2) assms(6), of de] by blast
  have "gpshal_context_t.gps_state (ctx (fst p)) = wish (session_of p)
      \<or> gpshal_context_t.gps_state (ctx (fst p)) = GPSHAL_STATE_INIT \<and> wish (session_of p) = GPSHAL_STATE_STOP"
    using p(2) by (auto simp: link_inv_def session_of_def)
  with p1 p show ?thesis by (auto simp del: link_step.simps)
qed

theorem hal_session_witness:
  "\<exists>h d. link_run demo_hal_env demo_env [Fw_init (Some 88), Fw_start, Restart demo_fds 1 2 3 4 quiet_kernel] (demo_hal, demo_main)
      = Some (h, d) \<and> gps_state_intent (ctx h) = GPSHAL_STATE_START \<and> used d HAL \<and> is_gps_init (gps d)"
proof -
  have s: "sizeof_GpsCallbacks (gh demo_hal_env) = 88" "sockets_ok demo_hal_env" "ctx demo_hal = g_gpshal_ctx"
    "answers (hker demo_hal) = []"
    by (simp_all add: demo_hal_env_def demo_gps_h_def sockets_ok_def demo_hal_def)
  have "list_all (sound_event demo_hal_env) [Fw_start, Restart demo_fds 1 2 3 4 quiet_kernel]"
    using demo_restart by simp
  from hal_session [OF s(3,4,2) demo_sane _ this, of demo_env] demo_main_state(2) [of HAL] obtain p where
    "link_run demo_hal_env demo_env [Fw_init (Some 88), Fw_start, Restart demo_fds 1 2 3 4 quiet_kernel] (demo_hal, demo_main) = Some p"
    "session_of p = \<lparr>wish = GPSHAL_STATE_START, serving = True, prepared = True\<rparr>"
    unfolding s(1) by auto
  then show ?thesis by (cases p) (auto simp: session_of_def)
qed

text \<open>
  C36. With all callback tables registered, the worker thread of the HAL turns every stream of daemon messages into
  framework calls: each message other than a location or a reboot notice gives exactly its one call, in order, and the
  tables stay as they are. The thread faults exactly when a message announces more satellites or measurements than the
  arrays hold, or a notification text is missing or too long for the framework's array.
\<close>

theorem hal_callbacks:
  assumes "registered (ctx s)" "list_all m2h_fits ms"
  shows "if list_all (in_bounds e) ms
     then \<exists>s' st. gpshal_worker_thread e (map (\<lambda>m. arrives s (m2h_wire m)) ms) s = Some s'
       \<and> ctx s' = (ctx s)\<lparr>gpshal_context_t.gps_state := st\<rparr>
       \<and> [c\<leftarrow>fw s'. \<not> is_location c] = [c\<leftarrow>fw s. \<not> is_location c] @ map snd (List.map_filter (fw_call_of e) ms)
     else gpshal_worker_thread e (map (\<lambda>m. arrives s (m2h_wire m)) ms) s = None"
  using assms by (rule worker_stream)

theorem hal_callbacks_witness:
  "\<exists>s'. gpshal_worker_thread demo_hal_env (map (\<lambda>m. arrives demo_running_hal (m2h_wire m)) [M_request_wakelock, M_gps_status 3])
      demo_running_hal = Some s' \<and> [c\<leftarrow>fw s'. \<not> is_location c] = [Acquire_wakelock_cb, Status_cb 3]"
proof -
  have "list_all m2h_fits [M_request_wakelock, M_gps_status 3]"
    by (simp add: m2h_fits_def m2h_head_def HAL_MNL_BUFF_SIZE_def)
  from hal_callbacks [OF demo_registered this, of demo_hal_env] show ?thesis
    by (auto simp: List.map_filter_def demo_running_hal_def demo_hal_def)
qed


text \<open>
  C38. The download of prediction data ends, and with the right file. When every round of the loop finds the transfer of the
  next piece working, each piece has at least one record, and none starts a day or more behind the end of its predecessor,
  then after one round per configured piece and one more the loop is left with success. The file for the engine is the pieces
  in their order, the old file is gone, and so are the files of the pieces.
\<close>

theorem epo_download:
  assumes "known_type (gps_epo_type s)" "length ds = piece_count (conf s)" "0 < length ds" "length ds \<le> 10"
    and "list_all2 (ok_round z) ws ds" "successively (follows z) ds" "qepo_idle v"
  shows "\<exists>s'. epo_file_update_impl (ws @ [v]) s = Some (EPO_DOWNLOAD_RESULT_SUCCESS, s') \<and> efs s' EPO_UPDATE_HAL = Some (concat ds)
    \<and> efs s' EPO_FILE = None \<and> (\<forall>i < length ds. efs s' (dat (gps_epo_type s) i) = None)"
  using download_complete [OF assms] by (auto simp: completed_def)

theorem epo_download_witness:
  "\<exists>s'. epo_file_update_impl (map demo_epo_world [demo_piece 315576, demo_piece 315582] @ [demo_epo_world []]) demo_epo
      = Some (EPO_DOWNLOAD_RESULT_SUCCESS, s')
    \<and> efs s' EPO_UPDATE_HAL = Some (demo_piece 315576 @ demo_piece 315582)"
proof -
  have "known_type (gps_epo_type demo_epo)" "piece_count (conf demo_epo) = 2" "qepo_idle (demo_epo_world [])"
    by (simp_all add: demo_epo_def known_type_def piece_count_def demo_epo_world_def)
  moreover have "ok_round demo_zone (demo_epo_world (demo_piece h)) (demo_piece h)" for h
    by (simp add: ok_round_def demo_epo_world_def demo_piece_def MTK_EPO_ONE_SV_SIZE_def)
  ultimately show ?thesis
    using epo_download [of demo_epo "[demo_piece 315576, demo_piece 315582]" demo_zone
      "map demo_epo_world [demo_piece 315576, demo_piece 315582]" "demo_epo_world []"] demo_follows
    by auto
qed

text \<open>
  C39. A request for the data of a quarter of a day is always answered. The handler returns after at most eleven downloads,
  and has reported its result to the main loop exactly once: success if and only if the file in place covers the time that the
  engine gave. It tries again only while the network is there, and gives up only after the last try or without a network.
\<close>

theorem quarter_request:
  "\<exists>n ret s'. qepo_event_hdlr [Datagram (start_wire ())] ws s = Some (0, s') \<and> n \<le> 10
    \<and> ret = (if quarter_fits ws n s' then EPO_DOWNLOAD_RESULT_SUCCESS else EPO_DOWNLOAD_RESULT_FAIL)
    \<and> list_all (\<lambda>m. net_connected (ws m)) [0..<n] \<and> (quarter_fits ws n s' \<or> n = 10 \<or> \<not> net_connected (ws n))
    \<and> gps_time s' = gps_time s \<and> qepo_download_finished s'
    \<and> qkern s' = snd (transmit MNLD_MAIN_SOCKET (main_wire (E_qepo_done (word_of_int ret))) (qkern s))"
proof -
  from quarter_download [of ws s] obtain n ret s' where "mnld_qepo_download ws s = Some (ret, s')" "n \<le> 10"
    "ret = (if quarter_fits ws n s' then EPO_DOWNLOAD_RESULT_SUCCESS else EPO_DOWNLOAD_RESULT_FAIL)"
    "\<forall>m. m < n \<longrightarrow> net_connected (ws m)" "quarter_fits ws n s' \<or> n = 10 \<or> \<not> net_connected (ws n)"
    "gps_time s' = gps_time s" "qepo_download_finished s'"
    "qkern s' = snd (transmit MNLD_MAIN_SOCKET (main_wire (E_qepo_done (word_of_int ret))) (qkern s))" by blast
  then show ?thesis
    by (intro exI [of _ n] exI [of _ ret] exI [of _ s']) (simp add: qp.recv_one list_all_iff del: main_wire.simps)
qed

theorem quarter_request_witness:
  "\<exists>s'. qepo_event_hdlr [Datagram (start_wire ())] (\<lambda>_. demo_epo_world (demo_piece 315576)) demo_qepo = Some (0, s')
    \<and> gps_time s' = \<lparr>gt_wn = 1878, gt_tow = 259200, gt_sys_time = 0\<rparr> \<and> qepo_download_finished s' \<and> length (sends (qkern s')) = 1"
proof -
  from quarter_request [of "\<lambda>_. demo_epo_world (demo_piece 315576)" demo_qepo] obtain ret s' where
    "qepo_event_hdlr [Datagram (start_wire ())] (\<lambda>_. demo_epo_world (demo_piece 315576)) demo_qepo = Some (0, s')"
    "gps_time s' = gps_time demo_qepo" "qepo_download_finished s'"
    "qkern s' = snd (transmit MNLD_MAIN_SOCKET (main_wire (E_qepo_done (word_of_int ret))) (qkern demo_qepo))" by blast
  then show ?thesis
    by (intro exI [of _ s']) (simp add: demo_qepo_def sends_sent del: main_wire.simps)
qed

text \<open>
  C40. The conversion of GPS time that the downloader has written by hand, taking away years and then months from a count of
  days, agrees with the calendar of the C library for every week and every time of the week: the result is the local
  time that the second belongs to, with summer time decided by the zone.
\<close>

theorem gps_time_conversion:
  assumes "0 \<le> wn" "0 \<le> tow" "wn * 7 + tow div 86400 + 5 < 2 ^ 32"
  shows "GpsToUtcTime z wn tow = fst (mktime z ((gmtime (gps_epoch + 604800 * wn + tow))\<lparr>tm_isdst := -1\<rparr>))"
  using assms by (rule gps_to_utc)

theorem gps_time_conversion_witness:
  "GpsToUtcTime demo_zone 1887 302400 = fst (mktime demo_zone ((gmtime (gps_epoch + 604800 * 1887 + 302400))\<lparr>tm_isdst := -1\<rparr>))"
  by (rule gps_time_conversion) simp_all

end
